(* ===== verification/Prelude.thy ===== *)
theory Prelude
  imports Complex_Main
begin

text \<open>
  Shared vocabulary of the development: computations that may raise (a sum type, \<open>Inl\<close> the
  exception), the sequencing combinators used to transcribe Python statement lists, insertion-ordered
  dictionaries as association lists, order-preserving deduplication, and decimal rendering of
  integers. The lemma collections \<open>res_simps\<close> and \<open>dict_simps\<close> carry the component proofs.
\<close>

named_theorems res_simps \<open>inversion of computations that may raise\<close>
named_theorems dict_simps \<open>lookup and update of insertion-ordered dictionaries\<close>

section \<open>Computations that may raise\<close>

type_synonym ('e, 'a) result = "'e + 'a"

definition rbind :: "('e, 'a) result \<Rightarrow> ('a \<Rightarrow> ('e, 'b) result) \<Rightarrow> ('e, 'b) result" where
  "rbind m f = (case m of Inl e \<Rightarrow> Inl e | Inr x \<Rightarrow> f x)"

definition require :: "bool \<Rightarrow> 'e \<Rightarrow> ('e, unit) result" where
  "require b e = (if b then Inr () else Inl e)"

text \<open>A statement list in which each statement either passes or raises: the first one that
  raises decides.\<close>

fun checks :: "('e, unit) result list \<Rightarrow> ('e, unit) result" where
  "checks [] = Inr ()"
| "checks (c # cs) = (case c of Inl e \<Rightarrow> Inl e | Inr _ \<Rightarrow> checks cs)"

text \<open>A list comprehension whose element expression may raise.\<close>

fun rmap :: "('a \<Rightarrow> ('e, 'b) result) \<Rightarrow> 'a list \<Rightarrow> ('e, 'b list) result" where
  "rmap f [] = Inr []"
| "rmap f (x # xs) =
     (case f x of Inl e \<Rightarrow> Inl e
      | Inr y \<Rightarrow> (case rmap f xs of Inl e \<Rightarrow> Inl e | Inr ys \<Rightarrow> Inr (y # ys)))"

text \<open>A loop over a list that threads a state and may raise.\<close>

fun rfold :: "('a \<Rightarrow> 's \<Rightarrow> ('e, 's) result) \<Rightarrow> 'a list \<Rightarrow> 's \<Rightarrow> ('e, 's) result" where
  "rfold f [] s = Inr s"
| "rfold f (x # xs) s = (case f x s of Inl e \<Rightarrow> Inl e | Inr s' \<Rightarrow> rfold f xs s')"

lemma rbind_Inl [simp]: "rbind (Inl e) f = Inl e"
  by (simp add: rbind_def)

lemma rbind_Inr [simp]: "rbind (Inr x) f = f x"
  by (simp add: rbind_def)

lemma rbind_eq_Inr [res_simps]: "rbind m f = Inr y \<longleftrightarrow> (\<exists>x. m = Inr x \<and> f x = Inr y)"
  by (cases m) auto

lemma rbind_eq_Inl [res_simps]:
  "rbind m f = Inl e \<longleftrightarrow> m = Inl e \<or> (\<exists>x. m = Inr x \<and> f x = Inl e)"
  by (cases m) auto

lemma require_eq_Inr [simp]: "require b e = Inr u \<longleftrightarrow> b"
  by (simp add: require_def)

lemma require_eq_Inl [simp]: "require b e = Inl e' \<longleftrightarrow> \<not> b \<and> e = e'"
  by (simp add: require_def)

lemma checks_eq_Inr [res_simps]: "checks cs = Inr u \<longleftrightarrow> (\<forall>c \<in> set cs. c = Inr ())"
  by (induction cs) (auto split: sum.splits)

declare checks.simps(2) [simp del]

lemma checks_append: "checks (xs @ ys) = rbind (checks xs) (\<lambda>_. checks ys)"
  by (induction xs) (auto simp: checks.simps split: sum.splits)

lemma checks_eq_InlD: "checks cs = Inl e \<Longrightarrow> Inl e \<in> set cs"
  by (induction cs) (auto simp: checks.simps split: sum.splits)

lemma rmap_eq_Inr [res_simps]: "rmap f xs = Inr ys \<longleftrightarrow> list_all2 (\<lambda>x y. f x = Inr y) xs ys"
proof (induction xs arbitrary: ys)
  case Nil
  show ?case by auto
next
  case (Cons x xs)
  show ?case
    by (cases ys) (auto simp flip: Cons.IH split: sum.splits)
qed

lemma rmap_eq_InlD: "rmap f xs = Inl e \<Longrightarrow> \<exists>x \<in> set xs. f x = Inl e"
  by (induction xs) (auto split: sum.splits)

lemma rmap_map_Inr: "(\<And>x. x \<in> set xs \<Longrightarrow> f x = Inr (g x)) \<Longrightarrow> rmap f xs = Inr (map g xs)"
  by (induction xs) auto

lemma rmap_length: "rmap f xs = Inr ys \<Longrightarrow> length ys = length xs"
  by (auto simp: res_simps dest: list_all2_lengthD)

lemma filter_singleD: "filter P xs = [x] \<Longrightarrow> x \<in> set xs \<and> P x"
  by (metis filter_eq_Cons_iff in_set_conv_decomp)

lemma rfold_append: "rfold f (xs @ ys) s = rbind (rfold f xs s) (rfold f ys)"
  by (induction xs arbitrary: s) (auto split: sum.splits)

lemma rfold_invariant:
  assumes "rfold f xs s = Inr t" and "I s"
    and "\<And>x s s'. x \<in> set xs \<Longrightarrow> I s \<Longrightarrow> f x s = Inr s' \<Longrightarrow> I s'"
  shows "I t"
  using assms
proof (induction xs arbitrary: s)
  case Nil
  then show ?case by simp
next
  case (Cons x xs)
  then obtain s' where s': "f x s = Inr s'" "rfold f xs s' = Inr t"
    by (auto split: sum.splits)
  from s'(1) Cons.prems have "I s'" by auto
  with s'(2) Cons show ?case by auto
qed

section \<open>Insertion-ordered dictionaries\<close>

text \<open>Assignment \<open>d[k] = v\<close>: an existing key keeps its position, a new one goes last.\<close>

fun aset :: "('k \<times> 'v) list \<Rightarrow> 'k \<Rightarrow> 'v \<Rightarrow> ('k \<times> 'v) list" where
  "aset [] k v = [(k, v)]"
| "aset ((k', v') # d) k v = (if k' = k then (k', v) # d else (k', v') # aset d k v)"

definition adel :: "('k \<times> 'v) list \<Rightarrow> 'k \<Rightarrow> ('k \<times> 'v) list" where
  "adel d k = filter (\<lambda>(k', _). k' \<noteq> k) d"

definition aupdate :: "('k \<times> 'v) list \<Rightarrow> ('k \<times> 'v) list \<Rightarrow> ('k \<times> 'v) list" where
  "aupdate d e = foldl (\<lambda>d (k, v). aset d k v) d e"

definition dict_wf :: "('k \<times> 'v) list \<Rightarrow> bool" where
  "dict_wf d \<longleftrightarrow> distinct (map fst d)"

lemma map_of_aset [simp, dict_simps]: "map_of (aset d k v) = (map_of d)(k \<mapsto> v)"
  by (induction d k v rule: aset.induct) (auto simp: fun_eq_iff)

lemma fst_set_aset: "fst ` set (aset d k v) = insert k (fst ` set d)"
  by (induction d k v rule: aset.induct) auto

lemma dict_wf_Nil [simp]: "dict_wf []"
  by (simp add: dict_wf_def)

lemma dict_wf_aset [simp]: "dict_wf d \<Longrightarrow> dict_wf (aset d k v)"
  by (induction d k v rule: aset.induct) (auto simp: dict_wf_def fst_set_aset)

lemma map_of_aupdate [dict_simps]: "map_of (aupdate d e) = map_of d ++ map_of (rev e)"
proof (induction e rule: rev_induct)
  case Nil
  show ?case by (simp add: aupdate_def)
next
  case (snoc p e)
  obtain k v where "p = (k, v)" by fastforce
  then have "aupdate d (e @ [p]) = aset (aupdate d e) k v"
    by (simp add: aupdate_def)
  with snoc \<open>p = (k, v)\<close> show ?case by (simp add: fun_eq_iff map_add_def)
qed

lemma dict_wf_aupdate: "dict_wf d \<Longrightarrow> dict_wf (aupdate d e)"
proof (induction e arbitrary: d)
  case Nil
  then show ?case by (simp add: aupdate_def)
next
  case (Cons p e)
  then show ?case by (cases p) (simp add: aupdate_def)
qed

lemma aupdate_Nil [simp]: "aupdate d [] = d"
  by (simp add: aupdate_def)

lemma aupdate_Cons [simp]: "aupdate d ((k, v) # e) = aupdate (aset d k v) e"
  by (simp add: aupdate_def)

lemma aset_fresh: "k \<notin> fst ` set d \<Longrightarrow> aset d k v = d @ [(k, v)]"
  by (induction d k v rule: aset.induct) auto

lemma aupdate_fresh:
  "distinct (map fst e) \<Longrightarrow> fst ` set d \<inter> fst ` set e = {} \<Longrightarrow> aupdate d e = d @ e"
proof (induction e arbitrary: d)
  case Nil
  show ?case by simp
next
  case (Cons p e)
  obtain k v where p: "p = (k, v)" by fastforce
  from Cons.prems p have k: "k \<notin> fst ` set d" "k \<notin> fst ` set e" by auto
  have "aupdate d (p # e) = aupdate (d @ [(k, v)]) e"
    by (simp add: p aset_fresh [OF k(1)])
  also have "\<dots> = (d @ [(k, v)]) @ e"
    using Cons.prems k by (intro Cons.IH) (auto simp: p)
  finally show ?case by (simp add: p)
qed

lemma aupdate_empty [simp]: "dict_wf e \<Longrightarrow> aupdate [] e = e"
  by (simp add: dict_wf_def aupdate_fresh)

section \<open>Deduplication that keeps the first occurrence\<close>

fun dedupe_from :: "'a set \<Rightarrow> 'a list \<Rightarrow> 'a list" where
  "dedupe_from seen [] = []"
| "dedupe_from seen (x # xs) =
     (if x \<in> seen then dedupe_from seen xs else x # dedupe_from (insert x seen) xs)"

lemma set_dedupe_from: "set (dedupe_from seen xs) = set xs - seen"
  by (induction seen xs rule: dedupe_from.induct) auto

lemma distinct_dedupe_from: "distinct (dedupe_from seen xs)"
  by (induction seen xs rule: dedupe_from.induct) (auto simp: set_dedupe_from)

lemma dedupe_from_distinct:
  "distinct xs \<Longrightarrow> set xs \<inter> seen = {} \<Longrightarrow> dedupe_from seen xs = xs"
  by (induction seen xs rule: dedupe_from.induct) auto

section \<open>Decimal rendering\<close>

definition digit_char :: "nat \<Rightarrow> char" where
  "digit_char d = char_of (48 + d)"

fun show_nat :: "nat \<Rightarrow> string" where
  "show_nat n = (if n < 10 then [digit_char n] else show_nat (n div 10) @ [digit_char (n mod 10)])"

declare show_nat.simps [simp del]

definition show_int :: "int \<Rightarrow> string" where
  "show_int i = (if i < 0 then CHR ''-'' # show_nat (nat (- i)) else show_nat (nat i))"

end
