(* ===== verification/Effects.thy ===== *)
theory Effects
  imports Prelude
begin

text \<open>
  Stateful operations that may raise. An operation maps a state to an outcome and the state it
  leaves; the state survives an exception, as rows already flushed and keys already written do, so a
  handler that catches sees it. The combinators transcribe sequencing, loops and try blocks;
  \<open>spec\<close> is the contract of an operation: an invariant that holds whatever the outcome, and a
  postcondition for a normal return. The rules in \<open>spec_intros\<close> carry the invariant proofs of
  the services.
\<close>

named_theorems spec_intros \<open>contracts of operations, applied as introduction rules\<close>
named_theorems eff_simps \<open>running an operation\<close>

type_synonym ('s, 'e, 'a) eff = "'s \<Rightarrow> ('e + 'a) \<times> 's"

section \<open>Combinators\<close>

definition eret :: "'a \<Rightarrow> ('s, 'e, 'a) eff" where
  "eret x = (\<lambda>s. (Inr x, s))"

definition eraise :: "'e \<Rightarrow> ('s, 'e, 'a) eff" where
  "eraise e = (\<lambda>s. (Inl e, s))"

definition elift :: "('e, 'a) result \<Rightarrow> ('s, 'e, 'a) eff" where
  "elift r = (\<lambda>s. (r, s))"

definition eget :: "('s \<Rightarrow> 'a) \<Rightarrow> ('s, 'e, 'a) eff" where
  "eget f = (\<lambda>s. (Inr (f s), s))"

definition emod :: "('s \<Rightarrow> 's) \<Rightarrow> ('s, 'e, unit) eff" where
  "emod f = (\<lambda>s. (Inr (), f s))"

definition ebind :: "('s, 'e, 'a) eff \<Rightarrow> ('a \<Rightarrow> ('s, 'e, 'b) eff) \<Rightarrow> ('s, 'e, 'b) eff" where
  "ebind m f = (\<lambda>s. case m s of (Inl e, s') \<Rightarrow> (Inl e, s') | (Inr x, s') \<Rightarrow> f x s')"

definition eseq :: "('s, 'e, 'a) eff \<Rightarrow> ('s, 'e, 'b) eff \<Rightarrow> ('s, 'e, 'b) eff" where
  "eseq m n = ebind m (\<lambda>_. n)"

definition ewhen :: "bool \<Rightarrow> ('s, 'e, unit) eff \<Rightarrow> ('s, 'e, unit) eff" where
  "ewhen b m = (if b then m else eret ())"

definition eguard :: "bool \<Rightarrow> 'e \<Rightarrow> ('s, 'e, unit) eff" where
  "eguard b e = (if b then eret () else eraise e)"

text \<open>\<open>try: m except Exception as e: h e\<close>.\<close>

definition ecatch :: "('s, 'e, 'a) eff \<Rightarrow> ('e \<Rightarrow> ('s, 'e, 'a) eff) \<Rightarrow> ('s, 'e, 'a) eff" where
  "ecatch m h = (\<lambda>s. case m s of (Inl e, s') \<Rightarrow> h e s' | (Inr x, s') \<Rightarrow> (Inr x, s'))"

fun efor :: "('a \<Rightarrow> ('s, 'e, unit) eff) \<Rightarrow> 'a list \<Rightarrow> ('s, 'e, unit) eff" where
  "efor f [] = eret ()"
| "efor f (x # xs) = ebind (f x) (\<lambda>_. efor f xs)"

text \<open>A loop that collects one value per element.\<close>

fun emap :: "('a \<Rightarrow> ('s, 'e, 'b) eff) \<Rightarrow> 'a list \<Rightarrow> ('s, 'e, 'b list) eff" where
  "emap f [] = eret []"
| "emap f (x # xs) = ebind (f x) (\<lambda>y. ebind (emap f xs) (\<lambda>ys. eret (y # ys)))"

text \<open>A loop whose body may end it early: \<open>True\<close> continues, \<open>False\<close> returns from the
  enclosing function.\<close>

fun efor_until :: "('a \<Rightarrow> ('s, 'e, bool) eff) \<Rightarrow> 'a list \<Rightarrow> ('s, 'e, unit) eff" where
  "efor_until f [] = eret ()"
| "efor_until f (x # xs) = ebind (f x) (\<lambda>b. if b then efor_until f xs else eret ())"

section \<open>Running an operation\<close>

lemma run_simps [eff_simps]:
  "eret x s = (Inr x, s)"
  "eraise e s = (Inl e, s)"
  "elift r s = (r, s)"
  "eget f s = (Inr (f s), s)"
  "emod g s = (Inr (), g s)"
  by (simp_all add: eret_def eraise_def elift_def eget_def emod_def)

lemma run_ebind [eff_simps]:
  "ebind m f s = (case m s of (Inl e, s') \<Rightarrow> (Inl e, s') | (Inr x, s') \<Rightarrow> f x s')"
  by (simp add: ebind_def)

lemma run_ebind_Inr: "m s = (Inr x, s') \<Longrightarrow> ebind m f s = f x s'"
  by (simp add: ebind_def)

lemma run_ebind_Inl: "m s = (Inl e, s') \<Longrightarrow> ebind m f s = (Inl e, s')"
  by (simp add: ebind_def)

lemma ebind_assoc: "ebind (ebind m f) g = ebind m (\<lambda>x. ebind (f x) g)"
  by (auto simp: ebind_def fun_eq_iff split: prod.splits sum.splits)

lemma run_eguard [eff_simps]: "eguard b e s = (if b then (Inr (), s) else (Inl e, s))"
  by (simp add: eguard_def run_simps)

lemma run_ewhen [eff_simps]: "ewhen b m s = (if b then m s else (Inr (), s))"
  by (simp add: ewhen_def run_simps)

lemma run_eseq [eff_simps]:
  "eseq m n s = (case m s of (Inl e, s') \<Rightarrow> (Inl e, s') | (Inr x, s') \<Rightarrow> n s')"
  by (simp add: eseq_def ebind_def)

text \<open>Taking a successful run apart.\<close>

lemma ebind_Inr:
  "ebind m f w = (Inr x, w') \<longleftrightarrow> (\<exists>y w1. m w = (Inr y, w1) \<and> f y w1 = (Inr x, w'))"
  by (auto simp: run_ebind split: prod.splits sum.splits)

lemma eguard_Inr: "eguard b e w = (Inr u, w') \<longleftrightarrow> b \<and> w' = w"
  by (auto simp: run_eguard)

lemma eraise_Inr: "eraise e w = (Inr x, w') \<longleftrightarrow> False"
  by (simp add: run_simps)

lemma eret_Inr: "eret x w = (Inr y, w') \<longleftrightarrow> y = x \<and> w' = w"
  by (auto simp: run_simps)

lemma elift_Inr: "elift r w = (Inr y, w') \<longleftrightarrow> r = Inr y \<and> w' = w"
  by (auto simp: run_simps)

lemma case_option_Inr:
  "(case r of None \<Rightarrow> m | Some x \<Rightarrow> f x) w = (Inr y, w') \<longleftrightarrow>
   r = None \<and> m w = (Inr y, w') \<or> (\<exists>x. r = Some x \<and> f x w = (Inr y, w'))"
  by (cases r) auto

section \<open>Contracts\<close>

definition spec ::
  "('s \<Rightarrow> bool) \<Rightarrow> ('s \<Rightarrow> bool) \<Rightarrow> ('s, 'e, 'a) eff \<Rightarrow> ('a \<Rightarrow> 's \<Rightarrow> bool) \<Rightarrow> bool" where
  "spec I P m Q \<longleftrightarrow>
     (\<forall>s. I s \<longrightarrow> P s \<longrightarrow> I (snd (m s)) \<and> (\<forall>x. fst (m s) = Inr x \<longrightarrow> Q x (snd (m s))))"

abbreviation keeps :: "('s \<Rightarrow> bool) \<Rightarrow> ('s, 'e, 'a) eff \<Rightarrow> bool" where
  "keeps I m \<equiv> spec I (\<lambda>_. True) m (\<lambda>_ _. True)"

lemma specI:
  assumes "\<And>s. I s \<Longrightarrow> P s \<Longrightarrow> I (snd (m s))"
    and "\<And>s x s'. I s \<Longrightarrow> P s \<Longrightarrow> m s = (Inr x, s') \<Longrightarrow> Q x s'"
  shows "spec I P m Q"
  unfolding spec_def using assms by (metis prod.collapse)

lemma specD: "spec I P m Q \<Longrightarrow> I s \<Longrightarrow> P s \<Longrightarrow> m s = (Inr x, s') \<Longrightarrow> I s' \<and> Q x s'"
  unfolding spec_def by (metis fst_conv snd_conv)

lemma spec_inv: "spec I P m Q \<Longrightarrow> I s \<Longrightarrow> P s \<Longrightarrow> I (snd (m s))"
  by (simp add: spec_def)

lemma spec_weaken:
  assumes "spec I P m Q" and "\<And>s. I s \<Longrightarrow> P' s \<Longrightarrow> P s" and "\<And>x s. I s \<Longrightarrow> Q x s \<Longrightarrow> Q' x s"
  shows "spec I P' m Q'"
  using assms unfolding spec_def by meson

lemma keeps_spec: "spec I (\<lambda>_. True) m Q \<Longrightarrow> keeps I m"
  by (auto simp: spec_def)

lemma spec_eret: "(\<And>s. I s \<Longrightarrow> P s \<Longrightarrow> Q x s) \<Longrightarrow> spec I P (eret x) Q"
  by (simp add: spec_def run_simps)

lemma spec_eraise: "spec I P (eraise e) Q"
  by (simp add: spec_def run_simps)

lemma spec_elift: "(\<And>x s. I s \<Longrightarrow> P s \<Longrightarrow> r = Inr x \<Longrightarrow> Q x s) \<Longrightarrow> spec I P (elift r) Q"
  by (simp add: spec_def run_simps)

lemma spec_eget: "(\<And>s. I s \<Longrightarrow> P s \<Longrightarrow> Q (f s) s) \<Longrightarrow> spec I P (eget f) Q"
  by (simp add: spec_def run_simps)

lemma spec_emod: "(\<And>s. I s \<Longrightarrow> P s \<Longrightarrow> I (g s) \<and> Q () (g s)) \<Longrightarrow> spec I P (emod g) Q"
  by (simp add: spec_def run_simps)

lemma spec_ebind:
  assumes "spec I P m R" and "\<And>x. spec I (R x) (f x) Q"
  shows "spec I P (ebind m f) Q"
  unfolding spec_def
proof (intro allI impI)
  fix s assume I: "I s" and P: "P s"
  obtain r s' where ms: "m s = (r, s')" by fastforce
  show "I (snd (ebind m f s)) \<and> (\<forall>x. fst (ebind m f s) = Inr x \<longrightarrow> Q x (snd (ebind m f s)))"
  proof (cases r)
    case (Inl e)
    with ms spec_inv [OF assms(1) I P] show ?thesis by (simp add: ebind_def)
  next
    case (Inr x)
    with ms specD [OF assms(1) I P] have "I s'" "R x s'" by auto
    with assms(2) [of x] ms Inr show ?thesis by (simp add: ebind_def spec_def)
  qed
qed

lemma spec_eseq:
  assumes "spec I P m (\<lambda>_. R)" and "spec I R n Q"
  shows "spec I P (eseq m n) Q"
  unfolding eseq_def by (rule spec_ebind [OF assms])

lemma spec_ecatch:
  assumes "spec I P m Q" and "\<And>e. spec I (\<lambda>_. True) (h e) Q"
  shows "spec I P (ecatch m h) Q"
  unfolding spec_def
proof (intro allI impI)
  fix s assume I: "I s" and P: "P s"
  obtain r s' where ms: "m s = (r, s')" by fastforce
  from spec_inv [OF assms(1) I P] ms have "I s'" by simp
  with assms ms I P show "I (snd (ecatch m h s)) \<and>
      (\<forall>x. fst (ecatch m h s) = Inr x \<longrightarrow> Q x (snd (ecatch m h s)))"
    by (cases r) (auto simp: ecatch_def spec_def)
qed

lemma spec_ewhen:
  assumes "b \<Longrightarrow> spec I P m Q" and "\<And>s. \<not> b \<Longrightarrow> I s \<Longrightarrow> P s \<Longrightarrow> Q () s"
  shows "spec I P (ewhen b m) Q"
  using assms by (auto simp: ewhen_def intro: spec_eret)

lemma spec_eguard: "(\<And>s. I s \<Longrightarrow> P s \<Longrightarrow> b \<Longrightarrow> Q () s) \<Longrightarrow> spec I P (eguard b e) Q"
  by (auto simp: eguard_def spec_def run_simps)

lemma spec_if:
  assumes "b \<Longrightarrow> spec I P m Q" and "\<not> b \<Longrightarrow> spec I P n Q"
  shows "spec I P (if b then m else n) Q"
  using assms by simp

lemma spec_option:
  assumes "r = None \<Longrightarrow> spec I P m Q" and "\<And>x. r = Some x \<Longrightarrow> spec I P (f x) Q"
  shows "spec I P (case r of None \<Rightarrow> m | Some x \<Rightarrow> f x) Q"
  using assms by (cases r) auto

lemma keeps_efor:
  assumes "\<And>x. x \<in> set xs \<Longrightarrow> keeps I (f x)"
  shows "keeps I (efor f xs)"
  using assms by (induction xs) (auto intro: spec_eret spec_ebind)

lemma keeps_emap:
  assumes "\<And>x. x \<in> set xs \<Longrightarrow> keeps I (f x)"
  shows "keeps I (emap f xs)"
  using assms by (induction xs) (auto intro!: spec_eret spec_ebind)

lemma keeps_efor_until:
  assumes "\<And>x. x \<in> set xs \<Longrightarrow> keeps I (f x)"
  shows "keeps I (efor_until f xs)"
  using assms
proof (induction xs)
  case Nil
  show ?case by (auto intro: spec_eret)
next
  case (Cons x xs)
  then show ?case
    by (auto intro!: spec_ebind [where R = "\<lambda>_ _. True"] spec_if spec_eret)
qed

lemma keeps_ebind:
  assumes "keeps I m" and "\<And>x. keeps I (f x)"
  shows "keeps I (ebind m f)"
  using assms by (rule spec_ebind)

text \<open>The result of a step known before the next.\<close>

lemma spec_keeps_ebind:
  assumes "keeps I m" and "\<And>x. spec I (\<lambda>_. True) (f x) Q"
  shows "spec I (\<lambda>_. True) (ebind m f) Q"
  using assms by (rule spec_ebind)

lemma spec_ebind_post:
  assumes "spec I (\<lambda>_. True) m (\<lambda>x _. P x)" and "\<And>x. P x \<Longrightarrow> spec I (\<lambda>_. True) (f x) Q"
  shows "spec I (\<lambda>_. True) (ebind m f) Q"
  using assms by (intro spec_ebind [OF assms(1)]) (auto simp: spec_def)

lemma keeps_eseq: "keeps I m \<Longrightarrow> keeps I n \<Longrightarrow> keeps I (eseq m n)"
  by (rule spec_eseq)

lemma keeps_ecatch: "keeps I m \<Longrightarrow> (\<And>e. keeps I (h e)) \<Longrightarrow> keeps I (ecatch m h)"
  by (rule spec_ecatch)

lemma keeps_basic:
  "keeps I (eret x)" "keeps I (eraise e)" "keeps I (elift r)" "keeps I (eget f)" "keeps I (eguard b e)"
  by (simp_all add: spec_def eguard_def run_simps)

lemma keeps_emod: "(\<And>s. I s \<Longrightarrow> I (g s)) \<Longrightarrow> keeps I (emod g)"
  by (simp add: spec_def run_simps)

lemma keeps_ewhen: "(b \<Longrightarrow> keeps I m) \<Longrightarrow> keeps I (ewhen b m)"
  by (auto simp: ewhen_def spec_def run_simps)

lemma keeps_if: "(b \<Longrightarrow> keeps I m) \<Longrightarrow> (\<not> b \<Longrightarrow> keeps I n) \<Longrightarrow> keeps I (if b then m else n)"
  by simp

lemma keeps_option:
  "(r = None \<Longrightarrow> keeps I m) \<Longrightarrow> (\<And>x. r = Some x \<Longrightarrow> keeps I (f x)) \<Longrightarrow>
   keeps I (case r of None \<Rightarrow> m | Some x \<Rightarrow> f x)"
  by (cases r) auto

lemmas keeps_rules = keeps_basic keeps_eseq keeps_ecatch keeps_ewhen keeps_if keeps_option
  keeps_efor keeps_emap keeps_efor_until

end
