(* ===== verification/Py_Values.thy ===== *)
theory Py_Values
  imports Prelude
begin

text \<open>
  The values of the Python runtime that the control plane manipulates: what
  \<open>yaml.safe_load\<close>, \<open>json.loads\<close> and the JSONB columns hold. A dictionary is an
  insertion-ordered association list with distinct keys; YAML allows keys that are not strings, so
  a key is a value. Strings are lists of code points below 256. A finite float is the rational it
  denotes, and arithmetic and comparison on finite floats are those of the rationals.

  The conversions \<open>str\<close>, \<open>int\<close>, \<open>float\<close>, \<open>dict\<close>, \<open>list\<close> and iteration are
  transcribed with the exceptions they raise. Two pieces of CPython's text handling are an argument,
  the record \<open>py_runtime\<close>: how \<open>repr\<close> prints floats and containers, and how
  \<open>float\<close> reads a string. Nothing is assumed of them.
\<close>

section \<open>Values\<close>

datatype pyfloat = Fin rat | PosInf | NegInf | NaN

datatype pyval =
    PNone
  | PBool bool
  | PInt int
  | PFloat pyfloat
  | PStr string
  | PList "pyval list"
  | PDict "(pyval \<times> pyval) list"

type_synonym pydict = "(pyval \<times> pyval) list"

record py_runtime =
  rt_repr :: "pyval \<Rightarrow> string"
  rt_float :: "string \<Rightarrow> pyfloat option"

section \<open>Exceptions\<close>

text \<open>Builtin and SQLAlchemy exceptions, \<open>ExternalError\<close> for what an injected service
  raises (its text as payload), and \<open>PlatformError\<close> with its code, message and details
  (src/apps/control-plane/src/platform/common/exceptions.py).\<close>

datatype exn =
    TypeError
  | ValueError
  | KeyError
  | AttributeError
  | OverflowError
  | RecursionError
  | IntegrityError
  | MultipleResultsFound
  | RuntimeError
  | ExternalError string
  | PlatformError string string "(string \<times> pyval) list"

type_synonym 'a py = "exn + 'a"

section \<open>Tests on values\<close>

fun is_str :: "pyval \<Rightarrow> bool" where
  "is_str (PStr _) = True"
| "is_str _ = False"

fun is_list :: "pyval \<Rightarrow> bool" where
  "is_list (PList _) = True"
| "is_list _ = False"

fun is_dict :: "pyval \<Rightarrow> bool" where
  "is_dict (PDict _) = True"
| "is_dict _ = False"

fun is_bool :: "pyval \<Rightarrow> bool" where
  "is_bool (PBool _) = True"
| "is_bool _ = False"

text \<open>\<open>bool\<close> is a subclass of \<open>int\<close>, so \<open>isinstance(True, int)\<close> holds.\<close>

fun is_int :: "pyval \<Rightarrow> bool" where
  "is_int (PInt _) = True"
| "is_int (PBool _) = True"
| "is_int _ = False"

fun is_float :: "pyval \<Rightarrow> bool" where
  "is_float (PFloat _) = True"
| "is_float _ = False"

fun truthy :: "pyval \<Rightarrow> bool" where
  "truthy PNone = False"
| "truthy (PBool b) = b"
| "truthy (PInt i) = (i \<noteq> 0)"
| "truthy (PFloat f) = (f \<noteq> Fin 0)"
| "truthy (PStr s) = (s \<noteq> [])"
| "truthy (PList xs) = (xs \<noteq> [])"
| "truthy (PDict d) = (d \<noteq> [])"

definition py_or :: "pyval \<Rightarrow> pyval \<Rightarrow> pyval" where
  "py_or a b = (if truthy a then a else b)"

fun int_value :: "pyval \<Rightarrow> int" where
  "int_value (PInt i) = i"
| "int_value (PBool b) = (if b then 1 else 0)"
| "int_value _ = 0"

fun num_of :: "pyval \<Rightarrow> rat option" where
  "num_of (PBool b) = Some (if b then 1 else 0)"
| "num_of (PInt i) = Some (of_int i)"
| "num_of (PFloat (Fin r)) = Some r"
| "num_of _ = None"

text \<open>Comparisons on floats; every comparison with NaN is false.\<close>

fun float_less :: "pyfloat \<Rightarrow> pyfloat \<Rightarrow> bool" where
  "float_less NaN _ = False"
| "float_less _ NaN = False"
| "float_less (Fin a) (Fin b) = (a < b)"
| "float_less NegInf NegInf = False"
| "float_less NegInf _ = True"
| "float_less _ PosInf = True"
| "float_less _ _ = False"

definition float_le :: "pyfloat \<Rightarrow> pyfloat \<Rightarrow> bool" where
  "float_le a b \<longleftrightarrow> float_less a b \<or> (a = b \<and> a \<noteq> NaN)"

section \<open>Dictionaries\<close>

text \<open>Keys are compared as Python compares them: numbers by value (\<open>1 == True == 1.0\<close>).\<close>

definition key_eq :: "pyval \<Rightarrow> pyval \<Rightarrow> bool" where
  "key_eq a b = (case (num_of a, num_of b) of (Some x, Some y) \<Rightarrow> x = y | _ \<Rightarrow> a = b)"

definition dget :: "pydict \<Rightarrow> string \<Rightarrow> pyval option" where
  "dget d k = map_of d (PStr k)"

definition dget_or :: "pydict \<Rightarrow> string \<Rightarrow> pyval \<Rightarrow> pyval" where
  "dget_or d k v = (case dget d k of None \<Rightarrow> v | Some x \<Rightarrow> x)"

text \<open>\<open>d.get(k)\<close>: \<open>None\<close> where the key is missing.\<close>

definition dget_none :: "pydict \<Rightarrow> string \<Rightarrow> pyval" where
  "dget_none d k = dget_or d k PNone"

definition dhas :: "pydict \<Rightarrow> string \<Rightarrow> bool" where
  "dhas d k \<longleftrightarrow> dget d k \<noteq> None"

text \<open>\<open>d[k]\<close>.\<close>

definition dindex :: "pydict \<Rightarrow> string \<Rightarrow> pyval py" where
  "dindex d k = (case dget d k of None \<Rightarrow> Inl KeyError | Some x \<Rightarrow> Inr x)"

fun dict_set :: "pydict \<Rightarrow> pyval \<Rightarrow> pyval \<Rightarrow> pydict" where
  "dict_set [] k v = [(k, v)]"
| "dict_set ((k', v') # d) k v =
     (if key_eq k' k then (k', v) # d else (k', v') # dict_set d k v)"

definition dict_update :: "pydict \<Rightarrow> pydict \<Rightarrow> pydict" where
  "dict_update d e = foldl (\<lambda>d (k, v). dict_set d k v) d e"

abbreviation sset :: "pydict \<Rightarrow> string \<Rightarrow> pyval \<Rightarrow> pydict" where
  "sset d k v \<equiv> dict_set d (PStr k) v"

text \<open>\<open>d.setdefault(k, v)\<close> as the dictionary it leaves.\<close>

definition dict_setdefault :: "pydict \<Rightarrow> string \<Rightarrow> pyval \<Rightarrow> pydict" where
  "dict_setdefault d k v = (if dhas d k then d else sset d k v)"

section \<open>Strings\<close>

definition is_space :: "char \<Rightarrow> bool" where
  "is_space c \<longleftrightarrow> (of_char c :: nat) \<in> {9, 10, 11, 12, 13, 28, 29, 30, 31, 32, 133, 160}"

definition strip :: "string \<Rightarrow> string" where
  "strip s = rev (dropWhile is_space (rev (dropWhile is_space s)))"

definition is_digit :: "char \<Rightarrow> bool" where
  "is_digit c \<longleftrightarrow> 48 \<le> (of_char c :: nat) \<and> (of_char c :: nat) \<le> 57"

text \<open>Digits with single underscores between them, as \<open>int\<close> reads them.\<close>

fun parse_digits :: "string \<Rightarrow> int \<Rightarrow> bool \<Rightarrow> int option" where
  "parse_digits [] acc d = (if d then Some acc else None)"
| "parse_digits (c # cs) acc d =
     (if is_digit c then parse_digits cs (acc * 10 + (int (of_char c) - 48)) True
      else if c = CHR ''_'' \<and> d then parse_digits cs acc False
      else None)"

definition parse_int :: "string \<Rightarrow> int option" where
  "parse_int s =
     (case strip s of
        [] \<Rightarrow> None
      | c # cs \<Rightarrow>
          if c = CHR ''-'' then map_option uminus (parse_digits cs 0 False)
          else if c = CHR ''+'' then parse_digits cs 0 False
          else parse_digits (c # cs) 0 False)"

fun join_with :: "string \<Rightarrow> string list \<Rightarrow> string" where
  "join_with sep [] = []"
| "join_with sep [x] = x"
| "join_with sep (x # xs) = x @ sep @ join_with sep xs"

section \<open>Conversions\<close>

definition py_str :: "py_runtime \<Rightarrow> pyval \<Rightarrow> string" where
  "py_str rt v =
     (case v of
        PStr s \<Rightarrow> s
      | PNone \<Rightarrow> ''None''
      | PBool b \<Rightarrow> (if b then ''True'' else ''False'')
      | PInt i \<Rightarrow> show_int i
      | _ \<Rightarrow> rt_repr rt v)"

text \<open>\<open>float\<close> of an integer: the nearest 53-bit value, ties to even; beyond the largest
  double it raises.\<close>

fun bit_len :: "nat \<Rightarrow> nat" where
  "bit_len n = (if n = 0 then 0 else Suc (bit_len (n div 2)))"

declare bit_len.simps [simp del]

definition round_half_even :: "nat \<Rightarrow> nat \<Rightarrow> nat" where
  "round_half_even m e =
     (let q = m div 2 ^ e; r = m mod 2 ^ e; h = 2 ^ (e - 1)
      in if h < r \<or> (r = h \<and> odd q) then Suc q else q)"

definition float_of_nat :: "nat \<Rightarrow> nat" where
  "float_of_nat m =
     (if m \<le> 2 ^ 53 then m
      else let e = bit_len m - 53 in round_half_even m e * 2 ^ e)"

definition float_of_int :: "int \<Rightarrow> pyfloat py" where
  "float_of_int i =
     (let m = float_of_nat (nat \<bar>i\<bar>)
      in if 2 ^ 1024 \<le> m then Inl OverflowError else Inr (Fin (of_int (sgn i * int m))))"

definition py_float :: "py_runtime \<Rightarrow> pyval \<Rightarrow> pyfloat py" where
  "py_float rt v =
     (case v of
        PFloat f \<Rightarrow> Inr f
      | PInt i \<Rightarrow> float_of_int i
      | PBool b \<Rightarrow> Inr (Fin (if b then 1 else 0))
      | PStr s \<Rightarrow> (case rt_float rt s of None \<Rightarrow> Inl ValueError | Some f \<Rightarrow> Inr f)
      | _ \<Rightarrow> Inl TypeError)"

definition py_int :: "pyval \<Rightarrow> int py" where
  "py_int v =
     (case v of
        PInt i \<Rightarrow> Inr i
      | PBool b \<Rightarrow> Inr (if b then 1 else 0)
      | PFloat (Fin r) \<Rightarrow> Inr (if r < 0 then - \<lfloor>- r\<rfloor> else \<lfloor>r\<rfloor>)
      | PFloat NaN \<Rightarrow> Inl ValueError
      | PFloat _ \<Rightarrow> Inl OverflowError
      | PStr s \<Rightarrow> (case parse_int s of None \<Rightarrow> Inl ValueError | Some i \<Rightarrow> Inr i)
      | _ \<Rightarrow> Inl TypeError)"

text \<open>\<open>list(v)\<close> and \<open>for x in v\<close>.\<close>

definition py_iter :: "pyval \<Rightarrow> pyval list py" where
  "py_iter v =
     (case v of
        PList xs \<Rightarrow> Inr xs
      | PDict d \<Rightarrow> Inr (map fst d)
      | PStr s \<Rightarrow> Inr (map (\<lambda>c. PStr [c]) s)
      | _ \<Rightarrow> Inl TypeError)"

fun hashable :: "pyval \<Rightarrow> bool" where
  "hashable (PList _) = False"
| "hashable (PDict _) = False"
| "hashable _ = True"

definition pair_of :: "pyval \<Rightarrow> (pyval \<times> pyval) py" where
  "pair_of v =
     rbind (py_iter v) (\<lambda>xs. case xs of
        [a, b] \<Rightarrow> (if hashable a then Inr (a, b) else Inl TypeError)
      | _ \<Rightarrow> Inl ValueError)"

text \<open>\<open>dict(v)\<close>: a copy of a dictionary, or the dictionary of an iterable of pairs.\<close>

definition py_dict :: "pyval \<Rightarrow> pydict py" where
  "py_dict v =
     (case v of
        PDict d \<Rightarrow> Inr d
      | _ \<Rightarrow> rbind (py_iter v) (\<lambda>xs. rbind (rmap pair_of xs) (\<lambda>ps. Inr (dict_update [] ps))))"

section \<open>Lemmas\<close>

lemma key_eq_PStr [simp]: "key_eq (PStr a) k \<longleftrightarrow> k = PStr a" "key_eq k (PStr a) \<longleftrightarrow> k = PStr a"
  by (auto simp: key_eq_def split: option.splits)

lemma map_of_sset: "map_of (sset d k v) = (map_of d)(PStr k \<mapsto> v)"
  by (induction d "PStr k" v rule: dict_set.induct) (auto simp: fun_eq_iff)

lemma dget_sset [simp, dict_simps]: "dget (sset d k v) k' = (if k' = k then Some v else dget d k')"
  by (simp add: dget_def map_of_sset)

lemma dget_Nil [simp]: "dget [] k = None"
  by (simp add: dget_def)

lemma dget_Cons [simp]: "dget ((PStr a, v) # d) k = (if a = k then Some v else dget d k)"
  by (simp add: dget_def)

lemma dhas_sset [simp, dict_simps]: "dhas (sset d k v) k' \<longleftrightarrow> k' = k \<or> dhas d k'"
  by (simp add: dhas_def)

lemma dget_setdefault [dict_simps]:
  "dget (dict_setdefault d k v) k' = (if k' = k \<and> \<not> dhas d k then Some v else dget d k')"
  by (simp add: dict_setdefault_def)

lemma py_str_PStr [simp]: "py_str rt (PStr s) = s"
  by (simp add: py_str_def)

lemma py_str_comp_PStr [simp]: "py_str rt \<circ> PStr = id"
  by (simp add: fun_eq_iff)

lemma py_float_PFloat [simp]: "py_float rt (PFloat f) = Inr f"
  by (simp add: py_float_def)

lemma py_int_PInt [simp]: "py_int (PInt i) = Inr i"
  by (simp add: py_int_def)

lemma py_int_PBool [simp]: "py_int (PBool b) = Inr (if b then 1 else 0)"
  by (simp add: py_int_def)

lemma py_int_is_int: "is_int v \<Longrightarrow> py_int v = Inr (int_value v)"
  by (cases v) auto

lemma py_iter_PList [simp]: "py_iter (PList xs) = Inr xs"
  by (simp add: py_iter_def)

lemma py_iter_PNone [simp]: "py_iter PNone = Inl TypeError"
  by (simp add: py_iter_def)

lemma py_dict_PDict [simp]: "py_dict (PDict d) = Inr d"
  by (simp add: py_dict_def)

lemma py_dict_PNone [simp]: "py_dict PNone = Inl TypeError"
  by (simp add: py_dict_def)

lemma is_str_conv: "is_str v \<longleftrightarrow> (\<exists>s. v = PStr s)"
  by (cases v) auto

lemma is_list_conv: "is_list v \<longleftrightarrow> (\<exists>xs. v = PList xs)"
  by (cases v) auto

lemma is_dict_conv: "is_dict v \<longleftrightarrow> (\<exists>d. v = PDict d)"
  by (cases v) auto

lemma strip_Nil [simp]: "strip [] = []"
  by (simp add: strip_def)

lemma strip_nonempty: "strip s \<noteq> [] \<Longrightarrow> s \<noteq> []"
  by auto

text \<open>Conversion to float keeps the sign and the order relative to 0 and 1.\<close>

lemma float_of_nat_small: "m \<le> 2 ^ 53 \<Longrightarrow> float_of_nat m = m"
  by (simp add: float_of_nat_def)

lemma bit_len_pow: "2 ^ k \<le> n \<Longrightarrow> k < bit_len n"
proof (induction n arbitrary: k rule: bit_len.induct)
  case (1 n)
  show ?case
  proof (cases k)
    case 0
    with 1 show ?thesis by (subst bit_len.simps) auto
  next
    case (Suc j)
    with "1.prems" have le: "2 * 2 ^ j \<le> n" by simp
    moreover have "0 < 2 * (2 :: nat) ^ j" by simp
    ultimately have n: "n \<noteq> 0" by linarith
    from le have "2 ^ j \<le> n div 2"
      by (simp add: less_eq_div_iff_mult_less_eq mult.commute)
    with n have "j < bit_len (n div 2)" by (intro "1.IH")
    with n Suc show ?thesis by (subst bit_len.simps) simp
  qed
qed

lemma bit_len_le_pow: "n \<noteq> 0 \<Longrightarrow> 2 ^ (bit_len n - 1) \<le> n"
proof (induction n rule: bit_len.induct)
  case (1 n)
  show ?case
  proof (cases "n div 2 = 0")
    case True
    then have "bit_len n = 1"
      using "1.prems" by (subst bit_len.simps, subst bit_len.simps) simp
    then show ?thesis using "1.prems" by simp
  next
    case False
    then have "2 ^ (bit_len (n div 2) - 1) \<le> n div 2" and "0 < bit_len (n div 2)"
      using 1 bit_len_pow [of 0 "n div 2"] by auto
    then have "2 ^ bit_len (n div 2) \<le> n"
      by (cases "bit_len (n div 2)") auto
    then show ?thesis
      using "1.prems" by (subst bit_len.simps) simp
  qed
qed

lemma float_of_nat_big: "2 ^ 53 < m \<Longrightarrow> 2 ^ 52 \<le> float_of_nat m"
proof -
  assume m: "2 ^ 53 < m"
  define e where "e = bit_len m - 53"
  have "53 < bit_len m" using bit_len_pow [of 53 m] m by simp
  then have e: "bit_len m - 1 = e + 52" by (simp add: e_def)
  have "2 ^ (bit_len m - 1) \<le> m" using m by (intro bit_len_le_pow) simp
  then have "2 ^ (e + 52) \<le> m" unfolding e .
  then have "2 ^ 52 \<le> m div 2 ^ e"
    by (simp add: less_eq_div_iff_mult_less_eq power_add mult.commute)
  then have "2 ^ 52 \<le> round_half_even m e"
    by (simp add: round_half_even_def Let_def)
  then have "(2 ^ 52 :: nat) * 1 \<le> round_half_even m e * 2 ^ e"
    by (intro mult_mono) auto
  then show ?thesis using m by (simp add: float_of_nat_def e_def Let_def)
qed

lemma float_of_nat_order: "float_of_nat m \<le> 1 \<longleftrightarrow> m \<le> 1" "float_of_nat m = 0 \<longleftrightarrow> m = 0"
  using float_of_nat_big [of m] float_of_nat_small [of m] by (cases "m \<le> 2 ^ 53"; auto)+

lemma float_of_int_Fin:
  assumes "float_of_int i = Inr f"
  shows "\<exists>r. f = Fin r \<and> (r \<le> 0 \<longleftrightarrow> i \<le> 0) \<and> (r < 0 \<longleftrightarrow> i < 0) \<and> (r \<le> 1 \<longleftrightarrow> i \<le> 1)"
proof -
  define m where "m = float_of_nat (nat \<bar>i\<bar>)"
  have f: "f = Fin (of_int (sgn i * int m))"
    using assms by (auto simp: float_of_int_def m_def Let_def split: if_splits)
  have m: "m \<le> 1 \<longleftrightarrow> \<bar>i\<bar> \<le> 1" "m = 0 \<longleftrightarrow> i = 0"
    using float_of_nat_order [of "nat \<bar>i\<bar>"] by (auto simp: m_def)
  show ?thesis
  proof (intro exI conjI)
    show "f = Fin (of_int (sgn i * int m))" by (rule f)
  qed (use m in \<open>auto simp: sgn_if split: if_splits\<close>)
qed

end
