(* ===== verification/Workflow_IR.thy ===== *)
theory Workflow_IR
  imports Py_Values
begin

text \<open>
  The intermediate representation of workflows, workflows/ir.py: the four dataclasses as records, in
  the source's field order, and their \<open>to_dict\<close> / \<open>from_dict\<close> pairs. Fields that
  \<open>from_dict\<close> copies without conversion keep the type of values, because Python does not
  enforce the annotation. The theory proves that serialisation loses nothing: an IR that was saved
  and loaded again is the same IR.
\<close>

section \<open>Dataclasses\<close>

record RetryConfigIR =
  rc_max_retries :: int
  rc_backoff_strategy :: string
  rc_base_delay_seconds :: pyfloat
  rc_max_delay_seconds :: pyfloat
  rc_retry_on_event_types :: "string list option"

record ApprovalConfigIR =
  ac_required_approvers :: "string list"
  ac_timeout_seconds :: int
  ac_timeout_action :: string

record StepIR =
  step_id :: string
  step_type :: string
  agent_fqn :: pyval
  tool_fqn :: pyval
  input_bindings :: "(string \<times> string) list option"
  output_schema :: pyval
  retry_config :: "RetryConfigIR option"
  timeout_seconds :: "int option"
  compensation_handler :: pyval
  approval_config :: "ApprovalConfigIR option"
  reasoning_mode :: pyval
  compute_budget :: "pyfloat option"
  context_budget_tokens :: "int option"
  parallel_group :: pyval
  condition_expression :: pyval

record WorkflowIR =
  schema_version :: int
  workflow_id :: string
  steps :: "StepIR list"
  dag_edges :: "(string \<times> string) list"
  data_bindings :: "pyval list option"
  metadata :: "pydict option"

section \<open>Serialisation\<close>

text \<open>\<open>x or []\<close> and \<open>x or {}\<close> on an optional list.\<close>

definition or_empty :: "'a list option \<Rightarrow> 'a list" where
  "or_empty x = (case x of None \<Rightarrow> [] | Some xs \<Rightarrow> xs)"

definition opt_val :: "('a \<Rightarrow> pyval) \<Rightarrow> 'a option \<Rightarrow> pyval" where
  "opt_val f x = (case x of None \<Rightarrow> PNone | Some y \<Rightarrow> f y)"

definition RetryConfigIR_to_dict :: "RetryConfigIR \<Rightarrow> pydict" where
  "RetryConfigIR_to_dict r =
     [(PStr ''max_retries'', PInt (rc_max_retries r)),
      (PStr ''backoff_strategy'', PStr (rc_backoff_strategy r)),
      (PStr ''base_delay_seconds'', PFloat (rc_base_delay_seconds r)),
      (PStr ''max_delay_seconds'', PFloat (rc_max_delay_seconds r)),
      (PStr ''retry_on_event_types'', PList (map PStr (or_empty (rc_retry_on_event_types r))))]"

definition ApprovalConfigIR_to_dict :: "ApprovalConfigIR \<Rightarrow> pydict" where
  "ApprovalConfigIR_to_dict a =
     [(PStr ''required_approvers'', PList (map PStr (ac_required_approvers a))),
      (PStr ''timeout_seconds'', PInt (ac_timeout_seconds a)),
      (PStr ''timeout_action'', PStr (ac_timeout_action a))]"

definition bindings_dict :: "(string \<times> string) list \<Rightarrow> pydict" where
  "bindings_dict b = map (\<lambda>(k, v). (PStr k, PStr v)) b"

definition StepIR_to_dict :: "StepIR \<Rightarrow> pydict" where
  "StepIR_to_dict s =
     [(PStr ''step_id'', PStr (step_id s)),
      (PStr ''step_type'', PStr (step_type s)),
      (PStr ''agent_fqn'', agent_fqn s),
      (PStr ''tool_fqn'', tool_fqn s),
      (PStr ''input_bindings'', PDict (bindings_dict (or_empty (input_bindings s)))),
      (PStr ''output_schema'', output_schema s),
      (PStr ''retry_config'', opt_val (PDict \<circ> RetryConfigIR_to_dict) (retry_config s)),
      (PStr ''timeout_seconds'', opt_val PInt (timeout_seconds s)),
      (PStr ''compensation_handler'', compensation_handler s),
      (PStr ''approval_config'', opt_val (PDict \<circ> ApprovalConfigIR_to_dict) (approval_config s)),
      (PStr ''reasoning_mode'', reasoning_mode s),
      (PStr ''compute_budget'', opt_val PFloat (compute_budget s)),
      (PStr ''context_budget_tokens'', opt_val PInt (context_budget_tokens s)),
      (PStr ''parallel_group'', parallel_group s),
      (PStr ''condition_expression'', condition_expression s)]"

definition edge_val :: "string \<times> string \<Rightarrow> pyval" where
  "edge_val e = PList [PStr (fst e), PStr (snd e)]"

definition WorkflowIR_to_dict :: "WorkflowIR \<Rightarrow> pydict" where
  "WorkflowIR_to_dict w =
     [(PStr ''schema_version'', PInt (schema_version w)),
      (PStr ''workflow_id'', PStr (workflow_id w)),
      (PStr ''steps'', PList (map (PDict \<circ> StepIR_to_dict) (steps w))),
      (PStr ''dag_edges'', PList (map edge_val (dag_edges w))),
      (PStr ''data_bindings'', PList (or_empty (data_bindings w))),
      (PStr ''metadata'', PDict (or_empty (metadata w)))]"

section \<open>Deserialisation\<close>

definition RetryConfigIR_from_dict :: "py_runtime \<Rightarrow> pydict \<Rightarrow> RetryConfigIR py" where
  "RetryConfigIR_from_dict rt p =
     rbind (py_int (dget_or p ''max_retries'' (PInt 3))) (\<lambda>n.
     rbind (py_float rt (dget_or p ''base_delay_seconds'' (PFloat (Fin 5)))) (\<lambda>b.
     rbind (py_float rt (dget_or p ''max_delay_seconds'' (PFloat (Fin 300)))) (\<lambda>m.
     rbind (py_iter (dget_or p ''retry_on_event_types'' (PList []))) (\<lambda>es.
     Inr \<lparr>rc_max_retries = n,
          rc_backoff_strategy = py_str rt (dget_or p ''backoff_strategy'' (PStr ''fixed'')),
          rc_base_delay_seconds = b,
          rc_max_delay_seconds = m,
          rc_retry_on_event_types = Some (map (py_str rt) es)\<rparr>))))"

definition ApprovalConfigIR_from_dict :: "py_runtime \<Rightarrow> pydict \<Rightarrow> ApprovalConfigIR py" where
  "ApprovalConfigIR_from_dict rt p =
     rbind (py_iter (dget_or p ''required_approvers'' (PList []))) (\<lambda>as.
     rbind (py_int (dget_or p ''timeout_seconds'' (PInt 86400))) (\<lambda>t.
     Inr \<lparr>ac_required_approvers = map (py_str rt) as,
          ac_timeout_seconds = t,
          ac_timeout_action = py_str rt (dget_or p ''timeout_action'' (PStr ''fail''))\<rparr>))"

text \<open>\<open>\<open>v.items()\<close>\<close>: only a dictionary has the method.\<close>

definition py_items :: "pyval \<Rightarrow> pydict py" where
  "py_items v = (case v of PDict d \<Rightarrow> Inr d | _ \<Rightarrow> Inl AttributeError)"

text \<open>\<open>{str(key): str(value) for key, value in d.items()}\<close>.\<close>

definition str_bindings :: "py_runtime \<Rightarrow> pydict \<Rightarrow> (string \<times> string) list" where
  "str_bindings rt d = aupdate [] (map (\<lambda>(k, v). (py_str rt k, py_str rt v)) d)"

definition opt_int :: "pyval \<Rightarrow> int option py" where
  "opt_int v = (if v = PNone then Inr None else rbind (py_int v) (\<lambda>i. Inr (Some i)))"

definition opt_float :: "py_runtime \<Rightarrow> pyval \<Rightarrow> pyfloat option py" where
  "opt_float rt v = (if v = PNone then Inr None else rbind (py_float rt v) (\<lambda>f. Inr (Some f)))"

definition opt_retry :: "py_runtime \<Rightarrow> pyval \<Rightarrow> RetryConfigIR option py" where
  "opt_retry rt v =
     (case v of PDict d \<Rightarrow> rbind (RetryConfigIR_from_dict rt d) (\<lambda>r. Inr (Some r)) | _ \<Rightarrow> Inr None)"

definition opt_approval :: "py_runtime \<Rightarrow> pyval \<Rightarrow> ApprovalConfigIR option py" where
  "opt_approval rt v =
     (case v of PDict d \<Rightarrow> rbind (ApprovalConfigIR_from_dict rt d) (\<lambda>a. Inr (Some a)) | _ \<Rightarrow> Inr None)"

definition StepIR_from_dict :: "py_runtime \<Rightarrow> pydict \<Rightarrow> StepIR py" where
  "StepIR_from_dict rt p =
     rbind (dindex p ''step_id'') (\<lambda>sid.
     rbind (dindex p ''step_type'') (\<lambda>sty.
     rbind (py_items (py_or (dget_none p ''input_bindings'') (PDict []))) (\<lambda>ib.
     rbind (opt_retry rt (dget_none p ''retry_config'')) (\<lambda>rc.
     rbind (opt_int (dget_none p ''timeout_seconds'')) (\<lambda>ts.
     rbind (opt_approval rt (dget_none p ''approval_config'')) (\<lambda>ac.
     rbind (opt_float rt (dget_none p ''compute_budget'')) (\<lambda>cb.
     rbind (opt_int (dget_none p ''context_budget_tokens'')) (\<lambda>ct.
     Inr \<lparr>step_id = py_str rt sid,
          step_type = py_str rt sty,
          agent_fqn = dget_none p ''agent_fqn'',
          tool_fqn = dget_none p ''tool_fqn'',
          input_bindings = Some (str_bindings rt ib),
          output_schema = dget_none p ''output_schema'',
          retry_config = rc,
          timeout_seconds = ts,
          compensation_handler = dget_none p ''compensation_handler'',
          approval_config = ac,
          reasoning_mode = dget_none p ''reasoning_mode'',
          compute_budget = cb,
          context_budget_tokens = ct,
          parallel_group = dget_none p ''parallel_group'',
          condition_expression = dget_none p ''condition_expression''\<rparr>))))))))"

text \<open>The comprehension over \<open>dag_edges\<close> keeps the two-element lists.\<close>

fun edges_of :: "py_runtime \<Rightarrow> pyval list \<Rightarrow> (string \<times> string) list" where
  "edges_of rt [] = []"
| "edges_of rt (PList [a, b] # es) = (py_str rt a, py_str rt b) # edges_of rt es"
| "edges_of rt (_ # es) = edges_of rt es"

definition step_of_item :: "py_runtime \<Rightarrow> pyval \<Rightarrow> StepIR py" where
  "step_of_item rt v = (case v of PDict d \<Rightarrow> StepIR_from_dict rt d | _ \<Rightarrow> Inl AttributeError)"

definition WorkflowIR_from_dict :: "py_runtime \<Rightarrow> pydict \<Rightarrow> WorkflowIR py" where
  "WorkflowIR_from_dict rt p =
     rbind (dindex p ''schema_version'') (\<lambda>svv.
     rbind (py_int svv) (\<lambda>sv.
     rbind (dindex p ''workflow_id'') (\<lambda>wid.
     rbind (py_iter (dget_or p ''steps'' (PList []))) (\<lambda>items.
     rbind (rmap (step_of_item rt) items) (\<lambda>ss.
     rbind (py_iter (dget_or p ''dag_edges'' (PList []))) (\<lambda>es.
     rbind (py_iter (dget_or p ''data_bindings'' (PList []))) (\<lambda>dbs.
     rbind (py_dict (dget_or p ''metadata'' (PDict []))) (\<lambda>md.
     Inr \<lparr>schema_version = sv,
          workflow_id = py_str rt wid,
          steps = ss,
          dag_edges = edges_of rt es,
          data_bindings = Some dbs,
          metadata = Some md\<rparr>))))))))"

section \<open>Round trip\<close>

text \<open>What loading normalises: an absent optional collection becomes the empty one.\<close>

definition retry_norm :: "RetryConfigIR \<Rightarrow> RetryConfigIR" where
  "retry_norm r = r\<lparr>rc_retry_on_event_types := Some (or_empty (rc_retry_on_event_types r))\<rparr>"

definition step_norm :: "StepIR \<Rightarrow> StepIR" where
  "step_norm s = s\<lparr>input_bindings := Some (or_empty (input_bindings s)),
                  retry_config := map_option retry_norm (retry_config s)\<rparr>"

definition ir_norm :: "WorkflowIR \<Rightarrow> WorkflowIR" where
  "ir_norm w = w\<lparr>steps := map step_norm (steps w),
                data_bindings := Some (or_empty (data_bindings w)),
                metadata := Some (or_empty (metadata w))\<rparr>"

text \<open>A dictionary has each key once.\<close>

definition ir_wf :: "WorkflowIR \<Rightarrow> bool" where
  "ir_wf w \<longleftrightarrow> (\<forall>s \<in> set (steps w). dict_wf (or_empty (input_bindings s)))"

lemma retry_roundtrip:
  "RetryConfigIR_from_dict rt (RetryConfigIR_to_dict r) = Inr (retry_norm r)"
  by (simp add: RetryConfigIR_from_dict_def RetryConfigIR_to_dict_def retry_norm_def dget_or_def)

lemma approval_roundtrip:
  "ApprovalConfigIR_from_dict rt (ApprovalConfigIR_to_dict a) = Inr a"
  by (simp add: ApprovalConfigIR_from_dict_def ApprovalConfigIR_to_dict_def dget_or_def)

lemma str_bindings_roundtrip: "dict_wf b \<Longrightarrow> str_bindings rt (bindings_dict b) = b"
  by (simp add: str_bindings_def bindings_dict_def case_prod_unfold comp_def)

lemma dict_wf_str_bindings [simp]: "dict_wf (str_bindings rt d)"
  by (simp add: str_bindings_def dict_wf_aupdate)

lemma opt_roundtrips:
  "opt_int (opt_val PInt x) = Inr x"
  "opt_float rt (opt_val PFloat y) = Inr y"
  "opt_retry rt (opt_val (PDict \<circ> RetryConfigIR_to_dict) r) = Inr (map_option retry_norm r)"
  "opt_approval rt (opt_val (PDict \<circ> ApprovalConfigIR_to_dict) a) = Inr a"
  by (auto simp: opt_int_def opt_float_def opt_retry_def opt_approval_def opt_val_def
      retry_roundtrip approval_roundtrip split: option.splits)

lemma py_items_or: "py_items (py_or (PDict d) (PDict [])) = Inr d"
  by (auto simp: py_items_def py_or_def)

lemma dget_none_Cons [simp]:
  "dget_none ((PStr a, v) # d) k = (if a = k then v else dget_none d k)"
  by (simp add: dget_none_def dget_or_def)

lemma dget_or_Cons [simp]:
  "dget_or ((PStr a, v) # d) k x = (if a = k then v else dget_or d k x)"
  by (simp add: dget_or_def)

lemma dindex_Cons [simp]:
  "dindex ((PStr a, v) # d) k = (if a = k then Inr v else dindex d k)"
  by (simp add: dindex_def)

lemma step_roundtrip:
  assumes "dict_wf (or_empty (input_bindings s))"
  shows "StepIR_from_dict rt (StepIR_to_dict s) = Inr (step_norm s)"
  using assms
  by (simp add: StepIR_from_dict_def StepIR_to_dict_def step_norm_def opt_roundtrips py_items_or
      str_bindings_roundtrip)

lemma edges_roundtrip: "edges_of rt (map edge_val es) = es"
  by (induction es) (auto simp: edge_val_def)

lemma steps_roundtrip:
  "\<forall>s \<in> set ss. dict_wf (or_empty (input_bindings s)) \<Longrightarrow>
   rmap (step_of_item rt) (map (PDict \<circ> StepIR_to_dict) ss) = Inr (map step_norm ss)"
  by (induction ss) (auto simp: step_of_item_def step_roundtrip)

lemma workflow_roundtrip:
  "ir_wf w \<Longrightarrow> WorkflowIR_from_dict rt (WorkflowIR_to_dict w) = Inr (ir_norm w)"
  by (simp add: WorkflowIR_from_dict_def WorkflowIR_to_dict_def ir_norm_def ir_wf_def
      steps_roundtrip edges_roundtrip)

text \<open>Whatever \<open>from_dict\<close> returns is in normal form.\<close>

lemma retry_from_dict_norm: "RetryConfigIR_from_dict rt p = Inr r \<Longrightarrow> retry_norm r = r"
  by (auto simp: RetryConfigIR_from_dict_def retry_norm_def res_simps or_empty_def)

lemma opt_retry_norm: "opt_retry rt v = Inr r \<Longrightarrow> map_option retry_norm r = r"
  by (auto simp: opt_retry_def res_simps retry_from_dict_norm split: pyval.splits)

lemma step_from_dict_norm:
  assumes "StepIR_from_dict rt p = Inr s"
  shows "step_norm s = s \<and> dict_wf (or_empty (input_bindings s))"
proof -
  from assms have "map_option retry_norm (retry_config s) = retry_config s"
    by (auto simp: StepIR_from_dict_def res_simps opt_retry_norm)
  moreover from assms obtain ib where "input_bindings s = Some (str_bindings rt ib)"
    by (auto simp: StepIR_from_dict_def res_simps)
  ultimately show ?thesis by (simp add: step_norm_def or_empty_def)
qed

lemma step_of_item_norm:
  "step_of_item rt v = Inr s \<Longrightarrow> step_norm s = s \<and> dict_wf (or_empty (input_bindings s))"
  by (auto simp: step_of_item_def step_from_dict_norm split: pyval.splits)

lemma workflow_from_dict_norm:
  assumes "WorkflowIR_from_dict rt p = Inr w"
  shows "ir_norm w = w \<and> ir_wf w"
proof -
  from assms obtain items where
    items: "list_all2 (\<lambda>v s. step_of_item rt v = Inr s) items (steps w)"
    and md: "data_bindings w \<noteq> None" "metadata w \<noteq> None"
    by (auto simp: WorkflowIR_from_dict_def res_simps)
  from items have s: "\<forall>s \<in> set (steps w). step_norm s = s \<and> dict_wf (or_empty (input_bindings s))"
    by (induction rule: list_all2_induct) (auto dest: step_of_item_norm)
  then have "map step_norm (steps w) = steps w" by (simp add: map_idI)
  with s md show ?thesis by (auto simp: ir_norm_def ir_wf_def or_empty_def)
qed

text \<open>An IR obtained from a stored payload, written with \<open>to_dict\<close> and read back with
  \<open>from_dict\<close>, is the IR it was.\<close>

lemma load_save_load:
  assumes "WorkflowIR_from_dict rt p = Inr w"
  shows "WorkflowIR_from_dict rt (WorkflowIR_to_dict w) = Inr w"
  using workflow_from_dict_norm [OF assms] workflow_roundtrip [of w rt] by simp

end
