(* ===== verification/Execution_Model.thy ===== *)
theory Execution_Model
  imports Effects Workflow_IR
begin

text \<open>
  The data of the execution engine: the enumerations and tables of execution/models.py and
  workflows/models.py, the projected state and the request and response schemas of
  execution/schemas.py, the errors of execution/exceptions.py, and the world the services act on.
  A UUID is its text, a timestamp a number of microseconds, an optional foreign key an option. The
  columns \<open>tenant_id\<close> and \<open>updated_at\<close>, which no operation reads, are left out.

  The record \<open>platform\<close> holds what the code obtains from outside: identifiers, clocks, the
  event producer, the settings, and the injected services. The record \<open>world\<close> holds the tables,
  the Redis keys, the published messages and the calls made to the runtime.
\<close>

type_synonym uuid = string
type_synonym timestamp = int

section \<open>Enumerations\<close>

datatype ExecutionStatus =
    ES_queued | ES_running | ES_waiting_for_approval | ES_completed | ES_failed | ES_canceled
  | ES_compensating | ES_paused | ES_paused_quota_exceeded | ES_rolled_back | ES_rollback_failed

fun status_value :: "ExecutionStatus \<Rightarrow> string" where
  "status_value ES_queued = ''queued''"
| "status_value ES_running = ''running''"
| "status_value ES_waiting_for_approval = ''waiting_for_approval''"
| "status_value ES_completed = ''completed''"
| "status_value ES_failed = ''failed''"
| "status_value ES_canceled = ''canceled''"
| "status_value ES_compensating = ''compensating''"
| "status_value ES_paused = ''paused''"
| "status_value ES_paused_quota_exceeded = ''paused_quota_exceeded''"
| "status_value ES_rolled_back = ''rolled_back''"
| "status_value ES_rollback_failed = ''rollback_failed''"

datatype ExecutionEventType =
    EV_created | EV_queued | EV_dispatched | EV_runtime_started | EV_sandbox_requested
  | EV_waiting_for_approval | EV_approved | EV_rejected | EV_approval_timed_out | EV_resumed
  | EV_retried | EV_completed | EV_failed | EV_canceled | EV_compensated | EV_compensation_failed
  | EV_hot_changed | EV_reasoning_trace_emitted | EV_self_correction_started
  | EV_self_correction_converged | EV_context_assembled | EV_reprioritized | EV_rolled_back

datatype ApprovalDecision = AD_approved | AD_rejected | AD_timed_out | AD_escalated

datatype CompensationOutcome = CO_completed | CO_failed | CO_not_available

fun outcome_value :: "CompensationOutcome \<Rightarrow> string" where
  "outcome_value CO_completed = ''completed''"
| "outcome_value CO_failed = ''failed''"
| "outcome_value CO_not_available = ''not_available''"

datatype ApprovalTimeoutAction = TA_fail | TA_skip | TA_escalate

fun timeout_action_value :: "ApprovalTimeoutAction \<Rightarrow> string" where
  "timeout_action_value TA_fail = ''fail''"
| "timeout_action_value TA_skip = ''skip''"
| "timeout_action_value TA_escalate = ''escalate''"

text \<open>\<open>ApprovalTimeoutAction(value)\<close> raises on a string that is no member.\<close>

definition timeout_action_of :: "string \<Rightarrow> ApprovalTimeoutAction py" where
  "timeout_action_of v =
     (if v = ''fail'' then Inr TA_fail
      else if v = ''skip'' then Inr TA_skip
      else if v = ''escalate'' then Inr TA_escalate
      else Inl ValueError)"

datatype RollbackActionStatus = RS_completed | RS_failed

fun rollback_status_value :: "RollbackActionStatus \<Rightarrow> string" where
  "rollback_status_value RS_completed = ''completed''"
| "rollback_status_value RS_failed = ''failed''"

datatype WorkflowStatus = WS_active | WS_archived | WS_draft

datatype TriggerType =
    TT_webhook | TT_cron | TT_orchestrator | TT_manual | TT_api | TT_event_bus | TT_workspace_goal

section \<open>Tables\<close>

record Execution =
  ex_id :: uuid
  ex_workspace_id :: uuid
  ex_workflow_version_id :: uuid
  ex_workflow_definition_id :: uuid
  ex_trigger_id :: "uuid option"
  ex_trigger_type :: TriggerType
  ex_status :: ExecutionStatus
  ex_input_parameters :: pydict
  ex_correlation_workspace_id :: uuid
  ex_correlation_conversation_id :: "uuid option"
  ex_correlation_interaction_id :: "uuid option"
  ex_correlation_fleet_id :: "uuid option"
  ex_correlation_goal_id :: "uuid option"
  ex_parent_execution_id :: "uuid option"
  ex_rerun_of_execution_id :: "uuid option"
  ex_started_at :: "timestamp option"
  ex_completed_at :: "timestamp option"
  ex_sla_deadline :: "timestamp option"
  ex_created_by :: "uuid option"
  ex_contract_id :: "uuid option"
  ex_contract_snapshot :: "pydict option"
  ex_checkpoint_policy_snapshot :: "pydict option"
  ex_created_at :: timestamp

record ExecutionEvent =
  ev_id :: uuid
  ev_execution_id :: uuid
  ev_sequence :: nat
  ev_event_type :: ExecutionEventType
  ev_step_id :: "string option"
  ev_agent_fqn :: "string option"
  ev_payload :: pydict
  ev_correlation_workspace_id :: uuid
  ev_correlation_conversation_id :: "uuid option"
  ev_correlation_interaction_id :: "uuid option"
  ev_correlation_goal_id :: "uuid option"
  ev_correlation_fleet_id :: "uuid option"
  ev_correlation_execution_id :: uuid
  ev_created_at :: timestamp

record ExecutionCheckpoint =
  cp_id :: uuid
  cp_execution_id :: uuid
  cp_checkpoint_number :: nat
  cp_last_event_sequence :: nat
  cp_step_results :: pydict
  cp_completed_step_ids :: "string list"
  cp_pending_step_ids :: "string list"
  cp_active_step_ids :: "string list"
  cp_execution_data :: pydict
  cp_current_context :: pydict
  cp_accumulated_costs :: pydict
  cp_superseded :: bool
  cp_policy_snapshot :: pydict
  cp_created_at :: timestamp

record ReprioritizationTrigger =
  rp_id :: uuid
  rp_workspace_id :: uuid
  rp_name :: string
  rp_trigger_type :: string
  rp_condition_config :: pydict
  rp_action :: string
  rp_priority_rank :: int
  rp_enabled :: bool
  rp_created_by :: "uuid option"
  rp_created_at :: timestamp

record ExecutionRollbackAction =
  ra_id :: uuid
  ra_execution_id :: uuid
  ra_target_checkpoint_id :: uuid
  ra_target_checkpoint_number :: nat
  ra_initiated_by :: "uuid option"
  ra_cost_delta_reversed :: pydict
  ra_status :: RollbackActionStatus
  ra_failure_reason :: "string option"
  ra_created_at :: timestamp

record ExecutionDispatchLease =
  dl_id :: uuid
  dl_execution_id :: uuid
  dl_step_id :: string
  dl_scheduler_worker_id :: string
  dl_acquired_at :: timestamp
  dl_expires_at :: timestamp
  dl_released_at :: "timestamp option"
  dl_expired :: bool

record ExecutionReasoningTraceRecord =
  tr_id :: uuid
  tr_execution_id :: uuid
  tr_step_id :: "string option"
  tr_technique :: string
  tr_storage_key :: string
  tr_step_count :: "int option"
  tr_status :: string
  tr_compute_budget_used :: "pyfloat option"
  tr_consensus_reached :: "bool option"
  tr_stabilized :: "bool option"
  tr_degradation_detected :: "bool option"
  tr_compute_budget_exhausted :: bool
  tr_effective_budget_scope :: "string option"
  tr_created_at :: timestamp

record ExecutionTaskPlanRecord =
  tp_id :: uuid
  tp_execution_id :: uuid
  tp_step_id :: string
  tp_selected_agent_fqn :: pyval
  tp_selected_tool_fqn :: pyval
  tp_rationale_summary :: "string option"
  tp_considered_agents_count :: nat
  tp_considered_tools_count :: nat
  tp_rejected_alternatives_count :: nat
  tp_parameter_sources :: "pyval list"
  tp_storage_key :: string
  tp_storage_size_bytes :: "nat option"
  tp_created_at :: timestamp

record ExecutionApprovalWait =
  aw_id :: uuid
  aw_execution_id :: uuid
  aw_step_id :: string
  aw_required_approvers :: "string list"
  aw_timeout_at :: timestamp
  aw_timeout_action :: ApprovalTimeoutAction
  aw_decision :: "ApprovalDecision option"
  aw_decided_by :: "string option"
  aw_decided_at :: "timestamp option"
  aw_interaction_message_id :: "uuid option"
  aw_created_at :: timestamp

record ExecutionCompensationRecord =
  cr_id :: uuid
  cr_execution_id :: uuid
  cr_step_id :: string
  cr_compensation_handler :: pyval
  cr_triggered_by :: string
  cr_outcome :: CompensationOutcome
  cr_error_detail :: "string option"
  cr_started_at :: timestamp
  cr_completed_at :: "timestamp option"

record WorkflowDefinition =
  wd_id :: uuid
  wd_workspace_id :: uuid
  wd_name :: string
  wd_description :: "string option"
  wd_status :: WorkflowStatus
  wd_current_version_id :: "uuid option"
  wd_schema_version :: int
  wd_tags :: "string list"
  wd_created_by :: "uuid option"
  wd_updated_by :: "uuid option"
  wd_created_at :: timestamp

record WorkflowVersion =
  wv_id :: uuid
  wv_definition_id :: uuid
  wv_version_number :: int
  wv_yaml_source :: string
  wv_compiled_ir :: pydict
  wv_schema_version :: int
  wv_change_summary :: "string option"
  wv_checkpoint_policy :: "pydict option"
  wv_created_by :: "uuid option"
  wv_is_valid :: bool
  wv_created_at :: timestamp

record WorkflowTriggerDefinition =
  wt_id :: uuid
  wt_definition_id :: uuid
  wt_trigger_type :: TriggerType
  wt_name :: string
  wt_is_active :: bool
  wt_config :: pydict
  wt_max_concurrent_executions :: "int option"
  wt_last_fired_at :: "timestamp option"
  wt_created_at :: timestamp

section \<open>Projected state\<close>

text \<open>The projector assigns \<open>workflow_version_id\<close> whatever the payload holds, so it is a
  value.\<close>

record ExecutionStateResponse =
  st_execution_id :: uuid
  st_status :: ExecutionStatus
  st_completed_step_ids :: "string list"
  st_active_step_ids :: "string list"
  st_pending_step_ids :: "string list"
  st_step_results :: pydict
  st_last_event_sequence :: nat
  st_workflow_version_id :: pyval

section \<open>Errors\<close>

definition ExecutionNotFoundError :: "uuid \<Rightarrow> exn" where
  "ExecutionNotFoundError eid =
     PlatformError ''EXECUTION_NOT_FOUND''
       (''Execution '' @ [CHR 0x27] @ eid @ [CHR 0x27] @ '' was not found'') []"

definition ExecutionAlreadyRunningError :: "uuid \<Rightarrow> exn" where
  "ExecutionAlreadyRunningError eid =
     PlatformError ''EXECUTION_ALREADY_RUNNING''
       (''Execution '' @ [CHR 0x27] @ eid @ [CHR 0x27] @ '' is already running'') []"

definition HotChangeIncompatibleError :: "string list \<Rightarrow> exn" where
  "HotChangeIncompatibleError found =
     PlatformError ''HOT_CHANGE_INCOMPATIBLE''
       ''Workflow version is not compatible with the active execution''
       [(''issues'', PList (map PStr found))]"

definition ApprovalAlreadyDecidedError :: "uuid \<Rightarrow> string \<Rightarrow> exn" where
  "ApprovalAlreadyDecidedError eid sid =
     PlatformError ''APPROVAL_ALREADY_DECIDED''
       (''Approval for execution '' @ [CHR 0x27] @ eid @ [CHR 0x27] @ '' step '' @ [CHR 0x27] @ sid @
        [CHR 0x27] @ '' was already decided'') []"

definition CheckpointSizeLimitExceededError :: "nat \<Rightarrow> int \<Rightarrow> exn" where
  "CheckpointSizeLimitExceededError nbytes limit =
     PlatformError ''CHECKPOINT_SIZE_LIMIT_EXCEEDED''
       ''Checkpoint snapshot exceeds the configured size limit''
       [(''size_bytes'', PInt (int nbytes)), (''limit_bytes'', PInt limit)]"

definition RollbackNotEligibleError :: "uuid \<Rightarrow> ExecutionStatus \<Rightarrow> exn" where
  "RollbackNotEligibleError eid status =
     PlatformError ''ROLLBACK_NOT_ELIGIBLE''
       (''Execution '' @ [CHR 0x27] @ eid @ [CHR 0x27] @ '' in status '' @ [CHR 0x27] @
        status_value status @ [CHR 0x27] @ '' cannot be rolled back'')
       [(''execution_id'', PStr eid), (''status'', PStr (status_value status))]"

definition CheckpointRetentionExpiredError :: "uuid \<Rightarrow> nat \<Rightarrow> exn" where
  "CheckpointRetentionExpiredError eid n =
     PlatformError ''CHECKPOINT_RETENTION_EXPIRED''
       (''Checkpoint '' @ [CHR 0x27] @ show_nat n @ [CHR 0x27] @ '' for execution '' @ [CHR 0x27] @ eid @
        [CHR 0x27] @ '' is outside the rollback retention window'')
       [(''execution_id'', PStr eid), (''checkpoint_number'', PInt (int n))]"

definition RollbackFailedError :: "uuid \<Rightarrow> nat \<Rightarrow> string \<Rightarrow> exn" where
  "RollbackFailedError eid n reason =
     PlatformError ''ROLLBACK_FAILED''
       (''Rollback for execution '' @ [CHR 0x27] @ eid @ [CHR 0x27] @ '' to checkpoint '' @ [CHR 0x27] @
        show_nat n @ [CHR 0x27] @ '' failed'')
       [(''execution_id'', PStr eid), (''checkpoint_number'', PInt (int n)), (''reason'', PStr reason)]"

definition CheckpointNotFoundError :: "uuid \<Rightarrow> nat \<Rightarrow> exn" where
  "CheckpointNotFoundError eid n =
     PlatformError ''CHECKPOINT_NOT_FOUND''
       (''Checkpoint '' @ [CHR 0x27] @ show_nat n @ [CHR 0x27] @ '' for execution '' @ [CHR 0x27] @ eid @
        [CHR 0x27] @ '' was not found'') []"

definition ReprioritizationTriggerNotFoundError :: "uuid \<Rightarrow> exn" where
  "ReprioritizationTriggerNotFoundError tid =
     PlatformError ''REPRIORITIZATION_TRIGGER_NOT_FOUND''
       (''Reprioritization trigger '' @ [CHR 0x27] @ tid @ [CHR 0x27] @ '' was not found'') []"

definition TraceNotFoundError :: "uuid \<Rightarrow> string option \<Rightarrow> exn" where
  "TraceNotFoundError eid sid =
     PlatformError ''TRACE_NOT_FOUND''
       (''No reasoning trace exists for execution '' @ [CHR 0x27] @ eid @ [CHR 0x27] @
        (case sid of None \<Rightarrow> [] | Some [] \<Rightarrow> []
         | Some s \<Rightarrow> '' step '' @ [CHR 0x27] @ s @ [CHR 0x27])) []"

definition TraceNotAvailableError :: "uuid \<Rightarrow> string \<Rightarrow> exn" where
  "TraceNotAvailableError eid key =
     PlatformError ''TRACE_NOT_AVAILABLE''
       (''Reasoning trace for execution '' @ [CHR 0x27] @ eid @ [CHR 0x27] @ '' is not available'')
       [(''execution_id'', PStr eid), (''storage_key'', PStr key)]"

definition WorkflowNotFoundError :: "string \<Rightarrow> exn" where
  "WorkflowNotFoundError wid =
     PlatformError ''WORKFLOW_NOT_FOUND''
       (''Workflow '' @ [CHR 0x27] @ wid @ [CHR 0x27] @ '' was not found'') []"

definition TriggerNotFoundError :: "uuid \<Rightarrow> exn" where
  "TriggerNotFoundError tid =
     PlatformError ''TRIGGER_NOT_FOUND''
       (''Trigger '' @ [CHR 0x27] @ tid @ [CHR 0x27] @ '' was not found'') []"

text \<open>\<open>ValidationError(code, message)\<close> and \<open>AuthorizationError(code, message)\<close>.\<close>

definition ValidationError :: "string \<Rightarrow> string \<Rightarrow> exn" where
  "ValidationError code msg = PlatformError code msg []"

definition AuthorizationError :: "string \<Rightarrow> string \<Rightarrow> exn" where
  "AuthorizationError code msg = PlatformError code msg []"

definition PolicySecretLeakError :: "string \<Rightarrow> exn" where
  "PolicySecretLeakError secret_type =
     PlatformError ''PROMPT_SECRET_DETECTED''
       (''Prompt preflight blocked secret pattern: '' @ secret_type)
       [(''secret_type'', PStr secret_type)]"

end
