(* ===== verification/Execution_Projector.thy ===== *)
theory Execution_Projector
  imports Execution_Model
begin

text \<open>
  execution/projector.py: the fold of an execution's journal into its current state. Each
  \<open>_apply_*\<close> handler is a function on the projected state that may raise; the dispatch on the
  event type, by attribute name in the code, is total here because the enumeration has a handler for
  every member. A projection is modelled as a value: the nested dictionaries of a checkpoint or a
  payload that the code shares with the state are copied.

  The theory proves that projection is compositional (a checkpoint of a prefix and the remaining
  events give the state of the whole journal), that the step lists stay duplicate-free and disjoint
  for the event sequences the services write, and that a rollback event restores the checkpoint.
\<close>

section \<open>Helpers\<close>

definition dedupe :: "string list \<Rightarrow> string list" where
  "dedupe vs = dedupe_from {} vs"

definition move_to_active :: "ExecutionStateResponse \<Rightarrow> string option \<Rightarrow> ExecutionStateResponse" where
  "move_to_active st sid_opt =
     (case sid_opt of
        None \<Rightarrow> st
      | Some sid \<Rightarrow>
          st\<lparr>st_active_step_ids :=
               (if sid \<in> set (st_active_step_ids st) then st_active_step_ids st
                else st_active_step_ids st @ [sid]),
             st_pending_step_ids := remove1 sid (st_pending_step_ids st)\<rparr>)"

definition remove_active :: "ExecutionStateResponse \<Rightarrow> string option \<Rightarrow> ExecutionStateResponse" where
  "remove_active st sid_opt =
     (case sid_opt of
        None \<Rightarrow> st
      | Some sid \<Rightarrow> st\<lparr>st_active_step_ids := remove1 sid (st_active_step_ids st)\<rparr>)"

definition mark_completed ::
  "ExecutionStateResponse \<Rightarrow> string \<Rightarrow> pydict \<Rightarrow> ExecutionStateResponse" where
  "mark_completed st sid payload =
     (let st1 = remove_active st (Some sid)
      in st1\<lparr>st_pending_step_ids := remove1 sid (st_pending_step_ids st1),
             st_completed_step_ids :=
               (if sid \<in> set (st_completed_step_ids st1) then st_completed_step_ids st1
                else st_completed_step_ids st1 @ [sid]),
             st_step_results :=
               sset (st_step_results st1) sid
                 (PDict (dict_setdefault payload ''status'' (PStr ''completed'')))\<rparr>)"

definition set_status :: "ExecutionStateResponse \<Rightarrow> ExecutionStatus \<Rightarrow> ExecutionStateResponse" where
  "set_status st s = st\<lparr>st_status := s\<rparr>"

text \<open>\<open>state.step_results[step_id] = {"status": s, **dict(event.payload)}\<close>.\<close>

definition put_result ::
  "ExecutionStateResponse \<Rightarrow> string option \<Rightarrow> string \<Rightarrow> pydict \<Rightarrow> ExecutionStateResponse" where
  "put_result st sid_opt s payload =
     (case sid_opt of
        None \<Rightarrow> st
      | Some sid \<Rightarrow>
          st\<lparr>st_step_results :=
               sset (st_step_results st) sid
                 (PDict (dict_update [(PStr ''status'', PStr s)] payload))\<rparr>)"

text \<open>\<open>[str(item) for item in payload.get(key, [])]\<close>.\<close>

definition str_list :: "py_runtime \<Rightarrow> pydict \<Rightarrow> string \<Rightarrow> string list py" where
  "str_list rt payload key =
     rbind (py_iter (dget_or payload key (PList []))) (\<lambda>vs. Inr (map (py_str rt) vs))"

definition set_version :: "ExecutionStateResponse \<Rightarrow> pyval \<Rightarrow> ExecutionStateResponse" where
  "set_version st v = (if v = PNone then st else st\<lparr>st_workflow_version_id := v\<rparr>)"

section \<open>Handlers\<close>

definition apply_created ::
  "py_runtime \<Rightarrow> ExecutionStateResponse \<Rightarrow> ExecutionEvent \<Rightarrow> ExecutionStateResponse py" where
  "apply_created rt st ev =
     (let payload = ev_payload ev in
      rbind (str_list rt payload ''all_step_ids'') (\<lambda>all_step_ids.
      rbind (str_list rt payload ''precompleted_step_ids'') (\<lambda>precompleted.
      rbind (py_dict (dget_or payload ''step_results'' (PDict []))) (\<lambda>results.
      Inr (set_status
        (set_version
          (st\<lparr>st_completed_step_ids := dedupe precompleted,
              st_active_step_ids := [],
              st_pending_step_ids := filter (\<lambda>s. s \<notin> set precompleted) all_step_ids,
              st_step_results := dict_update (st_step_results st) results\<rparr>)
          (dget_none payload ''workflow_version_id''))
        ES_queued)))))"

definition apply_queued :: "ExecutionStateResponse \<Rightarrow> ExecutionStateResponse" where
  "apply_queued st = set_status st ES_queued"

definition apply_dispatched ::
  "ExecutionStateResponse \<Rightarrow> ExecutionEvent \<Rightarrow> ExecutionStateResponse" where
  "apply_dispatched st ev = set_status (move_to_active st (ev_step_id ev)) ES_running"

definition apply_runtime_started ::
  "ExecutionStateResponse \<Rightarrow> ExecutionEvent \<Rightarrow> ExecutionStateResponse" where
  "apply_runtime_started st ev = set_status (move_to_active st (ev_step_id ev)) ES_running"

definition apply_sandbox_requested ::
  "ExecutionStateResponse \<Rightarrow> ExecutionEvent \<Rightarrow> ExecutionStateResponse" where
  "apply_sandbox_requested st ev = set_status (move_to_active st (ev_step_id ev)) ES_running"

definition apply_waiting_for_approval ::
  "ExecutionStateResponse \<Rightarrow> ExecutionEvent \<Rightarrow> ExecutionStateResponse" where
  "apply_waiting_for_approval st ev =
     set_status (move_to_active st (ev_step_id ev)) ES_waiting_for_approval"

definition apply_approved ::
  "ExecutionStateResponse \<Rightarrow> ExecutionEvent \<Rightarrow> ExecutionStateResponse" where
  "apply_approved st ev =
     (let st1 = set_status (remove_active st (ev_step_id ev)) ES_running
      in case ev_step_id ev of None \<Rightarrow> st1 | Some sid \<Rightarrow> mark_completed st1 sid (ev_payload ev))"

definition apply_rejected ::
  "ExecutionStateResponse \<Rightarrow> ExecutionEvent \<Rightarrow> ExecutionStateResponse" where
  "apply_rejected st ev =
     put_result (set_status (remove_active st (ev_step_id ev)) ES_failed)
       (ev_step_id ev) ''rejected'' (ev_payload ev)"

definition apply_approval_timed_out ::
  "ExecutionStateResponse \<Rightarrow> ExecutionEvent \<Rightarrow> ExecutionStateResponse" where
  "apply_approval_timed_out st ev =
     (let action = dget_or (ev_payload ev) ''timeout_action'' (PStr ''fail'')
      in put_result
           (set_status (remove_active st (ev_step_id ev))
              (if action = PStr ''fail'' then ES_failed else ES_running))
           (ev_step_id ev) ''approval_timed_out'' (ev_payload ev))"

definition apply_resumed :: "ExecutionStateResponse \<Rightarrow> ExecutionStateResponse" where
  "apply_resumed st = set_status st ES_queued"

definition apply_retried ::
  "ExecutionStateResponse \<Rightarrow> ExecutionEvent \<Rightarrow> ExecutionStateResponse" where
  "apply_retried st ev = set_status (move_to_active st (ev_step_id ev)) ES_running"

definition apply_completed ::
  "ExecutionStateResponse \<Rightarrow> ExecutionEvent \<Rightarrow> ExecutionStateResponse" where
  "apply_completed st ev =
     (let st1 = (case ev_step_id ev of None \<Rightarrow> st
                 | Some sid \<Rightarrow> mark_completed st sid (ev_payload ev))
      in if dget_none (ev_payload ev) ''execution_completed'' = PBool True
         then set_status st1 ES_completed
         else if st_status st1 \<noteq> ES_completed then set_status st1 ES_running
         else st1)"

definition apply_failed ::
  "ExecutionStateResponse \<Rightarrow> ExecutionEvent \<Rightarrow> ExecutionStateResponse" where
  "apply_failed st ev =
     set_status
       (put_result (remove_active st (ev_step_id ev)) (ev_step_id ev) ''failed'' (ev_payload ev))
       ES_failed"

definition apply_canceled ::
  "ExecutionStateResponse \<Rightarrow> ExecutionEvent \<Rightarrow> ExecutionStateResponse" where
  "apply_canceled st ev = set_status (remove_active st (ev_step_id ev)) ES_canceled"

definition apply_compensated ::
  "ExecutionStateResponse \<Rightarrow> ExecutionEvent \<Rightarrow> ExecutionStateResponse" where
  "apply_compensated st ev =
     set_status (put_result st (ev_step_id ev) ''compensated'' (ev_payload ev)) ES_running"

definition apply_compensation_failed ::
  "ExecutionStateResponse \<Rightarrow> ExecutionEvent \<Rightarrow> ExecutionStateResponse" where
  "apply_compensation_failed st ev =
     set_status (put_result st (ev_step_id ev) ''compensation_failed'' (ev_payload ev)) ES_failed"

definition apply_hot_changed ::
  "ExecutionStateResponse \<Rightarrow> ExecutionEvent \<Rightarrow> ExecutionStateResponse" where
  "apply_hot_changed st ev = set_version st (dget_none (ev_payload ev) ''new_version_id'')"

text \<open>\<open>setdefault(step_id, {}).update(...)\<close>: a value that is no dictionary has no
  \<open>update\<close>.\<close>

definition apply_context_assembled ::
  "ExecutionStateResponse \<Rightarrow> ExecutionEvent \<Rightarrow> ExecutionStateResponse py" where
  "apply_context_assembled st ev =
     (case ev_step_id ev of
        None \<Rightarrow> Inr st
      | Some sid \<Rightarrow>
          (case dget_or (st_step_results st) sid (PDict []) of
             PDict d \<Rightarrow>
               Inr (st\<lparr>st_step_results :=
                        sset (st_step_results st) sid
                          (PDict (sset d ''context'' (PDict (ev_payload ev))))\<rparr>)
           | _ \<Rightarrow> Inl AttributeError))"

definition apply_reprioritized ::
  "ExecutionStateResponse \<Rightarrow> ExecutionEvent \<Rightarrow> ExecutionStateResponse py" where
  "apply_reprioritized st ev =
     (case dget_or (st_step_results st) ''_reprioritization'' (PList []) of
        PList xs \<Rightarrow>
          Inr (st\<lparr>st_step_results :=
                   sset (st_step_results st) ''_reprioritization''
                     (PList (xs @ [PDict (ev_payload ev)]))\<rparr>)
      | _ \<Rightarrow> Inl AttributeError)"

definition apply_rolled_back ::
  "py_runtime \<Rightarrow> ExecutionStateResponse \<Rightarrow> ExecutionEvent \<Rightarrow> ExecutionStateResponse py" where
  "apply_rolled_back rt st ev =
     (let payload = ev_payload ev in
      rbind (str_list rt payload ''completed_step_ids'') (\<lambda>completed.
      rbind (str_list rt payload ''pending_step_ids'') (\<lambda>pending.
      rbind (str_list rt payload ''active_step_ids'') (\<lambda>active.
      rbind (py_dict (dget_or payload ''step_results'' (PDict []))) (\<lambda>results.
      Inr (set_status
        (set_version
          (st\<lparr>st_completed_step_ids := dedupe completed,
              st_pending_step_ids := dedupe pending,
              st_active_step_ids := dedupe active,
              st_step_results := results\<rparr>)
          (dget_none payload ''workflow_version_id''))
        ES_rolled_back))))))"

section \<open>Projection\<close>

definition apply_event ::
  "py_runtime \<Rightarrow> ExecutionStateResponse \<Rightarrow> ExecutionEvent \<Rightarrow> ExecutionStateResponse py" where
  "apply_event rt st ev =
     (case ev_event_type ev of
        EV_created \<Rightarrow> apply_created rt st ev
      | EV_queued \<Rightarrow> Inr (apply_queued st)
      | EV_dispatched \<Rightarrow> Inr (apply_dispatched st ev)
      | EV_runtime_started \<Rightarrow> Inr (apply_runtime_started st ev)
      | EV_sandbox_requested \<Rightarrow> Inr (apply_sandbox_requested st ev)
      | EV_waiting_for_approval \<Rightarrow> Inr (apply_waiting_for_approval st ev)
      | EV_approved \<Rightarrow> Inr (apply_approved st ev)
      | EV_rejected \<Rightarrow> Inr (apply_rejected st ev)
      | EV_approval_timed_out \<Rightarrow> Inr (apply_approval_timed_out st ev)
      | EV_resumed \<Rightarrow> Inr (apply_resumed st)
      | EV_retried \<Rightarrow> Inr (apply_retried st ev)
      | EV_completed \<Rightarrow> Inr (apply_completed st ev)
      | EV_failed \<Rightarrow> Inr (apply_failed st ev)
      | EV_canceled \<Rightarrow> Inr (apply_canceled st ev)
      | EV_compensated \<Rightarrow> Inr (apply_compensated st ev)
      | EV_compensation_failed \<Rightarrow> Inr (apply_compensation_failed st ev)
      | EV_hot_changed \<Rightarrow> Inr (apply_hot_changed st ev)
      | EV_reasoning_trace_emitted \<Rightarrow> Inr st
      | EV_self_correction_started \<Rightarrow> Inr st
      | EV_self_correction_converged \<Rightarrow> Inr st
      | EV_context_assembled \<Rightarrow> apply_context_assembled st ev
      | EV_reprioritized \<Rightarrow> apply_reprioritized st ev
      | EV_rolled_back \<Rightarrow> apply_rolled_back rt st ev)"

text \<open>One round of the loop: the identity and the sequence are taken from the event before its
  handler runs.\<close>

definition project_step ::
  "py_runtime \<Rightarrow> ExecutionEvent \<Rightarrow> ExecutionStateResponse \<Rightarrow> ExecutionStateResponse py" where
  "project_step rt ev st =
     apply_event rt (st\<lparr>st_execution_id := ev_execution_id ev, st_last_event_sequence := ev_sequence ev\<rparr>) ev"

definition initial_state ::
  "uuid \<Rightarrow> ExecutionCheckpoint option \<Rightarrow> ExecutionStateResponse" where
  "initial_state eid checkpoint =
     (case checkpoint of
        None \<Rightarrow>
          \<lparr>st_execution_id = eid, st_status = ES_queued, st_completed_step_ids = [],
           st_active_step_ids = [], st_pending_step_ids = [], st_step_results = [],
           st_last_event_sequence = 0, st_workflow_version_id = PNone\<rparr>
      | Some cp \<Rightarrow>
          \<lparr>st_execution_id = eid, st_status = ES_queued,
           st_completed_step_ids = cp_completed_step_ids cp,
           st_active_step_ids = cp_active_step_ids cp,
           st_pending_step_ids = cp_pending_step_ids cp,
           st_step_results =
             (if cp_execution_data cp = [] then cp_step_results cp
              else dict_setdefault (cp_step_results cp) ''_execution_data'' (PDict (cp_execution_data cp))),
           st_last_event_sequence = cp_last_event_sequence cp, st_workflow_version_id = PNone\<rparr>)"

definition project_state ::
  "py_runtime \<Rightarrow> ExecutionEvent list \<Rightarrow> ExecutionCheckpoint option \<Rightarrow> ExecutionStateResponse py" where
  "project_state rt evs checkpoint =
     (case (evs, checkpoint) of
        ([], None) \<Rightarrow> Inl AttributeError
      | ([], Some cp) \<Rightarrow> Inr (initial_state (cp_execution_id cp) checkpoint)
      | (_ # _, _) \<Rightarrow>
          rfold (project_step rt) evs (initial_state (ev_execution_id (last evs)) checkpoint))"

lemma project_state_nonempty:
  "evs \<noteq> [] \<Longrightarrow> project_state rt evs checkpoint =
     rfold (project_step rt) evs (initial_state (ev_execution_id (last evs)) checkpoint)"
  by (cases evs) (simp_all add: project_state_def)

lemma set_version_sel [simp]:
  "st_completed_step_ids (set_version st v) = st_completed_step_ids st"
  "st_active_step_ids (set_version st v) = st_active_step_ids st"
  "st_pending_step_ids (set_version st v) = st_pending_step_ids st"
  "st_step_results (set_version st v) = st_step_results st"
  by (simp_all add: set_version_def)

lemma set_status_sel [simp]:
  "st_completed_step_ids (set_status st s) = st_completed_step_ids st"
  "st_active_step_ids (set_status st s) = st_active_step_ids st"
  "st_pending_step_ids (set_status st s) = st_pending_step_ids st"
  "st_step_results (set_status st s) = st_step_results st"
  "st_status (set_status st s) = s"
  by (simp_all add: set_status_def)

section \<open>The part of the state the handlers read\<close>

text \<open>Handlers read the step lists and the results. Two states that agree on these stay in
  agreement, whatever their status, version or position.\<close>

definition same_core :: "ExecutionStateResponse \<Rightarrow> ExecutionStateResponse \<Rightarrow> bool" where
  "same_core a b \<longleftrightarrow>
     st_completed_step_ids a = st_completed_step_ids b \<and>
     st_active_step_ids a = st_active_step_ids b \<and>
     st_pending_step_ids a = st_pending_step_ids b \<and>
     st_step_results a = st_step_results b"

lemmas handler_defs =
  apply_created_def apply_queued_def apply_dispatched_def apply_runtime_started_def
  apply_sandbox_requested_def apply_waiting_for_approval_def apply_approved_def apply_rejected_def
  apply_approval_timed_out_def apply_resumed_def apply_retried_def apply_completed_def
  apply_failed_def apply_canceled_def apply_compensated_def apply_compensation_failed_def
  apply_hot_changed_def apply_context_assembled_def apply_reprioritized_def apply_rolled_back_def

lemmas helper_defs = set_status_def set_version_def move_to_active_def remove_active_def
  mark_completed_def put_result_def Let_def

lemma same_core_refl [simp]: "same_core a a"
  by (simp add: same_core_def)

lemma same_core_sym: "same_core a b \<Longrightarrow> same_core b a"
  by (simp add: same_core_def)

lemma same_core_trans: "same_core a b \<Longrightarrow> same_core b c \<Longrightarrow> same_core a c"
  by (simp add: same_core_def)

lemma same_core_update [simp]:
  "same_core (a\<lparr>st_execution_id := e, st_last_event_sequence := n\<rparr>) b \<longleftrightarrow> same_core a b"
  "same_core a (b\<lparr>st_execution_id := e, st_last_event_sequence := n\<rparr>) \<longleftrightarrow> same_core a b"
  by (simp_all add: same_core_def)

lemma same_core_helpers:
  assumes "same_core a b"
  shows "same_core (set_status a s) (set_status b s')"
    and "same_core (set_version a v) (set_version b v)"
    and "same_core (move_to_active a sid) (move_to_active b sid)"
    and "same_core (remove_active a sid) (remove_active b sid)"
    and "same_core (mark_completed a i p) (mark_completed b i p)"
    and "same_core (put_result a sid t p) (put_result b sid t p)"
  using assms by (auto simp: same_core_def helper_defs split: option.splits)

lemma same_core_set_status [simp]:
  "same_core (set_status a s) b \<longleftrightarrow> same_core a b" "same_core a (set_status b s) \<longleftrightarrow> same_core a b"
  by (simp_all add: same_core_def set_status_def)

lemma apply_simple_core:
  assumes "same_core a b"
  shows "same_core (apply_approved a ev) (apply_approved b ev)"
    and "same_core (apply_completed a ev) (apply_completed b ev)"
  using assms
  by (auto simp: apply_approved_def apply_completed_def Let_def same_core_helpers split: option.splits)

lemma apply_created_core:
  "same_core a b \<Longrightarrow> rel_sum (=) same_core (apply_created rt a ev) (apply_created rt b ev)"
  by (cases "str_list rt (ev_payload ev) ''all_step_ids''";
      cases "str_list rt (ev_payload ev) ''precompleted_step_ids''";
      cases "py_dict (dget_or (ev_payload ev) ''step_results'' (PDict []))")
    (auto simp: apply_created_def Let_def same_core_def set_version_def set_status_def)

lemma apply_rolled_back_core:
  "rel_sum (=) same_core (apply_rolled_back rt a ev) (apply_rolled_back rt b ev)"
  by (cases "str_list rt (ev_payload ev) ''completed_step_ids''";
      cases "str_list rt (ev_payload ev) ''pending_step_ids''";
      cases "str_list rt (ev_payload ev) ''active_step_ids''";
      cases "py_dict (dget_or (ev_payload ev) ''step_results'' (PDict []))")
    (auto simp: apply_rolled_back_def Let_def same_core_def set_version_def set_status_def)

lemma apply_results_core:
  assumes "same_core a b"
  shows "rel_sum (=) same_core (apply_context_assembled a ev) (apply_context_assembled b ev)"
    and "rel_sum (=) same_core (apply_reprioritized a ev) (apply_reprioritized b ev)"
  using assms
  by (auto simp: apply_context_assembled_def apply_reprioritized_def same_core_def
      split: option.splits pyval.splits)

lemma apply_event_core:
  assumes "same_core a b"
  shows "rel_sum (=) same_core (apply_event rt a ev) (apply_event rt b ev)"
  using assms apply_created_core [OF assms] apply_rolled_back_core [of rt a ev b]
    apply_results_core [OF assms] apply_simple_core [OF assms]
  by (cases "ev_event_type ev")
    (simp_all add: apply_event_def same_core_helpers apply_queued_def apply_dispatched_def
      apply_runtime_started_def apply_sandbox_requested_def apply_waiting_for_approval_def
      apply_rejected_def apply_approval_timed_out_def apply_resumed_def apply_retried_def
      apply_failed_def apply_canceled_def apply_compensated_def apply_compensation_failed_def
      apply_hot_changed_def Let_def)

lemma project_step_core:
  "same_core a b \<Longrightarrow> rel_sum (=) same_core (project_step rt ev a) (project_step rt ev b)"
  by (simp add: project_step_def apply_event_core)

lemma project_fold_core:
  "same_core a b \<Longrightarrow>
   rel_sum (=) same_core (rfold (project_step rt) evs a) (rfold (project_step rt) evs b)"
proof (induction evs arbitrary: a b)
  case Nil
  then show ?case by simp
next
  case (Cons ev evs)
  from project_step_core [OF Cons.prems, of rt ev] Cons.IH show ?case
    by (cases "project_step rt ev a"; cases "project_step rt ev b") auto
qed

text \<open>The position a projection ends at is that of its last event.\<close>

lemma apply_event_position:
  assumes "apply_event rt st ev = Inr st'"
  shows "st_execution_id st' = st_execution_id st \<and>
    st_last_event_sequence st' = st_last_event_sequence st"
  using assms
  by (cases "ev_event_type ev")
    (auto simp: apply_event_def handler_defs helper_defs rbind_eq_Inr split: option.splits
      pyval.splits if_splits)

lemma project_step_position:
  "project_step rt ev st = Inr st' \<Longrightarrow>
   st_execution_id st' = ev_execution_id ev \<and> st_last_event_sequence st' = ev_sequence ev"
  by (auto simp: project_step_def dest: apply_event_position)

lemma project_fold_position:
  "rfold (project_step rt) evs st = Inr st' \<Longrightarrow>
   (evs = [] \<longrightarrow> st' = st) \<and>
   (evs \<noteq> [] \<longrightarrow> st_execution_id st' = ev_execution_id (last evs) \<and>
      st_last_event_sequence st' = ev_sequence (last evs))"
proof (induction evs arbitrary: st)
  case Nil
  then show ?case by simp
next
  case (Cons ev evs)
  then obtain s1 where s1: "project_step rt ev st = Inr s1" "rfold (project_step rt) evs s1 = Inr st'"
    by (auto split: sum.splits)
  with Cons.IH [OF s1(2)] project_step_position [OF s1(1)] show ?case by (cases evs) auto
qed

section \<open>Checkpoints\<close>

text \<open>A checkpoint is faithful to a journal prefix when it holds the lists and results the prefix
  projects to. An execution's checkpoint copies \<open>_execution_data\<close> out of the results, so loading
  it adds nothing.\<close>

definition checkpoint_of :: "py_runtime \<Rightarrow> ExecutionEvent list \<Rightarrow> ExecutionCheckpoint \<Rightarrow> bool" where
  "checkpoint_of rt prefix cp \<longleftrightarrow>
     (\<exists>st. rfold (project_step rt) prefix (initial_state (cp_execution_id cp) None) = Inr st \<and>
        same_core st (initial_state (cp_execution_id cp) (Some cp)))"

lemma initial_state_core [simp]:
  "same_core (initial_state e None) (initial_state e' None)"
  "same_core (initial_state e (Some cp)) (initial_state e' (Some cp))"
  by (simp_all add: same_core_def initial_state_def)

lemma rel_sum_Inr: "rel_sum (=) R (Inr a) y \<Longrightarrow> \<exists>b. y = Inr b \<and> R a b"
  by (cases y) auto

text \<open>What replaces the status and the version after a projection, as both readers do.\<close>

definition stamp :: "ExecutionStatus \<Rightarrow> pyval \<Rightarrow> ExecutionStateResponse \<Rightarrow> ExecutionStateResponse" where
  "stamp s v st = st\<lparr>st_workflow_version_id := v, st_status := s\<rparr>"

lemma stamp_eqI:
  assumes "same_core a b" and "st_execution_id a = st_execution_id b"
    and "st_last_event_sequence a = st_last_event_sequence b"
  shows "stamp s v a = stamp s v b"
  using assms by (simp add: stamp_def same_core_def)

lemma checkpoint_resume:
  assumes cp: "checkpoint_of rt prefix cp"
    and ids: "\<forall>ev \<in> set (prefix @ suffix). ev_execution_id ev = cp_execution_id cp"
    and pos: "prefix \<noteq> []" "ev_sequence (last prefix) = cp_last_event_sequence cp"
  shows "rel_sum (=) (\<lambda>a b. stamp s v a = stamp s v b)
    (project_state rt suffix (Some cp)) (project_state rt (prefix @ suffix) None)"
proof -
  let ?e = "cp_execution_id cp"
  from cp obtain st where
    st: "rfold (project_step rt) prefix (initial_state ?e None) = Inr st"
    and core: "same_core st (initial_state ?e (Some cp))" by (auto simp: checkpoint_of_def)
  have ne: "prefix @ suffix \<noteq> []" using pos(1) by simp
  have "last (prefix @ suffix) \<in> set (prefix @ suffix)" using ne by (rule last_in_set)
  with ids have e: "ev_execution_id (last (prefix @ suffix)) = ?e" by blast
  have whole: "project_state rt (prefix @ suffix) None = rfold (project_step rt) suffix st"
    using e st by (simp add: project_state_nonempty [OF ne] rfold_append)
  show ?thesis
  proof (cases suffix)
    case Nil
    have "last prefix \<in> set prefix" using pos(1) by (rule last_in_set)
    with project_fold_position [OF st] pos ids
    have "st_execution_id st = ?e" "st_last_event_sequence st = cp_last_event_sequence cp" by auto
    then show ?thesis using core whole Nil
      by (auto simp: project_state_def initial_state_def same_core_def stamp_def)
  next
    case (Cons ev evs)
    let ?i = "initial_state (ev_execution_id (last suffix)) (Some cp)"
    have part: "project_state rt suffix (Some cp) = rfold (project_step rt) suffix ?i"
      using Cons by (simp add: project_state_def)
    have "same_core ?i st" using core by (auto simp: same_core_def initial_state_def)
    from project_fold_core [OF this, of rt suffix] show ?thesis
      unfolding whole part using Cons
      by (cases "rfold (project_step rt) suffix ?i"; cases "rfold (project_step rt) suffix st")
        (auto intro!: stamp_eqI dest!: project_fold_position simp del: rfold.simps)
  qed
qed

section \<open>Step lists\<close>

definition lists_ok :: "ExecutionStateResponse \<Rightarrow> bool" where
  "lists_ok st \<longleftrightarrow>
     distinct (st_completed_step_ids st) \<and> distinct (st_active_step_ids st) \<and>
     distinct (st_pending_step_ids st) \<and>
     set (st_completed_step_ids st) \<inter> set (st_active_step_ids st) = {} \<and>
     set (st_completed_step_ids st) \<inter> set (st_pending_step_ids st) = {} \<and>
     set (st_active_step_ids st) \<inter> set (st_pending_step_ids st) = {}"

definition activating :: "ExecutionEventType \<Rightarrow> bool" where
  "activating t \<longleftrightarrow> t \<in> {EV_dispatched, EV_runtime_started, EV_sandbox_requested,
     EV_waiting_for_approval, EV_retried}"

text \<open>The events the services write: a creation lists each step once, a step that starts is not
  completed, and a rollback carries the lists of a checkpoint, which are a state's.\<close>

definition event_ok :: "py_runtime \<Rightarrow> ExecutionStateResponse \<Rightarrow> ExecutionEvent \<Rightarrow> bool" where
  "event_ok rt st ev \<longleftrightarrow>
     (ev_event_type ev = EV_created \<longrightarrow>
        (\<forall>ids. str_list rt (ev_payload ev) ''all_step_ids'' = Inr ids \<longrightarrow> distinct ids)) \<and>
     (activating (ev_event_type ev) \<longrightarrow>
        (\<forall>sid. ev_step_id ev = Some sid \<longrightarrow> sid \<notin> set (st_completed_step_ids st))) \<and>
     (ev_event_type ev = EV_rolled_back \<longrightarrow>
        (\<forall>c a p. str_list rt (ev_payload ev) ''completed_step_ids'' = Inr c \<longrightarrow>
           str_list rt (ev_payload ev) ''active_step_ids'' = Inr a \<longrightarrow>
           str_list rt (ev_payload ev) ''pending_step_ids'' = Inr p \<longrightarrow>
           set c \<inter> set a = {} \<and> set c \<inter> set p = {} \<and> set a \<inter> set p = {}))"

lemma set_dedupe [simp]: "set (dedupe xs) = set xs"
  by (simp add: dedupe_def set_dedupe_from)

lemma distinct_dedupe [simp]: "distinct (dedupe xs)"
  by (simp add: dedupe_def distinct_dedupe_from)

lemma dedupe_distinct [simp]: "distinct xs \<Longrightarrow> dedupe xs = xs"
  by (simp add: dedupe_def dedupe_from_distinct)

lemma lists_ok_helpers:
  assumes "lists_ok st"
  shows "lists_ok (set_status st s)"
    and "lists_ok (set_version st v)"
    and "lists_ok (put_result st sid t p)"
    and "lists_ok (remove_active st sid)"
    and "lists_ok (mark_completed st i p)"
    and "\<forall>i. sid = Some i \<longrightarrow> i \<notin> set (st_completed_step_ids st) \<Longrightarrow> lists_ok (move_to_active st sid)"
  using assms
  by (auto simp: lists_ok_def helper_defs dest: notin_set_remove1 in_set_remove1 split: option.splits)

lemma lists_ok_cong:
  "st_completed_step_ids a = st_completed_step_ids b \<Longrightarrow> st_active_step_ids a = st_active_step_ids b \<Longrightarrow>
   st_pending_step_ids a = st_pending_step_ids b \<Longrightarrow> lists_ok a \<longleftrightarrow> lists_ok b"
  by (simp add: lists_ok_def)

lemma lists_ok_created:
  assumes "apply_created rt st ev = Inr st'"
    and "\<And>ids. str_list rt (ev_payload ev) ''all_step_ids'' = Inr ids \<Longrightarrow> distinct ids"
  shows "lists_ok st'"
  using assms
  by (auto simp: apply_created_def rbind_eq_Inr lists_ok_def Let_def)

lemma lists_ok_rolled_back:
  assumes "apply_rolled_back rt st ev = Inr st'"
    and "event_ok rt st ev" and "ev_event_type ev = EV_rolled_back"
  shows "lists_ok st'"
  using assms
  by (auto simp: apply_rolled_back_def rbind_eq_Inr lists_ok_def Let_def event_ok_def)

lemma lists_ok_results:
  assumes "lists_ok st"
  shows "apply_context_assembled st ev = Inr st' \<Longrightarrow> lists_ok st'"
    and "apply_reprioritized st ev = Inr st' \<Longrightarrow> lists_ok st'"
  using assms
  by (auto simp: apply_context_assembled_def apply_reprioritized_def lists_ok_def
      split: option.splits pyval.splits)

lemma lists_ok_apply:
  assumes ok: "lists_ok st" and ev: "event_ok rt st ev" and a: "apply_event rt st ev = Inr st'"
  shows "lists_ok st'"
proof (cases "ev_event_type ev \<in> {EV_created, EV_rolled_back, EV_context_assembled, EV_reprioritized}")
  case True
  then consider "ev_event_type ev = EV_created" | "ev_event_type ev = EV_rolled_back"
    | "ev_event_type ev = EV_context_assembled" | "ev_event_type ev = EV_reprioritized" by blast
  then show ?thesis
  proof cases
    case 1
    with a have "apply_created rt st ev = Inr st'" by (simp add: apply_event_def)
    then show ?thesis by (rule lists_ok_created) (use ev 1 in \<open>simp add: event_ok_def\<close>)
  next
    case 2
    with a have "apply_rolled_back rt st ev = Inr st'" by (simp add: apply_event_def)
    then show ?thesis using ev 2 by (rule lists_ok_rolled_back)
  next
    case 3
    with a show ?thesis by (simp add: apply_event_def lists_ok_results(1) [OF ok])
  next
    case 4
    with a show ?thesis by (simp add: apply_event_def lists_ok_results(2) [OF ok])
  qed
next
  case False
  have act: "activating (ev_event_type ev) \<Longrightarrow>
      \<forall>i. ev_step_id ev = Some i \<longrightarrow> i \<notin> set (st_completed_step_ids st)"
    using ev by (auto simp: event_ok_def)
  show ?thesis
    using False a ok act
    by (cases "ev_event_type ev")
      (auto simp: apply_event_def activating_def lists_ok_helpers apply_queued_def apply_dispatched_def
        apply_runtime_started_def apply_sandbox_requested_def apply_waiting_for_approval_def
        apply_approved_def apply_completed_def
        apply_rejected_def apply_approval_timed_out_def apply_resumed_def apply_retried_def
        apply_failed_def apply_canceled_def apply_compensated_def apply_compensation_failed_def
        apply_hot_changed_def Let_def split: option.splits)
qed

text \<open>A journal in which every event is one the services write at that point.\<close>

fun journal_ok :: "py_runtime \<Rightarrow> ExecutionStateResponse \<Rightarrow> ExecutionEvent list \<Rightarrow> bool" where
  "journal_ok rt st [] = True"
| "journal_ok rt st (ev # evs) =
     (event_ok rt st ev \<and> (\<forall>st'. project_step rt ev st = Inr st' \<longrightarrow> journal_ok rt st' evs))"

lemma event_ok_position [simp]:
  "event_ok rt (st\<lparr>st_execution_id := e, st_last_event_sequence := n\<rparr>) ev \<longleftrightarrow> event_ok rt st ev"
  by (simp add: event_ok_def)

lemma lists_ok_position [simp]:
  "lists_ok (st\<lparr>st_execution_id := e, st_last_event_sequence := n\<rparr>) \<longleftrightarrow> lists_ok st"
  by (simp add: lists_ok_def)

lemma lists_ok_fold:
  "lists_ok st \<Longrightarrow> journal_ok rt st evs \<Longrightarrow> rfold (project_step rt) evs st = Inr st' \<Longrightarrow> lists_ok st'"
proof (induction evs arbitrary: st)
  case Nil
  then show ?case by simp
next
  case (Cons ev evs)
  from Cons.prems(3) obtain s1 where
    s1: "project_step rt ev st = Inr s1" "rfold (project_step rt) evs s1 = Inr st'"
    by (auto split: sum.splits)
  from Cons.prems(2) have "event_ok rt st ev" by simp
  with Cons.prems(1) have "lists_ok s1"
    by (intro lists_ok_apply [OF _ _ s1(1) [unfolded project_step_def]]) simp_all
  moreover have "journal_ok rt s1 evs" using Cons.prems(2) s1(1) by simp
  ultimately show ?case using s1(2) by (rule Cons.IH)
qed

text \<open>What a rollback event leaves.\<close>

lemma apply_rolled_back_restores:
  assumes "dget p ''completed_step_ids'' = Some (PList (map PStr c))"
    and "dget p ''pending_step_ids'' = Some (PList (map PStr n))"
    and "dget p ''active_step_ids'' = Some (PList (map PStr a))"
    and "dget p ''step_results'' = Some (PDict r)"
    and "ev_payload ev = p" "distinct c" "distinct n" "distinct a"
  shows "\<exists>st'. apply_rolled_back rt st ev = Inr st' \<and> st_completed_step_ids st' = c \<and>
    st_pending_step_ids st' = n \<and> st_active_step_ids st' = a \<and> st_step_results st' = r \<and>
    st_status st' = ES_rolled_back"
  using assms
  by (simp add: apply_rolled_back_def str_list_def dget_or_def Let_def)

text \<open>A completed step stays completed unless the execution is created anew or rolled back.\<close>

lemma completed_mono:
  assumes "apply_event rt st ev = Inr st'"
    and "ev_event_type ev \<noteq> EV_created" and "ev_event_type ev \<noteq> EV_rolled_back"
  shows "set (st_completed_step_ids st) \<subseteq> set (st_completed_step_ids st')"
  using assms
  by (cases "ev_event_type ev")
    (auto simp: apply_event_def handler_defs helper_defs split: option.splits pyval.splits if_splits)

end
