(* ===== verification/Execution_World.thy ===== *)
theory Execution_World
  imports Execution_Projector "HOL-Library.Product_Lexorder" "HOL-Library.List_Lexorder"
    "HOL-Library.Char_ord"
begin

text \<open>
  The world the execution and workflow services share: the database tables, the Redis keys, the
  messages published to the event bus and the calls made to the runtime. The record
  \<open>platform\<close> stands for what is outside the repository's code: the source of identifiers, the
  clocks of the process, of the database and of Redis, the broker, the JSON codec of the cached state,
  the settings and the injected services. Each read of a clock and each identifier takes the next
  value of its stream, so nothing relates two reads unless a theorem says so.
\<close>

section \<open>Messages\<close>

record CorrelationContext =
  cc_tenant_id :: "uuid option"
  cc_workspace_id :: "uuid option"
  cc_conversation_id :: "uuid option"
  cc_interaction_id :: "uuid option"
  cc_execution_id :: "uuid option"
  cc_fleet_id :: "uuid option"
  cc_goal_id :: "uuid option"
  cc_agent_fqn :: pyval
  cc_correlation_id :: uuid

record message =
  msg_topic :: string
  msg_key :: string
  msg_event_type :: string
  msg_payload :: pydict
  msg_correlation :: CorrelationContext
  msg_source :: string

section \<open>Injected services\<close>

text \<open>The answer of the quota enforcer: the decision and the quota it concerns.\<close>

record quota_result =
  qr_decision :: string
  qr_quota_name :: pyval
  qr_current :: pyval
  qr_limit :: pyval
  qr_plan_slug :: pyval

text \<open>A runtime launch, a fallback dispatch, a request for approval, a cost record: what the code
  hands to a service.\<close>

datatype call =
    LaunchRuntime pydict
  | DispatchFallback pydict
  | ApprovalRequest uuid string "string list"
  | RecordStepCost uuid "string option" uuid "uuid option" "uuid option" pydict
  | AddCronJob uuid
  | LoadCronJob uuid uuid string string
  | RemoveCronJob uuid
  | CascadeTags string uuid
  | CreateBucket string
  | UploadObject string string string
  | BlockedAction pydict
  | E2EMessage uuid string string

record platform =
  pf_runtime :: py_runtime
  new_uuid :: "nat \<Rightarrow> uuid"
  clock :: "nat \<Rightarrow> timestamp"
  monotonic :: "nat \<Rightarrow> rat"
  db_clock :: "nat \<Rightarrow> timestamp"
  redis_clock :: "nat \<Rightarrow> timestamp"
  producer :: "(message \<Rightarrow> nat \<Rightarrow> exn option) option"
  state_codec :: "ExecutionStateResponse \<Rightarrow> ExecutionStateResponse py"
  exn_text :: "exn \<Rightarrow> string"
  call_outcome :: "call \<Rightarrow> nat \<Rightarrow> exn option"
  checkpoint_max_size_bytes :: int
  checkpoint_retention_days :: int
  quota_enforcer :: "(uuid \<Rightarrow> nat \<Rightarrow> quota_result) option"
  raise_for_quota_result :: "quota_result \<Rightarrow> uuid \<Rightarrow> unit py"
  attribution_fail_open :: bool
  uuid_of_text :: "string \<Rightarrow> uuid option"
  download_object :: "string \<Rightarrow> string \<Rightarrow> nat \<Rightarrow> (string option) py"
  json_loads :: "string \<Rightarrow> pyval py"
  validate_trace_step :: "pyval \<Rightarrow> pyval py"
  worker_id :: string
  recursion_depth :: nat
  has_checkpoint_service :: bool
  has_reprioritization_service :: bool
  has_approval_requests :: bool
  has_launch :: bool
  has_fallback :: bool
  plan_context :: "(uuid \<Rightarrow> string \<Rightarrow> nat \<Rightarrow> pyval py) option"
  uuid5_url :: "string \<Rightarrow> uuid"
  iso_text :: "timestamp \<Rightarrow> string"
  e2e_mode :: bool
  e2e_response :: "uuid \<Rightarrow> string \<Rightarrow> nat \<Rightarrow> string option"

section \<open>The world\<close>

datatype redis_val = RState ExecutionStateResponse | RToken string

record world =
  executions :: "Execution list"
  events :: "ExecutionEvent list"
  checkpoints :: "ExecutionCheckpoint list"
  rollback_actions :: "ExecutionRollbackAction list"
  triggers :: "ReprioritizationTrigger list"
  leases :: "ExecutionDispatchLease list"
  task_plans :: "ExecutionTaskPlanRecord list"
  traces :: "ExecutionReasoningTraceRecord list"
  approval_waits :: "ExecutionApprovalWait list"
  compensations :: "ExecutionCompensationRecord list"
  wf_definitions :: "WorkflowDefinition list"
  wf_versions :: "WorkflowVersion list"
  wf_triggers :: "WorkflowTriggerDefinition list"
  redis :: "(string \<times> redis_val \<times> timestamp) list"
  outbox :: "message list"
  calls :: "call list"
  w_ids :: nat
  w_reads :: nat
  w_commits :: nat

type_synonym 'a op = "(world, exn, 'a) eff"

text \<open>The launches of a runtime among the calls.\<close>

fun is_launch :: "call \<Rightarrow> bool" where
  "is_launch (LaunchRuntime _) = True"
| "is_launch _ = False"

definition launches :: "world \<Rightarrow> call list" where
  "launches w = filter is_launch (calls w)"

section \<open>Clocks and identifiers\<close>

definition fresh_uuid :: "platform \<Rightarrow> uuid op" where
  "fresh_uuid pf = (\<lambda>w. (Inr (new_uuid pf (w_ids w)), w\<lparr>w_ids := Suc (w_ids w)\<rparr>))"

definition read_clock :: "(nat \<Rightarrow> 'a) \<Rightarrow> 'a op" where
  "read_clock c = (\<lambda>w. (Inr (c (w_reads w)), w\<lparr>w_reads := Suc (w_reads w)\<rparr>))"

abbreviation read_now :: "platform \<Rightarrow> timestamp op" where
  "read_now pf \<equiv> read_clock (clock pf)"

text \<open>The server default \<open>now()\<close> of a created row.\<close>

abbreviation row_time :: "platform \<Rightarrow> timestamp op" where
  "row_time pf \<equiv> read_clock (db_clock pf)"

section \<open>Calls to services\<close>

text \<open>A call to an injected service is logged; the service may raise.\<close>

definition call_service :: "platform \<Rightarrow> call \<Rightarrow> unit op" where
  "call_service pf c =
     (\<lambda>w. (case call_outcome pf c (length (calls w)) of
             None \<Rightarrow> (Inr (), w\<lparr>calls := calls w @ [c]\<rparr>)
           | Some e \<Rightarrow> (Inl e, w\<lparr>calls := calls w @ [c]\<rparr>)))"

definition publish :: "platform \<Rightarrow> message \<Rightarrow> unit op" where
  "publish pf m =
     (\<lambda>w. (case producer pf of
             None \<Rightarrow> (Inr (), w)
           | Some send \<Rightarrow>
               (case send m (length (outbox w)) of
                  None \<Rightarrow> (Inr (), w\<lparr>outbox := outbox w @ [m]\<rparr>)
                | Some e \<Rightarrow> (Inl e, w))))"

section \<open>Redis\<close>

definition redis_get :: "platform \<Rightarrow> string \<Rightarrow> redis_val option op" where
  "redis_get pf key =
     ebind (read_clock (redis_clock pf)) (\<lambda>t.
     eget (\<lambda>w. case map_of (redis w) key of
        None \<Rightarrow> None
      | Some (v, expires) \<Rightarrow> if t < expires then Some v else None))"

definition redis_set :: "platform \<Rightarrow> string \<Rightarrow> redis_val \<Rightarrow> int \<Rightarrow> unit op" where
  "redis_set pf key v ttl =
     ebind (read_clock (redis_clock pf)) (\<lambda>t.
     emod (\<lambda>w. w\<lparr>redis := aset (redis w) key (v, t + ttl * 1000000)\<rparr>))"

text \<open>\<open>SET key value EX ttl NX\<close>: only when no live key is there.\<close>

definition redis_set_nx :: "platform \<Rightarrow> string \<Rightarrow> redis_val \<Rightarrow> int \<Rightarrow> bool op" where
  "redis_set_nx pf key v ttl =
     ebind (redis_get pf key) (\<lambda>old.
     case old of
       Some _ \<Rightarrow> eret False
     | None \<Rightarrow> ebind (redis_set pf key v ttl) (\<lambda>_. eret True))"

definition redis_delete :: "string \<Rightarrow> unit op" where
  "redis_delete key = emod (\<lambda>w. w\<lparr>redis := adel (redis w) key\<rparr>)"

section \<open>Queries\<close>

text \<open>\<open>scalar_one_or_none()\<close> raises when the query has several rows.\<close>

definition one_or_none :: "'a list \<Rightarrow> 'a option py" where
  "one_or_none xs =
     (case xs of [] \<Rightarrow> Inr None | [x] \<Rightarrow> Inr (Some x) | _ \<Rightarrow> Inl MultipleResultsFound)"

definition first_of :: "'a list \<Rightarrow> 'a option" where
  "first_of xs = (case xs of [] \<Rightarrow> None | x # _ \<Rightarrow> Some x)"

definition page_of :: "nat \<Rightarrow> nat \<Rightarrow> 'a list \<Rightarrow> 'a list" where
  "page_of skip limit xs = take limit (drop skip xs)"

definition update_rows :: "('a \<Rightarrow> bool) \<Rightarrow> ('a \<Rightarrow> 'a) \<Rightarrow> 'a list \<Rightarrow> 'a list" where
  "update_rows P f xs = map (\<lambda>x. if P x then f x else x) xs"

lemma one_or_none_Some: "one_or_none xs = Inr (Some x) \<longleftrightarrow> xs = [x]"
  by (auto simp: one_or_none_def split: list.splits)

lemma one_or_none_None: "one_or_none xs = Inr None \<longleftrightarrow> xs = []"
  by (auto simp: one_or_none_def split: list.splits)

lemma first_of_Some: "first_of xs = Some x \<longleftrightarrow> (\<exists>ys. xs = x # ys)"
  by (auto simp: first_of_def split: list.splits)

end
