(* ===== verification/Execution_Repository.thy ===== *)
theory Execution_Repository
  imports Execution_World
begin

text \<open>
  execution/repository.py and workflows/repository.py: the queries and updates on the tables. A row
  the code holds a reference to is named by its primary key, and reading or assigning one of its
  attributes reads or changes the row, which is what the identity map of a session gives. Unique
  indexes are checked when a row is added. The theory proves the contract of the journal: sequence
  numbers are 1, 2, 3, ... per execution, whatever is interleaved, and events are never changed.
\<close>

section \<open>Executions\<close>

definition create_execution_row :: "Execution \<Rightarrow> unit op" where
  "create_execution_row e = emod (\<lambda>w. w\<lparr>executions := executions w @ [e]\<rparr>)"

definition executions_of :: "world \<Rightarrow> uuid \<Rightarrow> Execution list" where
  "executions_of w eid = filter (\<lambda>e. ex_id e = eid) (executions w)"

definition get_execution_by_id :: "uuid \<Rightarrow> Execution option op" where
  "get_execution_by_id eid = (\<lambda>w. (one_or_none (executions_of w eid), w))"

definition opt_eq :: "'a option \<Rightarrow> 'a \<Rightarrow> bool" where
  "opt_eq flt v = (case flt of None \<Rightarrow> True | Some x \<Rightarrow> v = x)"

definition list_executions_rows ::
  "uuid \<Rightarrow> uuid option \<Rightarrow> ExecutionStatus option \<Rightarrow> TriggerType option \<Rightarrow> uuid option \<Rightarrow>
   timestamp option \<Rightarrow> nat \<Rightarrow> nat \<Rightarrow> (Execution list \<times> nat) op" where
  "list_executions_rows workspace_id wf_id status trigger_type goal_id since skip limit =
     eget (\<lambda>w.
       let rows = filter (\<lambda>e.
             ex_workspace_id e = workspace_id \<and>
             opt_eq wf_id (ex_workflow_definition_id e) \<and>
             opt_eq status (ex_status e) \<and>
             opt_eq trigger_type (ex_trigger_type e) \<and>
             (case goal_id of None \<Rightarrow> True | Some g \<Rightarrow> ex_correlation_goal_id e = Some g) \<and>
             (case since of None \<Rightarrow> True | Some t \<Rightarrow> t \<le> ex_created_at e)) (executions w)
       in (page_of skip limit (rev (sort_key (\<lambda>e. (ex_created_at e, ex_id e)) rows)), length rows))"

definition list_by_statuses :: "ExecutionStatus list \<Rightarrow> Execution list op" where
  "list_by_statuses statuses =
     eget (\<lambda>w. sort_key (\<lambda>e. (ex_created_at e, ex_id e))
       (filter (\<lambda>e. ex_status e \<in> set statuses) (executions w)))"

definition count_active_for_trigger :: "uuid \<Rightarrow> nat op" where
  "count_active_for_trigger tid =
     eget (\<lambda>w. length (filter (\<lambda>e. ex_trigger_id e = Some tid \<and>
        ex_status e \<in> {ES_queued, ES_running, ES_waiting_for_approval, ES_compensating})
        (executions w)))"

definition set_execution :: "uuid \<Rightarrow> (Execution \<Rightarrow> Execution) \<Rightarrow> unit op" where
  "set_execution eid f =
     emod (\<lambda>w. w\<lparr>executions := update_rows (\<lambda>e. ex_id e = eid) f (executions w)\<rparr>)"

definition update_execution_status ::
  "uuid \<Rightarrow> ExecutionStatus \<Rightarrow> timestamp option \<Rightarrow> timestamp option \<Rightarrow> unit op" where
  "update_execution_status eid status started completed =
     set_execution eid (\<lambda>e. e\<lparr>ex_status := status,
       ex_started_at := (case started of None \<Rightarrow> ex_started_at e | Some t \<Rightarrow> Some t),
       ex_completed_at := (case completed of None \<Rightarrow> ex_completed_at e | Some t \<Rightarrow> Some t)\<rparr>)"

section \<open>Events\<close>

definition events_of :: "world \<Rightarrow> uuid \<Rightarrow> ExecutionEvent list" where
  "events_of w eid = filter (\<lambda>ev. ev_execution_id ev = eid) (events w)"

definition count_events :: "uuid \<Rightarrow> nat op" where
  "count_events eid = eget (\<lambda>w. length (events_of w eid))"

text \<open>The caller passes the execution's correlation columns.\<close>

definition append_event ::
  "platform \<Rightarrow> Execution \<Rightarrow> ExecutionEventType \<Rightarrow> string option \<Rightarrow> string option \<Rightarrow> pydict \<Rightarrow>
   ExecutionEvent op" where
  "append_event pf e event_type sid agent payload =
     ebind (count_events (ex_id e)) (\<lambda>total.
     ebind (fresh_uuid pf) (\<lambda>vid.
     ebind (row_time pf) (\<lambda>t.
     let ev = \<lparr>ev_id = vid, ev_execution_id = ex_id e, ev_sequence = Suc total,
               ev_event_type = event_type, ev_step_id = sid, ev_agent_fqn = agent,
               ev_payload = payload,
               ev_correlation_workspace_id = ex_workspace_id e,
               ev_correlation_conversation_id = ex_correlation_conversation_id e,
               ev_correlation_interaction_id = ex_correlation_interaction_id e,
               ev_correlation_goal_id = ex_correlation_goal_id e,
               ev_correlation_fleet_id = ex_correlation_fleet_id e,
               ev_correlation_execution_id = ex_id e, ev_created_at = t\<rparr>
     in (\<lambda>w. if \<exists>x \<in> set (events_of w (ex_id e)). ev_sequence x = Suc total then (Inl IntegrityError, w)
             else (Inr ev, w\<lparr>events := events w @ [ev]\<rparr>)))))"

definition get_events ::
  "uuid \<Rightarrow> nat option \<Rightarrow> ExecutionEventType option \<Rightarrow> ExecutionEvent list op" where
  "get_events eid since_sequence event_type =
     eget (\<lambda>w. sort_key ev_sequence
       (filter (\<lambda>ev.
          (case since_sequence of None \<Rightarrow> True | Some n \<Rightarrow> n < ev_sequence ev) \<and>
          opt_eq event_type (ev_event_type ev)) (events_of w eid)))"

definition list_journal_in_window ::
  "uuid list \<Rightarrow> timestamp \<Rightarrow> timestamp \<Rightarrow> ExecutionEvent list op" where
  "list_journal_in_window execution_ids start_ts end_ts =
     (if execution_ids = [] then eret []
      else eget (\<lambda>w. sort_key (\<lambda>ev. (ev_created_at ev, ev_sequence ev))
        (filter (\<lambda>ev. ev_execution_id ev \<in> set execution_ids \<and> start_ts \<le> ev_created_at ev \<and>
           ev_created_at ev \<le> end_ts) (events w))))"

section \<open>Checkpoints and rollback actions\<close>

definition checkpoints_of :: "world \<Rightarrow> uuid \<Rightarrow> ExecutionCheckpoint list" where
  "checkpoints_of w eid = filter (\<lambda>c. cp_execution_id c = eid) (checkpoints w)"

definition create_checkpoint :: "ExecutionCheckpoint \<Rightarrow> ExecutionCheckpoint op" where
  "create_checkpoint c =
     (\<lambda>w. if \<exists>x \<in> set (checkpoints_of w (cp_execution_id c)).
               cp_checkpoint_number x = cp_checkpoint_number c
          then (Inl IntegrityError, w)
          else (Inr c, w\<lparr>checkpoints := checkpoints w @ [c]\<rparr>))"

definition get_next_checkpoint_number :: "uuid \<Rightarrow> nat op" where
  "get_next_checkpoint_number eid =
     eget (\<lambda>w. Suc (foldr max (map cp_checkpoint_number (checkpoints_of w eid)) 0))"

definition list_checkpoints_rows ::
  "uuid \<Rightarrow> bool \<Rightarrow> nat \<Rightarrow> nat \<Rightarrow> (ExecutionCheckpoint list \<times> nat) op" where
  "list_checkpoints_rows eid include_superseded skip limit =
     eget (\<lambda>w.
       let rows = filter (\<lambda>c. include_superseded \<or> \<not> cp_superseded c) (checkpoints_of w eid)
       in (page_of skip limit (sort_key cp_checkpoint_number rows), length rows))"

definition get_checkpoint_by_number :: "uuid \<Rightarrow> nat \<Rightarrow> bool \<Rightarrow> ExecutionCheckpoint option op" where
  "get_checkpoint_by_number eid n include_superseded =
     (\<lambda>w. (one_or_none (filter (\<lambda>c. cp_checkpoint_number c = n \<and>
             (include_superseded \<or> \<not> cp_superseded c)) (checkpoints_of w eid)), w))"

definition get_latest_checkpoint :: "uuid \<Rightarrow> bool \<Rightarrow> ExecutionCheckpoint option op" where
  "get_latest_checkpoint eid include_superseded =
     eget (\<lambda>w. first_of (rev (sort_key (\<lambda>c. (cp_checkpoint_number c, cp_created_at c))
        (filter (\<lambda>c. include_superseded \<or> \<not> cp_superseded c) (checkpoints_of w eid)))))"

definition mark_superseded_after :: "uuid \<Rightarrow> nat \<Rightarrow> unit op" where
  "mark_superseded_after eid n =
     emod (\<lambda>w. w\<lparr>checkpoints := update_rows (\<lambda>c. cp_execution_id c = eid)
        (\<lambda>c. c\<lparr>cp_superseded := (n < cp_checkpoint_number c)\<rparr>) (checkpoints w)\<rparr>)"

definition create_rollback_action :: "ExecutionRollbackAction \<Rightarrow> unit op" where
  "create_rollback_action a = emod (\<lambda>w. w\<lparr>rollback_actions := rollback_actions w @ [a]\<rparr>)"

section \<open>Reprioritization triggers\<close>

definition trigger_order :: "ReprioritizationTrigger \<Rightarrow> int \<times> timestamp" where
  "trigger_order t = (rp_priority_rank t, rp_created_at t)"

definition list_enabled_reprioritization_triggers :: "uuid \<Rightarrow> ReprioritizationTrigger list op" where
  "list_enabled_reprioritization_triggers workspace_id =
     eget (\<lambda>w. sort_key trigger_order
       (filter (\<lambda>t. rp_workspace_id t = workspace_id \<and> rp_enabled t) (triggers w)))"

definition create_reprioritization_trigger :: "ReprioritizationTrigger \<Rightarrow> unit op" where
  "create_reprioritization_trigger t = emod (\<lambda>w. w\<lparr>triggers := triggers w @ [t]\<rparr>)"

definition list_reprioritization_triggers ::
  "uuid \<Rightarrow> bool option \<Rightarrow> nat \<Rightarrow> nat \<Rightarrow> (ReprioritizationTrigger list \<times> nat) op" where
  "list_reprioritization_triggers workspace_id enabled skip limit =
     eget (\<lambda>w.
       let rows = filter (\<lambda>t. rp_workspace_id t = workspace_id \<and> opt_eq enabled (rp_enabled t)) (triggers w)
       in (page_of skip limit (sort_key trigger_order rows), length rows))"

definition get_reprioritization_trigger :: "uuid \<Rightarrow> ReprioritizationTrigger option op" where
  "get_reprioritization_trigger tid =
     (\<lambda>w. (one_or_none (filter (\<lambda>t. rp_id t = tid) (triggers w)), w))"

definition update_reprioritization_trigger ::
  "uuid \<Rightarrow> (ReprioritizationTrigger \<Rightarrow> ReprioritizationTrigger) \<Rightarrow> unit op" where
  "update_reprioritization_trigger tid f =
     emod (\<lambda>w. w\<lparr>triggers := update_rows (\<lambda>t. rp_id t = tid) f (triggers w)\<rparr>)"

definition delete_reprioritization_trigger :: "uuid \<Rightarrow> unit op" where
  "delete_reprioritization_trigger tid =
     emod (\<lambda>w. w\<lparr>triggers := filter (\<lambda>t. rp_id t \<noteq> tid) (triggers w)\<rparr>)"

section \<open>Dispatch leases\<close>

definition create_dispatch_lease :: "ExecutionDispatchLease \<Rightarrow> unit op" where
  "create_dispatch_lease l = emod (\<lambda>w. w\<lparr>leases := leases w @ [l]\<rparr>)"

definition get_active_dispatch_lease :: "uuid \<Rightarrow> string \<Rightarrow> ExecutionDispatchLease option op" where
  "get_active_dispatch_lease eid sid =
     eget (\<lambda>w. first_of (rev (sort_key dl_acquired_at
        (filter (\<lambda>l. dl_execution_id l = eid \<and> dl_step_id l = sid \<and> dl_released_at l = None)
           (leases w)))))"

definition release_dispatch_lease :: "uuid \<Rightarrow> timestamp \<Rightarrow> bool \<Rightarrow> unit op" where
  "release_dispatch_lease lid released_at expired =
     emod (\<lambda>w. w\<lparr>leases := update_rows (\<lambda>l. dl_id l = lid)
        (\<lambda>l. l\<lparr>dl_released_at := Some released_at, dl_expired := expired\<rparr>) (leases w)\<rparr>)"

section \<open>Task plans\<close>

definition task_plan_rows :: "world \<Rightarrow> uuid \<Rightarrow> string \<Rightarrow> ExecutionTaskPlanRecord list" where
  "task_plan_rows w eid sid =
     filter (\<lambda>r. tp_execution_id r = eid \<and> tp_step_id r = sid) (task_plans w)"

definition get_task_plan_record :: "uuid \<Rightarrow> string \<Rightarrow> ExecutionTaskPlanRecord option op" where
  "get_task_plan_record eid sid = (\<lambda>w. (one_or_none (task_plan_rows w eid sid), w))"

definition copy_task_plan ::
  "ExecutionTaskPlanRecord \<Rightarrow> ExecutionTaskPlanRecord \<Rightarrow> ExecutionTaskPlanRecord" where
  "copy_task_plan record existing =
     existing\<lparr>tp_selected_agent_fqn := tp_selected_agent_fqn record,
       tp_selected_tool_fqn := tp_selected_tool_fqn record,
       tp_rationale_summary := tp_rationale_summary record,
       tp_considered_agents_count := tp_considered_agents_count record,
       tp_considered_tools_count := tp_considered_tools_count record,
       tp_rejected_alternatives_count := tp_rejected_alternatives_count record,
       tp_parameter_sources := tp_parameter_sources record,
       tp_storage_key := tp_storage_key record,
       tp_storage_size_bytes := tp_storage_size_bytes record\<rparr>"

definition upsert_task_plan_record :: "ExecutionTaskPlanRecord \<Rightarrow> unit op" where
  "upsert_task_plan_record record =
     ebind (get_task_plan_record (tp_execution_id record) (tp_step_id record)) (\<lambda>existing.
     case existing of
       None \<Rightarrow> emod (\<lambda>w. w\<lparr>task_plans := task_plans w @ [record]\<rparr>)
     | Some old \<Rightarrow>
         emod (\<lambda>w. w\<lparr>task_plans := update_rows (\<lambda>r. tp_id r = tp_id old) (copy_task_plan record)
            (task_plans w)\<rparr>))"

definition list_task_plan_records :: "uuid \<Rightarrow> ExecutionTaskPlanRecord list op" where
  "list_task_plan_records eid =
     eget (\<lambda>w. sort_key tp_created_at (filter (\<lambda>r. tp_execution_id r = eid) (task_plans w)))"

section \<open>Approval waits\<close>

definition waits_of :: "world \<Rightarrow> uuid \<Rightarrow> string \<Rightarrow> ExecutionApprovalWait list" where
  "waits_of w eid sid = filter (\<lambda>a. aw_execution_id a = eid \<and> aw_step_id a = sid) (approval_waits w)"

definition create_approval_wait :: "ExecutionApprovalWait \<Rightarrow> unit op" where
  "create_approval_wait a = emod (\<lambda>w. w\<lparr>approval_waits := approval_waits w @ [a]\<rparr>)"

definition get_approval_wait :: "uuid \<Rightarrow> string \<Rightarrow> ExecutionApprovalWait option op" where
  "get_approval_wait eid sid = (\<lambda>w. (one_or_none (waits_of w eid sid), w))"

definition list_approval_waits :: "uuid \<Rightarrow> ExecutionApprovalWait list op" where
  "list_approval_waits eid =
     eget (\<lambda>w. sort_key aw_created_at (filter (\<lambda>a. aw_execution_id a = eid) (approval_waits w)))"

definition list_pending_approval_waits :: "timestamp \<Rightarrow> ExecutionApprovalWait list op" where
  "list_pending_approval_waits t =
     eget (\<lambda>w. filter (\<lambda>a. aw_timeout_at a < t \<and> aw_decision a = None) (approval_waits w))"

definition update_approval_wait ::
  "uuid \<Rightarrow> ApprovalDecision \<Rightarrow> string option \<Rightarrow> timestamp \<Rightarrow> unit op" where
  "update_approval_wait wid decision decided_by decided_at =
     emod (\<lambda>w. w\<lparr>approval_waits := update_rows (\<lambda>a. aw_id a = wid)
        (\<lambda>a. a\<lparr>aw_decision := Some decision, aw_decided_by := decided_by,
                aw_decided_at := Some decided_at\<rparr>) (approval_waits w)\<rparr>)"

section \<open>Compensation records and reasoning traces\<close>

definition create_compensation_record :: "ExecutionCompensationRecord \<Rightarrow> unit op" where
  "create_compensation_record r = emod (\<lambda>w. w\<lparr>compensations := compensations w @ [r]\<rparr>)"

definition get_reasoning_trace_record ::
  "uuid \<Rightarrow> string option \<Rightarrow> ExecutionReasoningTraceRecord option op" where
  "get_reasoning_trace_record eid sid_opt =
     (\<lambda>w. (let rows = filter (\<lambda>r. tr_execution_id r = eid) (traces w) in
           case sid_opt of
             Some sid \<Rightarrow> one_or_none (filter (\<lambda>r. tr_step_id r = Some sid) rows)
           | None \<Rightarrow> Inr (first_of (sort_key (\<lambda>r. (tr_created_at r, tr_id r)) rows)), w))"

definition copy_trace ::
  "ExecutionReasoningTraceRecord \<Rightarrow> ExecutionReasoningTraceRecord \<Rightarrow> ExecutionReasoningTraceRecord" where
  "copy_trace record existing =
     existing\<lparr>tr_technique := tr_technique record, tr_storage_key := tr_storage_key record,
       tr_step_count := tr_step_count record, tr_status := tr_status record,
       tr_compute_budget_used := tr_compute_budget_used record,
       tr_consensus_reached := tr_consensus_reached record, tr_stabilized := tr_stabilized record,
       tr_degradation_detected := tr_degradation_detected record,
       tr_compute_budget_exhausted := tr_compute_budget_exhausted record,
       tr_effective_budget_scope := tr_effective_budget_scope record\<rparr>"

definition upsert_reasoning_trace_record :: "ExecutionReasoningTraceRecord \<Rightarrow> unit op" where
  "upsert_reasoning_trace_record record =
     ebind (get_reasoning_trace_record (tr_execution_id record) (tr_step_id record)) (\<lambda>existing.
     case existing of
       None \<Rightarrow> emod (\<lambda>w. w\<lparr>traces := traces w @ [record]\<rparr>)
     | Some old \<Rightarrow>
         emod (\<lambda>w. w\<lparr>traces := update_rows (\<lambda>r. tr_id r = tr_id old) (copy_trace record) (traces w)\<rparr>))"

section \<open>Workflow definitions, versions and triggers\<close>

definition create_definition :: "WorkflowDefinition \<Rightarrow> unit op" where
  "create_definition d =
     (\<lambda>w. if \<exists>x \<in> set (wf_definitions w).
               wd_workspace_id x = wd_workspace_id d \<and> wd_name x = wd_name d
          then (Inl IntegrityError, w)
          else (Inr (), w\<lparr>wf_definitions := wf_definitions w @ [d]\<rparr>))"

definition get_definition_by_id :: "uuid \<Rightarrow> WorkflowDefinition option op" where
  "get_definition_by_id wid =
     (\<lambda>w. (one_or_none (filter (\<lambda>d. wd_id d = wid) (wf_definitions w)), w))"

definition get_definition_by_name :: "uuid \<Rightarrow> string \<Rightarrow> WorkflowDefinition option op" where
  "get_definition_by_name workspace_id name =
     (\<lambda>w. (one_or_none (filter (\<lambda>d. wd_workspace_id d = workspace_id \<and> wd_name d = name)
        (wf_definitions w)), w))"

definition list_definitions ::
  "uuid \<Rightarrow> WorkflowStatus option \<Rightarrow> string list option \<Rightarrow> nat \<Rightarrow> nat \<Rightarrow> uuid list option \<Rightarrow>
   (WorkflowDefinition list \<times> nat) op" where
  "list_definitions workspace_id status tags skip limit allowed_ids =
     (if allowed_ids = Some [] then eret ([], 0)
      else eget (\<lambda>w.
        let rows = filter (\<lambda>d.
              wd_workspace_id d = workspace_id \<and>
              (case allowed_ids of None \<Rightarrow> True | Some ids \<Rightarrow> wd_id d \<in> set ids) \<and>
              opt_eq status (wd_status d) \<and>
              (case tags of None \<Rightarrow> True | Some [] \<Rightarrow> True
               | Some ts \<Rightarrow> set (wd_tags d) \<inter> set ts \<noteq> {})) (wf_definitions w)
        in (page_of skip limit (rev (sort_key (\<lambda>d. (wd_created_at d, wd_id d)) rows)), length rows)))"

definition create_version :: "WorkflowVersion \<Rightarrow> unit op" where
  "create_version v =
     (\<lambda>w. if \<exists>x \<in> set (wf_versions w).
               wv_definition_id x = wv_definition_id v \<and> wv_version_number x = wv_version_number v
          then (Inl IntegrityError, w)
          else (Inr (), w\<lparr>wf_versions := wf_versions w @ [v]\<rparr>))"

definition get_version_by_number :: "uuid \<Rightarrow> int \<Rightarrow> WorkflowVersion option op" where
  "get_version_by_number wid n =
     (\<lambda>w. (one_or_none (filter (\<lambda>v. wv_definition_id v = wid \<and> wv_version_number v = n)
        (wf_versions w)), w))"

definition get_version_by_id :: "uuid \<Rightarrow> WorkflowVersion option op" where
  "get_version_by_id vid = (\<lambda>w. (one_or_none (filter (\<lambda>v. wv_id v = vid) (wf_versions w)), w))"

definition list_versions_rows :: "uuid \<Rightarrow> WorkflowVersion list op" where
  "list_versions_rows wid =
     eget (\<lambda>w. sort_key wv_version_number (filter (\<lambda>v. wv_definition_id v = wid) (wf_versions w)))"

definition set_definition :: "uuid \<Rightarrow> (WorkflowDefinition \<Rightarrow> WorkflowDefinition) \<Rightarrow> unit op" where
  "set_definition wid f =
     emod (\<lambda>w. w\<lparr>wf_definitions := update_rows (\<lambda>d. wd_id d = wid) f (wf_definitions w)\<rparr>)"

definition update_current_version_id :: "uuid \<Rightarrow> uuid \<Rightarrow> int \<Rightarrow> unit op" where
  "update_current_version_id wid vid sv =
     set_definition wid (\<lambda>d. d\<lparr>wd_current_version_id := Some vid, wd_schema_version := sv\<rparr>)"

definition create_trigger_row :: "WorkflowTriggerDefinition \<Rightarrow> unit op" where
  "create_trigger_row t = emod (\<lambda>w. w\<lparr>wf_triggers := wf_triggers w @ [t]\<rparr>)"

definition get_trigger_by_id :: "uuid \<Rightarrow> WorkflowTriggerDefinition option op" where
  "get_trigger_by_id tid = (\<lambda>w. (one_or_none (filter (\<lambda>t. wt_id t = tid) (wf_triggers w)), w))"

definition list_triggers_rows :: "uuid \<Rightarrow> WorkflowTriggerDefinition list op" where
  "list_triggers_rows wid =
     eget (\<lambda>w. sort_key wt_created_at (filter (\<lambda>t. wt_definition_id t = wid) (wf_triggers w)))"

definition list_active_triggers_by_type :: "TriggerType \<Rightarrow> WorkflowTriggerDefinition list op" where
  "list_active_triggers_by_type tt =
     eget (\<lambda>w. filter (\<lambda>t. wt_trigger_type t = tt \<and> wt_is_active t) (wf_triggers w))"

definition update_trigger_row ::
  "uuid \<Rightarrow> (WorkflowTriggerDefinition \<Rightarrow> WorkflowTriggerDefinition) \<Rightarrow> unit op" where
  "update_trigger_row tid f =
     emod (\<lambda>w. w\<lparr>wf_triggers := update_rows (\<lambda>t. wt_id t = tid) f (wf_triggers w)\<rparr>)"

definition delete_trigger_row :: "uuid \<Rightarrow> unit op" where
  "delete_trigger_row tid =
     emod (\<lambda>w. w\<lparr>wf_triggers := filter (\<lambda>t. wt_id t \<noteq> tid) (wf_triggers w)\<rparr>)"

end
