(* ===== verification/Execution_Store.thy ===== *)
theory Execution_Store
  imports Execution_Repository
begin

text \<open>
  The invariant the services maintain on the shared store, and that the repository operations keep
  it: the journal of an execution is numbered 1, 2, 3, ..., checkpoint numbers are unique, and every
  checkpoint and every cached state is the projection of a prefix of the journal. The locale
  \<open>numbered_journal\<close> is the contract of the event table; it is interpreted on \<open>events\<close>.
\<close>

section \<open>The journal\<close>

locale numbered_journal =
  fixes entries :: "'w \<Rightarrow> 'k \<Rightarrow> 'e list"
    and push :: "'e \<Rightarrow> 'w \<Rightarrow> 'w"
    and key :: "'e \<Rightarrow> 'k"
    and seqno :: "'e \<Rightarrow> nat"
  assumes entries_push: "entries (push e w) k = (if k = key e then entries w k @ [e] else entries w k)"
begin

lemma push_numbered:
  assumes "map seqno (entries w k) = [1..<Suc (length (entries w k))]"
    and "seqno e = Suc (length (entries w (key e)))"
  shows "map seqno (entries (push e w) k) = [1..<Suc (length (entries (push e w) k))]"
  using assms by (auto simp: entries_push)

lemma numbered_nth:
  assumes "map seqno (entries w k) = [1..<Suc (length (entries w k))]" and "i < length (entries w k)"
  shows "seqno (entries w k ! i) = Suc i"
proof -
  from assms(2) have "seqno (entries w k ! i) = map seqno (entries w k) ! i" by simp
  also have "\<dots> = Suc i" using assms by (simp add: nth_upt del: upt_Suc)
  finally show ?thesis .
qed

lemma numbered_since:
  assumes "map seqno (entries w k) = [1..<Suc (length (entries w k))]"
  shows "filter (\<lambda>e. n < seqno e) (entries w k) = drop n (entries w k)"
proof -
  have "filter (\<lambda>e. n < seqno e) xs = drop (n - m) xs"
    if "map seqno xs = [Suc m..<Suc m + length xs]" for xs and m
    using that
  proof (induction xs arbitrary: m)
    case Nil
    then show ?case by simp
  next
    case (Cons x xs)
    have "[Suc m..<Suc m + length (x # xs)] = Suc m # [Suc (Suc m)..<Suc (Suc m) + length xs]"
      by (simp add: upt_conv_Cons del: upt_Suc)
    with Cons.prems have "seqno x = Suc m" "map seqno xs = [Suc (Suc m)..<Suc (Suc m) + length xs]"
      by (auto simp del: upt_Suc)
    with Cons.IH [of "Suc m"] have
      IH: "filter (\<lambda>e. n < seqno e) xs = drop (n - Suc m) xs" and x: "seqno x = Suc m" by simp_all
    show ?case
    proof (cases "n \<le> m")
      case True
      with IH x show ?thesis by simp
    next
      case False
      then have "n - m = Suc (n - Suc m)" by simp
      with IH x False show ?thesis by simp
    qed
  qed
  from this [of "entries w k" 0] assms show ?thesis by simp
qed

lemma numbered_sorted:
  assumes "map seqno (entries w k) = [1..<Suc (length (entries w k))]"
  shows "sorted (map seqno (entries w k))"
  unfolding assms by (simp del: upt_Suc)

lemma push_prefix: "\<exists>ys. entries (push e w) k = entries w k @ ys"
  by (simp add: entries_push)

end

definition push_event :: "ExecutionEvent \<Rightarrow> world \<Rightarrow> world" where
  "push_event ev w = w\<lparr>events := events w @ [ev]\<rparr>"

interpretation jn: numbered_journal events_of push_event ev_execution_id ev_sequence
  by unfold_locales (simp add: events_of_def push_event_def)

definition journal_numbered :: "world \<Rightarrow> bool" where
  "journal_numbered w \<longleftrightarrow>
     (\<forall>eid. map ev_sequence (events_of w eid) = [1..<Suc (length (events_of w eid))])"

lemma sort_key_sorted: "sorted (map f xs) \<Longrightarrow> sort_key f xs = xs"
  by (rule sort_key_id_if_sorted)

lemma get_events_all:
  assumes "journal_numbered w"
  shows "get_events eid None None w = (Inr (events_of w eid), w)"
  using jn.numbered_sorted [of w eid] assms
  by (simp add: get_events_def run_simps opt_eq_def journal_numbered_def sort_key_sorted)

lemma get_events_since:
  assumes "journal_numbered w"
  shows "get_events eid (Some n) None w = (Inr (drop n (events_of w eid)), w)"
proof -
  have num: "map ev_sequence (events_of w eid) = [1..<Suc (length (events_of w eid))]"
    using assms by (simp add: journal_numbered_def)
  have "sorted (map ev_sequence (drop n (events_of w eid)))"
    using jn.numbered_sorted [OF num] by (simp add: sorted_wrt_drop flip: drop_map)
  then show ?thesis
    by (simp add: get_events_def run_simps opt_eq_def jn.numbered_since [OF num] sort_key_sorted)
qed

section \<open>Faithful snapshots\<close>

definition state_cache_key :: "uuid \<Rightarrow> string" where
  "state_cache_key eid = ''exec:state:'' @ eid"

definition lease_key :: "uuid \<Rightarrow> string \<Rightarrow> string" where
  "lease_key eid sid = ''exec:lease:'' @ eid @ '':'' @ sid"

lemma cache_key_inject [simp]: "state_cache_key a = state_cache_key b \<longleftrightarrow> a = b"
  by (simp add: state_cache_key_def)

lemma cache_key_lease [simp]: "state_cache_key a \<noteq> lease_key b c" "lease_key b c \<noteq> state_cache_key a"
  by (simp_all add: state_cache_key_def lease_key_def)

text \<open>A projected state stands at a position of its journal and has the lists and results of the
  events up to there.\<close>

definition state_at :: "py_runtime \<Rightarrow> ExecutionEvent list \<Rightarrow> ExecutionStateResponse \<Rightarrow> bool" where
  "state_at rt evs st \<longleftrightarrow>
     0 < st_last_event_sequence st \<and> st_last_event_sequence st \<le> length evs \<and>
     (\<exists>st'. rfold (project_step rt) (take (st_last_event_sequence st) evs)
        (initial_state (st_execution_id st) None) = Inr st' \<and> same_core st' st)"

definition checkpoint_at :: "py_runtime \<Rightarrow> ExecutionEvent list \<Rightarrow> ExecutionCheckpoint \<Rightarrow> bool" where
  "checkpoint_at rt evs cp \<longleftrightarrow>
     0 < cp_last_event_sequence cp \<and> cp_last_event_sequence cp \<le> length evs \<and>
     checkpoint_of rt (take (cp_last_event_sequence cp) evs) cp"

lemma state_at_append: "state_at rt evs st \<Longrightarrow> state_at rt (evs @ ys) st"
  by (auto simp: state_at_def)

lemma checkpoint_at_append: "checkpoint_at rt evs cp \<Longrightarrow> checkpoint_at rt (evs @ ys) cp"
  by (auto simp: checkpoint_at_def)

definition store_ok :: "py_runtime \<Rightarrow> world \<Rightarrow> bool" where
  "store_ok rt w \<longleftrightarrow>
     journal_numbered w \<and>
     (\<forall>eid. distinct (map cp_checkpoint_number (checkpoints_of w eid))) \<and>
     (\<forall>cp \<in> set (checkpoints w). checkpoint_at rt (events_of w (cp_execution_id cp)) cp) \<and>
     (\<forall>eid st t. map_of (redis w) (state_cache_key eid) = Some (RState st, t) \<longrightarrow>
        st_execution_id st = eid \<and> state_at rt (events_of w eid) st)"

lemma store_okD:
  assumes "store_ok rt w"
  shows "journal_numbered w"
    and "distinct (map cp_checkpoint_number (checkpoints_of w eid))"
    and "cp \<in> set (checkpoints w) \<Longrightarrow> checkpoint_at rt (events_of w (cp_execution_id cp)) cp"
    and "map_of (redis w) (state_cache_key eid) = Some (RState st, t) \<Longrightarrow>
      st_execution_id st = eid \<and> state_at rt (events_of w eid) st"
  using assms by (auto simp: store_ok_def)

text \<open>Operations that leave the journal, the checkpoints and the Redis keys alone.\<close>

lemma store_ok_frame:
  "events w' = events w \<Longrightarrow> checkpoints w' = checkpoints w \<Longrightarrow> redis w' = redis w \<Longrightarrow>
   store_ok rt w' \<longleftrightarrow> store_ok rt w"
  by (simp add: store_ok_def journal_numbered_def events_of_def checkpoints_of_def)

lemma store_ok_events_eq:
  "store_ok rt w \<Longrightarrow> redis w' = redis w \<Longrightarrow> checkpoints w' = checkpoints w \<Longrightarrow> events w' = events w \<Longrightarrow>
   store_ok rt w'"
  using store_ok_frame by blast

lemma store_ok_push:
  assumes ok: "store_ok rt w"
    and sq: "ev_sequence ev = Suc (length (events_of w (ev_execution_id ev)))"
  shows "store_ok rt (push_event ev w)"
proof -
  have "journal_numbered (push_event ev w)"
    using jn.push_numbered [OF _ sq] ok by (simp add: store_ok_def journal_numbered_def)
  moreover have "checkpoint_at rt (events_of (push_event ev w) (cp_execution_id cp)) cp"
    if "cp \<in> set (checkpoints w)" for cp
    using checkpoint_at_append [OF store_okD(3) [OF ok that]] jn.push_prefix [of ev w] by metis
  moreover have "st_execution_id st = eid \<and> state_at rt (events_of (push_event ev w) eid) st"
    if "map_of (redis w) (state_cache_key eid) = Some (RState st, t)" for eid st t
    using store_okD(4) [OF ok that] state_at_append jn.push_prefix [of ev w eid] by metis
  ultimately show ?thesis using ok
    by (simp add: store_ok_def push_event_def checkpoints_of_def)
qed

section \<open>The repository keeps the invariant\<close>

text \<open>Frames: what an operation leaves untouched. No launch of a runtime is added either.\<close>

definition store_frame :: "'a op \<Rightarrow> bool" where
  "store_frame m \<longleftrightarrow> (\<forall>w. events (snd (m w)) = events w \<and> checkpoints (snd (m w)) = checkpoints w \<and>
     redis (snd (m w)) = redis w \<and> launches (snd (m w)) = launches w)"

lemma keeps_store_frame: "store_frame m \<Longrightarrow> keeps (store_ok rt) m"
  by (auto simp: store_frame_def spec_def intro: store_ok_events_eq)

lemma spec_frame_events:
  "store_frame m \<Longrightarrow> spec (store_ok rt) (\<lambda>w. R (events w)) m (\<lambda>_ w. R (events w))"
  by (auto simp: store_frame_def spec_def intro: store_ok_events_eq)

lemma frame_basic:
  "store_frame (eret x)" "store_frame (eraise e)" "store_frame (elift r)" "store_frame (eget f)"
  "store_frame (eguard b e)" "store_frame (read_clock c)" "store_frame (fresh_uuid pf)"
  by (simp_all add: store_frame_def launches_def run_simps run_eguard read_clock_def fresh_uuid_def)

lemma frame_services: "\<not> is_launch c \<Longrightarrow> store_frame (call_service pf c)" "store_frame (publish pf m)"
  by (auto simp: store_frame_def call_service_def publish_def launches_def split: option.splits)

lemma frame_executions:
  "store_frame (create_execution_row e)" "store_frame (get_execution_by_id eid)"
  "store_frame (list_executions_rows a b c d g h i j)" "store_frame (list_by_statuses ss)"
  "store_frame (count_active_for_trigger tid)" "store_frame (set_execution eid f)"
  "store_frame (update_execution_status eid s st ct)"
  by (simp_all add: store_frame_def launches_def run_simps create_execution_row_def get_execution_by_id_def
      list_executions_rows_def list_by_statuses_def count_active_for_trigger_def set_execution_def
      update_execution_status_def)

lemma frame_queries:
  "store_frame (count_events eid)" "store_frame (get_events eid n t)"
  "store_frame (list_journal_in_window es a b)" "store_frame (get_next_checkpoint_number eid)"
  "store_frame (list_checkpoints_rows eid s i j)" "store_frame (get_checkpoint_by_number eid k s)"
  "store_frame (get_latest_checkpoint eid s)" "store_frame (create_rollback_action ra)"
  by (simp_all add: store_frame_def launches_def run_simps count_events_def get_events_def list_journal_in_window_def
      get_next_checkpoint_number_def list_checkpoints_rows_def get_checkpoint_by_number_def
      get_latest_checkpoint_def create_rollback_action_def)

lemma frame_triggers:
  "store_frame (list_enabled_reprioritization_triggers ws)" "store_frame (create_reprioritization_trigger t)"
  "store_frame (list_reprioritization_triggers ws en i j)" "store_frame (get_reprioritization_trigger tid)"
  "store_frame (update_reprioritization_trigger tid f)" "store_frame (delete_reprioritization_trigger tid)"
  by (simp_all add: store_frame_def launches_def run_simps list_enabled_reprioritization_triggers_def
      create_reprioritization_trigger_def list_reprioritization_triggers_def
      get_reprioritization_trigger_def update_reprioritization_trigger_def
      delete_reprioritization_trigger_def)

lemma frame_leases:
  "store_frame (create_dispatch_lease l)" "store_frame (get_active_dispatch_lease eid sid)"
  "store_frame (release_dispatch_lease lid t b)"
  by (simp_all add: store_frame_def launches_def run_simps create_dispatch_lease_def get_active_dispatch_lease_def
      release_dispatch_lease_def)

lemma frame_waits:
  "store_frame (create_approval_wait a)" "store_frame (get_approval_wait eid sid)"
  "store_frame (list_approval_waits eid)" "store_frame (list_pending_approval_waits t)"
  "store_frame (update_approval_wait wid d by t')" "store_frame (create_compensation_record r)"
  "store_frame (get_reasoning_trace_record eid sid')" "store_frame (get_task_plan_record eid sid)"
  "store_frame (list_task_plan_records eid)"
  by (simp_all add: store_frame_def launches_def run_simps create_approval_wait_def get_approval_wait_def
      list_approval_waits_def list_pending_approval_waits_def update_approval_wait_def
      create_compensation_record_def get_reasoning_trace_record_def get_task_plan_record_def
      list_task_plan_records_def)

lemma frame_upserts:
  "store_frame (upsert_task_plan_record r)" "store_frame (upsert_reasoning_trace_record q)"
  by (auto simp: store_frame_def launches_def run_simps run_ebind upsert_task_plan_record_def
      upsert_reasoning_trace_record_def get_task_plan_record_def get_reasoning_trace_record_def
      split: sum.splits option.splits)

lemma frame_workflows:
  "store_frame (create_definition d)" "store_frame (get_definition_by_id wid)"
  "store_frame (get_definition_by_name ws n)" "store_frame (list_definitions ws s ts i j al)"
  "store_frame (create_version v)" "store_frame (get_version_by_number wid k)"
  "store_frame (get_version_by_id vid)" "store_frame (list_versions_rows wid)"
  "store_frame (set_definition wid f)" "store_frame (update_current_version_id wid vid sv)"
  "store_frame (create_trigger_row t)" "store_frame (get_trigger_by_id tid)"
  "store_frame (list_triggers_rows wid)" "store_frame (list_active_triggers_by_type tt)"
  "store_frame (update_trigger_row tid g)" "store_frame (delete_trigger_row tid)"
  by (simp_all add: store_frame_def launches_def run_simps create_definition_def get_definition_by_id_def
      get_definition_by_name_def list_definitions_def create_version_def get_version_by_number_def
      get_version_by_id_def list_versions_rows_def set_definition_def update_current_version_id_def
      create_trigger_row_def get_trigger_by_id_def list_triggers_rows_def
      list_active_triggers_by_type_def update_trigger_row_def delete_trigger_row_def)

lemmas frame_ops = frame_basic frame_services frame_executions frame_queries frame_triggers
  frame_leases frame_waits frame_upserts frame_workflows

lemmas keeps_frame_ops = frame_ops [THEN keeps_store_frame]

section \<open>Operations that change the journal, the checkpoints or the cache\<close>

lemma map_of_adel [simp, dict_simps]: "map_of (adel d k) = (map_of d)(k := None)"
  by (induction d) (auto simp: adel_def fun_eq_iff)

lemma frame_redis_get: "store_frame (redis_get pf key)"
  by (simp add: store_frame_def launches_def redis_get_def run_ebind run_simps read_clock_def)

lemma keeps_redis_delete: "keeps (store_ok rt) (redis_delete key)"
  unfolding redis_delete_def
  by (rule keeps_emod)
    (auto simp: store_ok_def journal_numbered_def events_of_def checkpoints_of_def)

lemma keeps_redis_token: "keeps (store_ok rt) (redis_set pf key (RToken tok) ttl)"
  unfolding redis_set_def
  by (rule keeps_ebind [OF keeps_store_frame [OF frame_basic(6)]])
    (rule keeps_emod, auto simp: store_ok_def journal_numbered_def events_of_def checkpoints_of_def
      split: if_splits)

lemma keeps_redis_set_nx: "keeps (store_ok rt) (redis_set_nx pf key (RToken tok) ttl)"
  unfolding redis_set_nx_def
  by (rule keeps_ebind [OF keeps_store_frame [OF frame_redis_get]])
    (intro keeps_option keeps_basic keeps_ebind keeps_redis_token)

lemma spec_redis_state:
  "spec (store_ok rt) (\<lambda>w. st_execution_id st = eid \<and> state_at rt (events_of w eid) st)
     (redis_set pf (state_cache_key eid) (RState st) ttl) (\<lambda>_ _. True)"
proof (rule specI)
  fix w assume ok: "store_ok rt w" and st: "st_execution_id st = eid \<and> state_at rt (events_of w eid) st"
  let ?w = "snd (redis_set pf (state_cache_key eid) (RState st) ttl w)"
  have ev: "events ?w = events w" "checkpoints ?w = checkpoints w"
    by (simp_all add: redis_set_def run_ebind run_simps read_clock_def)
  have rd: "map_of (redis ?w) (state_cache_key e) =
      (if e = eid then Some (RState st, redis_clock pf (w_reads w) + ttl * 1000000)
       else map_of (redis w) (state_cache_key e))" for e
    by (simp add: redis_set_def run_ebind run_simps read_clock_def)
  have ev': "events_of ?w e = events_of w e" "checkpoints_of ?w e = checkpoints_of w e" for e
    by (simp_all add: events_of_def checkpoints_of_def ev)
  show "store_ok rt ?w"
    using ok st unfolding store_ok_def journal_numbered_def ev ev' rd by (auto split: if_splits)
qed simp

definition event_record ::
  "platform \<Rightarrow> Execution \<Rightarrow> ExecutionEventType \<Rightarrow> string option \<Rightarrow> string option \<Rightarrow> pydict \<Rightarrow> world \<Rightarrow>
   ExecutionEvent" where
  "event_record pf e event_type sid agent payload w =
     \<lparr>ev_id = new_uuid pf (w_ids w), ev_execution_id = ex_id e,
      ev_sequence = Suc (length (events_of w (ex_id e))),
      ev_event_type = event_type, ev_step_id = sid, ev_agent_fqn = agent, ev_payload = payload,
      ev_correlation_workspace_id = ex_workspace_id e,
      ev_correlation_conversation_id = ex_correlation_conversation_id e,
      ev_correlation_interaction_id = ex_correlation_interaction_id e,
      ev_correlation_goal_id = ex_correlation_goal_id e,
      ev_correlation_fleet_id = ex_correlation_fleet_id e,
      ev_correlation_execution_id = ex_id e, ev_created_at = db_clock pf (w_reads w)\<rparr>"

text \<open>With the journal numbered, appending always succeeds and adds exactly one event.\<close>

lemma append_event_run:
  assumes "journal_numbered w"
  shows "append_event pf e t sid agent payload w =
    (let ev = event_record pf e t sid agent payload w
     in (Inr ev, push_event ev (w\<lparr>w_ids := Suc (w_ids w), w_reads := Suc (w_reads w)\<rparr>)))"
proof -
  have num: "map ev_sequence (events_of w (ex_id e)) = [1..<Suc (length (events_of w (ex_id e)))]"
    using assms by (simp add: journal_numbered_def)
  have "ev_sequence x \<noteq> Suc (length (events_of w (ex_id e)))" if "x \<in> set (events_of w (ex_id e))" for x
  proof -
    from that have "ev_sequence x \<in> set (map ev_sequence (events_of w (ex_id e)))" by simp
    then have "ev_sequence x < Suc (length (events_of w (ex_id e)))"
      unfolding num by (simp del: upt_Suc)
    then show ?thesis by simp
  qed
  then show ?thesis
    by (simp add: append_event_def run_ebind run_simps count_events_def fresh_uuid_def read_clock_def
        event_record_def push_event_def events_of_def Let_def)
qed

lemma append_event_store:
  assumes "store_ok rt w"
  shows "store_ok rt (snd (append_event pf e t sid agent payload w))"
proof -
  let ?w = "w\<lparr>w_ids := Suc (w_ids w), w_reads := Suc (w_reads w)\<rparr>"
  have "store_ok rt ?w" using assms store_ok_frame [of ?w w rt] by simp
  then have "store_ok rt (push_event (event_record pf e t sid agent payload w) ?w)"
    by (rule store_ok_push) (simp add: event_record_def events_of_def)
  then show ?thesis
    using append_event_run [OF store_okD(1) [OF assms]] by (simp add: Let_def)
qed

lemma keeps_append_event: "keeps (store_ok rt) (append_event pf e t sid agent payload)"
  by (rule specI) (simp_all add: append_event_store)

lemma spec_create_checkpoint:
  "spec (store_ok rt) (\<lambda>w. checkpoint_at rt (events_of w (cp_execution_id cp)) cp)
     (create_checkpoint cp) (\<lambda>_ _. True)"
proof (rule specI)
  fix w assume ok: "store_ok rt w" and cp: "checkpoint_at rt (events_of w (cp_execution_id cp)) cp"
  show "store_ok rt (snd (create_checkpoint cp w))"
  proof (cases "\<exists>x \<in> set (checkpoints_of w (cp_execution_id cp)).
      cp_checkpoint_number x = cp_checkpoint_number cp")
    case True
    with ok show ?thesis by (simp add: create_checkpoint_def)
  next
    case False
    let ?w = "w\<lparr>checkpoints := checkpoints w @ [cp]\<rparr>"
    have "distinct (map cp_checkpoint_number (checkpoints_of ?w eid))" for eid
      using store_okD(2) [OF ok, of eid] False by (auto simp: checkpoints_of_def)
    with ok cp have "store_ok rt ?w"
      by (auto simp: store_ok_def journal_numbered_def events_of_def)
    moreover from False have "snd (create_checkpoint cp w) = ?w" by (simp add: create_checkpoint_def)
    ultimately show ?thesis by simp
  qed
qed simp

lemma keeps_mark_superseded: "keeps (store_ok rt) (mark_superseded_after eid n)"
  unfolding mark_superseded_after_def
proof (rule keeps_emod)
  fix w assume ok: "store_ok rt w"
  let ?f = "\<lambda>c. if cp_execution_id c = eid then c\<lparr>cp_superseded := n < cp_checkpoint_number c\<rparr> else c"
  let ?w = "w\<lparr>checkpoints := update_rows (\<lambda>c. cp_execution_id c = eid)
    (\<lambda>c. c\<lparr>cp_superseded := n < cp_checkpoint_number c\<rparr>) (checkpoints w)\<rparr>"
  have co: "checkpoints_of ?w e = map ?f (checkpoints_of w e)" for e
    by (auto simp: checkpoints_of_def update_rows_def filter_map comp_def intro!: map_cong filter_cong)
  have "map cp_checkpoint_number (checkpoints_of ?w e) = map cp_checkpoint_number (checkpoints_of w e)" for e
    unfolding co by simp
  moreover have "checkpoint_at rt evs (c\<lparr>cp_superseded := b\<rparr>) = checkpoint_at rt evs c" for evs c b
    by (simp add: checkpoint_at_def checkpoint_of_def initial_state_def)
  ultimately show "store_ok rt ?w"
    using ok by (auto simp: store_ok_def journal_numbered_def events_of_def update_rows_def)
qed

lemma store_ok_delete_checkpoints:
  assumes ok: "store_ok rt w"
  shows "store_ok rt (w\<lparr>checkpoints := filter P (checkpoints w)\<rparr>)"
proof -
  let ?w = "w\<lparr>checkpoints := filter P (checkpoints w)\<rparr>"
  have "checkpoints_of ?w eid = filter P (checkpoints_of w eid)" for eid
    by (simp add: checkpoints_of_def filter_filter conj_commute)
  then have "distinct (map cp_checkpoint_number (checkpoints_of ?w eid))" for eid
    using store_okD(2) [OF ok, of eid] by (simp add: distinct_map_filter)
  with ok show ?thesis by (auto simp: store_ok_def journal_numbered_def events_of_def)
qed

end
