(* ===== verification/Execution_Events.thy ===== *)
theory Execution_Events
  imports Execution_Store
begin

text \<open>
  The publishers of execution/events.py and workflows/events.py: which topic, key, event type and
  payload each domain event has on the bus. Without a producer nothing is published. A publisher
  keeps the store invariant: it touches neither the journal nor the cache.
\<close>

definition opt_str :: "string option \<Rightarrow> pyval" where
  "opt_str s = (case s of None \<Rightarrow> PNone | Some x \<Rightarrow> PStr x)"

text \<open>\<open>_correlation(execution)\<close>, with a fresh correlation id.\<close>

definition correlation :: "platform \<Rightarrow> Execution \<Rightarrow> CorrelationContext op" where
  "correlation pf e =
     ebind (fresh_uuid pf) (\<lambda>cid.
     eret \<lparr>cc_tenant_id = None,
           cc_workspace_id = Some (ex_workspace_id e),
           cc_conversation_id = ex_correlation_conversation_id e,
           cc_interaction_id = ex_correlation_interaction_id e,
           cc_execution_id = Some (ex_id e),
           cc_fleet_id = ex_correlation_fleet_id e,
           cc_goal_id = ex_correlation_goal_id e,
           cc_agent_fqn = PNone,
           cc_correlation_id = cid\<rparr>)"

definition execution_message ::
  "string \<Rightarrow> uuid \<Rightarrow> string \<Rightarrow> pydict \<Rightarrow> CorrelationContext \<Rightarrow> message" where
  "execution_message topic eid event_type payload ctx =
     \<lparr>msg_topic = topic, msg_key = eid, msg_event_type = event_type, msg_payload = payload,
      msg_correlation = ctx, msg_source = ''platform.execution''\<rparr>"

definition publish_execution_created ::
  "platform \<Rightarrow> uuid \<Rightarrow> uuid \<Rightarrow> uuid \<Rightarrow> uuid \<Rightarrow> CorrelationContext \<Rightarrow> unit op" where
  "publish_execution_created pf eid definition_id version_id workspace_id ctx =
     publish pf (execution_message ''execution.events'' eid ''execution.created''
       [(PStr ''execution_id'', PStr eid), (PStr ''workflow_definition_id'', PStr definition_id),
        (PStr ''workflow_version_id'', PStr version_id), (PStr ''workspace_id'', PStr workspace_id)] ctx)"

definition publish_execution_status_changed ::
  "platform \<Rightarrow> uuid \<Rightarrow> string \<Rightarrow> string option \<Rightarrow> CorrelationContext \<Rightarrow> unit op" where
  "publish_execution_status_changed pf eid status sid ctx =
     publish pf (execution_message ''execution.events'' eid ''execution.status_changed''
       [(PStr ''execution_id'', PStr eid), (PStr ''status'', PStr status),
        (PStr ''step_id'', opt_str sid)] ctx)"

definition publish_execution_reprioritized ::
  "platform \<Rightarrow> uuid \<Rightarrow> string \<Rightarrow> string list \<Rightarrow> uuid option \<Rightarrow> string option \<Rightarrow> pyval \<Rightarrow>
   CorrelationContext \<Rightarrow> unit op" where
  "publish_execution_reprioritized pf eid reason affected trigger_id trigger_name queue_order ctx =
     publish pf (execution_message ''execution.events'' eid ''execution.reprioritized''
       [(PStr ''execution_id'', PStr eid), (PStr ''trigger_reason'', PStr reason),
        (PStr ''steps_affected'', PList (map PStr affected)),
        (PStr ''trigger_id'', opt_str trigger_id), (PStr ''trigger_name'', opt_str trigger_name),
        (PStr ''new_queue_order'', queue_order)] ctx)"

definition publish_execution_rolled_back ::
  "platform \<Rightarrow> uuid \<Rightarrow> uuid \<Rightarrow> nat \<Rightarrow> uuid \<Rightarrow> CorrelationContext \<Rightarrow> unit op" where
  "publish_execution_rolled_back pf eid action_id n workspace_id ctx =
     publish pf (execution_message ''execution.events'' eid ''execution.rolled_back''
       [(PStr ''execution_id'', PStr eid), (PStr ''rollback_action_id'', PStr action_id),
        (PStr ''target_checkpoint_number'', PInt (int n)), (PStr ''workspace_id'', PStr workspace_id)]
       ctx)"

definition publish_prompt_secret_detected ::
  "platform \<Rightarrow> uuid \<Rightarrow> uuid \<Rightarrow> string \<Rightarrow> string \<Rightarrow> string \<Rightarrow> CorrelationContext \<Rightarrow> unit op" where
  "publish_prompt_secret_detected pf eid workspace_id agent sid secret_type ctx =
     publish pf (execution_message ''monitor.alerts'' eid ''prompt_secret_detected''
       [(PStr ''execution_id'', PStr eid), (PStr ''workspace_id'', PStr workspace_id),
        (PStr ''agent_fqn'', PStr agent), (PStr ''step_id'', PStr sid),
        (PStr ''secret_type'', PStr secret_type)] ctx)"

definition workflow_message :: "uuid \<Rightarrow> string \<Rightarrow> pydict \<Rightarrow> CorrelationContext \<Rightarrow> message" where
  "workflow_message wid event_type payload ctx =
     \<lparr>msg_topic = ''workflow.triggers'', msg_key = wid, msg_event_type = event_type,
      msg_payload = payload, msg_correlation = ctx, msg_source = ''platform.workflows''\<rparr>"

definition publish_workflow_published ::
  "platform \<Rightarrow> uuid \<Rightarrow> uuid \<Rightarrow> int \<Rightarrow> uuid \<Rightarrow> int \<Rightarrow> CorrelationContext \<Rightarrow> unit op" where
  "publish_workflow_published pf wid vid n workspace_id sv ctx =
     publish pf (workflow_message wid ''workflows.workflow.published''
       [(PStr ''workflow_id'', PStr wid), (PStr ''version_id'', PStr vid),
        (PStr ''version_number'', PInt n), (PStr ''workspace_id'', PStr workspace_id),
        (PStr ''schema_version'', PInt sv)] ctx)"

definition publish_trigger_fired ::
  "platform \<Rightarrow> uuid \<Rightarrow> uuid \<Rightarrow> string \<Rightarrow> uuid option \<Rightarrow> CorrelationContext \<Rightarrow> unit op" where
  "publish_trigger_fired pf wid tid ttype eid ctx =
     publish pf (workflow_message wid ''workflows.trigger.fired''
       [(PStr ''workflow_id'', PStr wid), (PStr ''trigger_id'', PStr tid),
        (PStr ''trigger_type'', PStr ttype), (PStr ''execution_id'', opt_str eid)] ctx)"

lemma frame_ebind:
  assumes "store_frame m" and "\<And>x. store_frame (f x)"
  shows "store_frame (ebind m f)"
  unfolding store_frame_def
proof
  fix w
  obtain r w1 where m: "m w = (r, w1)" by fastforce
  with assms(1) have w1: "events w1 = events w" "checkpoints w1 = checkpoints w" "redis w1 = redis w"
    "launches w1 = launches w" unfolding store_frame_def by (metis snd_conv)+
  show "events (snd (ebind m f w)) = events w \<and> checkpoints (snd (ebind m f w)) = checkpoints w \<and>
      redis (snd (ebind m f w)) = redis w \<and> launches (snd (ebind m f w)) = launches w"
    using m w1 assms(2) by (cases r) (simp_all add: run_ebind store_frame_def)
qed

lemma frame_correlation: "store_frame (correlation pf e)"
  unfolding correlation_def by (intro frame_ebind frame_basic)

lemma frame_publishers:
  "store_frame (publish_execution_created pf eid did vid ws ctx)"
  "store_frame (publish_execution_status_changed pf eid status sid ctx)"
  "store_frame (publish_execution_reprioritized pf eid reason affected tid tn qo ctx)"
  "store_frame (publish_execution_rolled_back pf eid aid n ws ctx)"
  "store_frame (publish_prompt_secret_detected pf eid ws ag s ty ctx)"
  "store_frame (publish_workflow_published pf wid vid k ws sv ctx)"
  "store_frame (publish_trigger_fired pf wid tid2 tt eo ctx)"
  by (simp_all add: publish_execution_created_def publish_execution_status_changed_def
      publish_execution_reprioritized_def publish_execution_rolled_back_def
      publish_prompt_secret_detected_def publish_workflow_published_def publish_trigger_fired_def
      frame_services)

lemmas keeps_publishers = frame_correlation [THEN keeps_store_frame]
  frame_publishers [THEN keeps_store_frame]

end
