(* ===== verification/Py_Json.thy ===== *)
theory Py_Json
  imports Py_Values "HOL-Library.List_Lexorder" "HOL-Library.Char_ord"
begin

text \<open>
  \<open>json.dumps(value, sort_keys=True)\<close> with its default separators and ASCII output: the text
  whose length the checkpoint service bounds, that the scheduler stores as task plan, and in which
  the prompt preflight looks for secrets. Keys that are all strings or all finite numbers are sorted;
  other mixtures do not compare and raise.
\<close>

definition hex_digit :: "nat \<Rightarrow> char" where
  "hex_digit n = (if n < 10 then char_of (48 + n) else char_of (87 + n))"

definition escape_char :: "char \<Rightarrow> string" where
  "escape_char c =
     (let n = (of_char c :: nat) in
      if c = CHR 0x22 then [CHR 0x5C, CHR 0x22]
      else if c = CHR 0x5C then [CHR 0x5C, CHR 0x5C]
      else if n = 10 then [CHR 0x5C, CHR ''n'']
      else if n = 13 then [CHR 0x5C, CHR ''r'']
      else if n = 9 then [CHR 0x5C, CHR ''t'']
      else if n = 12 then [CHR 0x5C, CHR ''f'']
      else if n = 8 then [CHR 0x5C, CHR ''b'']
      else if 32 \<le> n \<and> n \<le> 126 then [c]
      else [CHR 0x5C, CHR ''u'', CHR ''0'', CHR ''0'', hex_digit (n div 16), hex_digit (n mod 16)])"

definition json_string :: "string \<Rightarrow> string" where
  "json_string s = [CHR 0x22] @ concat (map escape_char s) @ [CHR 0x22]"

definition json_float :: "py_runtime \<Rightarrow> pyfloat \<Rightarrow> string" where
  "json_float rt f =
     (case f of
        NaN \<Rightarrow> ''NaN''
      | PosInf \<Rightarrow> ''Infinity''
      | NegInf \<Rightarrow> ''-Infinity''
      | Fin _ \<Rightarrow> rt_repr rt (PFloat f))"

fun json_key :: "py_runtime \<Rightarrow> pyval \<Rightarrow> string py" where
  "json_key rt (PStr s) = Inr (json_string s)"
| "json_key rt (PFloat f) = Inr (json_string (json_float rt f))"
| "json_key rt (PBool b) = Inr (json_string (if b then ''true'' else ''false''))"
| "json_key rt PNone = Inr (json_string ''null'')"
| "json_key rt (PInt i) = Inr (json_string (show_int i))"
| "json_key rt _ = Inl TypeError"

fun key_text :: "pyval \<Rightarrow> string" where
  "key_text (PStr s) = s"
| "key_text _ = []"

definition key_num :: "pyval \<Rightarrow> rat" where
  "key_num k = (case num_of k of Some r \<Rightarrow> r | None \<Rightarrow> 0)"

definition sorted_items :: "(pyval \<times> 'a) list \<Rightarrow> (pyval \<times> 'a) list py" where
  "sorted_items items =
     (if length items \<le> 1 then Inr items
      else if list_all (\<lambda>(k, _). is_str k) items then Inr (sort_key (\<lambda>(k, _). key_text k) items)
      else if list_all (\<lambda>(k, _). num_of k \<noteq> None) items then Inr (sort_key (\<lambda>(k, _). key_num k) items)
      else Inl TypeError)"

lemma rmap_cong [fundef_cong]:
  "xs = ys \<Longrightarrow> (\<And>x. x \<in> set ys \<Longrightarrow> f x = g x) \<Longrightarrow> rmap f xs = rmap g ys"
  by (induction ys arbitrary: xs) (auto split: sum.splits)

lemma rbind_cong [fundef_cong]:
  "m = n \<Longrightarrow> (\<And>x. n = Inr x \<Longrightarrow> f x = g x) \<Longrightarrow> rbind m f = rbind n g"
  by (cases n) auto

fun json_dumps :: "py_runtime \<Rightarrow> pyval \<Rightarrow> string py" where
  "json_dumps rt PNone = Inr ''null''"
| "json_dumps rt (PBool b) = Inr (if b then ''true'' else ''false'')"
| "json_dumps rt (PInt i) = Inr (show_int i)"
| "json_dumps rt (PFloat f) = Inr (json_float rt f)"
| "json_dumps rt (PStr s) = Inr (json_string s)"
| "json_dumps rt (PList xs) =
     rbind (rmap (json_dumps rt) xs) (\<lambda>ts. Inr (''['' @ join_with '', '' ts @ '']''))"
| "json_dumps rt (PDict d) =
     rbind (rmap (\<lambda>(k, v). rbind (json_dumps rt v) (\<lambda>t. Inr (k, t))) d) (\<lambda>kts.
     rbind (sorted_items kts) (\<lambda>sorted.
     rbind (rmap (\<lambda>(k, t). rbind (json_key rt k) (\<lambda>kt. Inr (kt @ '': '' @ t))) sorted) (\<lambda>ts.
     Inr (''{'' @ join_with '', '' ts @ ''}''))))"

end
