(* ===== verification/Execution_Checkpoint.thy ===== *)
theory Execution_Checkpoint
  imports Execution_Events Py_Json
begin

text \<open>
  execution/checkpoint_service.py: when a checkpoint is taken, what it holds, the size limit,
  rollback to a checkpoint with its quarantine path, and garbage collection. The theory shows that a
  capture of a faithful state is a faithful checkpoint.
\<close>

section \<open>Policies\<close>

definition DEFAULT_CHECKPOINT_POLICY :: pydict where
  "DEFAULT_CHECKPOINT_POLICY = [(PStr ''type'', PStr ''before_tool_invocations'')]"

text \<open>\<open>dict(policy or DEFAULT_CHECKPOINT_POLICY)\<close>: an empty policy is the default too.\<close>

definition policy_or_default :: "pydict option \<Rightarrow> pydict" where
  "policy_or_default policy =
     (case policy of None \<Rightarrow> DEFAULT_CHECKPOINT_POLICY
      | Some p \<Rightarrow> if p = [] then DEFAULT_CHECKPOINT_POLICY else p)"

definition should_capture :: "py_runtime \<Rightarrow> StepIR \<Rightarrow> pydict option \<Rightarrow> bool py" where
  "should_capture rt step policy_dict =
     (let policy = policy_or_default policy_dict;
          policy_type = py_str rt (dget_or policy ''type'' (PStr ''before_tool_invocations''))
      in if policy_type = ''disabled'' then Inr False
         else if policy_type = ''before_every_step'' then Inr True
         else if policy_type = ''named_steps'' then
           rbind (py_iter (dget_or policy ''step_ids'' (PList []))) (\<lambda>items.
           Inr (step_id step \<in> set (map (py_str rt) items)))
         else Inr (step_type step = ''tool_call''))"

definition ROLLBACK_ELIGIBLE_STATUSES :: "ExecutionStatus list" where
  "ROLLBACK_ELIGIBLE_STATUSES = [ES_paused, ES_waiting_for_approval, ES_failed, ES_rolled_back]"

section \<open>Capture\<close>

record checkpoint_snapshot =
  sn_payload :: pydict
  sn_current_context :: pydict
  sn_accumulated_costs :: pydict
  sn_policy_snapshot :: pydict

definition snapshot_payload ::
  "ExecutionStateResponse \<Rightarrow> pydict option \<Rightarrow> checkpoint_snapshot py" where
  "snapshot_payload st policy_snapshot =
     rbind (py_dict (dget_or (st_step_results st) ''_execution_data'' (PDict []))) (\<lambda>ctx.
     rbind (py_dict (dget_or (st_step_results st) ''_accumulated_costs'' (PDict []))) (\<lambda>costs.
     let policy = policy_or_default policy_snapshot in
     Inr \<lparr>sn_payload =
            [(PStr ''last_event_sequence'', PInt (int (st_last_event_sequence st))),
             (PStr ''step_results'', PDict (st_step_results st)),
             (PStr ''completed_step_ids'', PList (map PStr (st_completed_step_ids st))),
             (PStr ''pending_step_ids'', PList (map PStr (st_pending_step_ids st))),
             (PStr ''active_step_ids'', PList (map PStr (st_active_step_ids st))),
             (PStr ''current_context'', PDict ctx),
             (PStr ''accumulated_costs'', PDict costs),
             (PStr ''policy_snapshot'', PDict policy)],
          sn_current_context = ctx, sn_accumulated_costs = costs, sn_policy_snapshot = policy\<rparr>))"

definition capture ::
  "platform \<Rightarrow> uuid \<Rightarrow> ExecutionStateResponse \<Rightarrow> pydict option \<Rightarrow> ExecutionCheckpoint op" where
  "capture pf eid st policy_snapshot =
     ebind (elift (snapshot_payload st policy_snapshot)) (\<lambda>snap.
     ebind (elift (json_dumps (pf_runtime pf) (PDict (sn_payload snap)))) (\<lambda>encoded.
     ebind (eguard (int (length encoded) \<le> checkpoint_max_size_bytes pf)
              (CheckpointSizeLimitExceededError (length encoded) (checkpoint_max_size_bytes pf))) (\<lambda>_.
     ebind (get_next_checkpoint_number eid) (\<lambda>n.
     ebind (elift (py_dict (dget_or (st_step_results st) ''_execution_data'' (PDict [])))) (\<lambda>xdata.
     ebind (fresh_uuid pf) (\<lambda>cid.
     ebind (row_time pf) (\<lambda>t.
     create_checkpoint
       \<lparr>cp_id = cid, cp_execution_id = eid, cp_checkpoint_number = n,
        cp_last_event_sequence = st_last_event_sequence st,
        cp_step_results = st_step_results st,
        cp_completed_step_ids = st_completed_step_ids st,
        cp_pending_step_ids = st_pending_step_ids st,
        cp_active_step_ids = st_active_step_ids st,
        cp_execution_data = xdata,
        cp_current_context = sn_current_context snap,
        cp_accumulated_costs = sn_accumulated_costs snap,
        cp_superseded = False,
        cp_policy_snapshot = sn_policy_snapshot snap,
        cp_created_at = t\<rparr>)))))))"

section \<open>Queries\<close>

record CheckpointSummaryResponse =
  cs_id :: uuid
  cs_execution_id :: uuid
  cs_checkpoint_number :: nat
  cs_last_event_sequence :: nat
  cs_created_at :: timestamp
  cs_completed_step_count :: nat
  cs_current_step_id :: "string option"
  cs_accumulated_costs :: pydict
  cs_superseded :: bool
  cs_policy_snapshot :: pydict

definition checkpoint_summary :: "ExecutionCheckpoint \<Rightarrow> CheckpointSummaryResponse" where
  "checkpoint_summary c =
     \<lparr>cs_id = cp_id c, cs_execution_id = cp_execution_id c,
      cs_checkpoint_number = cp_checkpoint_number c,
      cs_last_event_sequence = cp_last_event_sequence c, cs_created_at = cp_created_at c,
      cs_completed_step_count = length (cp_completed_step_ids c),
      cs_current_step_id =
        (case cp_active_step_ids c of
           s # _ \<Rightarrow> Some s
         | [] \<Rightarrow> (case cp_pending_step_ids c of s # _ \<Rightarrow> Some s | [] \<Rightarrow> None)),
      cs_accumulated_costs = cp_accumulated_costs c, cs_superseded = cp_superseded c,
      cs_policy_snapshot = cp_policy_snapshot c\<rparr>"

record CheckpointListResponse =
  cl_items :: "CheckpointSummaryResponse list"
  cl_total :: nat
  cl_page :: nat
  cl_page_size :: nat

text \<open>\<open>offset=(page - 1) * page_size\<close>: PostgreSQL refuses a negative offset.\<close>

definition page_offset :: "nat \<Rightarrow> nat \<Rightarrow> nat py" where
  "page_offset page page_size =
     (if page = 0 \<and> 0 < page_size then Inl (ExternalError ''OFFSET must not be negative'')
      else Inr ((page - 1) * page_size))"

definition list_checkpoints :: "uuid \<Rightarrow> bool \<Rightarrow> nat \<Rightarrow> nat \<Rightarrow> CheckpointListResponse op" where
  "list_checkpoints eid include_superseded page page_size =
     ebind (get_execution_by_id eid) (\<lambda>e.
     case e of
       None \<Rightarrow> eraise (ExecutionNotFoundError eid)
     | Some _ \<Rightarrow>
         ebind (elift (page_offset page page_size)) (\<lambda>skip.
         ebind (list_checkpoints_rows eid include_superseded skip page_size) (\<lambda>(items, total).
         eret \<lparr>cl_items = map checkpoint_summary items, cl_total = total, cl_page = page,
               cl_page_size = page_size\<rparr>)))"

text \<open>\<open>CheckpointDetailResponse\<close> copies the row.\<close>

definition get_checkpoint :: "uuid \<Rightarrow> nat \<Rightarrow> ExecutionCheckpoint op" where
  "get_checkpoint eid n =
     ebind (get_execution_by_id eid) (\<lambda>e.
     case e of
       None \<Rightarrow> eraise (ExecutionNotFoundError eid)
     | Some _ \<Rightarrow>
         ebind (get_checkpoint_by_number eid n True) (\<lambda>c.
         case c of None \<Rightarrow> eraise (CheckpointNotFoundError eid n) | Some cp \<Rightarrow> eret cp))"

section \<open>Cost of a rollback\<close>

definition is_num :: "pyval \<Rightarrow> bool" where
  "is_num v \<longleftrightarrow> is_int v \<or> is_float v"

fun float_sub :: "pyfloat \<Rightarrow> pyfloat \<Rightarrow> pyfloat" where
  "float_sub (Fin a) (Fin b) = Fin (a - b)"
| "float_sub NaN _ = NaN"
| "float_sub _ NaN = NaN"
| "float_sub PosInf PosInf = NaN"
| "float_sub NegInf NegInf = NaN"
| "float_sub PosInf _ = PosInf"
| "float_sub NegInf _ = NegInf"
| "float_sub (Fin _) PosInf = NegInf"
| "float_sub (Fin _) NegInf = PosInf"

definition num_sub :: "py_runtime \<Rightarrow> pyval \<Rightarrow> pyval \<Rightarrow> pyval py" where
  "num_sub rt a b =
     (if is_int a \<and> is_int b then Inr (PInt (int_value a - int_value b))
      else rbind (py_float rt a) (\<lambda>x. rbind (py_float rt b) (\<lambda>y. Inr (PFloat (float_sub x y)))))"

text \<open>The keys are taken from a set; the order of the entries carries no meaning.\<close>

definition compute_cost_delta :: "py_runtime \<Rightarrow> pydict \<Rightarrow> pydict \<Rightarrow> pydict py" where
  "compute_cost_delta rt latest_costs target_costs =
     (let value = (\<lambda>d k. case map_of d k of None \<Rightarrow> PInt 0 | Some v \<Rightarrow> v) in
      rfold (\<lambda>k acc.
         if is_num (value latest_costs k) \<and> is_num (value target_costs k) then
           rbind (num_sub rt (value latest_costs k) (value target_costs k)) (\<lambda>v. Inr (dict_set acc k v))
         else Inr acc)
        (remdups (map fst latest_costs @ map fst target_costs)) [])"

section \<open>Rollback\<close>

record RollbackResponse =
  rr_rollback_action_id :: uuid
  rr_execution_id :: uuid
  rr_target_checkpoint_id :: uuid
  rr_target_checkpoint_number :: nat
  rr_initiated_by :: "uuid option"
  rr_cost_delta_reversed :: pydict
  rr_status :: string
  rr_execution_status :: ExecutionStatus
  rr_warning :: "string option"
  rr_created_at :: timestamp

definition day :: int where
  "day = 86400 * 1000000"

definition rollback_payload :: "uuid \<Rightarrow> ExecutionCheckpoint \<Rightarrow> Execution \<Rightarrow> string option \<Rightarrow> pydict" where
  "rollback_payload action_id c e reason =
     [(PStr ''rollback_action_id'', PStr action_id),
      (PStr ''target_checkpoint_number'', PInt (int (cp_checkpoint_number c))),
      (PStr ''completed_step_ids'', PList (map PStr (cp_completed_step_ids c))),
      (PStr ''pending_step_ids'', PList (map PStr (cp_pending_step_ids c))),
      (PStr ''active_step_ids'', PList (map PStr (cp_active_step_ids c))),
      (PStr ''step_results'', PDict (cp_step_results c)),
      (PStr ''workflow_version_id'', PStr (ex_workflow_version_id e)),
      (PStr ''reason'', opt_str reason)]"

definition rollback_action ::
  "platform \<Rightarrow> uuid \<Rightarrow> ExecutionCheckpoint \<Rightarrow> uuid option \<Rightarrow> pydict \<Rightarrow> RollbackActionStatus \<Rightarrow> string option \<Rightarrow>
   ExecutionRollbackAction op" where
  "rollback_action pf eid c initiated_by delta status reason =
     ebind (fresh_uuid pf) (\<lambda>aid.
     ebind (row_time pf) (\<lambda>t.
     let a = \<lparr>ra_id = aid, ra_execution_id = eid, ra_target_checkpoint_id = cp_id c,
              ra_target_checkpoint_number = cp_checkpoint_number c, ra_initiated_by = initiated_by,
              ra_cost_delta_reversed = delta, ra_status = status, ra_failure_reason = reason,
              ra_created_at = t\<rparr>
     in ebind (create_rollback_action a) (\<lambda>_. eret a)))"

text \<open>The body of the \<open>try\<close> block.\<close>

definition rollback_apply ::
  "platform \<Rightarrow> Execution \<Rightarrow> ExecutionCheckpoint \<Rightarrow> uuid option \<Rightarrow> string option \<Rightarrow> pydict \<Rightarrow> RollbackResponse op" where
  "rollback_apply pf e c initiated_by reason delta =
     ebind (rollback_action pf (ex_id e) c initiated_by delta RS_completed reason) (\<lambda>action.
     ebind (mark_superseded_after (ex_id e) (cp_checkpoint_number c)) (\<lambda>_.
     ebind (update_execution_status (ex_id e) ES_rolled_back None None) (\<lambda>_.
     ebind (append_event pf e EV_rolled_back None None (rollback_payload (ra_id action) c e reason)) (\<lambda>_.
     ebind (correlation pf e) (\<lambda>ctx.
     ebind (publish_execution_rolled_back pf (ex_id e) (ra_id action) (cp_checkpoint_number c)
              (ex_workspace_id e) ctx) (\<lambda>_.
     eret \<lparr>rr_rollback_action_id = ra_id action, rr_execution_id = ex_id e,
           rr_target_checkpoint_id = cp_id c, rr_target_checkpoint_number = cp_checkpoint_number c,
           rr_initiated_by = initiated_by, rr_cost_delta_reversed = delta,
           rr_status = rollback_status_value (ra_status action),
           rr_execution_status = ES_rolled_back,
           rr_warning = Some ''External side effects made after the rollback point must be reconciled manually.'',
           rr_created_at = ra_created_at action\<rparr>))))))"

text \<open>The \<open>except\<close> block: the failure is recorded, the execution quarantined, the
  transaction committed.\<close>

definition rollback_quarantine ::
  "platform \<Rightarrow> Execution \<Rightarrow> ExecutionCheckpoint \<Rightarrow> uuid option \<Rightarrow> uuid \<Rightarrow> nat \<Rightarrow> exn \<Rightarrow> RollbackResponse op" where
  "rollback_quarantine pf e c initiated_by eid n exc =
     ebind (rollback_action pf (ex_id e) c initiated_by [] RS_failed (Some (exn_text pf exc))) (\<lambda>_.
     ebind (update_execution_status (ex_id e) ES_rollback_failed None None) (\<lambda>_.
     ebind (emod (\<lambda>w. w\<lparr>w_commits := Suc (w_commits w)\<rparr>)) (\<lambda>_.
     eraise (RollbackFailedError eid n (exn_text pf exc)))))"

definition rollback ::
  "platform \<Rightarrow> uuid \<Rightarrow> nat \<Rightarrow> uuid option \<Rightarrow> string option \<Rightarrow> RollbackResponse op" where
  "rollback pf eid n initiated_by reason =
     ebind (get_execution_by_id eid) (\<lambda>found.
     case found of
       None \<Rightarrow> eraise (ExecutionNotFoundError eid)
     | Some e \<Rightarrow>
         ebind (eguard (ex_status e \<in> set ROLLBACK_ELIGIBLE_STATUSES)
                  (RollbackNotEligibleError eid (ex_status e))) (\<lambda>_.
         ebind (get_checkpoint_by_number eid n True) (\<lambda>target.
         case target of
           None \<Rightarrow> eraise (CheckpointNotFoundError eid n)
         | Some c \<Rightarrow>
             ebind (read_now pf) (\<lambda>t.
             ebind (eguard (\<not> cp_created_at c < t - checkpoint_retention_days pf * day)
                      (CheckpointRetentionExpiredError eid n)) (\<lambda>_.
             ebind (get_latest_checkpoint eid True) (\<lambda>latest.
             ebind (elift (compute_cost_delta (pf_runtime pf)
                      (case latest of None \<Rightarrow> [] | Some l \<Rightarrow> cp_accumulated_costs l)
                      (cp_accumulated_costs c))) (\<lambda>delta.
             ecatch (rollback_apply pf e c initiated_by reason delta)
               (rollback_quarantine pf e c initiated_by eid n))))))))"

section \<open>Garbage collection\<close>

definition pinned :: "world \<Rightarrow> ExecutionCheckpoint \<Rightarrow> bool" where
  "pinned w c \<longleftrightarrow> (\<exists>a \<in> set (rollback_actions w). ra_target_checkpoint_id a = cp_id c \<and> ra_status a \<noteq> RS_failed)"

text \<open>Flushing the deletions raises when a rollback action, failed ones included, still refers to
  one of the rows: the foreign key restricts.\<close>

definition gc_expired :: "platform \<Rightarrow> int \<Rightarrow> nat op" where
  "gc_expired pf retention_days =
     ebind (read_now pf) (\<lambda>t.
     ebind (eget (\<lambda>w. filter (\<lambda>c. cp_created_at c < t - retention_days * day \<and> \<not> pinned w c)
              (checkpoints w))) (\<lambda>items.
     ebind (eget (\<lambda>w. \<exists>a \<in> set (rollback_actions w). ra_target_checkpoint_id a \<in> set (map cp_id items))) (\<lambda>referenced.
     ebind (eguard (\<not> referenced) IntegrityError) (\<lambda>_.
     ebind (emod (\<lambda>w. w\<lparr>checkpoints := filter (\<lambda>c. cp_id c \<notin> set (map cp_id items)) (checkpoints w)\<rparr>)) (\<lambda>_.
     eret (length items))))))"

section \<open>The store invariant\<close>

lemma capture_faithful:
  assumes "state_at rt evs st" and "st_execution_id st = eid"
    and "cp_execution_id cp = eid" and "cp_last_event_sequence cp = st_last_event_sequence st"
    and "cp_step_results cp = st_step_results st"
    and "cp_completed_step_ids cp = st_completed_step_ids st"
    and "cp_pending_step_ids cp = st_pending_step_ids st"
    and "cp_active_step_ids cp = st_active_step_ids st"
    and "py_dict (dget_or (st_step_results st) ''_execution_data'' (PDict [])) = Inr (cp_execution_data cp)"
  shows "checkpoint_at rt evs cp"
proof -
  have "st_step_results (initial_state eid (Some cp)) = st_step_results st"
    using assms(5,9) by (auto simp: initial_state_def dict_setdefault_def dhas_def dget_or_def
        split: option.splits)
  then have "same_core (initial_state eid (Some cp)) st"
    using assms by (simp add: same_core_def) (simp add: initial_state_def)
  moreover obtain st' where "rfold (project_step rt) (take (st_last_event_sequence st) evs)
      (initial_state eid None) = Inr st'" "same_core st' st"
    using assms(1,2) by (auto simp: state_at_def)
  ultimately show ?thesis
    using assms by (auto simp: checkpoint_at_def checkpoint_of_def state_at_def
        intro: same_core_trans same_core_sym)
qed

lemma spec_capture:
  "spec (store_ok rt) (\<lambda>w. st_execution_id st = eid \<and> state_at rt (events_of w eid) st)
     (capture pf eid st policy) (\<lambda>_ _. True)"
proof -
  let ?R = "\<lambda>evs. st_execution_id st = eid \<and>
    state_at rt (filter (\<lambda>ev. ev_execution_id ev = eid) evs) st"
  let ?xd = "py_dict (dget_or (st_step_results st) ''_execution_data'' (PDict []))"
  note fr = spec_frame_events [where R = ?R]
  have "spec (store_ok rt) (\<lambda>w. ?R (events w)) (capture pf eid st policy) (\<lambda>_ _. True)"
    unfolding capture_def
    apply (rule spec_ebind [OF fr [OF frame_basic(3)]])
    apply (rule spec_ebind [OF fr [OF frame_basic(3)]])
    apply (rule spec_ebind [OF fr [OF frame_basic(5)]])
    apply (rule spec_ebind [OF fr [OF frame_queries(4)]])
    apply (rule spec_ebind [where R = "\<lambda>xd w. ?xd = Inr xd \<and> ?R (events w)"])
     apply (rule spec_elift, simp)
    subgoal for snap enc u n xd
      apply (rule spec_ebind [OF spec_frame_events [where R = "\<lambda>evs. ?xd = Inr xd \<and> ?R evs", OF frame_basic(7)]])
      apply (rule spec_ebind [OF spec_frame_events [where R = "\<lambda>evs. ?xd = Inr xd \<and> ?R evs", OF frame_basic(6)]])
      apply (rule spec_weaken [OF spec_create_checkpoint])
       apply (rule capture_faithful [where st = st and eid = eid])
              apply (simp_all add: events_of_def)
      done
    done
  then show ?thesis by (simp add: events_of_def)
qed

lemma frame_rollback_action: "store_frame (rollback_action pf eid c ib delta status reason)"
  unfolding rollback_action_def Let_def by (intro frame_ebind frame_ops)

end
