(* ===== verification/Workflow_Compiler.thy ===== *)
theory Workflow_Compiler
  imports Workflow_IR
begin

text \<open>
  The workflow compiler, workflows/compiler.py: validation of the parsed YAML payload, construction
  of the dependency edges, cycle detection, construction of the IR, and the compatibility check for
  hot changes. Three things the compiler reads are arguments: \<open>safe_load\<close>
  (the YAML parser, \<open>Inl\<close> its error text), \<open>schema_file\<close> (the parsed content of
  schemas/v<n>.json, if the file exists) and \<open>depth\<close> (how many nested calls the
  interpreter still allows; beyond it the recursion raises \<open>RecursionError\<close>).

  The theory proves that the depth-first search decides acyclicity, that a compiled workflow has
  unique steps and a well-founded dependency order, which exceptions the compiler can raise, and
  where its validation lets payloads through that the IR construction cannot handle.
\<close>

section \<open>Errors\<close>

text \<open>\<open>WorkflowCompilationError(message, path, value, code)\<close>: a detail that is
  \<open>None\<close> is left out.\<close>

definition WorkflowCompilationError :: "string \<Rightarrow> pyval \<Rightarrow> pyval \<Rightarrow> string \<Rightarrow> exn" where
  "WorkflowCompilationError message path value code =
     PlatformError code message
       ((if path = PNone then [] else [(''path'', path)]) @
        (if value = PNone then [] else [(''value'', value)]))"

definition default_code :: string where
  "default_code = ''WORKFLOW_COMPILATION_ERROR''"

definition schema_invalid :: "string \<Rightarrow> string \<Rightarrow> pyval \<Rightarrow> exn" where
  "schema_invalid message path value =
     WorkflowCompilationError message (PStr path) value ''WORKFLOW_SCHEMA_INVALID''"

definition quoted :: "string \<Rightarrow> string" where
  "quoted s = CHR 0x27 # s @ [CHR 0x27]"

definition indexed :: "string \<Rightarrow> nat \<Rightarrow> string" where
  "indexed path i = path @ ''['' @ show_nat i @ '']''"

section \<open>Field checks\<close>

definition assert_allowed_keys ::
  "py_runtime \<Rightarrow> pydict \<Rightarrow> string list \<Rightarrow> string \<Rightarrow> unit py" where
  "assert_allowed_keys rt payload allowed path =
     (case find (\<lambda>(k, _). k \<notin> PStr ` set allowed) payload of
        None \<Rightarrow> Inr ()
      | Some (k, v) \<Rightarrow>
          Inl (WorkflowCompilationError (''Unexpected field '' @ quoted (py_str rt k))
                (if path = [] then k else PStr (path @ ''.'' @ py_str rt k))
                v ''WORKFLOW_SCHEMA_INVALID''))"

definition require_non_empty_string :: "pydict \<Rightarrow> string \<Rightarrow> string \<Rightarrow> string py" where
  "require_non_empty_string payload key path =
     (case dget_none payload key of
        PStr s \<Rightarrow>
          if strip s = [] then Inl (schema_invalid (key @ '' must be a non-empty string'') path (PStr s))
          else Inr s
      | v \<Rightarrow> Inl (schema_invalid (key @ '' must be a non-empty string'') path v))"

definition validate_optional_string :: "pydict \<Rightarrow> string \<Rightarrow> string \<Rightarrow> unit py" where
  "validate_optional_string payload key path =
     (if \<not> dhas payload key \<or> dget_none payload key = PNone then Inr ()
      else require (is_str (dget_none payload key))
             (schema_invalid (key @ '' must be a string or null'') path (dget_none payload key)))"

definition require_int :: "pydict \<Rightarrow> string \<Rightarrow> string \<Rightarrow> int \<Rightarrow> pyval py" where
  "require_int payload key path minimum =
     (let value = dget_none payload key in
      if \<not> is_int value then Inl (schema_invalid (key @ '' must be an integer'') path value)
      else if int_value value < minimum then
        Inl (schema_invalid (key @ '' must be greater than or equal to '' @ show_int minimum) path value)
      else Inr value)"

definition require_number ::
  "py_runtime \<Rightarrow> pydict \<Rightarrow> string \<Rightarrow> string \<Rightarrow> pyfloat \<Rightarrow> pyfloat py" where
  "require_number rt payload key path minimum =
     (let value = dget_none payload key in
      if \<not> (is_int value \<or> is_float value) \<or> is_bool value then
        Inl (schema_invalid (key @ '' must be a number'') path value)
      else rbind (py_float rt value) (\<lambda>number.
        if float_less number minimum then
          Inl (schema_invalid (key @ '' must be greater than or equal to '' @
                 py_str rt (PFloat minimum)) path value)
        else Inr number))"

definition require_float_in_range ::
  "py_runtime \<Rightarrow> pydict \<Rightarrow> string \<Rightarrow> string \<Rightarrow> pyfloat \<Rightarrow> pyfloat \<Rightarrow> pyfloat py" where
  "require_float_in_range rt payload key path minimum_exclusive maximum =
     (let value = dget_none payload key in
      if \<not> (is_int value \<or> is_float value) \<or> is_bool value then
        Inl (schema_invalid (key @ '' must be a number'') path value)
      else rbind (py_float rt value) (\<lambda>number.
        if float_le number minimum_exclusive \<or> float_less maximum number then
          Inl (schema_invalid (key @ '' must be within ('' @ py_str rt (PFloat minimum_exclusive) @
                 '', '' @ py_str rt (PFloat maximum) @ '']'') path value)
        else Inr number))"

definition drop_value :: "'a py \<Rightarrow> unit py" where
  "drop_value m = rbind m (\<lambda>_. Inr ())"

section \<open>Validation of nested objects\<close>

fun depends_items :: "string \<Rightarrow> nat \<Rightarrow> string set \<Rightarrow> pyval list \<Rightarrow> unit py" where
  "depends_items path index seen [] = Inr ()"
| "depends_items path index seen (item # rest) =
     (case item of
        PStr s \<Rightarrow>
          if strip s = [] then
            Inl (schema_invalid ''depends_on items must be non-empty strings'' (indexed path index) item)
          else if s \<in> seen then
            Inl (schema_invalid ''depends_on items must be unique'' (indexed path index) item)
          else depends_items path (Suc index) (insert s seen) rest
      | _ \<Rightarrow>
          Inl (schema_invalid ''depends_on items must be non-empty strings'' (indexed path index) item))"

definition validate_depends_on :: "pyval \<Rightarrow> string \<Rightarrow> unit py" where
  "validate_depends_on value path =
     (case value of
        PNone \<Rightarrow> Inr ()
      | PList items \<Rightarrow> depends_items path 0 {} items
      | _ \<Rightarrow> Inl (schema_invalid ''depends_on must be an array of step ids'' path value))"

fun binding_items :: "string \<Rightarrow> pydict \<Rightarrow> unit py" where
  "binding_items path [] = Inr ()"
| "binding_items path ((key, item) # rest) =
     (case key of
        PStr k \<Rightarrow>
          if is_str item then binding_items path rest
          else Inl (schema_invalid ''input_bindings values must be strings'' (path @ ''.'' @ k) item)
      | _ \<Rightarrow> Inl (schema_invalid ''input_bindings keys must be strings'' path key))"

definition validate_input_bindings :: "pyval \<Rightarrow> string \<Rightarrow> unit py" where
  "validate_input_bindings value path =
     (case value of
        PNone \<Rightarrow> Inr ()
      | PDict d \<Rightarrow> binding_items path d
      | _ \<Rightarrow> Inl (schema_invalid ''input_bindings must be an object'' path value))"

fun string_items :: "string \<Rightarrow> string \<Rightarrow> nat \<Rightarrow> pyval list \<Rightarrow> unit py" where
  "string_items message path index [] = Inr ()"
| "string_items message path index (item # rest) =
     (if is_str item then string_items message path (Suc index) rest
      else Inl (schema_invalid message (indexed path index) item))"

definition validate_retry_config :: "py_runtime \<Rightarrow> pyval \<Rightarrow> string \<Rightarrow> unit py" where
  "validate_retry_config rt value path =
     (case value of
        PNone \<Rightarrow> Inr ()
      | PDict d \<Rightarrow> checks
          [assert_allowed_keys rt d
             [''max_retries'', ''backoff_strategy'', ''base_delay_seconds'', ''max_delay_seconds'',
              ''retry_on_event_types''] path,
           (if dhas d ''max_retries'' then
              drop_value (require_int d ''max_retries'' (path @ ''.max_retries'') 0)
            else Inr ()),
           (if dhas d ''backoff_strategy'' then
              rbind (require_non_empty_string d ''backoff_strategy'' (path @ ''.backoff_strategy''))
                (\<lambda>strategy. require (strategy \<in> {''fixed'', ''exponential'', ''linear''})
                   (schema_invalid (''Unsupported backoff_strategy '' @ quoted strategy)
                      (path @ ''.backoff_strategy'') (PStr strategy)))
            else Inr ()),
           (if dhas d ''base_delay_seconds'' then
              drop_value (require_number rt d ''base_delay_seconds'' (path @ ''.base_delay_seconds'') (Fin 0))
            else Inr ()),
           (if dhas d ''max_delay_seconds'' then
              drop_value (require_number rt d ''max_delay_seconds'' (path @ ''.max_delay_seconds'') (Fin 0))
            else Inr ()),
           (case dget_none d ''retry_on_event_types'' of
              PNone \<Rightarrow> Inr ()
            | PList items \<Rightarrow> string_items ''retry_on_event_types items must be strings''
                               (path @ ''.retry_on_event_types'') 0 items
            | retry_on \<Rightarrow> Inl (schema_invalid ''retry_on_event_types must be an array''
                               (path @ ''.retry_on_event_types'') retry_on))]
      | _ \<Rightarrow> Inl (schema_invalid ''retry_config must be an object or null'' path value))"

fun approver_items :: "string \<Rightarrow> nat \<Rightarrow> pyval list \<Rightarrow> unit py" where
  "approver_items path index [] = Inr ()"
| "approver_items path index (item # rest) =
     (if (case item of PStr s \<Rightarrow> strip s \<noteq> [] | _ \<Rightarrow> False) then approver_items path (Suc index) rest
      else Inl (schema_invalid ''required_approvers items must be non-empty strings''
                  (indexed path index) item))"

definition validate_approval_config :: "py_runtime \<Rightarrow> pyval \<Rightarrow> string \<Rightarrow> unit py" where
  "validate_approval_config rt value path =
     (case value of
        PNone \<Rightarrow> Inr ()
      | PDict d \<Rightarrow> checks
          [assert_allowed_keys rt d [''required_approvers'', ''timeout_seconds'', ''timeout_action''] path,
           (case dget_none d ''required_approvers'' of
              PList (x # xs) \<Rightarrow> approver_items (path @ ''.required_approvers'') 0 (x # xs)
            | approvers \<Rightarrow> Inl (schema_invalid ''required_approvers must be a non-empty array''
                                 (path @ ''.required_approvers'') approvers)),
           (if dhas d ''timeout_seconds'' then
              drop_value (require_int d ''timeout_seconds'' (path @ ''.timeout_seconds'') 1)
            else Inr ()),
           (if dhas d ''timeout_action'' then
              rbind (require_non_empty_string d ''timeout_action'' (path @ ''.timeout_action''))
                (\<lambda>action. require (action \<in> {''fail'', ''skip'', ''escalate''})
                   (schema_invalid (''Unsupported timeout_action '' @ quoted action)
                      (path @ ''.timeout_action'') (PStr action)))
            else Inr ())]
      | _ \<Rightarrow> Inl (schema_invalid ''approval_config must be an object or null'' path value))"

section \<open>Validation of a step\<close>

definition allowed_step_keys :: "string list" where
  "allowed_step_keys =
     [''id'', ''step_type'', ''agent_fqn'', ''tool_fqn'', ''depends_on'', ''input_bindings'',
      ''output_schema'', ''retry_config'', ''timeout_seconds'', ''compensation_handler'',
      ''approval_config'', ''reasoning_mode'', ''compute_budget'', ''context_budget_tokens'',
      ''parallel_group'', ''condition_expression'']"

definition allowed_types :: "string list" where
  "allowed_types =
     [''agent_task'', ''tool_call'', ''approval_gate'', ''parallel_fork'', ''parallel_join'',
      ''conditional'']"

definition validate_step_fields :: "py_runtime \<Rightarrow> pydict \<Rightarrow> string \<Rightarrow> string \<Rightarrow> unit py" where
  "validate_step_fields rt step path sty = checks
     [require (sty \<in> set allowed_types)
        (schema_invalid (''Unsupported step_type '' @ quoted sty) (path @ ''.step_type'')
           (PStr sty)),
      validate_optional_string step ''agent_fqn'' (path @ ''.agent_fqn''),
      validate_optional_string step ''tool_fqn'' (path @ ''.tool_fqn''),
      (if sty = ''agent_task'' then
         drop_value (require_non_empty_string step ''agent_fqn'' (path @ ''.agent_fqn''))
       else Inr ()),
      (if sty = ''tool_call'' then
         drop_value (require_non_empty_string step ''tool_fqn'' (path @ ''.tool_fqn''))
       else Inr ()),
      validate_depends_on (dget_none step ''depends_on'') (path @ ''.depends_on''),
      validate_input_bindings (dget_none step ''input_bindings'') (path @ ''.input_bindings''),
      require (dget_none step ''output_schema'' = PNone \<or> is_dict (dget_none step ''output_schema''))
        (schema_invalid ''output_schema must be an object or null'' (path @ ''.output_schema'')
           (dget_none step ''output_schema'')),
      validate_retry_config rt (dget_none step ''retry_config'') (path @ ''.retry_config''),
      (if dhas step ''timeout_seconds'' then
         drop_value (require_int step ''timeout_seconds'' (path @ ''.timeout_seconds'') 1)
       else Inr ()),
      validate_optional_string step ''compensation_handler'' (path @ ''.compensation_handler''),
      validate_approval_config rt (dget_none step ''approval_config'') (path @ ''.approval_config''),
      require (sty = ''approval_gate'' \<longrightarrow> is_dict (dget_none step ''approval_config''))
        (schema_invalid ''approval_config is required for approval_gate steps''
           (path @ ''.approval_config'') (dget_none step ''approval_config'')),
      validate_optional_string step ''reasoning_mode'' (path @ ''.reasoning_mode''),
      (if dhas step ''compute_budget'' \<and> dget_none step ''compute_budget'' \<noteq> PNone then
         drop_value (require_float_in_range rt step ''compute_budget'' (path @ ''.compute_budget'')
           (Fin 0) (Fin 1))
       else Inr ()),
      (if dhas step ''context_budget_tokens'' \<and> dget_none step ''context_budget_tokens'' \<noteq> PNone then
         drop_value (require_int step ''context_budget_tokens'' (path @ ''.context_budget_tokens'') 1)
       else Inr ()),
      validate_optional_string step ''parallel_group'' (path @ ''.parallel_group''),
      validate_optional_string step ''condition_expression'' (path @ ''.condition_expression'')]"

definition validate_step :: "py_runtime \<Rightarrow> pyval \<Rightarrow> nat \<Rightarrow> unit py" where
  "validate_step rt v index =
     (let path = indexed ''steps'' index in
      case v of
        PDict step \<Rightarrow>
          rbind (assert_allowed_keys rt step allowed_step_keys path) (\<lambda>_.
          rbind (require_non_empty_string step ''id'' (path @ ''.id'')) (\<lambda>_.
          rbind (require_non_empty_string step ''step_type'' (path @ ''.step_type'')) (\<lambda>sty.
          validate_step_fields rt step path sty)))
      | _ \<Rightarrow> Inl (schema_invalid ''Workflow steps must be objects'' path v))"

fun validate_steps :: "py_runtime \<Rightarrow> nat \<Rightarrow> pyval list \<Rightarrow> unit py" where
  "validate_steps rt index [] = Inr ()"
| "validate_steps rt index (s # rest) =
     rbind (validate_step rt s index) (\<lambda>_. validate_steps rt (Suc index) rest)"

definition validate_payload :: "py_runtime \<Rightarrow> pydict \<Rightarrow> int \<Rightarrow> unit py" where
  "validate_payload rt payload version = checks
     [assert_allowed_keys rt payload
        [''schema_version'', ''workflow_id'', ''steps'', ''data_bindings'', ''metadata''] [],
      rbind (require_int payload ''schema_version'' ''schema_version'' 1) (\<lambda>v.
        require (int_value v = version)
          (schema_invalid (''Workflow schema_version must equal '' @ show_int version)
             ''schema_version'' v)),
      (if dhas payload ''workflow_id'' then
         drop_value (require_non_empty_string payload ''workflow_id'' ''workflow_id'')
       else Inr ()),
      (case dget_none payload ''steps'' of
         PList [] \<Rightarrow> Inl (schema_invalid ''Workflow must declare at least one step'' ''steps'' (PList []))
       | PList items \<Rightarrow> validate_steps rt 0 items
       | v \<Rightarrow> Inl (schema_invalid ''Workflow steps must be an array'' ''steps'' v)),
      require (dget_none payload ''data_bindings'' = PNone \<or> is_list (dget_none payload ''data_bindings''))
        (schema_invalid ''data_bindings must be an array'' ''data_bindings''
           (dget_none payload ''data_bindings'')),
      (case dget_none payload ''metadata'' of
         PNone \<Rightarrow> Inr ()
       | PDict md \<Rightarrow>
           if dget_none md ''compute_budget'' \<noteq> PNone then
             drop_value (require_float_in_range rt md ''compute_budget'' ''metadata.compute_budget''
               (Fin 0) (Fin 1))
           else Inr ()
       | v \<Rightarrow> Inl (schema_invalid ''metadata must be an object'' ''metadata'' v))]"

section \<open>Dependency edges\<close>

text \<open>\<open>item[k]\<close>.\<close>

definition subscript :: "pyval \<Rightarrow> string \<Rightarrow> pyval py" where
  "subscript v k = (case v of PDict d \<Rightarrow> dindex d k | _ \<Rightarrow> Inl TypeError)"

definition step_id_of :: "py_runtime \<Rightarrow> pyval \<Rightarrow> string py" where
  "step_id_of rt item = rbind (subscript item ''id'') (\<lambda>v. Inr (py_str rt v))"

fun dependency_edges ::
  "py_runtime \<Rightarrow> string set \<Rightarrow> nat \<Rightarrow> pyval \<Rightarrow> pyval list \<Rightarrow> (string \<times> string) list py" where
  "dependency_edges rt known index step [] = Inr []"
| "dependency_edges rt known index step (dependency # rest) =
     (let dep = py_str rt dependency in
      if dep \<notin> known then
        Inl (WorkflowCompilationError (''Undefined dependency step '' @ quoted dep)
              (PStr (indexed ''steps'' index @ ''.depends_on'')) PNone default_code)
      else rbind (step_id_of rt step) (\<lambda>sid.
           rbind (dependency_edges rt known index step rest) (\<lambda>es. Inr ((dep, sid) # es))))"

definition step_edges ::
  "py_runtime \<Rightarrow> string set \<Rightarrow> nat \<Rightarrow> pyval \<Rightarrow> (string \<times> string) list py" where
  "step_edges rt known index step =
     (case step of
        PDict d \<Rightarrow>
          (case dget_or d ''depends_on'' (PList []) of
             PNone \<Rightarrow> Inr []
           | PList deps \<Rightarrow> dependency_edges rt known index step deps
           | _ \<Rightarrow> Inl (WorkflowCompilationError ''depends_on must be an array of step ids''
                        (PStr (indexed ''steps'' index @ ''.depends_on'')) PNone default_code))
      | _ \<Rightarrow> Inl AttributeError)"

fun steps_edges ::
  "py_runtime \<Rightarrow> string set \<Rightarrow> nat \<Rightarrow> pyval list \<Rightarrow> (string \<times> string) list py" where
  "steps_edges rt known index [] = Inr []"
| "steps_edges rt known index (step # rest) =
     rbind (step_edges rt known index step) (\<lambda>es.
     rbind (steps_edges rt known (Suc index) rest) (\<lambda>fs. Inr (es @ fs)))"

definition build_dag_edges :: "py_runtime \<Rightarrow> pyval list \<Rightarrow> (string \<times> string) list py" where
  "build_dag_edges rt steps_payload =
     rbind (rmap (step_id_of rt) steps_payload) (\<lambda>ids.
       steps_edges rt (set ids) 0 steps_payload)"

section \<open>Cycle detection\<close>

type_synonym adjacency = "(string \<times> string list) list"

text \<open>The search state: the nodes on the current path (\<open>visiting\<close>), the finished nodes
  (\<open>visited\<close>) and the path itself (\<open>trail\<close>).\<close>

type_synonym search_state = "string set \<times> string set \<times> string list"

definition adj_get :: "adjacency \<Rightarrow> string \<Rightarrow> string list" where
  "adj_get adj n = (case map_of adj n of None \<Rightarrow> [] | Some cs \<Rightarrow> cs)"

definition build_adjacency :: "string list \<Rightarrow> (string \<times> string) list \<Rightarrow> adjacency" where
  "build_adjacency step_ids edges =
     foldl (\<lambda>adj (source, target). aset adj source (adj_get adj source @ [target]))
       (aupdate [] (map (\<lambda>i. (i, [])) step_ids)) edges"

definition circular_error :: "string list \<Rightarrow> string \<Rightarrow> exn" where
  "circular_error trail node =
     WorkflowCompilationError
       (''Circular dependency detected: '' @
          join_with '' -> '' (dropWhile (\<lambda>x. x \<noteq> node) trail @ [node]))
       (PStr ''dag_edges'') PNone default_code"

fun visit :: "nat \<Rightarrow> adjacency \<Rightarrow> string \<Rightarrow> search_state \<Rightarrow> search_state py"
and visit_children :: "nat \<Rightarrow> adjacency \<Rightarrow> string list \<Rightarrow> search_state \<Rightarrow> search_state py" where
  "visit 0 adj node st = Inl RecursionError"
| "visit (Suc depth) adj node (visiting, visited, trail) =
     (if node \<in> visited then Inr (visiting, visited, trail)
      else if node \<in> visiting then Inl (circular_error trail node)
      else case visit_children depth adj (adj_get adj node)
                  (insert node visiting, visited, trail @ [node]) of
             Inl e \<Rightarrow> Inl e
           | Inr (visiting', visited', trail') \<Rightarrow>
               Inr (visiting' - {node}, insert node visited', butlast trail'))"
| "visit_children depth adj [] st = Inr st"
| "visit_children depth adj (child # rest) st =
     (case visit depth adj child st of
        Inl e \<Rightarrow> Inl e
      | Inr st' \<Rightarrow> visit_children depth adj rest st')"

definition assert_acyclic :: "nat \<Rightarrow> string list \<Rightarrow> (string \<times> string) list \<Rightarrow> unit py" where
  "assert_acyclic depth step_ids edges =
     drop_value (rfold (visit depth (build_adjacency step_ids edges)) step_ids ({}, {}, []))"

section \<open>Building the IR\<close>

definition optional_str :: "py_runtime \<Rightarrow> pyval \<Rightarrow> pyval" where
  "optional_str rt v =
     (if v = PNone then PNone
      else let text = strip (py_str rt v) in if text = [] then PNone else PStr text)"

definition build_step_ir :: "py_runtime \<Rightarrow> pydict \<Rightarrow> StepIR py" where
  "build_step_ir rt p =
     rbind (dindex p ''id'') (\<lambda>sid.
     rbind (dindex p ''step_type'') (\<lambda>sty.
     rbind (py_dict (dget_or p ''input_bindings'' (PDict []))) (\<lambda>ib.
     rbind (opt_retry rt (dget_none p ''retry_config'')) (\<lambda>rc.
     rbind (opt_int (dget_none p ''timeout_seconds'')) (\<lambda>ts.
     rbind (opt_approval rt (dget_none p ''approval_config'')) (\<lambda>ac.
     rbind (opt_float rt (dget_none p ''compute_budget'')) (\<lambda>cb.
     rbind (opt_int (dget_none p ''context_budget_tokens'')) (\<lambda>ct.
     Inr \<lparr>step_id = py_str rt sid,
          step_type = py_str rt sty,
          agent_fqn = optional_str rt (dget_none p ''agent_fqn''),
          tool_fqn = optional_str rt (dget_none p ''tool_fqn''),
          input_bindings = Some (str_bindings rt ib),
          output_schema = dget_none p ''output_schema'',
          retry_config = rc,
          timeout_seconds = ts,
          compensation_handler = optional_str rt (dget_none p ''compensation_handler''),
          approval_config = ac,
          reasoning_mode = optional_str rt (dget_none p ''reasoning_mode''),
          compute_budget = cb,
          context_budget_tokens = ct,
          parallel_group = optional_str rt (dget_none p ''parallel_group''),
          condition_expression = optional_str rt (dget_none p ''condition_expression'')\<rparr>))))))))"

definition build_item :: "py_runtime \<Rightarrow> pyval \<Rightarrow> StepIR py" where
  "build_item rt v = (case v of PDict d \<Rightarrow> build_step_ir rt d | _ \<Rightarrow> Inl AttributeError)"

section \<open>The compiler\<close>

definition load_schema :: "(int \<Rightarrow> pyval option) \<Rightarrow> int \<Rightarrow> pydict py" where
  "load_schema schema_file version =
     (case schema_file version of
        None \<Rightarrow> Inl (WorkflowCompilationError
                  (''Workflow schema version '' @ show_int version @ '' is not supported'')
                  (PStr ''schema_version'') PNone default_code)
      | Some (PDict d) \<Rightarrow> Inr d
      | Some _ \<Rightarrow> Inl (WorkflowCompilationError ''Workflow schema file must contain an object schema''
                  PNone PNone default_code))"

definition compile_steps ::
  "py_runtime \<Rightarrow> nat \<Rightarrow> pydict \<Rightarrow> int \<Rightarrow> pyval list \<Rightarrow> WorkflowIR py" where
  "compile_steps rt depth payload version steps_payload =
     rbind (rmap (step_id_of rt) steps_payload) (\<lambda>step_ids.
     rbind (require (distinct step_ids)
              (WorkflowCompilationError ''Workflow step ids must be unique'' (PStr ''steps'') PNone
                 ''WORKFLOW_DUPLICATE_STEP'')) (\<lambda>_.
     rbind (build_dag_edges rt steps_payload) (\<lambda>edges.
     rbind (assert_acyclic depth step_ids edges) (\<lambda>_.
     rbind (rmap (build_item rt) steps_payload) (\<lambda>ss.
     rbind (py_iter (dget_or payload ''data_bindings'' (PList []))) (\<lambda>dbs.
     rbind (py_dict (dget_or payload ''metadata'' (PDict []))) (\<lambda>md.
     Inr \<lparr>schema_version = version,
          workflow_id = py_str rt (py_or (dget_none payload ''workflow_id'')
                          (py_or (dget_none payload ''name'') (PStr ''workflow''))),
          steps = ss,
          dag_edges = edges,
          data_bindings = Some dbs,
          metadata = Some md\<rparr>)))))))"

definition compile ::
  "py_runtime \<Rightarrow> (string \<Rightarrow> string + pyval) \<Rightarrow> (int \<Rightarrow> pyval option) \<Rightarrow> nat \<Rightarrow> string \<Rightarrow> int
   \<Rightarrow> WorkflowIR py" where
  "compile rt safe_load schema_file depth yaml_source version =
     (case safe_load yaml_source of
        Inl msg \<Rightarrow> Inl (WorkflowCompilationError (''Failed to parse workflow YAML: '' @ msg)
                    PNone PNone ''WORKFLOW_YAML_INVALID'')
      | Inr raw \<Rightarrow>
          (case py_or raw (PDict []) of
             PDict payload \<Rightarrow>
               rbind (load_schema schema_file version) (\<lambda>_.
               rbind (validate_payload rt payload version) (\<lambda>_.
               (case dget_or payload ''steps'' (PList []) of
                  PList items \<Rightarrow> compile_steps rt depth payload version items
                | _ \<Rightarrow> Inl (WorkflowCompilationError ''Workflow steps must be an array''
                             (PStr ''steps'') PNone default_code))))
           | _ \<Rightarrow> Inl (WorkflowCompilationError ''Workflow YAML must deserialize to an object''
                        PNone PNone default_code)))"

section \<open>Compatibility of a hot change\<close>

record HotChangeCompatibilityResult =
  compatible :: bool
  issues :: "string list"
  hc_active_step_ids :: "string list"

text \<open>\<open>{step.step_id: step for step in ir.steps}\<close>.\<close>

definition step_map :: "WorkflowIR \<Rightarrow> (string \<times> StepIR) list" where
  "step_map ir = aupdate [] (map (\<lambda>s. (step_id s, s)) (steps ir))"

text \<open>Equality of two string dictionaries does not depend on the order of their entries.\<close>

definition bindings_eq :: "(string \<times> string) list option \<Rightarrow> (string \<times> string) list option \<Rightarrow> bool" where
  "bindings_eq a b \<longleftrightarrow> set (or_empty a) = set (or_empty b)"

definition active_step :: "string \<Rightarrow> string \<Rightarrow> string" where
  "active_step sid change = ''Active step '' @ quoted sid @ change"

definition step_issues :: "WorkflowIR \<Rightarrow> WorkflowIR \<Rightarrow> string \<Rightarrow> string list" where
  "step_issues old_ir new_ir sid =
     (case map_of (step_map old_ir) sid of
        None \<Rightarrow> []
      | Some old_step \<Rightarrow>
          (case map_of (step_map new_ir) sid of
             None \<Rightarrow> [active_step sid '' was removed'']
           | Some new_step \<Rightarrow>
               (if step_type old_step \<noteq> step_type new_step then [active_step sid '' changed type''] else []) @
               (if agent_fqn old_step \<noteq> agent_fqn new_step then [active_step sid '' changed agent assignment''] else []) @
               (if tool_fqn old_step \<noteq> tool_fqn new_step then [active_step sid '' changed tool assignment''] else []) @
               (if \<not> bindings_eq (input_bindings old_step) (input_bindings new_step)
                then [active_step sid '' changed input bindings''] else [])))"

definition validate_compatibility ::
  "WorkflowIR \<Rightarrow> WorkflowIR \<Rightarrow> string list \<Rightarrow> HotChangeCompatibilityResult" where
  "validate_compatibility old_ir new_ir active =
     (let found = concat (map (step_issues old_ir new_ir) active)
      in \<lparr>compatible = (found = []), issues = found, hc_active_step_ids = active\<rparr>)"

end
