(* ===== verification/Workflow_Acyclic.thy ===== *)
theory Workflow_Acyclic
  imports Workflow_Compiler
begin

text \<open>
  Correctness of the depth-first search in \<open>_assert_acyclic\<close>: it accepts exactly the acyclic
  edge sets, a reported cycle is a real one, and it needs no more nested calls than there are steps.
  The proof keeps two facts about the search: every finished node is in the accessible part of the
  child relation (so no cycle is reachable from it), and the trail is a path of the graph.
\<close>

section \<open>The adjacency lists\<close>

lemma adj_get_init: "adj_get (aupdate [] (map (\<lambda>i. (i, [])) ids)) n = []"
proof -
  have "map_of (aupdate d (map (\<lambda>i. (i, [])) ids)) n = None \<or>
        map_of (aupdate d (map (\<lambda>i. (i, [])) ids)) n = Some []"
    if "map_of d n = None \<or> map_of d n = Some []" for d :: adjacency
    using that by (induction ids arbitrary: d) auto
  from this [of "[]"] show ?thesis by (auto simp: adj_get_def)
qed

lemma adj_get_aset: "adj_get (aset adj a cs) n = (if n = a then cs else adj_get adj n)"
  by (simp add: adj_get_def)

lemma adj_get_build:
  "adj_get (build_adjacency ids edges) n = map snd (filter (\<lambda>e. fst e = n) edges)"
proof (induction edges arbitrary: n rule: rev_induct)
  case Nil
  show ?case by (simp add: build_adjacency_def adj_get_init)
next
  case (snoc e edges)
  obtain a b where e: "e = (a, b)" by fastforce
  have "build_adjacency ids (edges @ [e]) =
      aset (build_adjacency ids edges) a (adj_get (build_adjacency ids edges) a @ [b])"
    by (simp add: build_adjacency_def e)
  then show ?case using snoc by (simp add: e adj_get_aset)
qed

lemma set_adj_get_build: "set (adj_get (build_adjacency ids edges) n) = {c. (n, c) \<in> set edges}"
  by (force simp: adj_get_build)

section \<open>The child relation\<close>

definition child_rel :: "adjacency \<Rightarrow> (string \<times> string) set" where
  "child_rel adj = {(c, n). c \<in> set (adj_get adj n)}"

lemma child_rel_build: "child_rel (build_adjacency ids edges) = (set edges)\<inverse>"
  by (auto simp: child_rel_def set_adj_get_build)

lemma acc_no_cycle: "x \<in> Wellfounded.acc r \<Longrightarrow> (x, x) \<notin> r\<^sup>+"
proof (induction rule: acc.induct)
  case (accI x)
  show ?case
  proof
    assume "(x, x) \<in> r\<^sup>+"
    then obtain z where z: "(z, x) \<in> r" "(x, z) \<in> r\<^sup>*"
      by (meson tranclD2 trancl_into_rtrancl rtrancl_eq_or_trancl)
    then have "(z, z) \<in> r\<^sup>+" by (rule rtrancl_into_trancl2)
    with accI.IH [OF z(1)] show False by simp
  qed
qed

section \<open>An accepted graph has no cycle\<close>

abbreviation visited_of :: "search_state \<Rightarrow> string set" where
  "visited_of st \<equiv> fst (snd st)"

lemma visit_sound:
  "visit depth adj node st = Inr st' \<Longrightarrow> visited_of st \<subseteq> Wellfounded.acc (child_rel adj) \<Longrightarrow>
     visited_of st' \<subseteq> Wellfounded.acc (child_rel adj) \<and> insert node (visited_of st) \<subseteq> visited_of st'"
  "visit_children depth adj nodes st = Inr st' \<Longrightarrow>
     visited_of st \<subseteq> Wellfounded.acc (child_rel adj) \<Longrightarrow>
     visited_of st' \<subseteq> Wellfounded.acc (child_rel adj) \<and> set nodes \<union> visited_of st \<subseteq> visited_of st'"
proof (induction depth adj node st and depth adj nodes st arbitrary: st' and st'
    rule: visit_visit_children.induct)
  case (1 adj node st)
  then show ?case by simp
next
  case (2 depth adj node visiting visited trail)
  show ?case
  proof (cases "node \<in> visited")
    case True
    with 2 show ?thesis by auto
  next
    case False
    with "2.prems"(1) have new: "node \<notin> visiting" by (auto split: if_splits)
    from False new "2.prems"(1) obtain vg vd tr where
      rec: "visit_children depth adj (adj_get adj node)
              (insert node visiting, visited, trail @ [node]) = Inr (vg, vd, tr)"
      and st': "st' = (vg - {node}, insert node vd, butlast tr)"
      by (auto split: sum.splits)
    from "2.IH" [OF False new rec] "2.prems" have
      vd: "vd \<subseteq> Wellfounded.acc (child_rel adj)" "set (adj_get adj node) \<union> visited \<subseteq> vd"
      by auto
    have "node \<in> Wellfounded.acc (child_rel adj)"
    proof (rule accI)
      fix c assume "(c, node) \<in> child_rel adj"
      then have "c \<in> vd" using vd(2) by (auto simp: child_rel_def)
      then show "c \<in> Wellfounded.acc (child_rel adj)" using vd(1) by blast
    qed
    with vd st' show ?thesis by auto
  qed
next
  case (3 depth adj st)
  then show ?case by simp
next
  case (4 depth adj child rest st)
  from "4.prems" obtain s1 where s1: "visit depth adj child st = Inr s1"
    and s2: "visit_children depth adj rest s1 = Inr st'"
    by (auto split: sum.splits)
  from "4.IH"(1) [OF s1] "4.prems" have
    v1: "visited_of s1 \<subseteq> Wellfounded.acc (child_rel adj)" "insert child (visited_of st) \<subseteq> visited_of s1"
    by auto
  from "4.IH"(2) [OF s1 s2 v1(1)] v1(2) show ?case by auto
qed

lemma visits_sound:
  "rfold (visit depth adj) nodes st = Inr st' \<Longrightarrow>
   visited_of st \<subseteq> Wellfounded.acc (child_rel adj) \<Longrightarrow>
   visited_of st' \<subseteq> Wellfounded.acc (child_rel adj) \<and> set nodes \<union> visited_of st \<subseteq> visited_of st'"
proof (induction nodes arbitrary: st)
  case Nil
  then show ?case by simp
next
  case (Cons n nodes)
  then obtain s1 where s1: "visit depth adj n st = Inr s1" "rfold (visit depth adj) nodes s1 = Inr st'"
    by (auto split: sum.splits)
  from visit_sound(1) [OF s1(1) Cons.prems(2)] have
    v1: "visited_of s1 \<subseteq> Wellfounded.acc (child_rel adj)" "insert n (visited_of st) \<subseteq> visited_of s1"
    by simp_all
  from Cons.IH [OF s1(2) v1(1)] v1(2) show ?case by auto
qed

definition edges_closed :: "string list \<Rightarrow> (string \<times> string) list \<Rightarrow> bool" where
  "edges_closed ids edges \<longleftrightarrow> (\<forall>(a, b) \<in> set edges. a \<in> set ids \<and> b \<in> set ids)"

lemma assert_acyclic_sound:
  assumes "assert_acyclic depth ids edges = Inr ()" and closed: "edges_closed ids edges"
  shows "acyclic (set edges)"
proof (rule acyclicI, rule allI, rule notI)
  fix x
  assume cyc: "(x, x) \<in> (set edges)\<^sup>+"
  then obtain y where "(x, y) \<in> set edges" by (meson tranclD)
  with closed have x: "x \<in> set ids" by (auto simp: edges_closed_def)
  from assms(1) obtain st where
    "rfold (visit depth (build_adjacency ids edges)) ids ({}, {}, []) = Inr st"
    by (auto simp: assert_acyclic_def drop_value_def res_simps)
  from visits_sound [OF this] x have "x \<in> Wellfounded.acc ((set edges)\<inverse>)"
    by (auto simp: child_rel_build)
  then have "(x, x) \<notin> ((set edges)\<inverse>)\<^sup>+" by (rule acc_no_cycle)
  with cyc show False by (simp add: trancl_converse)
qed

section \<open>A rejected graph has a cycle\<close>

text \<open>The trail is the current path, and \<open>visiting\<close> holds its nodes.\<close>

definition on_path :: "adjacency \<Rightarrow> string list \<Rightarrow> bool" where
  "on_path adj = successively (\<lambda>a b. (b, a) \<in> child_rel adj)"

definition search_ok :: "adjacency \<Rightarrow> search_state \<Rightarrow> bool" where
  "search_ok adj st \<longleftrightarrow> (case st of (visiting, visited, trail) \<Rightarrow>
     visiting = set trail \<and> distinct trail \<and> on_path adj trail)"

lemma path_trancl:
  "on_path adj (x # ys @ [y]) \<Longrightarrow> (y, x) \<in> (child_rel adj)\<^sup>+"
proof (induction ys arbitrary: x)
  case Nil
  then show ?case by (auto simp: on_path_def)
next
  case (Cons z ys)
  then have "(z, x) \<in> child_rel adj" and "(y, z) \<in> (child_rel adj)\<^sup>+"
    by (auto simp: on_path_def)
  then show ?case by (rule trancl_into_trancl [rotated])
qed

lemma cycle_on_path:
  assumes "node \<in> set trail" and "on_path adj (trail @ [node])"
  shows "(node, node) \<in> (child_rel adj)\<^sup>+"
proof -
  from assms(1) obtain xs ys where "trail = xs @ node # ys" by (meson split_list)
  with assms(2) have "on_path adj (node # ys @ [node])"
    by (auto simp: on_path_def successively_append_iff)
  then show ?thesis by (rule path_trancl)
qed

text \<open>Every outcome of the search at once: a result restores the path, an error reports a cycle or
  the exhausted recursion depth.\<close>

definition search_err :: "adjacency \<Rightarrow> exn \<Rightarrow> bool" where
  "search_err adj e \<longleftrightarrow>
     e = RecursionError \<or>
     (\<exists>trail node. e = circular_error trail node \<and> node \<in> set trail \<and>
        (node, node) \<in> (child_rel adj)\<^sup>+)"

definition search_post :: "adjacency \<Rightarrow> search_state \<Rightarrow> search_state py \<Rightarrow> bool" where
  "search_post adj st res \<longleftrightarrow>
     (case res of
        Inr st' \<Rightarrow> fst st' = fst st \<and> snd (snd st') = snd (snd st)
      | Inl e \<Rightarrow> search_err adj e)"

lemma search_post_Inl [simp]: "search_post adj st (Inl e) \<longleftrightarrow> search_err adj e"
  by (simp add: search_post_def)

lemma search_post_Inr [simp]:
  "search_post adj st (Inr st') \<longleftrightarrow> fst st' = fst st \<and> snd (snd st') = snd (snd st)"
  by (simp add: search_post_def)

lemma search_post_ok:
  "search_ok adj st \<Longrightarrow> fst st' = fst st \<Longrightarrow> snd (snd st') = snd (snd st) \<Longrightarrow> search_ok adj st'"
  by (cases st; cases st') (auto simp: search_ok_def)

lemma visit_post:
  "search_ok adj st \<Longrightarrow> on_path adj (snd (snd st) @ [node]) \<Longrightarrow>
     search_post adj st (visit depth adj node st)"
  "search_ok adj st \<Longrightarrow> \<forall>c \<in> set nodes. on_path adj (snd (snd st) @ [c]) \<Longrightarrow>
     search_post adj st (visit_children depth adj nodes st)"
proof (induction depth adj node st and depth adj nodes st rule: visit_visit_children.induct)
  case (1 adj node st)
  then show ?case by (simp add: search_err_def)
next
  case (2 depth adj node visiting visited trail)
  let ?st = "(insert node visiting, visited, trail @ [node])"
  consider "node \<in> visited" | "node \<notin> visited" "node \<in> visiting"
    | "node \<notin> visited" "node \<notin> visiting" by blast
  then show ?case
  proof cases
    case 1
    then show ?thesis by simp
  next
    case 2
    with "2.prems" have "node \<in> set trail" "(node, node) \<in> (child_rel adj)\<^sup>+"
      by (auto simp: search_ok_def intro: cycle_on_path)
    with 2 show ?thesis by (auto simp: search_err_def)
  next
    case 3
    have ok: "search_ok adj ?st"
      using "2.prems" 3 by (auto simp: search_ok_def)
    have "on_path adj (trail @ [node, c])" if "c \<in> set (adj_get adj node)" for c
      using that "2.prems" by (auto simp: on_path_def successively_append_iff child_rel_def)
    then have "search_post adj ?st (visit_children depth adj (adj_get adj node) ?st)"
      using "2.IH" [OF 3] ok by auto
    with 3 "2.prems" show ?thesis
      by (auto simp: search_ok_def split: sum.splits)
  qed
next
  case (3 depth adj st)
  then show ?case by simp
next
  case (4 depth adj child rest st)
  from 4 have p1: "search_post adj st (visit depth adj child st)" by simp
  show ?case
  proof (cases "visit depth adj child st")
    case (Inl e)
    with p1 show ?thesis by simp
  next
    case (Inr s1)
    with p1 4 have "search_post adj s1 (visit_children depth adj rest s1)"
      by (intro "4.IH"(2)) (auto simp: Inr intro: search_post_ok)
    with p1 Inr show ?thesis
      by (cases "visit_children depth adj rest s1") auto
  qed
qed

lemma visits_post:
  "search_ok adj st \<Longrightarrow> snd (snd st) = [] \<Longrightarrow> search_post adj st (rfold (visit depth adj) nodes st)"
proof (induction nodes arbitrary: st)
  case Nil
  then show ?case by simp
next
  case (Cons n nodes)
  have p1: "search_post adj st (visit depth adj n st)"
    using Cons.prems by (intro visit_post(1)) (auto simp: on_path_def)
  show ?case
  proof (cases "visit depth adj n st")
    case (Inl e)
    with p1 show ?thesis by simp
  next
    case (Inr s1)
    with p1 Cons have "search_post adj s1 (rfold (visit depth adj) nodes s1)"
      by (intro Cons.IH) (auto intro: search_post_ok)
    with p1 Inr show ?thesis by (cases "rfold (visit depth adj) nodes s1") auto
  qed
qed

lemma assert_acyclic_error:
  assumes "assert_acyclic depth ids edges = Inl e"
  shows "e = RecursionError \<or>
    (\<exists>trail node. e = circular_error trail node \<and> node \<in> set trail \<and> (node, node) \<in> (set edges)\<^sup>+)"
proof -
  let ?adj = "build_adjacency ids edges"
  have "rfold (visit depth ?adj) ids ({}, {}, []) = Inl e"
    using assms by (auto simp: assert_acyclic_def drop_value_def res_simps)
  moreover have "search_post ?adj ({}, {}, []) (rfold (visit depth ?adj) ids ({}, {}, []))"
    by (rule visits_post) (auto simp: search_ok_def on_path_def)
  ultimately show ?thesis
    by (auto simp: search_err_def child_rel_build trancl_converse)
qed

section \<open>How deep the recursion goes\<close>

text \<open>Nested calls are on distinct nodes of the trail, so \<open>depth\<close> beyond the number of steps is
  never exhausted.\<close>

lemma visit_depth:
  "search_ok adj st \<Longrightarrow> on_path adj (snd (snd st) @ [node]) \<Longrightarrow>
     finite V \<Longrightarrow> child_rel adj \<subseteq> V \<times> V \<Longrightarrow> insert node (fst st) \<subseteq> V \<Longrightarrow>
     card (V - fst st) < depth \<Longrightarrow> visit depth adj node st \<noteq> Inl RecursionError"
  "search_ok adj st \<Longrightarrow> \<forall>c \<in> set nodes. on_path adj (snd (snd st) @ [c]) \<Longrightarrow>
     finite V \<Longrightarrow> child_rel adj \<subseteq> V \<times> V \<Longrightarrow> set nodes \<union> fst st \<subseteq> V \<Longrightarrow>
     card (V - fst st) < depth \<Longrightarrow> visit_children depth adj nodes st \<noteq> Inl RecursionError"
proof (induction depth adj node st and depth adj nodes st rule: visit_visit_children.induct)
  case (1 adj node st)
  then show ?case by simp
next
  case (2 depth adj node visiting visited trail)
  let ?st = "(insert node visiting, visited, trail @ [node])"
  show ?case
  proof (cases "node \<in> visited \<or> node \<in> visiting")
    case True
    then show ?thesis by (auto simp: circular_error_def WorkflowCompilationError_def)
  next
    case False
    then have new: "node \<notin> visited" "node \<notin> visiting" by auto
    have ok: "search_ok adj ?st"
      using "2.prems" new by (auto simp: search_ok_def)
    have path: "on_path adj (trail @ [node, c])" if "c \<in> set (adj_get adj node)" for c
      using that "2.prems" by (auto simp: on_path_def successively_append_iff child_rel_def)
    have sub: "set (adj_get adj node) \<subseteq> V"
      using "2.prems"(4) by (auto simp: child_rel_def)
    have "node \<in> V - visiting" using "2.prems" new by auto
    then have "card (V - insert node visiting) < card (V - visiting)"
      using "2.prems"(3) by (intro psubset_card_mono) auto
    then have "card (V - insert node visiting) < depth"
      using "2.prems"(6) by simp
    then have "visit_children depth adj (adj_get adj node) ?st \<noteq> Inl RecursionError"
      using "2.prems" sub path ok by (intro "2.IH" [OF new]) auto
    with new show ?thesis by (auto split: sum.splits)
  qed
next
  case (3 depth adj st)
  then show ?case by simp
next
  case (4 depth adj child rest st)
  from 4 have n1: "visit depth adj child st \<noteq> Inl RecursionError" by simp
  show ?case
  proof (cases "visit depth adj child st")
    case (Inl e)
    with n1 show ?thesis by simp
  next
    case (Inr s1)
    with 4 have p1: "search_post adj st (Inr s1)"
      using visit_post(1) [of adj st child depth] by simp
    with 4 Inr have "visit_children depth adj rest s1 \<noteq> Inl RecursionError"
      by (intro "4.IH"(2) [OF Inr]) (auto intro: search_post_ok)
    with Inr show ?thesis by simp
  qed
qed

lemma visits_depth:
  "search_ok adj st \<Longrightarrow> snd (snd st) = [] \<Longrightarrow> finite V \<Longrightarrow> child_rel adj \<subseteq> V \<times> V \<Longrightarrow>
   set nodes \<subseteq> V \<Longrightarrow> card V < depth \<Longrightarrow> rfold (visit depth adj) nodes st \<noteq> Inl RecursionError"
proof (induction nodes arbitrary: st)
  case Nil
  then show ?case by simp
next
  case (Cons n nodes)
  have empty: "fst st = {}" using Cons.prems by (auto simp: search_ok_def)
  then have n1: "visit depth adj n st \<noteq> Inl RecursionError"
    using Cons.prems by (intro visit_depth(1) [where V = V]) (auto simp: on_path_def)
  show ?case
  proof (cases "visit depth adj n st")
    case (Inl e)
    with n1 show ?thesis by simp
  next
    case (Inr s1)
    have "search_post adj st (Inr s1)"
      using Cons.prems visit_post(1) [of adj st n depth] by (auto simp: Inr on_path_def)
    with Cons Inr have "rfold (visit depth adj) nodes s1 \<noteq> Inl RecursionError"
      by (intro Cons.IH) (auto intro: search_post_ok)
    with Inr show ?thesis by simp
  qed
qed

lemma assert_acyclic_depth:
  assumes "edges_closed ids edges" and "card (set ids) < depth"
  shows "assert_acyclic depth ids edges \<noteq> Inl RecursionError"
proof -
  let ?adj = "build_adjacency ids edges"
  have "rfold (visit depth ?adj) ids ({}, {}, []) \<noteq> Inl RecursionError"
    using assms by (intro visits_depth [where V = "set ids"])
      (auto simp: search_ok_def on_path_def child_rel_build edges_closed_def)
  then show ?thesis
    by (auto simp: assert_acyclic_def drop_value_def res_simps)
qed

text \<open>The cycle check is exact when the recursion depth exceeds the number of steps.\<close>

lemma assert_acyclic_exact:
  assumes "edges_closed ids edges" and "card (set ids) < depth"
  shows "assert_acyclic depth ids edges = Inr () \<longleftrightarrow> acyclic (set edges)"
proof
  assume "assert_acyclic depth ids edges = Inr ()"
  then show "acyclic (set edges)" using assms(1) by (rule assert_acyclic_sound)
next
  assume acy: "acyclic (set edges)"
  show "assert_acyclic depth ids edges = Inr ()"
  proof (cases "assert_acyclic depth ids edges")
    case (Inl e)
    with assert_acyclic_error [OF Inl] assert_acyclic_depth [OF assms] acy show ?thesis
      by (auto simp: acyclic_def)
  next
    case (Inr u)
    then show ?thesis by simp
  qed
qed

text \<open>C6. The cycle check is exact: with edges between known steps and more recursion depth than
  steps, \<open>_assert_acyclic\<close> accepts a workflow if its dependency graph has no cycle; otherwise it
  raises the circular-dependency error for a node that does lie on a cycle, and never anything
  else.\<close>

theorem assert_acyclic_decides:
  assumes "edges_closed ids edges" and "card (set ids) < depth"
  shows "(acyclic (set edges) \<and> assert_acyclic depth ids edges = Inr ()) \<or>
    (\<exists>trail node. node \<in> set trail \<and> (node, node) \<in> (set edges)\<^sup>+ \<and>
       assert_acyclic depth ids edges = Inl (circular_error trail node))"
proof (cases "assert_acyclic depth ids edges")
  case (Inl e)
  with assert_acyclic_error [OF Inl] assert_acyclic_depth [OF assms] show ?thesis by auto
next
  case (Inr u)
  with assert_acyclic_exact [OF assms] show ?thesis by simp
qed

text \<open>A diamond passes, a two-step cycle is reported.\<close>

lemma assert_acyclic_decides_witness:
  "assert_acyclic 5 [''a'', ''b'', ''c'']
     [(''a'', ''b''), (''a'', ''c''), (''b'', ''c'')] = Inr () \<and>
   (\<exists>trail node. assert_acyclic 5 [''a'', ''b''] [(''a'', ''b''), (''b'', ''a'')] =
      Inl (circular_error trail node))"
proof
  have c1: "edges_closed [''a'', ''b'', ''c''] [(''a'', ''b''), (''a'', ''c''), (''b'', ''c'')]"
    and c2: "edges_closed [''a'', ''b''] [(''a'', ''b''), (''b'', ''a'')]"
    by (simp_all add: edges_closed_def)
  have "assert_acyclic 5 [''a'', ''b'', ''c''] [(''a'', ''b''), (''a'', ''c''), (''b'', ''c'')] \<noteq>
    Inl (circular_error trail node)" for trail node
    by code_simp
  then show "assert_acyclic 5 [''a'', ''b'', ''c'']
     [(''a'', ''b''), (''a'', ''c''), (''b'', ''c'')] = Inr ()"
    using assert_acyclic_decides [OF c1, of 5] by auto
  have "(''a'', ''a'') \<in> {(''a'', ''b''), (''b'', ''a'')}\<^sup>+"
    by (rule trancl_into_trancl [of _ "''b''"]) auto
  then show "\<exists>trail node. assert_acyclic 5 [''a'', ''b''] [(''a'', ''b''), (''b'', ''a'')] =
      Inl (circular_error trail node)"
    using assert_acyclic_decides [OF c2, of 5] by (auto simp: acyclic_def)
qed

end
