(* ===== verification/Workflow_Validation.thy ===== *)
theory Workflow_Validation
  imports Workflow_Acyclic
begin

text \<open>
  What validation establishes. Each check is inverted once (collection \<open>valid_dests\<close>), the
  inversions give the facts about a validated step, and from them follow: when the compiler
  succeeds, what the IR it returns looks like, and which payloads pass validation and then make the
  construction of the IR raise a builtin exception.
\<close>

named_theorems valid_dests \<open>inversion of the validation checks\<close>

section \<open>Inversion of the field checks\<close>

lemma dget_none_eq_PNone: "dget_none d k = PNone \<longleftrightarrow> dget d k = None \<or> dget d k = Some PNone"
  by (auto simp: dget_none_def dget_or_def split: option.splits)

lemma dget_noneI: "dget d k = Some v \<Longrightarrow> dget_none d k = v" "dget d k = Some v \<Longrightarrow> dget_or d k x = v"
  "dget d k = None \<Longrightarrow> dget_none d k = PNone" "dget d k = None \<Longrightarrow> dget_or d k x = x"
  by (simp_all add: dget_none_def dget_or_def)

lemma dget_none_SomeD: "dget_none d k = v \<Longrightarrow> v \<noteq> PNone \<Longrightarrow> dget d k = Some v"
  by (auto simp: dget_none_def dget_or_def split: option.splits)

lemma drop_value_Inr [res_simps]: "drop_value m = Inr u \<longleftrightarrow> (\<exists>x. m = Inr x)"
  by (auto simp: drop_value_def res_simps)

lemma require_non_empty_string_Inr [res_simps]:
  "require_non_empty_string d k p = Inr s \<longleftrightarrow> dget d k = Some (PStr s) \<and> strip s \<noteq> []"
  by (auto simp: require_non_empty_string_def dget_none_def dget_or_def
      split: pyval.splits option.splits if_splits)

lemma require_int_Inr [valid_dests]:
  "require_int d k p m = Inr v \<Longrightarrow> dget d k = Some v \<and> is_int v \<and> m \<le> int_value v"
  by (auto simp: require_int_def Let_def dget_none_def dget_or_def split: option.splits if_splits)

lemma validate_optional_string_Inr [valid_dests]:
  "validate_optional_string d k p = Inr u \<Longrightarrow>
     dget_none d k = PNone \<or> (\<exists>s. dget d k = Some (PStr s))"
  by (auto simp: validate_optional_string_def is_str_conv dget_none_eq_PNone dhas_def
      dest: dget_none_SomeD split: if_splits)

lemma require_number_Inr [valid_dests]:
  "require_number rt d k p m = Inr f \<Longrightarrow>
     \<exists>v. dget d k = Some v \<and> py_float rt v = Inr f \<and> \<not> float_less f m"
  by (auto simp: require_number_def Let_def dget_none_def dget_or_def res_simps
      split: option.splits if_splits)

lemma require_float_in_range_Inr [valid_dests]:
  "require_float_in_range rt d k p lo hi = Inr f \<Longrightarrow>
     \<exists>v. dget d k = Some v \<and> py_float rt v = Inr f \<and> \<not> float_le f lo \<and> \<not> float_less hi f"
  by (auto simp: require_float_in_range_def Let_def dget_none_def dget_or_def res_simps
      split: option.splits if_splits)

section \<open>Validated sub-objects build\<close>

lemma opt_int_valid:
  "(dhas d k \<Longrightarrow> \<exists>v. require_int d k p m = Inr v) \<Longrightarrow>
   \<exists>i. opt_int (dget_none d k) = Inr i \<and> (\<forall>n. i = Some n \<longrightarrow> m \<le> n)"
  by (cases "dget d k")
    (auto simp: opt_int_def dget_noneI dhas_def py_int_is_int dest: valid_dests)

lemma py_int_default_valid:
  assumes "dhas d k \<Longrightarrow> \<exists>v. require_int d k p m = Inr v" and "m \<le> x"
  shows "\<exists>i. py_int (dget_or d k (PInt x)) = Inr i \<and> m \<le> i"
  using assms by (cases "dget d k")
    (auto simp: dget_noneI dhas_def py_int_is_int dest: valid_dests)

lemma py_float_default_valid:
  assumes "dhas d k \<Longrightarrow> \<exists>f. require_number rt d k p lo = Inr f"
  shows "\<exists>f. py_float rt (dget_or d k (PFloat x)) = Inr f"
  using assms by (cases "dget d k") (auto simp: dget_noneI dhas_def dest: valid_dests)

text \<open>An explicit \<open>null\<close> where the IR construction iterates or copies.\<close>

definition null_free_step :: "pydict \<Rightarrow> bool" where
  "null_free_step d \<longleftrightarrow>
     dget d ''input_bindings'' \<noteq> Some PNone \<and>
     (\<forall>r. dget d ''retry_config'' = Some (PDict r) \<longrightarrow> dget r ''retry_on_event_types'' \<noteq> Some PNone)"

lemma retry_builds:
  assumes "validate_retry_config rt (dget_none d ''retry_config'') path = Inr u"
    and "null_free_step d"
  shows "\<exists>r. opt_retry rt (dget_none d ''retry_config'') = Inr r \<and>
           (\<forall>c. r = Some c \<longrightarrow> 0 \<le> rc_max_retries c)"
proof (cases "dget_none d ''retry_config''")
  case (PDict r)
  from assms(1) have
    mr: "dhas r ''max_retries'' \<Longrightarrow> \<exists>v. require_int r ''max_retries'' (path @ ''.max_retries'') 0 = Inr v"
    and bd: "dhas r ''base_delay_seconds'' \<Longrightarrow>
       \<exists>f. require_number rt r ''base_delay_seconds'' (path @ ''.base_delay_seconds'') (Fin 0) = Inr f"
    and md: "dhas r ''max_delay_seconds'' \<Longrightarrow>
       \<exists>f. require_number rt r ''max_delay_seconds'' (path @ ''.max_delay_seconds'') (Fin 0) = Inr f"
    and ro: "dget_none r ''retry_on_event_types'' = PNone \<or> is_list (dget_none r ''retry_on_event_types'')"
    by (auto simp: validate_retry_config_def PDict res_simps split: pyval.splits)
  have "dget r ''retry_on_event_types'' \<noteq> Some PNone"
    using assms(2) PDict by (auto simp: null_free_step_def dest: dget_none_SomeD)
  with ro obtain es where es: "py_iter (dget_or r ''retry_on_event_types'' (PList [])) = Inr es"
    by (cases "dget r ''retry_on_event_types''") (auto simp: dget_noneI is_list_conv)
  from py_int_default_valid [OF mr, of 3]
  obtain n where n: "py_int (dget_or r ''max_retries'' (PInt 3)) = Inr n" "0 \<le> n" by auto
  from py_float_default_valid [OF bd] obtain b where
    b: "py_float rt (dget_or r ''base_delay_seconds'' (PFloat (Fin 5))) = Inr b" by blast
  from py_float_default_valid [OF md] obtain m where
    m: "py_float rt (dget_or r ''max_delay_seconds'' (PFloat (Fin 300))) = Inr m" by blast
  show ?thesis
    using n b m es by (simp add: PDict opt_retry_def RetryConfigIR_from_dict_def)
qed (simp_all add: opt_retry_def)

lemma retry_nulls:
  assumes "validate_retry_config rt (dget_none d ''retry_config'') path = Inr u"
    and "dget d ''retry_config'' = Some (PDict r)" and "dget r ''retry_on_event_types'' = Some PNone"
  shows "RetryConfigIR_from_dict rt r = Inl TypeError"
proof -
  from assms have
    mr: "dhas r ''max_retries'' \<Longrightarrow> \<exists>v. require_int r ''max_retries'' (path @ ''.max_retries'') 0 = Inr v"
    and bd: "dhas r ''base_delay_seconds'' \<Longrightarrow>
       \<exists>f. require_number rt r ''base_delay_seconds'' (path @ ''.base_delay_seconds'') (Fin 0) = Inr f"
    and md: "dhas r ''max_delay_seconds'' \<Longrightarrow>
       \<exists>f. require_number rt r ''max_delay_seconds'' (path @ ''.max_delay_seconds'') (Fin 0) = Inr f"
    by (auto simp: validate_retry_config_def dget_noneI res_simps split: pyval.splits)
  from py_int_default_valid [OF mr, of 3] py_float_default_valid [OF bd] py_float_default_valid [OF md]
  obtain n b m where "py_int (dget_or r ''max_retries'' (PInt 3)) = Inr n"
    "py_float rt (dget_or r ''base_delay_seconds'' (PFloat (Fin 5))) = Inr b"
    "py_float rt (dget_or r ''max_delay_seconds'' (PFloat (Fin 300))) = Inr m" by fastforce
  with assms(3) show ?thesis
    by (simp add: RetryConfigIR_from_dict_def dget_or_def py_iter_def)
qed

lemma approver_items_Inr:
  "approver_items p i xs = Inr u \<Longrightarrow> \<forall>x \<in> set xs. \<exists>s. x = PStr s \<and> strip s \<noteq> []"
  by (induction xs arbitrary: i) (auto split: pyval.splits if_splits)

definition approval_ok :: "ApprovalConfigIR \<Rightarrow> bool" where
  "approval_ok a \<longleftrightarrow>
     ac_required_approvers a \<noteq> [] \<and> (\<forall>s \<in> set (ac_required_approvers a). strip s \<noteq> []) \<and>
     1 \<le> ac_timeout_seconds a \<and> ac_timeout_action a \<in> {''fail'', ''skip'', ''escalate''}"

lemma approval_builds:
  assumes "validate_approval_config rt (dget_none d ''approval_config'') path = Inr u"
  shows "\<exists>a. opt_approval rt (dget_none d ''approval_config'') = Inr a \<and>
           (a \<noteq> None \<longleftrightarrow> is_dict (dget_none d ''approval_config'')) \<and>
           (\<forall>c. a = Some c \<longrightarrow> approval_ok c)"
proof (cases "dget_none d ''approval_config''")
  case (PDict r)
  from assms have
    ts: "dhas r ''timeout_seconds'' \<Longrightarrow>
       \<exists>v. require_int r ''timeout_seconds'' (path @ ''.timeout_seconds'') 1 = Inr v"
    and ta: "dhas r ''timeout_action'' \<Longrightarrow>
       \<exists>s. dget r ''timeout_action'' = Some (PStr s) \<and> s \<in> {''fail'', ''skip'', ''escalate''}"
    by (auto simp: validate_approval_config_def PDict res_simps)
  from assms obtain x xs i where
    ap: "dget_none r ''required_approvers'' = PList (x # xs)"
      "approver_items (path @ ''.required_approvers'') 0 (x # xs) = Inr ()"
    by (auto simp: validate_approval_config_def PDict res_simps split: pyval.splits list.splits)
  from py_int_default_valid [OF ts, of 86400]
  obtain t where t: "py_int (dget_or r ''timeout_seconds'' (PInt 86400)) = Inr t" "1 \<le> t" by auto
  have a: "dget_or r ''required_approvers'' (PList []) = PList (x # xs)"
    using ap(1) by (auto simp: dget_none_def dget_or_def split: option.splits)
  have "\<forall>s \<in> set (map (py_str rt) (x # xs)). strip s \<noteq> []"
    using approver_items_Inr [OF ap(2)] by auto
  moreover have "py_str rt (dget_or r ''timeout_action'' (PStr ''fail'')) \<in> {''fail'', ''skip'', ''escalate''}"
    using ta by (cases "dget r ''timeout_action''") (auto simp: dget_noneI dhas_def)
  ultimately show ?thesis
    using t a by (auto simp: PDict opt_approval_def ApprovalConfigIR_from_dict_def approval_ok_def)
qed (simp_all add: opt_approval_def)

section \<open>A validated step\<close>

lemma validate_step_Inr:
  assumes "validate_step rt v i = Inr u"
  obtains d sid sty where "v = PDict d" and "dget d ''id'' = Some (PStr sid)" and "strip sid \<noteq> []"
    and "dget d ''step_type'' = Some (PStr sty)"
    and "validate_step_fields rt d (indexed ''steps'' i) sty = Inr ()"
  using assms by (cases v) (auto simp: validate_step_def Let_def res_simps)

lemma validate_steps_Inr:
  "validate_steps rt i xs = Inr u \<Longrightarrow> v \<in> set xs \<Longrightarrow> \<exists>j. validate_step rt v j = Inr ()"
  by (induction rt i xs rule: validate_steps.induct) (auto simp: res_simps)

text \<open>What the IR of a validated step satisfies.\<close>

definition opt_text :: "pyval \<Rightarrow> bool" where
  "opt_text v \<longleftrightarrow> v = PNone \<or> (\<exists>s. v = PStr s \<and> s \<noteq> [])"

definition budget_ok :: "pyfloat \<Rightarrow> bool" where
  "budget_ok f \<longleftrightarrow> f = NaN \<or> (\<exists>r. f = Fin r \<and> 0 < r \<and> r \<le> 1)"

definition step_ok :: "StepIR \<Rightarrow> bool" where
  "step_ok s \<longleftrightarrow>
     strip (step_id s) \<noteq> [] \<and> step_type s \<in> set allowed_types \<and>
     opt_text (agent_fqn s) \<and> opt_text (tool_fqn s) \<and>
     (step_type s = ''agent_task'' \<longrightarrow> agent_fqn s \<noteq> PNone) \<and>
     (step_type s = ''tool_call'' \<longrightarrow> tool_fqn s \<noteq> PNone) \<and>
     (step_type s = ''approval_gate'' \<longrightarrow> approval_config s \<noteq> None) \<and>
     (\<forall>a. approval_config s = Some a \<longrightarrow> approval_ok a) \<and>
     (\<forall>r. retry_config s = Some r \<longrightarrow> 0 \<le> rc_max_retries r) \<and>
     (\<forall>t. timeout_seconds s = Some t \<longrightarrow> 1 \<le> t) \<and>
     (\<forall>t. context_budget_tokens s = Some t \<longrightarrow> 1 \<le> t) \<and>
     (\<forall>b. compute_budget s = Some b \<longrightarrow> budget_ok b)"

lemma optional_str_opt_text: "opt_text (optional_str rt v)"
  by (simp add: optional_str_def opt_text_def Let_def)

lemma optional_str_PStr: "strip s \<noteq> [] \<Longrightarrow> optional_str rt (PStr s) \<noteq> PNone"
  by (simp add: optional_str_def Let_def)

lemma in_unit_interval: "\<not> float_le f (Fin 0) \<Longrightarrow> \<not> float_less (Fin 1) f \<Longrightarrow> budget_ok f"
  by (cases f) (auto simp: float_le_def budget_ok_def)

lemma opt_budget_valid:
  assumes "dhas d k \<and> dget_none d k \<noteq> PNone \<Longrightarrow>
      \<exists>f. require_float_in_range rt d k p (Fin 0) (Fin 1) = Inr f"
  shows "\<exists>b. opt_float rt (dget_none d k) = Inr b \<and> (\<forall>f. b = Some f \<longrightarrow> budget_ok f)"
proof (cases "dget_none d k = PNone")
  case True
  then show ?thesis by (simp add: opt_float_def)
next
  case False
  then have "dget d k = Some (dget_none d k)" by (rule dget_none_SomeD [OF refl])
  then obtain f where "require_float_in_range rt d k p (Fin 0) (Fin 1) = Inr f"
    using assms False by (auto simp: dhas_def)
  from require_float_in_range_Inr [OF this] False in_unit_interval show ?thesis
    by (auto simp: opt_float_def dget_noneI)
qed

lemma bindings_build:
  assumes "validate_input_bindings (dget_none d ''input_bindings'') path = Inr u"
    and "null_free_step d"
  shows "\<exists>b. py_dict (dget_or d ''input_bindings'' (PDict [])) = Inr b"
  using assms by (cases "dget d ''input_bindings''")
    (auto simp: validate_input_bindings_def null_free_step_def dget_noneI split: pyval.splits)

lemma step_fields:
  assumes "validate_step_fields rt d path sty = Inr u"
  shows "sty \<in> set allowed_types"
    and "sty = ''agent_task'' \<Longrightarrow> \<exists>s. dget d ''agent_fqn'' = Some (PStr s) \<and> strip s \<noteq> []"
    and "sty = ''tool_call'' \<Longrightarrow> \<exists>s. dget d ''tool_fqn'' = Some (PStr s) \<and> strip s \<noteq> []"
    and "validate_depends_on (dget_none d ''depends_on'') (path @ ''.depends_on'') = Inr ()"
    and "validate_input_bindings (dget_none d ''input_bindings'') (path @ ''.input_bindings'') = Inr ()"
    and "validate_retry_config rt (dget_none d ''retry_config'') (path @ ''.retry_config'') = Inr ()"
    and "dhas d ''timeout_seconds'' \<Longrightarrow>
      \<exists>v. require_int d ''timeout_seconds'' (path @ ''.timeout_seconds'') 1 = Inr v"
    and "validate_approval_config rt (dget_none d ''approval_config'') (path @ ''.approval_config'') = Inr ()"
    and "sty = ''approval_gate'' \<Longrightarrow> is_dict (dget_none d ''approval_config'')"
    and "dhas d ''compute_budget'' \<and> dget_none d ''compute_budget'' \<noteq> PNone \<Longrightarrow>
      \<exists>f. require_float_in_range rt d ''compute_budget'' (path @ ''.compute_budget'') (Fin 0) (Fin 1) = Inr f"
    and "dhas d ''context_budget_tokens'' \<and> dget_none d ''context_budget_tokens'' \<noteq> PNone \<Longrightarrow>
      \<exists>v. require_int d ''context_budget_tokens'' (path @ ''.context_budget_tokens'') 1 = Inr v"
  using assms unfolding validate_step_fields_def by (auto simp: res_simps)

end
