(* ===== verification/Workflow_Compile_Props.thy ===== *)
theory Workflow_Compile_Props
  imports Workflow_Validation
begin

text \<open>
  The compiler as a whole. A specification of the accepted workflows is read off the payload
  (step ids, declared dependencies, the dependency relation); the compiler returns an IR exactly for
  the payloads that meet it, and the IR carries that relation. The locale \<open>dag_compiler\<close> is
  the contract other components rely on; it is interpreted on \<open>compile\<close>.
\<close>

section \<open>The declared graph of a payload\<close>

definition item_id :: "pyval \<Rightarrow> string" where
  "item_id v =
     (case v of PDict d \<Rightarrow> (case dget d ''id'' of Some (PStr s) \<Rightarrow> s | _ \<Rightarrow> []) | _ \<Rightarrow> [])"

definition str_of :: "pyval \<Rightarrow> string" where
  "str_of v = (case v of PStr s \<Rightarrow> s | _ \<Rightarrow> [])"

definition item_deps :: "pyval \<Rightarrow> string list" where
  "item_deps v =
     (case v of
        PDict d \<Rightarrow> (case dget d ''depends_on'' of Some (PList xs) \<Rightarrow> map str_of xs | _ \<Rightarrow> [])
      | _ \<Rightarrow> [])"

definition dep_rel :: "pyval list \<Rightarrow> (string \<times> string) set" where
  "dep_rel items = {(a, item_id v) | a v. v \<in> set items \<and> a \<in> set (item_deps v)}"

definition deps_known :: "string set \<Rightarrow> pyval list \<Rightarrow> bool" where
  "deps_known known items \<longleftrightarrow> (\<forall>v \<in> set items. set (item_deps v) \<subseteq> known)"

abbreviation valid_items :: "py_runtime \<Rightarrow> pyval list \<Rightarrow> bool" where
  "valid_items rt items \<equiv> \<forall>v \<in> set items. \<exists>j. validate_step rt v j = Inr ()"

section \<open>Edges of validated steps\<close>

lemma step_id_of_valid:
  assumes "validate_step rt v j = Inr u"
  shows "step_id_of rt v = Inr (item_id v)"
proof -
  from assms obtain d sid where "v = PDict d" and "dget d ''id'' = Some (PStr sid)"
    by (rule validate_step_Inr)
  then show ?thesis by (simp add: step_id_of_def subscript_def dindex_def item_id_def)
qed

lemma depends_items_strs:
  "depends_items p i seen xs = Inr u \<Longrightarrow> \<exists>ss. xs = map PStr ss"
proof (induction p i seen xs rule: depends_items.induct)
  case (1 path index seen)
  show ?case by simp
next
  case (2 path index seen item rest)
  then obtain s where s: "item = PStr s" by (auto split: pyval.splits)
  with 2 obtain ss where "rest = map PStr ss" by (auto split: if_splits)
  with s have "item # rest = map PStr (s # ss)" by simp
  then show ?case ..
qed

lemma deps_valid:
  assumes "validate_depends_on (dget_none d ''depends_on'') p = Inr u"
  shows "dget_none d ''depends_on'' = PNone \<or>
    (\<exists>ss. dget d ''depends_on'' = Some (PList (map PStr ss)))"
  using assms
  by (auto simp: validate_depends_on_def dest!: depends_items_strs dget_none_SomeD
      split: pyval.splits)

lemma dependency_edges_strs:
  assumes "step_id_of rt step = Inr sid"
  shows "dependency_edges rt known i step (map PStr ss) =
    (case find (\<lambda>s. s \<notin> known) ss of
       None \<Rightarrow> Inr (map (\<lambda>s. (s, sid)) ss)
     | Some s \<Rightarrow> Inl (WorkflowCompilationError (''Undefined dependency step '' @ quoted s)
              (PStr (indexed ''steps'' i @ ''.depends_on'')) PNone default_code))"
  using assms by (induction ss) (auto simp: Let_def split: option.splits)

lemma map_str_of_PStr [simp]: "map str_of (map PStr ss) = ss"
  by (simp add: str_of_def comp_def)

lemma step_edges_valid:
  assumes v: "validate_step rt v j = Inr u"
  shows "set (item_deps v) \<subseteq> known \<Longrightarrow>
      step_edges rt known i v = Inr (map (\<lambda>a. (a, item_id v)) (item_deps v))"
    and "\<not> set (item_deps v) \<subseteq> known \<Longrightarrow> \<exists>c m ds. step_edges rt known i v = Inl (PlatformError c m ds)"
proof -
  from v obtain d sty where d: "v = PDict d"
    and f: "validate_step_fields rt d (indexed ''steps'' j) sty = Inr ()"
    by (rule validate_step_Inr)
  note sid = step_id_of_valid [OF v]
  from deps_valid [OF step_fields(4) [OF f]]
  consider "dget_none d ''depends_on'' = PNone"
    | ss where "dget d ''depends_on'' = Some (PList (map PStr ss))" by blast
  then have "(set (item_deps v) \<subseteq> known \<longrightarrow>
        step_edges rt known i v = Inr (map (\<lambda>a. (a, item_id v)) (item_deps v))) \<and>
      (\<not> set (item_deps v) \<subseteq> known \<longrightarrow> (\<exists>c m ds. step_edges rt known i v = Inl (PlatformError c m ds)))"
  proof cases
    case 1
    then show ?thesis
      by (auto simp: d step_edges_def item_deps_def dget_none_eq_PNone dget_noneI)
  next
    case 2
    then have deps: "item_deps v = ss" by (simp add: d item_deps_def del: map_map)
    have "step_edges rt known i v = dependency_edges rt known i v (map PStr ss)"
      using 2 by (simp add: d step_edges_def dget_noneI)
    moreover have "find (\<lambda>s. s \<notin> known) ss = None \<longleftrightarrow> set ss \<subseteq> known"
      by (auto simp: find_None_iff)
    ultimately show ?thesis
      by (cases "find (\<lambda>s. s \<notin> known) ss")
        (auto simp: deps dependency_edges_strs [OF sid] WorkflowCompilationError_def)
  qed
  then show "set (item_deps v) \<subseteq> known \<Longrightarrow>
      step_edges rt known i v = Inr (map (\<lambda>a. (a, item_id v)) (item_deps v))"
    and "\<not> set (item_deps v) \<subseteq> known \<Longrightarrow> \<exists>c m ds. step_edges rt known i v = Inl (PlatformError c m ds)"
    by auto
qed

lemma steps_edges_known:
  "valid_items rt items \<Longrightarrow> deps_known known items \<Longrightarrow>
   \<exists>es. steps_edges rt known i items = Inr es \<and> set es = dep_rel items"
proof (induction items arbitrary: i)
  case Nil
  then show ?case by (simp add: dep_rel_def)
next
  case (Cons v items)
  from Cons.prems obtain j where "validate_step rt v j = Inr ()" by auto
  from step_edges_valid(1) [OF this] Cons.prems
  have 1: "step_edges rt known i v = Inr (map (\<lambda>a. (a, item_id v)) (item_deps v))"
    by (simp add: deps_known_def)
  from Cons.prems have "valid_items rt items" "deps_known known items"
    by (auto simp: deps_known_def)
  from Cons.IH [OF this, of "Suc i"] obtain es where
    "steps_edges rt known (Suc i) items = Inr es" "set es = dep_rel items" by blast
  with 1 show ?case by (auto simp: dep_rel_def)
qed

lemma steps_edges_unknown:
  "valid_items rt items \<Longrightarrow> \<not> deps_known known items \<Longrightarrow>
   \<exists>c m ds. steps_edges rt known i items = Inl (PlatformError c m ds)"
proof (induction items arbitrary: i)
  case Nil
  then show ?case by (simp add: deps_known_def)
next
  case (Cons v items)
  from Cons.prems obtain j where j: "validate_step rt v j = Inr ()" by auto
  show ?case
  proof (cases "set (item_deps v) \<subseteq> known")
    case True
    with Cons.prems have "valid_items rt items" "\<not> deps_known known items"
      by (auto simp: deps_known_def)
    from Cons.IH [OF this, of "Suc i"] obtain c m ds where
      "steps_edges rt known (Suc i) items = Inl (PlatformError c m ds)" by blast
    with step_edges_valid(1) [OF j True] show ?thesis by simp
  next
    case False
    from step_edges_valid(2) [OF j False] show ?thesis by (metis rbind_Inl steps_edges.simps(2))
  qed
qed

lemma step_ids_valid:
  "valid_items rt items \<Longrightarrow> rmap (step_id_of rt) items = Inr (map item_id items)"
  by (rule rmap_map_Inr) (auto dest: step_id_of_valid)

lemma build_dag_edges_valid:
  "valid_items rt items \<Longrightarrow>
   build_dag_edges rt items = steps_edges rt (item_id ` set items) 0 items"
  by (simp add: build_dag_edges_def step_ids_valid)

section \<open>Validated steps build\<close>

lemma build_step_valid:
  assumes v: "validate_step rt (PDict d) j = Inr u" and nf: "null_free_step d"
  shows "\<exists>s. build_step_ir rt d = Inr s \<and> step_ok s \<and> step_id s = item_id (PDict d)"
proof -
  from v obtain sid sty where
    sid: "dget d ''id'' = Some (PStr sid)" "strip sid \<noteq> []"
    and sty: "dget d ''step_type'' = Some (PStr sty)"
    and f: "validate_step_fields rt d (indexed ''steps'' j) sty = Inr ()"
    by (rule validate_step_Inr) simp
  note F = step_fields [OF f]
  obtain ib where ib: "py_dict (dget_or d ''input_bindings'' (PDict [])) = Inr ib"
    using bindings_build [OF F(5) nf] by blast
  obtain rc where rc: "opt_retry rt (dget_none d ''retry_config'') = Inr rc"
      "\<forall>c. rc = Some c \<longrightarrow> 0 \<le> rc_max_retries c"
    using retry_builds [OF F(6) nf] by blast
  obtain ts where ts: "opt_int (dget_none d ''timeout_seconds'') = Inr ts" "\<forall>n. ts = Some n \<longrightarrow> 1 \<le> n"
    using opt_int_valid [OF F(7)] by blast
  obtain ac where ac: "opt_approval rt (dget_none d ''approval_config'') = Inr ac"
      "ac \<noteq> None \<longleftrightarrow> is_dict (dget_none d ''approval_config'')" "\<forall>c. ac = Some c \<longrightarrow> approval_ok c"
    using approval_builds [OF F(8)] by blast
  obtain cb where cb: "opt_float rt (dget_none d ''compute_budget'') = Inr cb"
      "\<forall>b. cb = Some b \<longrightarrow> budget_ok b"
    using opt_budget_valid [OF F(10)] by blast
  obtain ct where ct: "opt_int (dget_none d ''context_budget_tokens'') = Inr ct"
      "\<forall>n. ct = Some n \<longrightarrow> 1 \<le> n"
  proof (cases "dget_none d ''context_budget_tokens'' = PNone")
    case True
    then show ?thesis by (intro that [of None]) (simp_all add: opt_int_def)
  next
    case False
    then show ?thesis using opt_int_valid [of d "''context_budget_tokens''"] F(11) that by blast
  qed
  have ag: "sty = ''agent_task'' \<Longrightarrow> optional_str rt (dget_none d ''agent_fqn'') \<noteq> PNone"
    and tl: "sty = ''tool_call'' \<Longrightarrow> optional_str rt (dget_none d ''tool_fqn'') \<noteq> PNone"
    using F(2,3) by (auto simp: dget_noneI optional_str_PStr)
  show ?thesis
    using sid sty ib rc ts ac cb ct ag tl F(1,9)
    by (auto simp: build_step_ir_def dindex_def step_ok_def item_id_def optional_str_opt_text)
qed

lemma build_step_null_free: "build_step_ir rt d = Inr s \<Longrightarrow> null_free_step d"
  by (auto simp: build_step_ir_def null_free_step_def res_simps dget_noneI opt_retry_def
      RetryConfigIR_from_dict_def)

definition null_free_items :: "pyval list \<Rightarrow> bool" where
  "null_free_items items \<longleftrightarrow> (\<forall>d. PDict d \<in> set items \<longrightarrow> null_free_step d)"

lemma build_items_valid:
  assumes "valid_items rt items" and "null_free_items items"
  shows "\<exists>ss. rmap (build_item rt) items = Inr ss \<and> map step_id ss = map item_id items \<and>
    (\<forall>s \<in> set ss. step_ok s)"
  using assms
proof (induction items)
  case Nil
  then show ?case by simp
next
  case (Cons v items)
  then obtain j where j: "validate_step rt v j = Inr ()" by auto
  then obtain d where d: "v = PDict d" by (rule validate_step_Inr)
  with Cons.prems have "null_free_step d" by (auto simp: null_free_items_def)
  with j d obtain s where "build_item rt v = Inr s" "step_ok s" "step_id s = item_id v"
    using build_step_valid by (force simp: build_item_def)
  moreover from Cons obtain ss where
    "rmap (build_item rt) items = Inr ss" "map step_id ss = map item_id items" "\<forall>s \<in> set ss. step_ok s"
    by (auto simp: null_free_items_def)
  ultimately show ?case by auto
qed

lemma built_null_free:
  "rmap (build_item rt) items = Inr ss \<Longrightarrow> null_free_items items"
proof (induction items arbitrary: ss)
  case Nil
  show ?case by (simp add: null_free_items_def)
next
  case (Cons v items)
  from Cons.prems obtain s ss' where
    s: "build_item rt v = Inr s" and "rmap (build_item rt) items = Inr ss'"
    by (auto split: sum.splits)
  from Cons.IH [OF this(2)] s show ?case
    by (auto simp: null_free_items_def build_item_def dest: build_step_null_free)
qed

section \<open>The compiler succeeds exactly on well-formed graphs\<close>

lemma validate_payload_steps:
  assumes "validate_payload rt p version = Inr u"
  obtains items where "dget p ''steps'' = Some (PList items)" and "items \<noteq> []"
    and "valid_items rt items" and "p \<noteq> []"
    and "dget_none p ''data_bindings'' = PNone \<or> is_list (dget_none p ''data_bindings'')"
    and "dget_none p ''metadata'' = PNone \<or> is_dict (dget_none p ''metadata'')"
proof -
  from assms obtain v vs where
    st: "dget_none p ''steps'' = PList (v # vs)" and vs: "validate_steps rt 0 (v # vs) = Inr ()"
    by (cases "dget_none p ''steps''")
      (auto simp: validate_payload_def checks_eq_Inr split: list.splits)
  from assms have
    db: "dget_none p ''data_bindings'' = PNone \<or> is_list (dget_none p ''data_bindings'')"
    and md: "dget_none p ''metadata'' = PNone \<or> is_dict (dget_none p ''metadata'')"
    by (auto simp: validate_payload_def checks_eq_Inr split: pyval.splits)
  from st have "dget p ''steps'' = Some (PList (v # vs))" by (auto dest: dget_none_SomeD)
  moreover from this have "p \<noteq> []" by (auto simp: dget_def)
  ultimately show ?thesis
    using that [of "v # vs"] validate_steps_Inr [OF vs] db md by auto
qed

lemma dep_rel_closed:
  assumes "deps_known (item_id ` set items) items" and "set es = dep_rel items"
  shows "edges_closed (map item_id items) es"
proof -
  have "a \<in> item_id ` set items \<and> b \<in> item_id ` set items" if ab: "(a, b) \<in> dep_rel items" for a b
  proof -
    from ab obtain v where v: "v \<in> set items" "b = item_id v" "a \<in> set (item_deps v)"
      by (auto simp: dep_rel_def)
    with assms(1) show ?thesis by (auto simp: deps_known_def)
  qed
  with assms(2) show ?thesis by (auto simp: edges_closed_def)
qed

text \<open>What the compiler accepts, read off the payload.\<close>

definition graph_ok :: "pyval list \<Rightarrow> bool" where
  "graph_ok items \<longleftrightarrow>
     distinct (map item_id items) \<and> deps_known (item_id ` set items) items \<and> acyclic (dep_rel items)"

definition compiled_ok :: "pyval list \<Rightarrow> WorkflowIR \<Rightarrow> bool" where
  "compiled_ok items ir \<longleftrightarrow>
     map step_id (steps ir) = map item_id items \<and> set (dag_edges ir) = dep_rel items \<and>
     (\<forall>s \<in> set (steps ir). step_ok s)"

lemma compile_steps_Inr:
  assumes vi: "valid_items rt items" and c: "compile_steps rt depth p version items = Inr ir"
  shows "graph_ok items \<and> compiled_ok items ir \<and> schema_version ir = version"
proof -
  note ids = step_ids_valid [OF vi]
  from c obtain es ss where
    dist: "distinct (map item_id items)"
    and es: "build_dag_edges rt items = Inr es"
    and acy: "assert_acyclic depth (map item_id items) es = Inr ()"
    and ss: "rmap (build_item rt) items = Inr ss"
    and ir: "steps ir = ss" "dag_edges ir = es" "schema_version ir = version"
    by (auto simp: compile_steps_def ids res_simps)
  have known: "deps_known (item_id ` set items) items"
  proof (rule ccontr)
    assume "\<not> ?thesis"
    from steps_edges_unknown [OF vi this, of 0] es show False
      by (simp add: build_dag_edges_valid [OF vi])
  qed
  from es steps_edges_known [OF vi known, of 0] have set_es: "set es = dep_rel items"
    by (simp add: build_dag_edges_valid [OF vi])
  from acy dep_rel_closed [OF known set_es] have "acyclic (dep_rel items)"
    unfolding set_es [symmetric] by (rule assert_acyclic_sound)
  with dist known ir set_es build_items_valid [OF vi built_null_free [OF ss]] ss show ?thesis
    by (auto simp: graph_ok_def compiled_ok_def)
qed

lemma compile_steps_ok:
  assumes vi: "valid_items rt items" and nf: "null_free_items items" and ok: "graph_ok items"
    and depth: "length items < depth"
    and db: "py_iter (dget_or p ''data_bindings'' (PList [])) = Inr dbs"
    and md: "py_dict (dget_or p ''metadata'' (PDict [])) = Inr m"
  shows "\<exists>ir. compile_steps rt depth p version items = Inr ir"
proof -
  note ids = step_ids_valid [OF vi]
  from ok have known: "deps_known (item_id ` set items) items" by (simp add: graph_ok_def)
  from steps_edges_known [OF vi known, of 0] obtain es where
    es: "build_dag_edges rt items = Inr es" "set es = dep_rel items"
    by (auto simp: build_dag_edges_valid [OF vi])
  have "card (set (map item_id items)) < depth"
    using depth card_length [of "map item_id items"] by simp
  with assert_acyclic_exact [OF dep_rel_closed [OF known es(2)]] ok es(2)
  have "assert_acyclic depth (map item_id items) es = Inr ()" by (simp add: graph_ok_def)
  with es ids ok build_items_valid [OF vi nf] db md show ?thesis
    by (auto simp: compile_steps_def graph_ok_def require_def)
qed

text \<open>The payload fields that validation lets through as \<open>null\<close> although the IR
  construction iterates over them.\<close>

definition null_free_payload :: "pydict \<Rightarrow> pyval list \<Rightarrow> bool" where
  "null_free_payload p items \<longleftrightarrow>
     dget p ''data_bindings'' \<noteq> Some PNone \<and> dget p ''metadata'' \<noteq> Some PNone \<and>
     null_free_items items"

lemma compile_steps_error:
  assumes vi: "valid_items rt items" and nf: "null_free_items items"
    and depth: "length items < depth"
    and db: "py_iter (dget_or p ''data_bindings'' (PList [])) = Inr dbs"
    and md: "py_dict (dget_or p ''metadata'' (PDict [])) = Inr m"
    and c: "compile_steps rt depth p version items = Inl e"
  shows "\<exists>code msg ds. e = PlatformError code msg ds"
proof (cases "distinct (map item_id items)")
  case False
  with c show ?thesis
    by (auto simp: compile_steps_def step_ids_valid [OF vi] require_def WorkflowCompilationError_def)
next
  case dist: True
  show ?thesis
  proof (cases "deps_known (item_id ` set items) items")
    case False
    from steps_edges_unknown [OF vi False, of 0] c dist show ?thesis
      by (auto simp: compile_steps_def step_ids_valid [OF vi] build_dag_edges_valid [OF vi] require_def)
  next
    case known: True
    from steps_edges_known [OF vi known, of 0] obtain es where
      es: "build_dag_edges rt items = Inr es" "set es = dep_rel items"
      by (auto simp: build_dag_edges_valid [OF vi])
    have d: "card (set (map item_id items)) < depth"
      using depth card_length [of "map item_id items"] by simp
    have "assert_acyclic depth (map item_id items) es = Inl e"
      using c dist es build_items_valid [OF vi nf] db md
      by (cases "assert_acyclic depth (map item_id items) es")
        (auto simp: compile_steps_def step_ids_valid [OF vi] require_def)
    with assert_acyclic_error [OF this]
      assert_acyclic_depth [OF dep_rel_closed [OF known es(2)] d]
    show ?thesis by (auto simp: circular_error_def WorkflowCompilationError_def)
  qed
qed

lemma null_free_payload_builds:
  assumes "validate_payload rt p version = Inr u" and "null_free_payload p items"
  shows "\<exists>dbs. py_iter (dget_or p ''data_bindings'' (PList [])) = Inr dbs"
    and "\<exists>m. py_dict (dget_or p ''metadata'' (PDict [])) = Inr m"
proof -
  from assms(1) obtain
    "dget_none p ''data_bindings'' = PNone \<or> is_list (dget_none p ''data_bindings'')"
    "dget_none p ''metadata'' = PNone \<or> is_dict (dget_none p ''metadata'')"
    by (rule validate_payload_steps)
  with assms(2) show "\<exists>dbs. py_iter (dget_or p ''data_bindings'' (PList [])) = Inr dbs"
    and "\<exists>m. py_dict (dget_or p ''metadata'' (PDict [])) = Inr m"
    by (auto simp: null_free_payload_def dget_or_def dget_none_def is_list_conv is_dict_conv
        py_iter_def py_dict_def split: option.splits)
qed

lemma built_null_free_payload:
  assumes "compile_steps rt depth p version items = Inr ir"
  shows "null_free_payload p items"
  using assms built_null_free
  by (auto simp: compile_steps_def null_free_payload_def rbind_eq_Inr dget_or_def)

lemma compile_payload:
  assumes "safe_load src = Inr (PDict p)" and "schema_file version = Some (PDict sch)"
    and "validate_payload rt p version = Inr u" and "dget p ''steps'' = Some (PList items)"
  shows "compile rt safe_load schema_file depth src version = compile_steps rt depth p version items"
proof -
  from assms(4) have "p \<noteq> []" by (auto simp: dget_def)
  with assms show ?thesis
    by (simp add: compile_def py_or_def load_schema_def dget_or_def)
qed

lemma compile_InrE:
  assumes "compile rt safe_load schema_file depth src version = Inr ir"
  obtains p items where "safe_load src = Inr (PDict p)"
    and "validate_payload rt p version = Inr ()" and "dget p ''steps'' = Some (PList items)"
    and "valid_items rt items" and "items \<noteq> []"
    and "compile_steps rt depth p version items = Inr ir"
proof -
  from assms obtain raw p where raw: "safe_load src = Inr raw" "py_or raw (PDict []) = PDict p"
    and v: "validate_payload rt p version = Inr ()"
    by (auto simp: compile_def rbind_eq_Inr split: sum.splits pyval.splits)
  from v obtain items where st: "dget p ''steps'' = Some (PList items)" "items \<noteq> []"
    "valid_items rt items" "p \<noteq> []" by (rule validate_payload_steps)
  from raw st(4) have "raw = PDict p" by (auto simp: py_or_def split: if_splits)
  with raw assms v st that show ?thesis
    by (auto simp: compile_def rbind_eq_Inr dget_or_def)
qed

section \<open>The compiler as other components see it\<close>

definition ir_ids :: "WorkflowIR \<Rightarrow> string set" where
  "ir_ids ir = step_id ` set (steps ir)"

definition deps_of :: "WorkflowIR \<Rightarrow> string \<Rightarrow> string set" where
  "deps_of ir sid = {a. (a, sid) \<in> set (dag_edges ir)}"

definition dag_ir :: "WorkflowIR \<Rightarrow> bool" where
  "dag_ir ir \<longleftrightarrow>
     distinct (map step_id (steps ir)) \<and>
     (\<forall>(a, b) \<in> set (dag_edges ir). a \<in> ir_ids ir \<and> b \<in> ir_ids ir) \<and>
     acyclic (set (dag_edges ir))"

text \<open>In a finite acyclic graph, whatever is done so far, some step has all its dependencies done.\<close>

lemma dag_ir_ready:
  assumes ir: "dag_ir ir" and todo: "\<not> ir_ids ir \<subseteq> finished"
  shows "\<exists>s \<in> set (steps ir). step_id s \<notin> finished \<and> deps_of ir (step_id s) \<subseteq> finished"
proof -
  have "wf (set (dag_edges ir))"
    using ir by (intro finite_acyclic_wf) (auto simp: dag_ir_def)
  moreover from todo obtain x where "x \<in> ir_ids ir - finished" by auto
  ultimately obtain z where z: "z \<in> ir_ids ir - finished"
    "\<And>y. (y, z) \<in> set (dag_edges ir) \<Longrightarrow> y \<notin> ir_ids ir - finished"
    by (rule wfE_min) blast
  then have "deps_of ir z \<subseteq> finished" using ir by (fastforce simp: dag_ir_def deps_of_def)
  with z(1) show ?thesis by (auto simp: ir_ids_def)
qed

text \<open>The contract of a compiler: whatever it returns is a graph of distinct steps without cycles.
  The scheduler relies on \<open>ready\<close>, the hot-change check on \<open>lookup\<close>.\<close>

locale dag_compiler =
  fixes compile_src :: "'src \<Rightarrow> ('e, WorkflowIR) result"
  assumes compiled_dag: "compile_src src = Inr ir \<Longrightarrow> dag_ir ir"
    and compiled_nonempty: "compile_src src = Inr ir \<Longrightarrow> steps ir \<noteq> []"
begin

lemma ready:
  assumes "compile_src src = Inr ir" and "\<not> ir_ids ir \<subseteq> finished"
  shows "\<exists>s \<in> set (steps ir). step_id s \<notin> finished \<and> deps_of ir (step_id s) \<subseteq> finished"
  using dag_ir_ready [OF compiled_dag [OF assms(1)] assms(2)] .

lemma root_step:
  assumes "compile_src src = Inr ir"
  shows "\<exists>s \<in> set (steps ir). deps_of ir (step_id s) = {}"
  using ready [OF assms, of "{}"] compiled_nonempty [OF assms] by (auto simp: ir_ids_def)

lemma lookup:
  assumes "compile_src src = Inr ir" and "s \<in> set (steps ir)"
  shows "map_of (step_map ir) (step_id s) = Some s"
proof -
  from compiled_dag [OF assms(1)] have "dict_wf (map (\<lambda>s. (step_id s, s)) (steps ir))"
    by (simp add: dag_ir_def dict_wf_def comp_def)
  then show ?thesis using assms(2)
    by (auto simp: step_map_def dict_wf_def comp_def intro!: map_of_is_SomeI)
qed

text \<open>A change to an identical workflow is always compatible.\<close>

lemma self_compatible:
  assumes "compile_src src = Inr ir"
  shows "compatible (validate_compatibility ir ir active)"
  by (auto simp: validate_compatibility_def Let_def step_issues_def bindings_eq_def
      split: option.splits)

end

lemma compiled_dag_ir:
  assumes "graph_ok items" and "compiled_ok items ir"
  shows "dag_ir ir"
proof -
  from assms(2) have ids: "map step_id (steps ir) = map item_id items"
    and es: "set (dag_edges ir) = dep_rel items" by (simp_all add: compiled_ok_def)
  from arg_cong [OF ids, of set] have ii: "ir_ids ir = set (map item_id items)"
    by (simp add: ir_ids_def)
  from dep_rel_closed [OF _ es] assms(1)
  have "edges_closed (map item_id items) (dag_edges ir)" by (simp add: graph_ok_def)
  with assms(1) ids es ii show ?thesis
    by (auto simp: dag_ir_def graph_ok_def edges_closed_def)
qed

lemma compile_dag:
  assumes "compile rt safe_load schema_file depth src version = Inr ir"
  shows "dag_ir ir" and "steps ir \<noteq> []" and "\<forall>s \<in> set (steps ir). step_ok s"
proof -
  from assms obtain p items where vi: "valid_items rt items" "items \<noteq> []"
    and c: "compile_steps rt depth p version items = Inr ir" by (rule compile_InrE)
  from compile_steps_Inr [OF vi(1) c] have ok: "graph_ok items" "compiled_ok items ir" by simp_all
  then show "dag_ir ir" by (rule compiled_dag_ir)
  from ok(2) vi(2) show "steps ir \<noteq> []" "\<forall>s \<in> set (steps ir). step_ok s"
    by (auto simp: compiled_ok_def)
qed

interpretation wf_compiler: dag_compiler "\<lambda>src. compile rt safe_load schema_file depth src version"
  for rt safe_load schema_file depth version
  by unfold_locales (erule compile_dag)+

section \<open>Compiled IRs are in the normal form of the stored representation\<close>

lemma build_step_norm:
  assumes "build_step_ir rt d = Inr s"
  shows "step_norm s = s \<and> dict_wf (or_empty (input_bindings s))"
proof -
  from assms have "map_option retry_norm (retry_config s) = retry_config s"
    by (auto simp: build_step_ir_def rbind_eq_Inr opt_retry_norm)
  moreover from assms obtain ib where "input_bindings s = Some (str_bindings rt ib)"
    by (auto simp: build_step_ir_def rbind_eq_Inr)
  ultimately show ?thesis by (simp add: step_norm_def or_empty_def)
qed

lemma compile_steps_norm:
  assumes "compile_steps rt depth p version items = Inr ir"
  shows "ir_norm ir = ir \<and> ir_wf ir"
proof -
  from assms have "list_all2 (\<lambda>v s. build_item rt v = Inr s) items (steps ir)"
    and md: "data_bindings ir \<noteq> None" "metadata ir \<noteq> None"
    by (auto simp: compile_steps_def res_simps)
  then have s: "\<forall>s \<in> set (steps ir). step_norm s = s \<and> dict_wf (or_empty (input_bindings s))"
    by (induction rule: list_all2_induct)
      (auto simp: build_item_def dest: build_step_norm split: pyval.splits)
  then have "map step_norm (steps ir) = steps ir" by (simp add: map_idI)
  with s md show ?thesis by (auto simp: ir_norm_def ir_wf_def or_empty_def)
qed

section \<open>Nulls that validation lets through\<close>

lemma build_step_null:
  assumes v: "validate_step rt (PDict d) j = Inr u" and nf: "\<not> null_free_step d"
  shows "build_step_ir rt d = Inl TypeError"
proof (cases "dget d ''input_bindings'' = Some PNone")
  case True
  from v obtain sid sty where "dget d ''id'' = Some (PStr sid)" "dget d ''step_type'' = Some (PStr sty)"
    by (rule validate_step_Inr) simp
  with True show ?thesis by (simp add: build_step_ir_def dindex_def dget_or_def py_dict_def py_iter_def)
next
  case ib: False
  with nf obtain r where r: "dget d ''retry_config'' = Some (PDict r)"
    "dget r ''retry_on_event_types'' = Some PNone" by (auto simp: null_free_step_def)
  from v obtain sid sty where
    ids: "dget d ''id'' = Some (PStr sid)" "dget d ''step_type'' = Some (PStr sty)"
    and f: "validate_step_fields rt d (indexed ''steps'' j) sty = Inr ()"
    by (rule validate_step_Inr) simp
  obtain b where b: "py_dict (dget_or d ''input_bindings'' (PDict [])) = Inr b"
    using step_fields(5) [OF f] ib by (cases "dget d ''input_bindings''")
      (auto simp: validate_input_bindings_def dget_noneI split: pyval.splits)
  have "RetryConfigIR_from_dict rt r = Inl TypeError"
    using retry_nulls [OF step_fields(6) [OF f] r] .
  then have "opt_retry rt (dget_none d ''retry_config'') = Inl TypeError"
    using r(1) by (simp add: opt_retry_def dget_noneI)
  with ids b show ?thesis by (simp add: build_step_ir_def dindex_def)
qed

lemma build_items_null:
  "valid_items rt items \<Longrightarrow> \<not> null_free_items items \<Longrightarrow> rmap (build_item rt) items = Inl TypeError"
proof (induction items)
  case Nil
  then show ?case by (simp add: null_free_items_def)
next
  case (Cons v items)
  from Cons.prems obtain j where j: "validate_step rt v j = Inr ()" by auto
  then obtain d where d: "v = PDict d" by (rule validate_step_Inr)
  show ?case
  proof (cases "null_free_step d")
    case True
    with build_step_valid [of rt d j] j d obtain s where "build_item rt v = Inr s"
      by (auto simp: build_item_def)
    moreover have "rmap (build_item rt) items = Inl TypeError"
      using Cons True d by (auto simp: null_free_items_def)
    ultimately show ?thesis by simp
  next
    case False
    with build_step_null [of rt d j] j d show ?thesis by (simp add: build_item_def)
  qed
qed

lemma compile_steps_null:
  assumes vp: "validate_payload rt p version = Inr u" and vi: "valid_items rt items"
    and ok: "graph_ok items" and depth: "length items < depth"
    and nf: "\<not> null_free_payload p items"
  shows "compile_steps rt depth p version items = Inl TypeError"
proof -
  note ids = step_ids_valid [OF vi]
  from ok have known: "deps_known (item_id ` set items) items" by (simp add: graph_ok_def)
  from steps_edges_known [OF vi known, of 0] obtain es where
    es: "build_dag_edges rt items = Inr es" "set es = dep_rel items"
    by (auto simp: build_dag_edges_valid [OF vi])
  have "card (set (map item_id items)) < depth"
    using depth card_length [of "map item_id items"] by simp
  with assert_acyclic_exact [OF dep_rel_closed [OF known es(2)]] ok es(2)
  have acy: "assert_acyclic depth (map item_id items) es = Inr ()" by (simp add: graph_ok_def)
  show ?thesis
  proof (cases "null_free_items items")
    case False
    with build_items_null [OF vi] ids ok es acy show ?thesis
      by (simp add: compile_steps_def graph_ok_def require_def)
  next
    case True
    from build_items_valid [OF vi True] obtain ss where "rmap (build_item rt) items = Inr ss" by blast
    moreover from vp obtain
      "dget_none p ''data_bindings'' = PNone \<or> is_list (dget_none p ''data_bindings'')"
      by (rule validate_payload_steps)
    ultimately show ?thesis using nf True ids ok es acy
      by (auto simp: compile_steps_def graph_ok_def require_def null_free_payload_def dget_or_def
          dget_none_def py_dict_def is_list_conv split: option.splits)
  qed
qed

section \<open>Properties\<close>


text \<open>C7. Every IR the compiler returns is executable: its steps are well-formed (a known type, the
  agent or tool its type needs, approvers for an approval gate, positive timeouts, a usable budget),
  and whatever set of steps has finished, if some step has not then one of the unfinished steps has
  all its dependencies finished.\<close>

theorem compiled_workflow_progresses:
  assumes "compile rt safe_load schema_file depth src version = Inr ir"
  shows "(\<forall>s \<in> set (steps ir). step_ok s) \<and>
    (\<forall>finished. \<not> ir_ids ir \<subseteq> finished \<longrightarrow>
      (\<exists>s \<in> set (steps ir). step_id s \<notin> finished \<and> deps_of ir (step_id s) \<subseteq> finished))"
  using compile_dag(3) [OF assms] wf_compiler.ready [OF assms] by blast

text \<open>C21. The nulls validation lets through. A validated payload with a well-formed graph in which
  \<open>data_bindings\<close>, \<open>metadata\<close>, a step's \<open>input_bindings\<close> or a retry configuration's
  \<open>retry_on_event_types\<close> is an explicit \<open>null\<close> does not compile, and the failure is a
  \<open>TypeError\<close> of the interpreter instead of a compilation error.\<close>

theorem compile_null_crashes:
  assumes "safe_load src = Inr (PDict p)" and "schema_file version = Some (PDict sch)"
    and "validate_payload rt p version = Inr ()" and "dget p ''steps'' = Some (PList items)"
    and "graph_ok items" and "length items < depth" and "\<not> null_free_payload p items"
  shows "compile rt safe_load schema_file depth src version = Inl TypeError"
proof -
  from assms(3) obtain items' where "dget p ''steps'' = Some (PList items')" "valid_items rt items'"
    by (rule validate_payload_steps)
  with assms(4) have vi: "valid_items rt items" by simp
  show ?thesis
    using compile_payload [where safe_load = safe_load and schema_file = schema_file and src = src
        and version = version, OF assms(1-4), of depth]
      compile_steps_null [OF assms(3) vi assms(5-7)] by simp
qed

text \<open>C20. What the workflow service stores is what the scheduler loads: a compiled IR written with
  \<open>to_dict\<close> and read back with \<open>from_dict\<close> is the same IR, so it keeps its steps, its
  edges and the guarantees of the compiler.\<close>

theorem compiled_ir_roundtrip:
  assumes "compile rt safe_load schema_file depth src version = Inr ir"
  shows "WorkflowIR_from_dict rt (WorkflowIR_to_dict ir) = Inr ir \<and> dag_ir ir"
proof -
  from assms obtain p items where "compile_steps rt depth p version items = Inr ir"
    by (rule compile_InrE)
  from compile_steps_norm [OF this] workflow_roundtrip [of ir rt] compile_dag(1) [OF assms]
  show ?thesis by simp
qed

lemma step_issues_Nil:
  "step_issues old_ir new_ir sid = [] \<longleftrightarrow>
   (\<forall>old_step. map_of (step_map old_ir) sid = Some old_step \<longrightarrow>
      (\<exists>new_step. map_of (step_map new_ir) sid = Some new_step \<and>
         step_type old_step = step_type new_step \<and> agent_fqn old_step = agent_fqn new_step \<and>
         tool_fqn old_step = tool_fqn new_step \<and>
         set (or_empty (input_bindings old_step)) = set (or_empty (input_bindings new_step))))"
  by (cases "map_of (step_map old_ir) sid"; cases "map_of (step_map new_ir) sid")
    (auto simp: step_issues_def bindings_eq_def)

text \<open>Hot changes. A new version is compatible with the running one exactly when every active
  step of the old version still exists with the same type, agent, tool and input bindings; an
  active id the old version does not have never blocks a change.\<close>

theorem hot_change_compatible_iff:
  "compatible (validate_compatibility old_ir new_ir active) \<longleftrightarrow>
   (\<forall>sid \<in> set active. \<forall>old_step. map_of (step_map old_ir) sid = Some old_step \<longrightarrow>
      (\<exists>new_step. map_of (step_map new_ir) sid = Some new_step \<and>
         step_type new_step = step_type old_step \<and> agent_fqn new_step = agent_fqn old_step \<and>
         tool_fqn new_step = tool_fqn old_step \<and>
         set (or_empty (input_bindings new_step)) = set (or_empty (input_bindings old_step))))"
  unfolding validate_compatibility_def by (simp add: step_issues_Nil) metis

section \<open>Witnesses\<close>

text \<open>A runtime whose \<open>repr\<close> and \<open>float()\<close> of a string are constant: the payloads below never
  reach them.\<close>

definition plain_runtime :: py_runtime where
  "plain_runtime = \<lparr>rt_repr = (\<lambda>_. []), rt_float = (\<lambda>_. None)\<rparr>"

definition sample_step :: "string \<Rightarrow> string list \<Rightarrow> pyval" where
  "sample_step sid deps = PDict
     [(PStr ''id'', PStr sid), (PStr ''step_type'', PStr ''agent_task''),
      (PStr ''agent_fqn'', PStr ''ops:triage''), (PStr ''depends_on'', PList (map PStr deps))]"

definition sample_items :: "pyval list" where
  "sample_items = [sample_step ''fetch'' [], sample_step ''score'' [''fetch'']]"

definition sample_payload :: pydict where
  "sample_payload = [(PStr ''schema_version'', PInt 1), (PStr ''steps'', PList sample_items)]"

lemma sample_facts:
  "validate_payload plain_runtime sample_payload 1 = Inr ()"
  "dget sample_payload ''steps'' = Some (PList sample_items)"
  "null_free_payload sample_payload sample_items"
  subgoal by code_simp
  subgoal by code_simp
  subgoal by (auto simp: null_free_payload_def null_free_items_def sample_payload_def sample_items_def
        sample_step_def dget_def null_free_step_def)
  done


lemma sample_graph: "graph_ok sample_items"
proof -
  have ids: "item_id (sample_step a ds) = a" and deps: "item_deps (sample_step a ds) = ds" for a ds
    by (simp_all add: item_id_def item_deps_def sample_step_def dget_def comp_def str_of_def)
  have "dep_rel sample_items = {(''fetch'', ''score'')}"
    by (auto simp: dep_rel_def sample_items_def ids deps
        intro!: exI [of _ "sample_step ''score'' [''fetch'']"])
  then show ?thesis
    by (simp add: graph_ok_def deps_known_def sample_items_def ids deps acyclic_insert) (simp add: acyclic_def)
qed

definition sample_ir :: WorkflowIR where
  "sample_ir = projr (compile plain_runtime (\<lambda>_. Inr (PDict sample_payload)) (\<lambda>_. Some (PDict [])) 10
     ''src'' 1)"

lemma sample_compiles:
  "compile plain_runtime (\<lambda>_. Inr (PDict sample_payload)) (\<lambda>_. Some (PDict [])) 10 ''src'' 1 =
   Inr sample_ir"
  unfolding sample_ir_def by code_simp

lemma compiled_workflow_progresses_witness:
  "\<exists>s \<in> set (steps sample_ir). step_id s \<notin> {''fetch''} \<and> deps_of sample_ir (step_id s) \<subseteq> {''fetch''}"
proof -
  have "map step_id (steps sample_ir) = [''fetch'', ''score'']" by code_simp
  then have "\<not> ir_ids sample_ir \<subseteq> {''fetch''}" by (auto simp: ir_ids_def)
  then show ?thesis using compiled_workflow_progresses [OF sample_compiles] by blast
qed

lemma compiled_ir_roundtrip_witness:
  "WorkflowIR_from_dict plain_runtime (WorkflowIR_to_dict sample_ir) = Inr sample_ir"
  using compiled_ir_roundtrip [OF sample_compiles] by simp

definition null_payload :: pydict where
  "null_payload = sample_payload @ [(PStr ''metadata'', PNone)]"

lemma compile_null_crashes_witness:
  "compile plain_runtime (\<lambda>_. Inr (PDict null_payload)) (\<lambda>_. Some (PDict [])) 10 ''src'' 1 =
   Inl TypeError"
proof (rule compile_null_crashes [OF refl refl _ _ sample_graph])
  show "validate_payload plain_runtime null_payload 1 = Inr ()" by code_simp
  show "dget null_payload ''steps'' = Some (PList sample_items)" by code_simp
  show "length sample_items < 10" by (simp add: sample_items_def)
  show "\<not> null_free_payload null_payload sample_items"
    by (simp add: null_free_payload_def null_payload_def sample_payload_def dget_def)
qed

lemma hot_change_compatible_iff_witness:
  "compatible (validate_compatibility sample_ir sample_ir [''fetch'', ''gone''])"
  by (subst hot_change_compatible_iff) auto

end
