(* ===== verification/Execution_Service.thy ===== *)
theory Execution_Service
  imports Execution_Checkpoint Workflow_Compile_Props
begin

text \<open>
  execution/service.py: creating, cancelling, pausing, resuming and rerunning executions, reading
  and replaying state, hot changes, approvals, compensation, runtime events, task plans and reasoning
  traces. A method is an operation on the shared world; a response that copies a row is the row. The
  request-level transaction is outside: what an operation wrote before it raised stays visible here.
\<close>

section \<open>Requests\<close>

record ExecutionCreate =
  ec_workflow_version_id :: "uuid option"
  ec_workflow_definition_id :: uuid
  ec_trigger_type :: TriggerType
  ec_input_parameters :: pydict
  ec_workspace_id :: uuid
  ec_correlation_conversation_id :: "uuid option"
  ec_correlation_interaction_id :: "uuid option"
  ec_correlation_fleet_id :: "uuid option"
  ec_correlation_goal_id :: "uuid option"
  ec_trigger_id :: "uuid option"
  ec_sla_deadline :: "timestamp option"

section \<open>Shared steps\<close>

definition get_execution_or_raise :: "uuid \<Rightarrow> Execution op" where
  "get_execution_or_raise eid =
     ebind (get_execution_by_id eid) (\<lambda>found.
     case found of None \<Rightarrow> eraise (ExecutionNotFoundError eid) | Some e \<Rightarrow> eret e)"

text \<open>The row behind a reference the code still holds.\<close>

definition exec_ref :: "uuid \<Rightarrow> Execution op" where
  "exec_ref eid =
     ebind (get_execution_by_id eid) (\<lambda>found.
     case found of None \<Rightarrow> eraise AttributeError | Some e \<Rightarrow> eret e)"

definition resolve_workflow_version :: "uuid \<Rightarrow> uuid option \<Rightarrow> WorkflowVersion op" where
  "resolve_workflow_version wid version_id =
     (case version_id of
        Some vid \<Rightarrow>
          ebind (get_version_by_id vid) (\<lambda>v.
          case v of None \<Rightarrow> eraise (WorkflowNotFoundError vid) | Some x \<Rightarrow> eret x)
      | None \<Rightarrow>
          ebind (get_definition_by_id wid) (\<lambda>d.
          case d of
            None \<Rightarrow> eraise (WorkflowNotFoundError wid)
          | Some def \<Rightarrow>
              (case wd_current_version_id def of
                 None \<Rightarrow> eraise (WorkflowNotFoundError wid)
               | Some cur \<Rightarrow>
                   ebind (get_version_by_id cur) (\<lambda>v.
                   case v of None \<Rightarrow> eraise (WorkflowNotFoundError wid) | Some x \<Rightarrow> eret x))))"

definition invalidate_state_cache :: "uuid \<Rightarrow> unit op" where
  "invalidate_state_cache eid = redis_delete (state_cache_key eid)"

definition append_domain_event ::
  "platform \<Rightarrow> uuid \<Rightarrow> ExecutionEventType \<Rightarrow> string option \<Rightarrow> string option \<Rightarrow> pydict \<Rightarrow> unit op" where
  "append_domain_event pf eid event_type sid agent payload =
     ebind (exec_ref eid) (\<lambda>e.
     ebind (append_event pf e event_type sid agent payload) (\<lambda>_.
     ebind (invalidate_state_cache (ex_id e)) (\<lambda>_.
     ebind (correlation pf e) (\<lambda>ctx.
     publish_execution_status_changed pf (ex_id e) (status_value (ex_status e)) sid ctx))))"

definition load_ir :: "platform \<Rightarrow> WorkflowVersion \<Rightarrow> WorkflowIR op" where
  "load_ir pf v = elift (WorkflowIR_from_dict (pf_runtime pf) (wv_compiled_ir v))"

section \<open>Creation\<close>

definition publish_billing_overage_required :: "platform \<Rightarrow> Execution \<Rightarrow> quota_result \<Rightarrow> unit op" where
  "publish_billing_overage_required pf e q =
     (if producer pf = None then eret ()
      else
        ebind (correlation pf e) (\<lambda>ctx.
        let rt = pf_runtime pf;
            quota_name = py_str rt (py_or (qr_quota_name q) (PStr ''quota''))
        in publish pf
          \<lparr>msg_topic = ''billing.lifecycle'', msg_key = ex_workspace_id e,
           msg_event_type = ''billing.overage.required'',
           msg_payload =
             [(PStr ''workspace_id'', PStr (ex_workspace_id e)), (PStr ''execution_id'', PStr (ex_id e)),
              (PStr ''quota_name'', qr_quota_name q), (PStr ''current'', PStr (py_str rt (qr_current q))),
              (PStr ''limit'', PStr (py_str rt (qr_limit q))), (PStr ''plan_slug'', qr_plan_slug q),
              (PStr ''deep_link'', PStr (''/workspaces/'' @ ex_workspace_id e @ ''/billing/overage-authorize'')),
              (PStr ''title'', PStr ''Overage authorization required''),
              (PStr ''body'', PStr (''The workspace reached '' @ quota_name @ ''. Current usage is '' @
                 py_str rt (qr_current q) @ '' against a limit of '' @ py_str rt (qr_limit q) @ ''.''))],
           msg_correlation = ctx, msg_source = ''execution.service''\<rparr>))"

definition check_trigger :: "uuid option \<Rightarrow> unit op" where
  "check_trigger trigger_id =
     (case trigger_id of
        None \<Rightarrow> eret ()
      | Some tid \<Rightarrow>
          ebind (get_trigger_by_id tid) (\<lambda>t.
          case t of
            None \<Rightarrow> eraise (ValidationError ''TRIGGER_NOT_FOUND'' ''Trigger does not exist'')
          | Some trigger \<Rightarrow>
              (case wt_max_concurrent_executions trigger of
                 None \<Rightarrow> eret ()
               | Some limit \<Rightarrow>
                   ebind (count_active_for_trigger (wt_id trigger)) (\<lambda>current.
                   eguard (int current < limit)
                     (ValidationError ''TRIGGER_CONCURRENCY_LIMIT'' ''Trigger concurrency limit reached'')))))"

text \<open>The quota decision: the status a new execution starts in.\<close>

definition check_quota :: "platform \<Rightarrow> uuid \<Rightarrow> (ExecutionStatus \<times> quota_result option) op" where
  "check_quota pf workspace_id =
     (case quota_enforcer pf of
        None \<Rightarrow> eret (ES_queued, None)
      | Some enforce \<Rightarrow>
          ebind (read_clock (enforce workspace_id)) (\<lambda>q.
          if qr_decision q = ''OVERAGE_REQUIRED'' then eret (ES_paused_quota_exceeded, Some q)
          else ebind (elift (raise_for_quota_result pf q workspace_id)) (\<lambda>_. eret (ES_queued, Some q))))"

definition new_execution ::
  "ExecutionCreate \<Rightarrow> WorkflowVersion \<Rightarrow> uuid \<Rightarrow> ExecutionStatus \<Rightarrow> uuid option \<Rightarrow> uuid option \<Rightarrow> uuid option \<Rightarrow>
   uuid \<Rightarrow> timestamp \<Rightarrow> Execution" where
  "new_execution data v definition_id initial created_by parent rerun_of eid t =
     \<lparr>ex_id = eid, ex_workspace_id = ec_workspace_id data, ex_workflow_version_id = wv_id v,
      ex_workflow_definition_id = definition_id, ex_trigger_id = ec_trigger_id data,
      ex_trigger_type = ec_trigger_type data, ex_status = initial,
      ex_input_parameters = ec_input_parameters data,
      ex_correlation_workspace_id = ec_workspace_id data,
      ex_correlation_conversation_id = ec_correlation_conversation_id data,
      ex_correlation_interaction_id = ec_correlation_interaction_id data,
      ex_correlation_fleet_id = ec_correlation_fleet_id data,
      ex_correlation_goal_id = ec_correlation_goal_id data,
      ex_parent_execution_id = parent, ex_rerun_of_execution_id = rerun_of,
      ex_started_at = None, ex_completed_at = None, ex_sla_deadline = ec_sla_deadline data,
      ex_created_by = created_by, ex_contract_id = None, ex_contract_snapshot = None,
      ex_checkpoint_policy_snapshot = Some (policy_or_default (wv_checkpoint_policy v)),
      ex_created_at = t\<rparr>"

definition created_payload ::
  "uuid \<Rightarrow> uuid \<Rightarrow> string list \<Rightarrow> string list \<Rightarrow> pydict \<Rightarrow> pydict \<Rightarrow> pydict" where
  "created_payload definition_id version_id all_ids precompleted results input =
     [(PStr ''workflow_definition_id'', PStr definition_id),
      (PStr ''workflow_version_id'', PStr version_id),
      (PStr ''all_step_ids'', PList (map PStr all_ids)),
      (PStr ''precompleted_step_ids'', PList (map PStr precompleted)),
      (PStr ''step_results'', PDict results),
      (PStr ''input_parameters'', PDict input)]"

definition create_execution ::
  "platform \<Rightarrow> ExecutionCreate \<Rightarrow> uuid option \<Rightarrow> uuid option \<Rightarrow> uuid option \<Rightarrow> string list \<Rightarrow> pydict \<Rightarrow>
   Execution op" where
  "create_execution pf data created_by parent rerun_of precompleted results =
     ebind (get_definition_by_id (ec_workflow_definition_id data)) (\<lambda>d.
     case d of
       None \<Rightarrow> eraise (WorkflowNotFoundError (ec_workflow_definition_id data))
     | Some def \<Rightarrow>
         ebind (resolve_workflow_version (wd_id def) (ec_workflow_version_id data)) (\<lambda>v.
         ebind (check_trigger (ec_trigger_id data)) (\<lambda>_.
         ebind (check_quota pf (ec_workspace_id data)) (\<lambda>(initial, quota).
         ebind (fresh_uuid pf) (\<lambda>eid.
         ebind (row_time pf) (\<lambda>t.
         let e = new_execution data v (wd_id def) initial created_by parent rerun_of eid t in
         ebind (create_execution_row e) (\<lambda>_.
         ebind (load_ir pf v) (\<lambda>ir.
         ebind (append_event pf e EV_created None None
                  (created_payload (wd_id def) (wv_id v) (map step_id (steps ir)) precompleted results
                     (ec_input_parameters data))) (\<lambda>_.
         ebind (correlation pf e) (\<lambda>ctx.
         ebind (publish_execution_created pf eid (wd_id def) (wv_id v) (ex_workspace_id e) ctx) (\<lambda>_.
         ebind (case quota of
                  Some q \<Rightarrow> ewhen (initial = ES_paused_quota_exceeded)
                              (publish_billing_overage_required pf e q)
                | None \<Rightarrow> eret ()) (\<lambda>_.
         eret e))))))))))))"

section \<open>Reading\<close>

definition get_execution :: "uuid \<Rightarrow> Execution op" where
  "get_execution eid = get_execution_or_raise eid"

definition list_executions ::
  "uuid \<Rightarrow> uuid option \<Rightarrow> ExecutionStatus option \<Rightarrow> TriggerType option \<Rightarrow> uuid option \<Rightarrow>
   timestamp option \<Rightarrow> nat \<Rightarrow> nat \<Rightarrow> (Execution list \<times> nat) op" where
  "list_executions workspace_id wf_id status trigger_type goal_id since page page_size =
     ebind (elift (page_offset page page_size)) (\<lambda>skip.
     list_executions_rows workspace_id wf_id status trigger_type goal_id since skip page_size)"

text \<open>Projection from the latest checkpoint, without the cache.\<close>

definition load_state :: "platform \<Rightarrow> uuid \<Rightarrow> ExecutionStateResponse op" where
  "load_state pf eid =
     ebind (get_execution_or_raise eid) (\<lambda>e.
     ebind (get_latest_checkpoint eid False) (\<lambda>checkpoint.
     ebind (get_events eid (map_option cp_last_event_sequence checkpoint) None) (\<lambda>evs.
     ebind (elift (project_state (pf_runtime pf) evs checkpoint)) (\<lambda>st.
     eret (stamp (ex_status e) (PStr (ex_workflow_version_id e)) st)))))"

definition get_execution_state :: "platform \<Rightarrow> uuid \<Rightarrow> ExecutionStateResponse op" where
  "get_execution_state pf eid =
     ebind (redis_get pf (state_cache_key eid)) (\<lambda>cached.
     case cached of
       Some (RState st) \<Rightarrow> elift (state_codec pf st)
     | Some (RToken _) \<Rightarrow> eraise ValueError
     | None \<Rightarrow>
         ebind (load_state pf eid) (\<lambda>st.
         ebind (redis_set pf (state_cache_key eid) (RState st) 30) (\<lambda>_.
         eret st)))"

definition get_journal ::
  "uuid \<Rightarrow> nat option \<Rightarrow> ExecutionEventType option \<Rightarrow> (ExecutionEvent list \<times> nat) op" where
  "get_journal eid since_sequence event_type =
     ebind (get_execution_or_raise eid) (\<lambda>_.
     ebind (get_events eid since_sequence event_type) (\<lambda>evs.
     eret (evs, length evs)))"

definition replay_execution :: "platform \<Rightarrow> uuid \<Rightarrow> ExecutionStateResponse op" where
  "replay_execution pf eid =
     ebind (get_execution_or_raise eid) (\<lambda>e.
     ebind (get_events eid None None) (\<lambda>evs.
     ebind (elift (project_state (pf_runtime pf) evs None)) (\<lambda>st.
     eret (stamp (ex_status e) (PStr (ex_workflow_version_id e)) st))))"

section \<open>Lifecycle\<close>

definition cancel_execution :: "platform \<Rightarrow> uuid \<Rightarrow> Execution op" where
  "cancel_execution pf eid =
     ebind (get_execution_or_raise eid) (\<lambda>e.
     ebind (eguard (ex_status e \<notin> {ES_completed, ES_failed, ES_canceled})
              (ValidationError ''EXECUTION_NOT_CANCELABLE'' ''Execution cannot be canceled'')) (\<lambda>_.
     ebind (read_now pf) (\<lambda>t.
     ebind (update_execution_status (ex_id e) ES_canceled None (Some t)) (\<lambda>_.
     ebind (append_domain_event pf (ex_id e) EV_canceled None None
              [(PStr ''reason'', PStr ''user_requested'')]) (\<lambda>_.
     exec_ref (ex_id e))))))"

definition pause_execution :: "uuid \<Rightarrow> Execution op" where
  "pause_execution eid =
     ebind (get_execution_or_raise eid) (\<lambda>e.
     ebind (eguard (ex_status e \<in> {ES_queued, ES_running})
              (ValidationError ''EXECUTION_NOT_PAUSABLE''
                 ''Only queued or running executions can be paused'')) (\<lambda>_.
     ebind (update_execution_status (ex_id e) ES_paused None None) (\<lambda>_.
     ebind (invalidate_state_cache (ex_id e)) (\<lambda>_.
     exec_ref (ex_id e)))))"

text \<open>The creation request of an execution that repeats another.\<close>

definition repeat_request :: "Execution \<Rightarrow> pydict \<Rightarrow> ExecutionCreate" where
  "repeat_request e input =
     \<lparr>ec_workflow_version_id = Some (ex_workflow_version_id e),
      ec_workflow_definition_id = ex_workflow_definition_id e, ec_trigger_type = TT_manual,
      ec_input_parameters = input, ec_workspace_id = ex_workspace_id e,
      ec_correlation_conversation_id = ex_correlation_conversation_id e,
      ec_correlation_interaction_id = ex_correlation_interaction_id e,
      ec_correlation_fleet_id = ex_correlation_fleet_id e,
      ec_correlation_goal_id = ex_correlation_goal_id e, ec_trigger_id = None,
      ec_sla_deadline = ex_sla_deadline e\<rparr>"

definition resume_execution :: "platform \<Rightarrow> uuid \<Rightarrow> Execution op" where
  "resume_execution pf eid =
     ebind (get_execution_or_raise eid) (\<lambda>e.
     ebind (eguard (ex_status e \<notin> {ES_queued, ES_running, ES_waiting_for_approval, ES_compensating})
              (ExecutionAlreadyRunningError eid)) (\<lambda>_.
     ebind (get_latest_checkpoint eid False) (\<lambda>checkpoint.
     ebind (replay_execution pf eid) (\<lambda>st.
     ebind (create_execution pf (repeat_request e (ex_input_parameters e)) (ex_created_by e)
              (Some (ex_id e)) None
              (case checkpoint of Some c \<Rightarrow> cp_completed_step_ids c | None \<Rightarrow> st_completed_step_ids st)
              (case checkpoint of Some c \<Rightarrow> cp_step_results c | None \<Rightarrow> st_step_results st)) (\<lambda>resumed.
     ebind (get_execution_or_raise (ex_id resumed)) (\<lambda>n.
     ebind (append_domain_event pf (ex_id n) EV_resumed None None
              [(PStr ''parent_execution_id'', PStr (ex_id e))]) (\<lambda>_.
     eret resumed)))))))"

definition resume_paused_quota_exceeded :: "platform \<Rightarrow> uuid \<Rightarrow> nat op" where
  "resume_paused_quota_exceeded pf workspace_id =
     ebind (list_executions_rows workspace_id None (Some ES_paused_quota_exceeded) None None None 0 500)
       (\<lambda>(rows, _).
     ebind (efor (\<lambda>e.
              ebind (update_execution_status (ex_id e) ES_queued None None) (\<lambda>_.
              append_domain_event pf (ex_id e) EV_resumed None None
                [(PStr ''reason'', PStr ''billing_overage_authorized'')])) rows) (\<lambda>_.
     eret (length rows)))"

definition rerun_execution :: "platform \<Rightarrow> uuid \<Rightarrow> pydict \<Rightarrow> Execution op" where
  "rerun_execution pf eid input_overrides =
     ebind (get_execution_or_raise eid) (\<lambda>e.
     create_execution pf (repeat_request e (dict_update (ex_input_parameters e) input_overrides))
       (ex_created_by e) None (Some (ex_id e)) [] [])"

definition rollback_execution ::
  "platform \<Rightarrow> uuid \<Rightarrow> nat \<Rightarrow> uuid option \<Rightarrow> string option \<Rightarrow> bool \<Rightarrow> RollbackResponse op" where
  "rollback_execution pf eid n initiated_by reason authorized =
     ebind (eguard authorized (AuthorizationError ''PERMISSION_DENIED''
              (''Permission '' @ quoted ''execution.rollback'' @ '' required''))) (\<lambda>_.
     rollback pf eid n initiated_by reason)"

section \<open>Hot changes\<close>

definition validate_hot_change :: "platform \<Rightarrow> uuid \<Rightarrow> uuid \<Rightarrow> HotChangeCompatibilityResult op" where
  "validate_hot_change pf eid new_version_id =
     ebind (get_execution_or_raise eid) (\<lambda>e.
     ebind (get_execution_state pf eid) (\<lambda>st.
     ebind (resolve_workflow_version (ex_workflow_definition_id e) (Some (ex_workflow_version_id e))) (\<lambda>old.
     ebind (get_version_by_id new_version_id) (\<lambda>found.
     case found of
       None \<Rightarrow> eraise (WorkflowNotFoundError new_version_id)
     | Some new \<Rightarrow>
         ebind (load_ir pf old) (\<lambda>old_ir.
         ebind (load_ir pf new) (\<lambda>new_ir.
         eret (validate_compatibility old_ir new_ir (st_active_step_ids st))))))))"

definition apply_hot_change :: "platform \<Rightarrow> uuid \<Rightarrow> uuid \<Rightarrow> Execution op" where
  "apply_hot_change pf eid new_version_id =
     ebind (validate_hot_change pf eid new_version_id) (\<lambda>result.
     ebind (eguard (compatible result) (HotChangeIncompatibleError (issues result))) (\<lambda>_.
     ebind (get_execution_or_raise eid) (\<lambda>e.
     ebind (set_execution (ex_id e) (\<lambda>x. x\<lparr>ex_workflow_version_id := new_version_id\<rparr>)) (\<lambda>_.
     ebind (append_domain_event pf (ex_id e) EV_hot_changed None None
              [(PStr ''old_version_id'', PStr (ex_workflow_version_id e)),
               (PStr ''new_version_id'', PStr new_version_id)]) (\<lambda>_.
     ebind (invalidate_state_cache (ex_id e)) (\<lambda>_.
     exec_ref (ex_id e)))))))"

section \<open>Approvals and compensation\<close>

definition list_approvals :: "uuid \<Rightarrow> (ExecutionApprovalWait list \<times> nat) op" where
  "list_approvals eid =
     ebind (get_execution_or_raise eid) (\<lambda>_.
     ebind (list_approval_waits eid) (\<lambda>waits. eret (waits, length waits)))"

definition record_approval_decision ::
  "platform \<Rightarrow> uuid \<Rightarrow> string \<Rightarrow> ApprovalDecision \<Rightarrow> string option \<Rightarrow> uuid \<Rightarrow> ExecutionApprovalWait option op" where
  "record_approval_decision pf eid sid decision comment decided_by =
     ebind (get_execution_or_raise eid) (\<lambda>e.
     ebind (get_approval_wait eid sid) (\<lambda>found.
     case found of
       None \<Rightarrow> eraise (ValidationError ''APPROVAL_NOT_FOUND'' ''Approval wait does not exist'')
     | Some aw \<Rightarrow>
         ebind (eguard (aw_decision aw = None) (ApprovalAlreadyDecidedError eid sid)) (\<lambda>_.
         ebind (read_now pf) (\<lambda>t.
         ebind (update_approval_wait (aw_id aw) decision (Some decided_by) t) (\<lambda>_.
         let approved = (decision = AD_approved) in
         ebind (update_execution_status (ex_id e) (if approved then ES_running else ES_failed) None None) (\<lambda>_.
         ebind (append_domain_event pf (ex_id e) (if approved then EV_approved else EV_rejected)
                  (Some sid) None [(PStr ''comment'', opt_str comment)]) (\<lambda>_.
         ebind (ewhen approved
                  (ebind (update_execution_status (ex_id e) ES_queued None None) (\<lambda>_.
                   append_domain_event pf (ex_id e) EV_resumed (Some sid) None
                     [(PStr ''reason'', PStr ''approval_granted'')]))) (\<lambda>_.
         get_approval_wait eid sid))))))))"

definition trigger_compensation :: "platform \<Rightarrow> uuid \<Rightarrow> string \<Rightarrow> string \<Rightarrow> unit op" where
  "trigger_compensation pf eid sid triggered_by =
     ebind (get_execution_or_raise eid) (\<lambda>e.
     ebind (get_execution_state pf eid) (\<lambda>st.
     ebind (eguard (sid \<in> set (st_completed_step_ids st))
              (ValidationError ''STEP_NOT_COMPLETED'' ''Only completed steps can be compensated'')) (\<lambda>_.
     ebind (resolve_workflow_version (ex_workflow_definition_id e) (Some (ex_workflow_version_id e))) (\<lambda>v.
     ebind (load_ir pf v) (\<lambda>ir.
     case find (\<lambda>s. step_id s = sid) (steps ir) of
       None \<Rightarrow> eraise (ValidationError ''STEP_NOT_FOUND'' (''Step '' @ quoted sid @ '' does not exist''))
     | Some s \<Rightarrow>
         let handler = py_or (compensation_handler s) (PStr ''not_available'');
             outcome = (if compensation_handler s \<noteq> PNone then CO_completed else CO_not_available) in
         ebind (read_now pf) (\<lambda>t1.
         ebind (read_now pf) (\<lambda>t2.
         ebind (fresh_uuid pf) (\<lambda>rid.
         ebind (create_compensation_record
                  \<lparr>cr_id = rid, cr_execution_id = ex_id e, cr_step_id = sid,
                   cr_compensation_handler = handler, cr_triggered_by = triggered_by,
                   cr_outcome = outcome, cr_error_detail = None, cr_started_at = t1,
                   cr_completed_at = Some t2\<rparr>) (\<lambda>_.
         append_domain_event pf (ex_id e)
           (if outcome = CO_completed then EV_compensated else EV_compensation_failed) (Some sid) None
           [(PStr ''compensation_handler'', handler),
            (PStr ''outcome'', PStr (outcome_value outcome))])))))))))"

section \<open>Task plans and reasoning traces\<close>

record TaskPlanFullResponse =
  tf_record :: ExecutionTaskPlanRecord
  tf_considered_agents :: "pyval list"
  tf_considered_tools :: "pyval list"
  tf_parameters :: pydict
  tf_rejected_alternatives :: "pyval list"

datatype task_plan_response =
    PlanList "ExecutionTaskPlanRecord list"
  | PlanFull TaskPlanFullResponse

definition as_dict :: "pyval \<Rightarrow> pydict py" where
  "as_dict v = (case v of PDict d \<Rightarrow> Inr d | _ \<Rightarrow> Inl AttributeError)"

definition stored_json :: "platform \<Rightarrow> string \<Rightarrow> string \<Rightarrow> pydict option op" where
  "stored_json pf bucket key =
     ebind (read_clock (download_object pf bucket key)) (\<lambda>r.
     ebind (elift r) (\<lambda>raw.
     case raw of
       None \<Rightarrow> eret None
     | Some text \<Rightarrow>
         ebind (elift (if text = [] then Inr (PDict []) else json_loads pf text)) (\<lambda>v.
         ebind (elift (as_dict v)) (\<lambda>d. eret (Some d)))))"

definition get_task_plan :: "platform \<Rightarrow> uuid \<Rightarrow> string option \<Rightarrow> task_plan_response op" where
  "get_task_plan pf eid sid_opt =
     ebind (get_execution_or_raise eid) (\<lambda>_.
     case sid_opt of
       None \<Rightarrow> ebind (list_task_plan_records eid) (\<lambda>rs. eret (PlanList rs))
     | Some sid \<Rightarrow>
         ebind (get_task_plan_record eid sid) (\<lambda>found.
         case found of
           None \<Rightarrow> eraise (ValidationError ''TASK_PLAN_NOT_FOUND'' ''Task plan does not exist'')
         | Some r \<Rightarrow>
             ebind (read_clock (download_object pf ''execution-task-plans'' (tp_storage_key r))) (\<lambda>dl.
             ebind (elift dl) (\<lambda>raw.
             ebind (case raw of None \<Rightarrow> eret (PDict []) | Some text \<Rightarrow> elift (json_loads pf text)) (\<lambda>v.
             ebind (elift (as_dict v)) (\<lambda>payload.
             ebind (elift (py_iter (dget_or payload ''considered_agents'' (PList [])))) (\<lambda>agents.
             ebind (elift (py_iter (dget_or payload ''considered_tools'' (PList [])))) (\<lambda>tools.
             ebind (elift (py_dict (dget_or payload ''parameters'' (PDict [])))) (\<lambda>params.
             ebind (elift (py_iter (dget_or payload ''rejected_alternatives'' (PList [])))) (\<lambda>rejected.
             eret (PlanFull \<lparr>tf_record = r, tf_considered_agents = agents, tf_considered_tools = tools,
                             tf_parameters = params, tf_rejected_alternatives = rejected\<rparr>)))))))))))"

record ReasoningTraceResponse =
  rs_execution_id :: uuid
  rs_technique :: string
  rs_schema_version :: string
  rs_status :: string
  rs_steps :: "pyval list"
  rs_total_tokens :: int
  rs_compute_budget_used :: pyfloat
  rs_effective_budget_scope :: "string option"
  rs_compute_budget_exhausted :: bool
  rs_consensus_reached :: pyval
  rs_stabilized :: pyval
  rs_degradation_detected :: pyval
  rs_page :: nat
  rs_page_size :: nat
  rs_total_steps :: nat
  rs_has_more :: bool

definition opt_bool :: "bool option \<Rightarrow> pyval" where
  "opt_bool b = (case b of None \<Rightarrow> PNone | Some x \<Rightarrow> PBool x)"

text \<open>\<open>int(payload.get("total_tokens") or sum(...))\<close>.\<close>

definition trace_tokens :: "pydict \<Rightarrow> pyval list \<Rightarrow> int py" where
  "trace_tokens payload all_steps =
     (let v = dget_none payload ''total_tokens'' in
      if truthy v then py_int v
      else rbind (rmap (\<lambda>item. case item of
                    PDict d \<Rightarrow> py_int (dget_or d ''tokens_used'' (PInt 0))
                  | _ \<Rightarrow> Inr 0) all_steps) (\<lambda>ts. Inr (sum_list ts)))"

definition or_record :: "pyval \<Rightarrow> pyval \<Rightarrow> pyval" where
  "or_record v fallback = (if v \<noteq> PNone then v else fallback)"

definition build_trace_response ::
  "platform \<Rightarrow> uuid \<Rightarrow> ExecutionReasoningTraceRecord \<Rightarrow> pydict \<Rightarrow> nat \<Rightarrow> nat \<Rightarrow> ReasoningTraceResponse py" where
  "build_trace_response pf eid r payload page page_size =
     (let rt = pf_runtime pf; start = (page - 1) * page_size; stop = start + page_size in
      rbind (py_iter (dget_or payload ''steps'' (PList []))) (\<lambda>all_steps.
      rbind (rmap (validate_trace_step pf) (take page_size (drop start all_steps))) (\<lambda>page_items.
      rbind (trace_tokens payload all_steps) (\<lambda>tokens.
      rbind (let v = dget_none payload ''compute_budget_used'' in
             if v \<noteq> PNone then py_float rt v
             else Inr (case tr_compute_budget_used r of None \<Rightarrow> Fin 0 | Some f \<Rightarrow> f)) (\<lambda>budget.
      let scope = py_or (dget_none payload ''effective_budget_scope'') (opt_str (tr_effective_budget_scope r)) in
      Inr \<lparr>rs_execution_id = eid, rs_technique = tr_technique r,
           rs_schema_version = py_str rt (dget_or payload ''schema_version'' (PStr ''1.0'')),
           rs_status = tr_status r, rs_steps = page_items, rs_total_tokens = tokens,
           rs_compute_budget_used = budget,
           rs_effective_budget_scope = (if truthy scope then Some (py_str rt scope) else None),
           rs_compute_budget_exhausted =
             truthy (dget_or payload ''compute_budget_exhausted'' (PBool (tr_compute_budget_exhausted r))),
           rs_consensus_reached =
             or_record (dget_none payload ''consensus_reached'') (opt_bool (tr_consensus_reached r)),
           rs_stabilized = or_record (dget_none payload ''stabilized'') (opt_bool (tr_stabilized r)),
           rs_degradation_detected =
             or_record (dget_none payload ''degradation_detected'') (opt_bool (tr_degradation_detected r)),
           rs_page = page, rs_page_size = page_size, rs_total_steps = length all_steps,
           rs_has_more = (stop < length all_steps)\<rparr>)))))"

definition get_reasoning_trace ::
  "platform \<Rightarrow> uuid \<Rightarrow> string option \<Rightarrow> nat \<Rightarrow> nat \<Rightarrow> uuid option \<Rightarrow> ReasoningTraceResponse op" where
  "get_reasoning_trace pf eid sid_opt page page_size requester =
     ebind (get_execution_or_raise eid) (\<lambda>e.
     ebind (eguard (case requester of None \<Rightarrow> True | Some ws \<Rightarrow> ex_workspace_id e = ws)
              (AuthorizationError ''AUTHORIZATION_ERROR'' ''Not authorized'')) (\<lambda>_.
     ebind (get_reasoning_trace_record eid sid_opt) (\<lambda>found.
     case found of
       None \<Rightarrow> eraise (TraceNotFoundError eid sid_opt)
     | Some r \<Rightarrow>
         ebind (eguard (tr_status r \<noteq> ''expired'') (TraceNotAvailableError eid (tr_storage_key r))) (\<lambda>_.
         ebind (stored_json pf ''reasoning-traces'' (tr_storage_key r)) (\<lambda>stored.
         case stored of
           None \<Rightarrow> eraise (TraceNotAvailableError eid (tr_storage_key r))
         | Some payload \<Rightarrow> elift (build_trace_response pf (ex_id e) r payload page page_size))))))"

definition get_reasoning_traces :: "platform \<Rightarrow> uuid \<Rightarrow> string option \<Rightarrow> pyval list op" where
  "get_reasoning_traces pf eid sid_opt =
     ebind (get_reasoning_trace pf eid sid_opt 1 500 None) (\<lambda>r. eret (rs_steps r))"

section \<open>Runtime events\<close>

definition COST_SIGNAL_KEYS :: "string list" where
  "COST_SIGNAL_KEYS =
     [''model_id'', ''model'', ''tokens_in'', ''input_tokens'', ''prompt_tokens'', ''tokens_out'',
      ''output_tokens'', ''completion_tokens'', ''duration_ms'', ''latency_ms'', ''bytes_written'',
      ''storage_bytes'', ''model_cost_cents'', ''compute_cost_cents'', ''storage_cost_cents'',
      ''overhead_cost_cents'']"

definition uuid_or_none :: "platform \<Rightarrow> pyval \<Rightarrow> uuid option" where
  "uuid_or_none pf v = (if v = PNone then None else uuid_of_text pf (py_str (pf_runtime pf) v))"

definition record_cost_attribution :: "platform \<Rightarrow> Execution \<Rightarrow> string option \<Rightarrow> pydict \<Rightarrow> unit op" where
  "record_cost_attribution pf e sid payload =
     (if \<not> list_ex (dhas payload) COST_SIGNAL_KEYS then eret ()
      else ecatch
        (ebind (correlation pf e) (\<lambda>_.
         call_service pf (RecordStepCost (ex_id e) sid (ex_workspace_id e)
           (uuid_or_none pf (py_or (dget_none payload ''agent_id'') (dget_none payload ''agent_profile_id'')))
           (ex_created_by e) payload)))
        (\<lambda>exc. if attribution_fail_open pf then eret () else eraise exc))"

definition record_runtime_event ::
  "platform \<Rightarrow> uuid \<Rightarrow> string option \<Rightarrow> ExecutionEventType \<Rightarrow> pydict \<Rightarrow> ExecutionStatus option \<Rightarrow> unit op" where
  "record_runtime_event pf eid sid event_type payload status =
     ebind (get_execution_or_raise eid) (\<lambda>e.
     ebind (case status of None \<Rightarrow> eret ()
            | Some s \<Rightarrow> update_execution_status (ex_id e) s None None) (\<lambda>_.
     ebind (append_domain_event pf (ex_id e) event_type sid None payload) (\<lambda>_.
     record_cost_attribution pf e sid payload)))"

definition publish_reprioritization ::
  "platform \<Rightarrow> Execution \<Rightarrow> string \<Rightarrow> string list \<Rightarrow> uuid option \<Rightarrow> string option \<Rightarrow> pyval \<Rightarrow> unit op" where
  "publish_reprioritization pf e reason affected trigger_id trigger_name queue_order =
     ebind (correlation pf e) (\<lambda>ctx.
     publish_execution_reprioritized pf (ex_id e) reason affected trigger_id trigger_name queue_order ctx)"

end
