(* ===== verification/Secret_Patterns.thy ===== *)
theory Secret_Patterns
  imports Py_Values
begin

text \<open>
  The secret patterns of policies/sanitizer.py, and the search \<open>re\<close> performs with them. A
  pattern is a value; \<open>ends r s i\<close> lists the positions where a match that starts at position
  \<open>i\<close> may end, and a search succeeds when some start has one. Only the existence of a match
  matters here, so greediness plays no part.
\<close>

datatype rx =
    Ch "char \<Rightarrow> bool"
  | Seq rx rx
  | Alt rx rx
  | Many rx
  | Eps
  | WordEdge

text \<open>\<open>\w\<close>: letters, digits and underscore among the first 256 code points.\<close>

definition is_word :: "char \<Rightarrow> bool" where
  "is_word c \<longleftrightarrow>
     (let n = (of_char c :: nat) in
      (48 \<le> n \<and> n \<le> 57) \<or> (65 \<le> n \<and> n \<le> 90) \<or> n = 95 \<or> (97 \<le> n \<and> n \<le> 122) \<or>
      n \<in> {170, 178, 179, 181, 185, 186, 188, 189, 190} \<or> (192 \<le> n \<and> n \<le> 214) \<or>
      (216 \<le> n \<and> n \<le> 246) \<or> 248 \<le> n)"

definition word_at :: "string \<Rightarrow> nat \<Rightarrow> bool" where
  "word_at s i \<longleftrightarrow> i < length s \<and> is_word (s ! i)"

fun ends :: "rx \<Rightarrow> string \<Rightarrow> nat \<Rightarrow> nat list"
and ends_many :: "nat \<Rightarrow> rx \<Rightarrow> string \<Rightarrow> nat \<Rightarrow> nat list" where
  "ends (Ch P) s i = (if i < length s \<and> P (s ! i) then [Suc i] else [])"
| "ends (Seq a b) s i = concat (map (ends b s) (ends a s i))"
| "ends (Alt a b) s i = ends a s i @ ends b s i"
| "ends (Many a) s i = ends_many (length s) a s i"
| "ends Eps s i = [i]"
| "ends WordEdge s i = (if ((0 < i \<and> word_at s (i - 1)) \<noteq> word_at s i) then [i] else [])"
| "ends_many 0 a s i = [i]"
| "ends_many (Suc n) a s i =
     i # concat (map (ends_many n a s) (filter (\<lambda>j. i < j) (ends a s i)))"

definition search :: "rx \<Rightarrow> string \<Rightarrow> bool" where
  "search r s \<longleftrightarrow> list_ex (\<lambda>i. ends r s i \<noteq> []) [0..<Suc (length s)]"

section \<open>Pattern constructors\<close>

definition lit :: "string \<Rightarrow> rx" where
  "lit t = foldr (\<lambda>c r. Seq (Ch (\<lambda>x. x = c)) r) t Eps"

definition lower_char :: "char \<Rightarrow> char" where
  "lower_char c =
     (let n = (of_char c :: nat) in
      if (65 \<le> n \<and> n \<le> 90) \<or> (192 \<le> n \<and> n \<le> 222 \<and> n \<noteq> 215) then char_of (n + 32) else c)"

definition lit_ci :: "string \<Rightarrow> rx" where
  "lit_ci t = foldr (\<lambda>c r. Seq (Ch (\<lambda>x. lower_char x = c)) r) t Eps"

definition plus :: "rx \<Rightarrow> rx" where
  "plus r = Seq r (Many r)"

fun at_least :: "nat \<Rightarrow> rx \<Rightarrow> rx" where
  "at_least 0 r = Many r"
| "at_least (Suc n) r = Seq r (at_least n r)"

definition opt :: "rx \<Rightarrow> rx" where
  "opt r = Alt r Eps"

definition alnum :: "char \<Rightarrow> bool" where
  "alnum c \<longleftrightarrow>
     (let n = (of_char c :: nat) in
      (48 \<le> n \<and> n \<le> 57) \<or> (65 \<le> n \<and> n \<le> 90) \<or> (97 \<le> n \<and> n \<le> 122))"

definition token_char :: "char \<Rightarrow> bool" where
  "token_char c \<longleftrightarrow> alnum c \<or> c = CHR ''_'' \<or> c = CHR ''-''"

section \<open>SECRET_PATTERNS\<close>

definition bearer_token :: rx where
  "bearer_token =
     Seq (lit ''Bearer'') (Seq (plus (Ch is_space))
       (at_least 8 (Ch (\<lambda>c. token_char c \<or> c = CHR ''.''))))"

definition api_key :: rx where
  "api_key =
     Seq WordEdge (Seq (Alt (lit ''sk-'') (lit ''key-'')) (Seq (at_least 8 (Ch alnum)) WordEdge))"

definition jwt_token :: rx where
  "jwt_token =
     Seq (lit ''eyJ'') (Seq (plus (Ch token_char)) (Seq (lit ''.eyJ'')
       (Seq (plus (Ch token_char)) (Seq (lit ''.'') (plus (Ch token_char))))))"

definition connection_string :: rx where
  "connection_string =
     Seq (foldr (\<lambda>t r. Alt (lit t) r) [''postgres'', ''mysql'', ''mongodb'', ''redis''] (lit ''amqp''))
       (Seq (lit ''://'') (Seq (plus (Ch (\<lambda>c. c \<noteq> CHR ''@'' \<and> \<not> is_space c))) (Seq (lit ''@'')
         (Seq (plus (Ch (\<lambda>c. c \<noteq> CHR ''/'' \<and> \<not> is_space c)))
           (opt (Seq (lit ''/'') (Many (Ch (\<lambda>c. \<not> is_space c)))))))))"

definition password_literal :: rx where
  "password_literal =
     Seq (Alt (lit_ci ''password'') (Alt (lit_ci ''passwd'') (lit_ci ''pwd'')))
       (Seq (Many (Ch is_space)) (Seq (Ch (\<lambda>c. c = CHR ''='' \<or> c = CHR '':''))
         (Seq (Many (Ch is_space)) (plus (Ch (\<lambda>c. \<not> is_space c))))))"

definition SECRET_PATTERNS :: "(string \<times> rx) list" where
  "SECRET_PATTERNS =
     [(''bearer_token'', bearer_token), (''api_key'', api_key), (''jwt_token'', jwt_token),
      (''connection_string'', connection_string), (''password_literal'', password_literal)]"

text \<open>The first pattern, in the order of the table, that occurs in a text.\<close>

definition first_secret :: "string \<Rightarrow> string option" where
  "first_secret s = map_option fst (find (\<lambda>(_, r). search r s) SECRET_PATTERNS)"

section \<open>Correctness of the search\<close>

text \<open>The language of a pattern, as matches between two positions of a text.\<close>

inductive matches :: "string \<Rightarrow> rx \<Rightarrow> nat \<Rightarrow> nat \<Rightarrow> bool" for s where
  ch: "i < length s \<Longrightarrow> P (s ! i) \<Longrightarrow> matches s (Ch P) i (Suc i)"
| seq: "matches s a i j \<Longrightarrow> matches s b j k \<Longrightarrow> matches s (Seq a b) i k"
| alt1: "matches s a i j \<Longrightarrow> matches s (Alt a b) i j"
| alt2: "matches s b i j \<Longrightarrow> matches s (Alt a b) i j"
| many0: "matches s (Many a) i i"
| many: "matches s a i j \<Longrightarrow> matches s (Many a) j k \<Longrightarrow> matches s (Many a) i k"
| eps: "matches s Eps i i"
| edge: "((0 < i \<and> word_at s (i - 1)) \<noteq> word_at s i) \<Longrightarrow> matches s WordEdge i i"

inductive_cases matches_ChE: "matches s (Ch P) i j"
inductive_cases matches_SeqE: "matches s (Seq a b) i k"
inductive_cases matches_AltE: "matches s (Alt a b) i j"
inductive_cases matches_EpsE: "matches s Eps i j"
inductive_cases matches_EdgeE: "matches s WordEdge i j"

lemma matches_mono: "matches s r i j \<Longrightarrow> i \<le> j \<and> (i \<le> length s \<longrightarrow> j \<le> length s)"
  by (induction rule: matches.induct) auto

lemma ends_sound:
  "j \<in> set (ends r s i) \<Longrightarrow> matches s r i j"
  "k \<in> set (ends_many n a s i) \<Longrightarrow> matches s (Many a) i k"
  by (induction r s i and n a s i arbitrary: j and k rule: ends_ends_many.induct)
    (auto intro: matches.intros split: if_splits)

text \<open>A match of a repetition is a chain of non-empty matches; each lowers what is left of the
  text, so as many rounds as the text has characters are enough.\<close>

lemma ends_many_complete:
  assumes IH: "\<And>i j. matches s a i j \<Longrightarrow> i \<le> length s \<Longrightarrow> j \<in> set (ends a s i)"
    and m: "matches s r i k" and r: "r = Many a"
    and "i \<le> length s" and "length s - i \<le> n"
  shows "k \<in> set (ends_many n a s i)"
  using m r assms(4,5)
proof (induction arbitrary: n rule: matches.induct)
  case (many0 a' i)
  then show ?case by (cases n) auto
next
  case (many a' i j k)
  have j: "i \<le> j" "j \<le> length s" using matches_mono [OF many.hyps(1)] many.prems by auto
  show ?case
  proof (cases "i = j")
    case True
    with many.IH(2) many.prems show ?thesis by simp
  next
    case False
    with j many.prems obtain m where n: "n = Suc m" by (cases n) auto
    have "j \<in> set (ends a s i)" using IH many by simp
    moreover have "k \<in> set (ends_many m a s j)"
      using many j False n by (intro many.IH(2)) auto
    ultimately show ?thesis using False j n by auto
  qed
qed auto

lemma ends_complete: "matches s r i j \<Longrightarrow> i \<le> length s \<Longrightarrow> j \<in> set (ends r s i)"
proof (induction r arbitrary: i j)
  case (Seq a b)
  from Seq.prems(1) obtain m where m: "matches s a i m" "matches s b m j" by (rule matches_SeqE)
  with Seq matches_mono [OF m(1)] show ?case by fastforce
next
  case (Many a)
  show ?case using ends_many_complete [OF Many.IH Many.prems(1) refl Many.prems(2)] by simp
qed (auto elim: matches_ChE matches_AltE matches_EpsE matches_EdgeE)

lemma search_iff: "search r s \<longleftrightarrow> (\<exists>i j. i \<le> length s \<and> matches s r i j)"
proof
  assume "search r s"
  then obtain i where "i \<in> set [0..<Suc (length s)]" "ends r s i \<noteq> []"
    unfolding search_def list_ex_iff by blast
  then have "i \<le> length s" "hd (ends r s i) \<in> set (ends r s i)" by auto
  then show "\<exists>i j. i \<le> length s \<and> matches s r i j" using ends_sound(1) by blast
next
  assume "\<exists>i j. i \<le> length s \<and> matches s r i j"
  then obtain i j where "i \<le> length s" "j \<in> set (ends r s i)" using ends_complete by blast
  then show "search r s" by (auto simp: search_def list_ex_iff intro!: bexI [of _ i] simp del: upt_Suc)
qed

end
