(* ===== verification/Execution_Scheduling.thy ===== *)
theory Execution_Scheduling
  imports Execution_Service Secret_Patterns
begin

text \<open>
  The pure decisions of execution/scheduler.py: which steps can run, how deep each step is in the
  dependency graph, the priority of a step, the compute budget of a dispatch, the payloads handed to
  the runtime. Times are microseconds and finite floats are rationals, so the weights of the score are
  exact. The theory proves that the runnable steps are exactly those whose dependencies are completed,
  that a compiled workflow always has one when nothing is active, that the memoised depth computation
  returns the length of the longest dependency chain, and that the effective budget is the smaller of
  the valid ones.
\<close>

section \<open>Runnable steps\<close>

definition dep_sets :: "WorkflowIR \<Rightarrow> (string \<times> string set) list" where
  "dep_sets ir =
     foldl (\<lambda>d (source, target).
         aset d target (insert source (case map_of d target of None \<Rightarrow> {} | Some s \<Rightarrow> s)))
       (aupdate [] (map (\<lambda>s. (step_id s, {})) (steps ir))) (dag_edges ir)"

definition runnable_steps :: "WorkflowIR \<Rightarrow> ExecutionStateResponse \<Rightarrow> StepIR list" where
  "runnable_steps ir st =
     (let dependencies = dep_sets ir;
          completed = set (st_completed_step_ids st);
          active = set (st_active_step_ids st)
      in filter (\<lambda>s.
           step_id s \<notin> completed \<and> step_id s \<notin> active \<and>
           (case map_of dependencies (step_id s) of None \<Rightarrow> {} | Some ds \<Rightarrow> ds) \<subseteq> completed) (steps ir))"

section \<open>Dependency depth\<close>

type_synonym parents = "(string \<times> string list) list"

definition parents_of :: "WorkflowIR \<Rightarrow> parents" where
  "parents_of ir =
     foldl (\<lambda>d (source, target). aset d target (adj_get d target @ [source]))
       (aupdate [] (map (\<lambda>s. (step_id s, [])) (steps ir))) (dag_edges ir)"

text \<open>The recursive \<open>depth\<close> with its cache; \<open>max_depth\<close> is the generator inside
  \<open>max\<close>. A call beyond the recursion limit raises.\<close>

fun depth :: "nat \<Rightarrow> parents \<Rightarrow> string \<Rightarrow> (string \<times> rat) list \<Rightarrow> (rat \<times> (string \<times> rat) list) py"
and max_depth :: "nat \<Rightarrow> parents \<Rightarrow> string list \<Rightarrow> rat \<Rightarrow> (string \<times> rat) list \<Rightarrow> (rat \<times> (string \<times> rat) list) py"
where
  "depth 0 ps sid cache = Inl RecursionError"
| "depth (Suc n) ps sid cache =
     (case map_of cache sid of
        Some v \<Rightarrow> Inr (v, cache)
      | None \<Rightarrow>
          (case adj_get ps sid of
             [] \<Rightarrow> Inr (0, aset cache sid 0)
           | p # rest \<Rightarrow>
               (case depth n ps p cache of
                  Inl e \<Rightarrow> Inl e
                | Inr (v, cache1) \<Rightarrow>
                    (case max_depth n ps rest v cache1 of
                       Inl e \<Rightarrow> Inl e
                     | Inr (m, cache2) \<Rightarrow> Inr (1 + m, aset cache2 sid (1 + m))))))"
| "max_depth n ps [] best cache = Inr (best, cache)"
| "max_depth n ps (p # rest) best cache =
     (case depth n ps p cache of
        Inl e \<Rightarrow> Inl e
      | Inr (v, cache1) \<Rightarrow> max_depth n ps rest (if best < v then v else best) cache1)"

fun depths :: "nat \<Rightarrow> parents \<Rightarrow> string list \<Rightarrow> (string \<times> rat) list \<Rightarrow> (string \<times> rat) list py" where
  "depths n ps [] cache = Inr []"
| "depths n ps (sid # rest) cache =
     (case depth n ps sid cache of
        Inl e \<Rightarrow> Inl e
      | Inr (v, cache1) \<Rightarrow> rbind (depths n ps rest cache1) (\<lambda>ds. Inr ((sid, v) # ds)))"

definition dependency_depths :: "nat \<Rightarrow> WorkflowIR \<Rightarrow> (string \<times> rat) list py" where
  "dependency_depths n ir =
     rbind (depths n (parents_of ir) (map step_id (steps ir)) []) (\<lambda>ds. Inr (aupdate [] ds))"

section \<open>Priority\<close>

definition compute_priority ::
  "StepIR \<Rightarrow> Execution \<Rightarrow> timestamp \<Rightarrow> (string \<times> rat) list \<Rightarrow> rat" where
  "compute_priority step e t dependency_depth =
     (let urgency = (if ex_status e = ES_running then 1 else 1 / 2);
          importance = (if step_type step = ''approval_gate'' then 1 else 6 / 10);
          risk = (if retry_config step \<noteq> None then 7 / 10 else 2 / 10);
          severity = (if ex_status e = ES_failed then 1 else 2 / 10);
          sla_factor =
            (case ex_sla_deadline e of
               None \<Rightarrow> 0
             | Some deadline \<Rightarrow>
                 let remaining = of_int (deadline - t) / 1000000
                 in max 0 (1 - min (max remaining 0) 3600 / 3600));
          deep = (case map_of dependency_depth (step_id step) of None \<Rightarrow> 0 | Some d \<Rightarrow> d);
          reasoning_factor =
            (case context_budget_tokens step of None \<Rightarrow> 1 / 2 | Some n \<Rightarrow> if n = 0 then 1 / 2 else 1)
      in urgency * (35 / 100) + importance * (20 / 100) + risk * (15 / 100) + severity * (10 / 100) +
         sla_factor * (10 / 100) + deep * (5 / 100) + reasoning_factor * (5 / 100))"

text \<open>\<open>sorted(..., reverse=True)\<close> keeps the order of elements with equal keys.\<close>

definition sorted_desc :: "('a \<Rightarrow> 'b::linorder) \<Rightarrow> 'a list \<Rightarrow> 'a list" where
  "sorted_desc f xs = rev (sort_key f (rev xs))"

definition DATETIME_MAX :: timestamp where
  "DATETIME_MAX = 253402300799999999"

definition execution_priority_key :: "Execution \<Rightarrow> timestamp \<times> timestamp" where
  "execution_priority_key e =
     (case ex_sla_deadline e of None \<Rightarrow> DATETIME_MAX | Some d \<Rightarrow> d, ex_created_at e)"

section \<open>Compute budget\<close>

definition is_valid_compute_budget :: "py_runtime \<Rightarrow> pyval \<Rightarrow> bool py" where
  "is_valid_compute_budget rt v =
     (if (is_int v \<or> is_float v) \<and> \<not> is_bool v then
        rbind (py_float rt v) (\<lambda>f. Inr (float_less (Fin 0) f \<and> float_le f (Fin 1)))
      else Inr False)"

definition valid_budget :: "py_runtime \<Rightarrow> pyval \<Rightarrow> pyfloat option py" where
  "valid_budget rt v =
     rbind (is_valid_compute_budget rt v) (\<lambda>ok.
     if ok then rbind (py_float rt v) (\<lambda>f. Inr (Some f)) else Inr None)"

definition resolve_effective_compute_budget ::
  "py_runtime \<Rightarrow> WorkflowIR \<Rightarrow> StepIR \<Rightarrow> (pyfloat \<times> string) option py" where
  "resolve_effective_compute_budget rt ir step =
     (let workflow_budget = (case metadata ir of None \<Rightarrow> PNone | Some m \<Rightarrow> dget_none m ''compute_budget'');
          step_budget = opt_val PFloat (compute_budget step) in
      rbind (valid_budget rt step_budget) (\<lambda>sb.
      rbind (valid_budget rt workflow_budget) (\<lambda>wb.
      Inr (case (sb, wb) of
             (None, None) \<Rightarrow> None
           | (None, Some w) \<Rightarrow> Some (w, ''workflow'')
           | (Some s, None) \<Rightarrow> Some (s, ''step'')
           | (Some s, Some w) \<Rightarrow> if float_le s w then Some (s, ''step'') else Some (w, ''workflow'')))))"

section \<open>Payloads for the runtime\<close>

definition runtime_payload ::
  "Execution \<Rightarrow> StepIR \<Rightarrow> (pyfloat \<times> string) option \<Rightarrow> pydict" where
  "runtime_payload e step budget =
     [(PStr ''execution_id'', PStr (ex_id e)),
      (PStr ''workflow_version_id'', PStr (ex_workflow_version_id e)),
      (PStr ''step_id'', PStr (step_id step)), (PStr ''step_type'', PStr (step_type step)),
      (PStr ''agent_fqn'', agent_fqn step), (PStr ''tool_fqn'', tool_fqn step),
      (PStr ''input_bindings'', PDict (bindings_dict (or_empty (input_bindings step))))] @
     (if reasoning_mode step = PNone then [] else [(PStr ''reasoning_mode'', reasoning_mode step)]) @
     (case budget of
        None \<Rightarrow> []
      | Some (b, scope) \<Rightarrow>
          [(PStr ''compute_budget'', PFloat b), (PStr ''effective_budget_scope'', PStr scope)])"

definition runtime_agent_revision :: "py_runtime \<Rightarrow> Execution \<Rightarrow> StepIR \<Rightarrow> string" where
  "runtime_agent_revision rt e step =
     (let snapshot = or_empty (ex_contract_snapshot e);
          candidate = (\<lambda>k. let v = dget_none snapshot k in
                         v \<noteq> PNone \<and> strip (py_str rt v) \<noteq> [])
      in case find candidate [''agent_revision_id'', ''revision_id'', ''agent_revision''] of
           Some k \<Rightarrow> py_str rt (dget_none snapshot k)
         | None \<Rightarrow> py_str rt (py_or (agent_fqn step) (py_or (tool_fqn step) (PStr (step_id step)))))"

definition opt_entry :: "string \<Rightarrow> uuid option \<Rightarrow> pydict" where
  "opt_entry k v = (case v of None \<Rightarrow> [] | Some x \<Rightarrow> [(PStr k, PStr x)])"

definition runtime_correlation_payload :: "platform \<Rightarrow> Execution \<Rightarrow> StepIR \<Rightarrow> pydict" where
  "runtime_correlation_payload pf e step =
     [(PStr ''workspace_id'', PStr (ex_correlation_workspace_id e)),
      (PStr ''execution_id'', PStr (ex_id e)),
      (PStr ''trace_id'', PStr (uuid5_url pf (ex_id e @ '':'' @ step_id step)))] @
     opt_entry ''conversation_id'' (ex_correlation_conversation_id e) @
     opt_entry ''interaction_id'' (ex_correlation_interaction_id e) @
     opt_entry ''fleet_id'' (ex_correlation_fleet_id e) @
     opt_entry ''goal_id'' (ex_correlation_goal_id e)"

definition runtime_contract_payload ::
  "platform \<Rightarrow> Execution \<Rightarrow> StepIR \<Rightarrow> pydict \<Rightarrow> (pyfloat \<times> string) option \<Rightarrow> pydict py" where
  "runtime_contract_payload pf e step task_plan budget =
     (let rt = pf_runtime pf;
          snapshot = or_empty (ex_contract_snapshot e);
          model_binding = dget_none snapshot ''model_binding'';
          policy_ids = py_or (dget_none snapshot ''policy_ids'')
                         (py_or (dget_none snapshot ''source_policy_ids'') (PList []));
          env_vars = [(PStr ''WORKFLOW_VERSION_ID'', PStr (ex_workflow_version_id e)),
                      (PStr ''STEP_TYPE'', PStr (step_type step))] @
                     (if agent_fqn step = PNone then [] else [(PStr ''AGENT_FQN'', agent_fqn step)]) @
                     (if tool_fqn step = PNone then [] else [(PStr ''TOOL_FQN'', tool_fqn step)]) in
      rbind (case model_binding of
               PStr s \<Rightarrow> if strip s \<noteq> [] then Inr s else json_dumps rt model_binding
             | PNone \<Rightarrow> Inr ''{}''
             | _ \<Rightarrow> json_dumps rt model_binding) (\<lambda>binding.
      rbind (py_iter policy_ids) (\<lambda>ids.
      rbind (json_dumps rt (PDict task_plan)) (\<lambda>plan_text.
      rbind (if reasoning_mode step = PNone then Inr []
             else rbind (json_dumps rt (PDict [(PStr ''reasoning_mode'', reasoning_mode step)])) (\<lambda>t.
                  Inr [(PStr ''reasoning_config_json'', PStr t)])) (\<lambda>reasoning.
      rbind (case budget of
               None \<Rightarrow> Inr []
             | Some (b, scope) \<Rightarrow>
                 rbind (json_dumps rt (PDict [(PStr ''compute_budget'', PFloat b),
                          (PStr ''effective_budget_scope'', PStr scope)])) (\<lambda>t.
                 Inr [(PStr ''reasoning_budget_envelope_json'', PStr t)])) (\<lambda>envelope.
      let profile = dget_none task_plan ''context_engineering_profile_id'' in
      Inr ([(PStr ''agent_revision'', PStr (runtime_agent_revision rt e step)),
            (PStr ''model_binding'', PStr binding),
            (PStr ''policy_ids'', PList (map (\<lambda>v. PStr (py_str rt v)) (filter (\<lambda>v. v \<noteq> PNone) ids))),
            (PStr ''correlation_context'', PDict (runtime_correlation_payload pf e step)),
            (PStr ''resource_limits'', PDict []), (PStr ''secret_refs'', PList []),
            (PStr ''env_vars'', PDict env_vars), (PStr ''task_plan_json'', PStr plan_text),
            (PStr ''step_id'', PStr (step_id step))] @ reasoning @ envelope @
           (if truthy profile then [(PStr ''context_engineering_profile_id'', PStr (py_str rt profile))]
            else []))))))))"

section \<open>Task plan payload\<close>

definition provenance_of :: "string \<Rightarrow> string" where
  "provenance_of v = (if take 8 v = ''$.steps.'' then ''prev_step_output'' else ''user_input'')"

definition default_task_plan :: "Execution \<Rightarrow> StepIR \<Rightarrow> pydict" where
  "default_task_plan e step =
     (let bindings = or_empty (input_bindings step) in
      [(PStr ''execution_id'', PStr (ex_id e)), (PStr ''step_id'', PStr (step_id step)),
       (PStr ''selected_agent_fqn'', agent_fqn step), (PStr ''selected_tool_fqn'', tool_fqn step),
       (PStr ''rationale_summary'', PStr (''Selected primary target for '' @ step_type step)),
       (PStr ''considered_agents'',
          PList (if truthy (agent_fqn step)
                 then [PDict [(PStr ''fqn'', agent_fqn step), (PStr ''capabilities'', PList []),
                              (PStr ''selection_score'', PFloat (Fin 1))]] else [])),
       (PStr ''considered_tools'',
          PList (if truthy (tool_fqn step)
                 then [PDict [(PStr ''fqn'', tool_fqn step), (PStr ''selection_score'', PFloat (Fin 1))]]
                 else [])),
       (PStr ''parameters'',
          PDict (map (\<lambda>(k, v). (PStr k, PDict [(PStr ''value'', PStr v),
             (PStr ''provenance'', PStr (provenance_of v))])) bindings)),
       (PStr ''parameter_sources'',
          PList (map PStr (dedupe (map (\<lambda>(_, v). provenance_of v) bindings)))),
       (PStr ''rejected_alternatives'', PList [])])"

end
