(* ===== verification/Execution_Reprioritization.thy ===== *)
theory Execution_Reprioritization
  imports Execution_Events "HOL-Library.Multiset"
begin

text \<open>
  execution/reprioritization.py: the triggers that may move queued executions to the front and the
  ordering of one dispatch cycle under a time budget. The locale \<open>queue_policy\<close> is what the
  scheduler relies on: the order it gets is a permutation of the queue it gave.
\<close>

section \<open>Managing triggers\<close>

definition validate_condition_config :: "py_runtime \<Rightarrow> string \<Rightarrow> pydict \<Rightarrow> pydict py" where
  "validate_condition_config rt trigger_type config =
     (if trigger_type \<noteq> ''sla_approach'' then
        Inl (ValidationError ''REPRIORITIZATION_TRIGGER_UNSUPPORTED''
          (''trigger_type '' @ [CHR 0x27] @ trigger_type @ [CHR 0x27] @ '' is not supported in this release''))
      else if dget_none config ''threshold_fraction'' = PNone then
        Inl (ValidationError ''REPRIORITIZATION_TRIGGER_INVALID''
          ''threshold_fraction is required for sla_approach triggers'')
      else rbind (py_float rt (dget_none config ''threshold_fraction'')) (\<lambda>value.
        if float_le (Fin 0) value \<and> float_le value (Fin 1) then
          Inr [(PStr ''threshold_fraction'', PFloat value)]
        else Inl (ValidationError ''REPRIORITIZATION_TRIGGER_INVALID''
          ''threshold_fraction must be between 0.0 and 1.0'')))"

definition validate_action :: "string \<Rightarrow> unit py" where
  "validate_action action =
     require (action = ''promote_to_front'')
       (ValidationError ''REPRIORITIZATION_TRIGGER_ACTION_INVALID''
          (''action '' @ [CHR 0x27] @ action @ [CHR 0x27] @ '' is not supported in this release''))"

record ReprioritizationTriggerCreate =
  tc_workspace_id :: uuid
  tc_name :: string
  tc_trigger_type :: string
  tc_condition_config :: pydict
  tc_action :: string
  tc_priority_rank :: int
  tc_enabled :: bool

definition create_trigger ::
  "platform \<Rightarrow> ReprioritizationTriggerCreate \<Rightarrow> uuid option \<Rightarrow> ReprioritizationTrigger op" where
  "create_trigger pf data created_by =
     ebind (elift (validate_condition_config (pf_runtime pf) (tc_trigger_type data)
              (tc_condition_config data))) (\<lambda>config.
     ebind (elift (validate_action (tc_action data))) (\<lambda>_.
     ebind (fresh_uuid pf) (\<lambda>tid.
     ebind (row_time pf) (\<lambda>t.
     let trigger = \<lparr>rp_id = tid, rp_workspace_id = tc_workspace_id data, rp_name = tc_name data,
                    rp_trigger_type = tc_trigger_type data, rp_condition_config = config,
                    rp_action = tc_action data, rp_priority_rank = tc_priority_rank data,
                    rp_enabled = tc_enabled data, rp_created_by = created_by, rp_created_at = t\<rparr>
     in ebind (create_reprioritization_trigger trigger) (\<lambda>_. eret trigger)))))"

definition list_triggers ::
  "uuid \<Rightarrow> bool option \<Rightarrow> nat \<Rightarrow> nat \<Rightarrow> (ReprioritizationTrigger list \<times> nat) op" where
  "list_triggers workspace_id enabled page page_size =
     ebind (eguard (0 < page \<or> page_size = 0) (ExternalError ''OFFSET must not be negative'')) (\<lambda>_.
     list_reprioritization_triggers workspace_id enabled ((page - 1) * page_size) page_size)"

definition get_trigger :: "uuid \<Rightarrow> uuid option \<Rightarrow> ReprioritizationTrigger op" where
  "get_trigger tid workspace_id =
     ebind (get_reprioritization_trigger tid) (\<lambda>found.
     case found of
       None \<Rightarrow> eraise (ReprioritizationTriggerNotFoundError tid)
     | Some t \<Rightarrow>
         (case workspace_id of
            None \<Rightarrow> eret t
          | Some ws \<Rightarrow> if rp_workspace_id t \<noteq> ws then eraise (ReprioritizationTriggerNotFoundError tid)
                       else eret t))"

record ReprioritizationTriggerUpdate =
  tu_name :: "string option"
  tu_condition_config :: "pydict option"
  tu_action :: "string option"
  tu_priority_rank :: "int option"
  tu_enabled :: "bool option"

definition update_trigger ::
  "platform \<Rightarrow> uuid \<Rightarrow> ReprioritizationTriggerUpdate \<Rightarrow> uuid option \<Rightarrow> ReprioritizationTrigger op" where
  "update_trigger pf tid data workspace_id =
     ebind (get_trigger tid workspace_id) (\<lambda>trigger.
     ebind (case tu_condition_config data of
              None \<Rightarrow> eret (rp_condition_config trigger)
            | Some c \<Rightarrow> elift (validate_condition_config (pf_runtime pf) (rp_trigger_type trigger) c)) (\<lambda>config.
     ebind (case tu_action data of None \<Rightarrow> eret () | Some a \<Rightarrow> elift (validate_action a)) (\<lambda>_.
     ebind (update_reprioritization_trigger (rp_id trigger) (\<lambda>t. t\<lparr>
              rp_name := (case tu_name data of None \<Rightarrow> rp_name t | Some n \<Rightarrow> n),
              rp_condition_config := config,
              rp_action := (case tu_action data of None \<Rightarrow> rp_action t | Some a \<Rightarrow> a),
              rp_priority_rank := (case tu_priority_rank data of None \<Rightarrow> rp_priority_rank t | Some r \<Rightarrow> r),
              rp_enabled := (case tu_enabled data of None \<Rightarrow> rp_enabled t | Some b \<Rightarrow> b)\<rparr>)) (\<lambda>_.
     get_trigger tid workspace_id))))"

definition delete_trigger :: "uuid \<Rightarrow> uuid option \<Rightarrow> unit op" where
  "delete_trigger tid workspace_id =
     ebind (get_trigger tid workspace_id) (\<lambda>t. delete_reprioritization_trigger (rp_id t))"

section \<open>Evaluating a trigger\<close>

text \<open>Seconds are the microseconds of the difference divided by a million; the factor cancels in
  the fraction.\<close>

definition evaluate_sla_approach :: "platform \<Rightarrow> Execution \<Rightarrow> pydict \<Rightarrow> rat option op" where
  "evaluate_sla_approach pf e config =
     (case ex_sla_deadline e of
        None \<Rightarrow> eret None
      | Some deadline \<Rightarrow>
          let total_window = deadline - ex_created_at e in
          if total_window \<le> 0 then eret (Some 0)
          else
            ebind (read_now pf) (\<lambda>t.
            let remaining_fraction = of_int (max 0 (deadline - t)) / of_int total_window in
            ebind (elift (py_float (pf_runtime pf) (dget_or config ''threshold_fraction'' (PFloat (Fin 0))))) (\<lambda>threshold.
            eret (if float_less (Fin remaining_fraction) threshold then Some remaining_fraction else None))))"

definition evaluate_execution :: "platform \<Rightarrow> Execution \<Rightarrow> ReprioritizationTrigger \<Rightarrow> rat option op" where
  "evaluate_execution pf e trigger =
     (if rp_trigger_type trigger \<noteq> ''sla_approach'' then eret None
      else evaluate_sla_approach pf e (rp_condition_config trigger))"

section \<open>A dispatch cycle\<close>

type_synonym winners = "(uuid \<times> ReprioritizationTrigger \<times> rat \<times> nat) list"

record ReprioritizationFiring =
  rf_execution_id :: uuid
  rf_trigger :: ReprioritizationTrigger
  rf_old_position :: nat
  rf_new_position :: nat
  rf_remaining_fraction :: rat

record ReprioritizationResult =
  rz_ordered_executions :: "Execution list"
  rz_firings :: "ReprioritizationFiring list"
  rz_timed_out :: bool

definition over_budget :: "platform \<Rightarrow> int \<Rightarrow> rat \<Rightarrow> bool op" where
  "over_budget pf cycle_budget_ms started =
     (if 0 \<le> cycle_budget_ms then
        ebind (read_clock (monotonic pf)) (\<lambda>t. eret (of_int cycle_budget_ms < (t - started) * 1000))
      else eret False)"

text \<open>The two nested loops over triggers and executions; \<open>None\<close> when the budget ran out.\<close>

fun scan_triggers ::
  "platform \<Rightarrow> int \<Rightarrow> rat \<Rightarrow> (ReprioritizationTrigger \<times> nat \<times> Execution) list \<Rightarrow> winners \<Rightarrow> winners option op" where
  "scan_triggers pf cycle_budget_ms started [] winners = eret (Some winners)"
| "scan_triggers pf cycle_budget_ms started ((trigger, index, e) # rest) winners =
     ebind (over_budget pf cycle_budget_ms started) (\<lambda>over.
     if over then eret None
     else if map_of winners (ex_id e) \<noteq> None then
       scan_triggers pf cycle_budget_ms started rest winners
     else ebind (evaluate_execution pf e trigger) (\<lambda>score.
       case score of
         None \<Rightarrow> scan_triggers pf cycle_budget_ms started rest winners
       | Some s \<Rightarrow> scan_triggers pf cycle_budget_ms started rest (winners @ [(ex_id e, trigger, s, index)])))"

definition original_position :: "Execution list \<Rightarrow> uuid \<Rightarrow> nat" where
  "original_position order eid =
     (case map_of (rev (map (\<lambda>(i, e). (ex_id e, Suc i)) (enumerate 0 order))) eid of
        None \<Rightarrow> 0 | Some p \<Rightarrow> p)"

definition queue_key :: "Execution list \<Rightarrow> winners \<Rightarrow> Execution \<Rightarrow> nat \<times> int \<times> rat \<times> nat" where
  "queue_key order winners e =
     (case map_of winners (ex_id e) of
        None \<Rightarrow> (1, 0, 0, original_position order (ex_id e))
      | Some (trigger, score, index) \<Rightarrow> (0, rp_priority_rank trigger, score, index))"

definition firings_of :: "Execution list \<Rightarrow> winners \<Rightarrow> Execution list \<Rightarrow> ReprioritizationFiring list" where
  "firings_of order winners ordered =
     concat (map (\<lambda>(i, e).
        case map_of winners (ex_id e) of
          None \<Rightarrow> []
        | Some (trigger, score, index) \<Rightarrow>
            if original_position order (ex_id e) = Suc i then []
            else [\<lparr>rf_execution_id = ex_id e, rf_trigger = trigger,
                   rf_old_position = original_position order (ex_id e), rf_new_position = Suc i,
                   rf_remaining_fraction = score\<rparr>])
       (enumerate 0 ordered))"

definition evaluate_for_dispatch_cycle ::
  "platform \<Rightarrow> Execution list \<Rightarrow> uuid \<Rightarrow> int \<Rightarrow> ReprioritizationResult op" where
  "evaluate_for_dispatch_cycle pf queue workspace_id cycle_budget_ms =
     (if queue = [] then eret \<lparr>rz_ordered_executions = [], rz_firings = [], rz_timed_out = False\<rparr>
      else ebind (list_enabled_reprioritization_triggers workspace_id) (\<lambda>ts.
        if ts = [] then eret \<lparr>rz_ordered_executions = queue, rz_firings = [], rz_timed_out = False\<rparr>
        else ebind (read_clock (monotonic pf)) (\<lambda>started.
          ebind (scan_triggers pf cycle_budget_ms started
                   (concat (map (\<lambda>t. map (\<lambda>(i, e). (t, i, e)) (enumerate 0 queue)) ts)) []) (\<lambda>outcome.
          case outcome of
            None \<Rightarrow> eret \<lparr>rz_ordered_executions = queue, rz_firings = [], rz_timed_out = True\<rparr>
          | Some winners \<Rightarrow>
              if winners = [] then
                eret \<lparr>rz_ordered_executions = queue, rz_firings = [], rz_timed_out = False\<rparr>
              else
                let ordered = sort_key (queue_key queue winners) queue in
                eret \<lparr>rz_ordered_executions = ordered, rz_firings = firings_of queue winners ordered,
                      rz_timed_out = False\<rparr>))))"

section \<open>The contract the scheduler relies on\<close>

text \<open>A policy that reorders one group of a queue. The scheduler applies it to the queue of each
  workspace and serves the concatenation.\<close>

locale queue_policy =
  fixes reorder :: "'k \<times> 'q list \<Rightarrow> ('s, 'e, 'q list) eff"
  assumes reorder_perm: "reorder g s = (Inr q', s') \<Longrightarrow> mset q' = mset (snd g)"
begin

lemma reorder_set: "reorder g s = (Inr q', s') \<Longrightarrow> set q' = set (snd g)"
  using reorder_perm by (metis set_mset_mset)

text \<open>Reordering each group of a partitioned queue loses and duplicates nothing.\<close>

lemma reorder_groups:
  "emap reorder gs s = (Inr rs, s') \<Longrightarrow> mset (concat rs) = mset (concat (map snd gs))"
proof (induction gs arbitrary: s rs)
  case Nil
  then show ?case by (simp add: run_simps)
next
  case (Cons g gs)
  then obtain q' s1 rs' where "reorder g s = (Inr q', s1)" "emap reorder gs s1 = (Inr rs', s')"
    "rs = q' # rs'"
    by (auto simp: run_ebind run_simps split: prod.splits sum.splits)
  with Cons.IH reorder_perm show ?case by fastforce
qed

end

lemma dispatch_cycle_cases:
  assumes "evaluate_for_dispatch_cycle pf queue ws budget w = (Inr r, w')"
  shows "rz_ordered_executions r = queue \<and> rz_firings r = [] \<or>
    (\<exists>winners. \<not> rz_timed_out r \<and> winners \<noteq> [] \<and>
       rz_ordered_executions r = sort_key (queue_key queue winners) queue \<and>
       rz_firings r = firings_of queue winners (rz_ordered_executions r))"
  using assms
  by (auto simp: evaluate_for_dispatch_cycle_def run_ebind run_simps Let_def
      split: if_splits prod.splits sum.splits option.splits)

lemma dispatch_cycle_perm:
  "evaluate_for_dispatch_cycle pf queue ws budget w = (Inr r, w') \<Longrightarrow>
   mset (rz_ordered_executions r) = mset queue"
  using dispatch_cycle_cases by fastforce

section \<open>Order\<close>

lemma original_position_nth:
  assumes "distinct (map ex_id order)" and "i < length order"
  shows "original_position order (ex_id (order ! i)) = Suc i"
proof -
  let ?ps = "map (\<lambda>(i, e). (ex_id e, Suc i)) (enumerate 0 order)"
  have fst: "map fst ?ps = map ex_id order"
    by (rule nth_equalityI) (simp_all add: nth_enumerate_eq)
  have "(ex_id (order ! i), Suc i) = ?ps ! i"
    using assms(2) by (simp add: nth_enumerate_eq)
  with assms(2) have "(ex_id (order ! i), Suc i) \<in> set (rev ?ps)" by (simp add: in_set_conv_nth) force
  moreover have "distinct (map fst (rev ?ps))"
    using assms(1) fst by (simp flip: rev_map)
  ultimately have "map_of (rev ?ps) (ex_id (order ! i)) = Some (Suc i)" by (simp add: map_of_is_SomeI)
  then show ?thesis by (simp add: original_position_def)
qed

lemma original_position_sorted:
  assumes "distinct (map ex_id order)"
  shows "sorted (map (\<lambda>e. original_position order (ex_id e)) order)"
proof -
  have "map (\<lambda>e. original_position order (ex_id e)) order = map Suc [0..<length order]"
    by (rule nth_equalityI) (simp_all add: original_position_nth [OF assms])
  then show ?thesis by (simp add: sorted_iff_nth_mono)
qed

text \<open>Executions no trigger fired for keep their order, behind those one did.\<close>

lemma losers_keep_order:
  assumes "distinct (map ex_id queue)"
  shows "filter (\<lambda>e. map_of winners (ex_id e) = None) (sort_key (queue_key queue winners) queue) =
    filter (\<lambda>e. map_of winners (ex_id e) = None) queue"
proof -
  let ?P = "\<lambda>e. map_of winners (ex_id e) = None" and ?f = "queue_key queue winners"
  have eq: "map ?f (filter ?P queue) =
      map (\<lambda>e. (1, 0, 0, original_position queue (ex_id e))) (filter ?P queue)"
    by (auto simp: queue_key_def)
  have "sorted (map (\<lambda>e. original_position queue (ex_id e)) (filter ?P queue))"
    using original_position_sorted [OF assms] by (rule sorted_filter)
  then have "sorted (map ?f (filter ?P queue))"
    unfolding eq by (auto simp: sorted_iff_nth_mono)
  then have "sort_key ?f (filter ?P queue) = filter ?P queue" by (rule sort_key_id_if_sorted)
  then show ?thesis by (simp add: filter_sort)
qed

lemma winners_first:
  assumes "i < j" and "j < length queue"
    and "map_of winners (ex_id (sort_key (queue_key queue winners) queue ! j)) \<noteq> None"
  shows "map_of winners (ex_id (sort_key (queue_key queue winners) queue ! i)) \<noteq> None"
proof -
  let ?s = "sort_key (queue_key queue winners) queue"
  have "sorted (map (queue_key queue winners) ?s)" by simp
  then have "queue_key queue winners (?s ! i) \<le> queue_key queue winners (?s ! j)"
    using assms(1,2) by (auto simp: sorted_iff_nth_mono)
  with assms(3) show ?thesis by (auto simp: queue_key_def less_eq_prod_def split: option.splits prod.splits)
qed

section \<open>The store invariant\<close>

lemma frame_evaluate: "store_frame (evaluate_execution pf e t)"
  unfolding evaluate_execution_def evaluate_sla_approach_def Let_def
  by (auto intro!: frame_ebind frame_basic simp: frame_basic split: option.splits)

lemma frame_scan: "store_frame (scan_triggers pf b started xs winners)"
proof (induction pf b started xs winners rule: scan_triggers.induct)
  case 1
  show ?case by (simp add: frame_basic)
next
  case (2 pf b started trigger index e rest winners)
  have "store_frame (over_budget pf b started)"
    unfolding over_budget_def by (auto intro!: frame_ebind frame_basic simp: frame_basic)
  then show ?case
    unfolding scan_triggers.simps
    using 2 by (auto intro!: frame_ebind frame_evaluate simp: frame_basic split: option.splits)
qed

lemma frame_dispatch_cycle: "store_frame (evaluate_for_dispatch_cycle pf queue ws budget)"
  unfolding evaluate_for_dispatch_cycle_def Let_def
  by (auto intro!: frame_ebind frame_scan frame_triggers frame_basic simp: frame_basic
      split: option.splits)

end
