(* ===== verification/Execution_Scheduler.thy ===== *)
theory Execution_Scheduler
  imports Execution_Scheduling Execution_Reprioritization
begin

text \<open>
  The effectful part of execution/scheduler.py: a tick over the queued and running executions, the
  processing of one execution, the checkpoint taken before a dispatch, approval gates and their
  timeouts, leases, task plans with the secret preflight, the dispatch to the runtime and the periodic
  checkpoint. A reference to a row is its id; an attribute that may have changed is read again.
\<close>

section \<open>Conversions\<close>

definition py_len :: "pyval \<Rightarrow> nat py" where
  "py_len v =
     (case v of
        PList xs \<Rightarrow> Inr (length xs) | PDict d \<Rightarrow> Inr (length d) | PStr s \<Rightarrow> Inr (length s)
      | _ \<Rightarrow> Inl TypeError)"

definition DATETIME_MIN :: timestamp where
  "DATETIME_MIN = -62135596800000000"

text \<open>\<open>now + timedelta(seconds=n)\<close>.\<close>

definition add_seconds :: "timestamp \<Rightarrow> int \<Rightarrow> timestamp py" where
  "add_seconds t n =
     (if n < -86399999913600 \<or> 86399999999999 < n then Inl OverflowError
      else let r = t + n * 1000000 in
        if r < DATETIME_MIN \<or> DATETIME_MAX < r then Inl OverflowError else Inr r)"

text \<open>\<open>len(text.split())\<close>: the number of maximal runs without white space.\<close>

fun count_words :: "bool \<Rightarrow> string \<Rightarrow> nat" where
  "count_words inside [] = 0"
| "count_words inside (c # cs) =
     (if is_space c then count_words False cs
      else if inside then count_words True cs else Suc (count_words True cs))"

section \<open>The secret preflight\<close>

definition correlation_context :: "platform \<Rightarrow> Execution \<Rightarrow> StepIR \<Rightarrow> CorrelationContext op" where
  "correlation_context pf e step =
     ebind (correlation pf e) (\<lambda>ctx. eret (ctx\<lparr>cc_agent_fqn := agent_fqn step\<rparr>))"

definition name_bytes :: "pyval \<Rightarrow> string py" where
  "name_bytes v = (case v of PStr s \<Rightarrow> Inr s | _ \<Rightarrow> Inl TypeError)"

definition prompt_secret_preflight :: "platform \<Rightarrow> pydict \<Rightarrow> Execution \<Rightarrow> StepIR \<Rightarrow> unit op" where
  "prompt_secret_preflight pf payload e step =
     ebind (elift (json_dumps (pf_runtime pf) (PDict payload))) (\<lambda>prompt.
     case first_secret prompt of
       None \<Rightarrow> eret ()
     | Some secret_type \<Rightarrow>
         ebind (elift (name_bytes (py_or (agent_fqn step) (PStr ''unknown-agent'')))) (\<lambda>agent.
         ebind (call_service pf (BlockedAction
                  [(PStr ''agent_id'', PStr (uuid5_url pf agent)), (PStr ''agent_fqn'', PStr agent),
                   (PStr ''enforcement_component'', PStr ''sanitizer''),
                   (PStr ''action_type'', PStr ''prompt_preflight_block''),
                   (PStr ''target'', PStr secret_type),
                   (PStr ''block_reason'', PStr (''prompt_secret_detected:'' @ secret_type)),
                   (PStr ''policy_rule_ref'', PDict [(PStr ''step_id'', PStr (step_id step))]),
                   (PStr ''execution_id'', PStr (ex_id e)),
                   (PStr ''workspace_id'', PStr (ex_workspace_id e))])) (\<lambda>_.
         ebind (correlation_context pf e step) (\<lambda>ctx.
         ebind (publish_prompt_secret_detected pf (ex_id e) (ex_workspace_id e) agent (step_id step)
                  secret_type ctx) (\<lambda>_.
         eraise (PolicySecretLeakError secret_type))))))"

section \<open>Task plans\<close>

definition build_task_plan_payload :: "platform \<Rightarrow> Execution \<Rightarrow> StepIR \<Rightarrow> pydict op" where
  "build_task_plan_payload pf e step =
     ebind (case plan_context pf of
              None \<Rightarrow> eret PNone
            | Some getter \<Rightarrow> ebind (read_clock (getter (ex_id e) (step_id step))) elift) (\<lambda>given.
     let payload = (case given of PDict d \<Rightarrow> d | _ \<Rightarrow> default_task_plan e step) in
     ebind (prompt_secret_preflight pf payload e step) (\<lambda>_.
     eret payload))"

definition task_plan_key :: "uuid \<Rightarrow> string \<Rightarrow> string" where
  "task_plan_key eid sid = eid @ ''/'' @ sid @ ''/task-plan.json''"

definition persist_task_plan :: "platform \<Rightarrow> Execution \<Rightarrow> StepIR \<Rightarrow> pydict op" where
  "persist_task_plan pf e step =
     ebind (build_task_plan_payload pf e step) (\<lambda>payload.
     ebind (elift (json_dumps (pf_runtime pf) (PDict payload))) (\<lambda>encoded.
     let storage_key = task_plan_key (ex_id e) (step_id step) in
     ebind (ecatch
              (ebind (call_service pf (CreateBucket ''execution-task-plans'')) (\<lambda>_.
               call_service pf (UploadObject ''execution-task-plans'' storage_key encoded)))
              (\<lambda>_. eret ())) (\<lambda>_.
     ebind (elift (py_len (dget_or payload ''considered_agents'' (PList [])))) (\<lambda>agents.
     ebind (elift (py_len (dget_or payload ''considered_tools'' (PList [])))) (\<lambda>tools.
     ebind (elift (py_len (dget_or payload ''rejected_alternatives'' (PList [])))) (\<lambda>rejected.
     ebind (elift (py_iter (dget_or payload ''parameter_sources'' (PList [])))) (\<lambda>sources.
     ebind (fresh_uuid pf) (\<lambda>rid.
     ebind (row_time pf) (\<lambda>t.
     let summary = take 500 (py_str (pf_runtime pf)
           (py_or (dget_none payload ''rationale_summary'') (PStr []))) in
     ebind (upsert_task_plan_record
              \<lparr>tp_id = rid, tp_execution_id = ex_id e, tp_step_id = step_id step,
               tp_selected_agent_fqn = agent_fqn step, tp_selected_tool_fqn = tool_fqn step,
               tp_rationale_summary = (if summary = [] then None else Some summary),
               tp_considered_agents_count = agents, tp_considered_tools_count = tools,
               tp_rejected_alternatives_count = rejected, tp_parameter_sources = sources,
               tp_storage_key = storage_key, tp_storage_size_bytes = Some (length encoded),
               tp_created_at = t\<rparr>) (\<lambda>_.
     eret payload))))))))))"

section \<open>Leases\<close>

definition acquire_lease :: "platform \<Rightarrow> uuid \<Rightarrow> string \<Rightarrow> bool op" where
  "acquire_lease pf eid sid =
     ebind (fresh_uuid pf) (\<lambda>token.
     ebind (redis_set_nx pf (lease_key eid sid) (RToken token) 300) (\<lambda>acquired.
     if \<not> acquired then eret False
     else
       ebind (read_now pf) (\<lambda>t.
       ebind (fresh_uuid pf) (\<lambda>lid.
       ebind (create_dispatch_lease
                \<lparr>dl_id = lid, dl_execution_id = eid, dl_step_id = sid,
                 dl_scheduler_worker_id = worker_id pf, dl_acquired_at = t,
                 dl_expires_at = t + 5 * 60 * 1000000, dl_released_at = None, dl_expired = False\<rparr>) (\<lambda>_.
       eret True)))))"

definition release_active_lease :: "platform \<Rightarrow> uuid \<Rightarrow> string \<Rightarrow> unit op" where
  "release_active_lease pf eid sid =
     ebind (get_active_dispatch_lease eid sid) (\<lambda>found.
     case found of
       None \<Rightarrow> eret ()
     | Some lease \<Rightarrow>
         ebind (read_now pf) (\<lambda>t. release_dispatch_lease (dl_id lease) t False))"

definition release_step_dispatch_lease :: "platform \<Rightarrow> uuid \<Rightarrow> string \<Rightarrow> unit op" where
  "release_step_dispatch_lease pf eid sid =
     ebind (release_active_lease pf eid sid) (\<lambda>_.
     redis_delete (lease_key eid sid))"

text \<open>One turn of the loop over the active steps; \<open>t\<close> is read once, before it.\<close>

definition retry_step ::
  "platform \<Rightarrow> uuid \<Rightarrow> WorkflowIR \<Rightarrow> timestamp \<Rightarrow> string \<Rightarrow> StepIR list op" where
  "retry_step pf eid ir t sid =
     ebind (get_active_dispatch_lease eid sid) (\<lambda>found.
     case found of
       None \<Rightarrow> eret []
     | Some lease \<Rightarrow>
         ebind (redis_get pf (lease_key eid sid)) (\<lambda>key_there.
         if t < dl_expires_at lease \<and> key_there \<noteq> None then eret []
         else
           ebind (redis_delete (lease_key eid sid)) (\<lambda>_.
           ebind (release_dispatch_lease (dl_id lease) t True) (\<lambda>_.
           eret (case find (\<lambda>s. step_id s = sid) (steps ir) of None \<Rightarrow> [] | Some s \<Rightarrow> [s])))))"

definition collect_retryable_steps ::
  "platform \<Rightarrow> uuid \<Rightarrow> WorkflowIR \<Rightarrow> ExecutionStateResponse \<Rightarrow> StepIR list op" where
  "collect_retryable_steps pf eid ir st =
     (if st_active_step_ids st = [] then eret []
      else
        ebind (read_now pf) (\<lambda>t.
        ebind (emap (retry_step pf eid ir t) (st_active_step_ids st)) (\<lambda>found.
        eret (concat found))))"

section \<open>Checkpoints around a dispatch\<close>

definition capture_pre_dispatch_checkpoint ::
  "platform \<Rightarrow> uuid \<Rightarrow> StepIR \<Rightarrow> ExecutionStateResponse \<Rightarrow> bool op" where
  "capture_pre_dispatch_checkpoint pf eid step st =
     (if \<not> has_checkpoint_service pf then eret True
      else
        ebind (exec_ref eid) (\<lambda>e.
        let policy = policy_or_default (ex_checkpoint_policy_snapshot e) in
        ebind (elift (should_capture (pf_runtime pf) step (Some policy))) (\<lambda>wanted.
        if \<not> wanted then eret True
        else ecatch
          (ebind (capture pf eid st (Some policy)) (\<lambda>_. eret True))
          (\<lambda>exc.
             ebind (update_execution_status eid ES_paused None None) (\<lambda>_.
             ebind (record_runtime_event pf eid (Some (step_id step)) EV_failed
                      [(PStr ''step_type'', PStr (step_type step)),
                       (PStr ''failure_kind'', PStr ''checkpoint_capture''),
                       (PStr ''recoverable'', PBool True), (PStr ''error'', PStr (exn_text pf exc))]
                      (Some ES_paused)) (\<lambda>_.
             eret False))))))"

text \<open>The row takes its number and its other columns from the defaults of the model.\<close>

definition periodic_checkpoint :: "platform \<Rightarrow> uuid \<Rightarrow> ExecutionStateResponse \<Rightarrow> ExecutionCheckpoint op" where
  "periodic_checkpoint pf eid st =
     ebind (elift (py_dict (dget_or (st_step_results st) ''_execution_data'' (PDict [])))) (\<lambda>xdata.
     ebind (fresh_uuid pf) (\<lambda>cid.
     ebind (row_time pf) (\<lambda>t.
     create_checkpoint
       \<lparr>cp_id = cid, cp_execution_id = eid, cp_checkpoint_number = 1,
        cp_last_event_sequence = st_last_event_sequence st,
        cp_step_results = st_step_results st,
        cp_completed_step_ids = st_completed_step_ids st,
        cp_pending_step_ids = st_pending_step_ids st,
        cp_active_step_ids = st_active_step_ids st,
        cp_execution_data = xdata, cp_current_context = [], cp_accumulated_costs = [],
        cp_superseded = False, cp_policy_snapshot = [], cp_created_at = t\<rparr>)))"

definition maybe_checkpoint :: "platform \<Rightarrow> uuid \<Rightarrow> unit op" where
  "maybe_checkpoint pf eid =
     ebind (count_events eid) (\<lambda>event_count.
     if event_count mod 100 \<noteq> 0 then eret ()
     else
       ebind (get_execution_state pf eid) (\<lambda>st.
       ebind (periodic_checkpoint pf eid st) (\<lambda>_. eret ())))"

section \<open>Approval gates\<close>

definition handle_approval_gate :: "platform \<Rightarrow> uuid \<Rightarrow> StepIR \<Rightarrow> unit op" where
  "handle_approval_gate pf eid step =
     ebind (get_approval_wait eid (step_id step)) (\<lambda>existing.
     case existing of
       Some _ \<Rightarrow> eret ()
     | None \<Rightarrow>
         (case approval_config step of
            None \<Rightarrow> eret ()
          | Some config \<Rightarrow>
              ebind (read_now pf) (\<lambda>t.
              ebind (elift (add_seconds t (ac_timeout_seconds config))) (\<lambda>timeout_at.
              ebind (elift (timeout_action_of (ac_timeout_action config))) (\<lambda>action.
              ebind (fresh_uuid pf) (\<lambda>wid.
              ebind (row_time pf) (\<lambda>created.
              ebind (create_approval_wait
                       \<lparr>aw_id = wid, aw_execution_id = eid, aw_step_id = step_id step,
                        aw_required_approvers = ac_required_approvers config,
                        aw_timeout_at = timeout_at, aw_timeout_action = action,
                        aw_decision = None, aw_decided_by = None, aw_decided_at = None,
                        aw_interaction_message_id = None, aw_created_at = created\<rparr>) (\<lambda>_.
              ebind (update_execution_status eid ES_waiting_for_approval None None) (\<lambda>_.
              ebind (record_runtime_event pf eid (Some (step_id step)) EV_waiting_for_approval
                       [(PStr ''required_approvers'',
                         PList (map PStr (ac_required_approvers config)))]
                       (Some ES_waiting_for_approval)) (\<lambda>_.
              ewhen (has_approval_requests pf)
                (call_service pf (ApprovalRequest eid (step_id step) (ac_required_approvers config)))))))))))))"

text \<open>One overdue wait; the row behind \<open>approval_wait\<close> was read by the query.\<close>

definition time_out_wait :: "platform \<Rightarrow> ExecutionApprovalWait \<Rightarrow> unit op" where
  "time_out_wait pf wait =
     ebind (read_now pf) (\<lambda>t.
     ebind (update_approval_wait (aw_id wait)
              (if aw_timeout_action wait = TA_skip then AD_approved else AD_timed_out)
              (Some ''system'') t) (\<lambda>_.
     ebind (get_execution_by_id (aw_execution_id wait)) (\<lambda>found.
     case found of
       None \<Rightarrow> eret ()
     | Some e \<Rightarrow>
         let new_status = (if timeout_action_value (aw_timeout_action wait) = ''fail''
                           then ES_failed else ES_running) in
         ebind (update_execution_status (ex_id e) new_status None None) (\<lambda>_.
         record_runtime_event pf (ex_id e) (Some (aw_step_id wait)) EV_approval_timed_out
           [(PStr ''timeout_action'', PStr (timeout_action_value (aw_timeout_action wait)))]
           (Some new_status)))))"

definition scan_approval_timeouts :: "platform \<Rightarrow> unit op" where
  "scan_approval_timeouts pf =
     ebind (read_now pf) (\<lambda>t.
     ebind (list_pending_approval_waits t) (\<lambda>overdue.
     efor (time_out_wait pf) overdue))"

section \<open>Dispatch to the runtime\<close>

text \<open>The mock provider stands behind \<open>e2e_response\<close>; \<open>None\<close> is its failure.\<close>

definition generate_e2e_agent_response :: "platform \<Rightarrow> Execution \<Rightarrow> StepIR \<Rightarrow> pydict \<Rightarrow> string op" where
  "generate_e2e_agent_response pf e step task_plan =
     ebind (elift (json_dumps (pf_runtime pf) (PDict
              [(PStr ''execution_id'', PStr (ex_id e)), (PStr ''step_id'', PStr (step_id step)),
               (PStr ''task_plan'', PDict task_plan)]))) (\<lambda>_.
     ebind (read_clock (e2e_response pf (ex_id e) (step_id step))) (\<lambda>r.
     eret (case r of Some text \<Rightarrow> text
           | None \<Rightarrow> ''E2E runtime completed step '' @ step_id step @ ''.'')))"

definition publish_e2e_reasoning_event :: "platform \<Rightarrow> Execution \<Rightarrow> StepIR \<Rightarrow> string \<Rightarrow> unit op" where
  "publish_e2e_reasoning_event pf e step storage_key =
     (if producer pf = None then eret ()
      else
        ebind (correlation_context pf e step) (\<lambda>ctx.
        publish pf \<lparr>msg_topic = ''runtime.reasoning'', msg_key = ex_id e,
          msg_event_type = ''reasoning.trace_emitted'',
          msg_payload = [(PStr ''execution_id'', PStr (ex_id e)), (PStr ''step_id'', PStr (step_id step)),
            (PStr ''technique'', PStr ''e2e_mock_agent''), (PStr ''status'', PStr ''complete''),
            (PStr ''storage_key'', PStr storage_key)],
          msg_correlation = ctx, msg_source = ''platform.execution.e2e''\<rparr>))"

definition append_e2e_agent_message :: "platform \<Rightarrow> Execution \<Rightarrow> StepIR \<Rightarrow> string \<Rightarrow> unit op" where
  "append_e2e_agent_message pf e step text =
     (if ex_correlation_interaction_id e = None \<or> ex_correlation_conversation_id e = None then eret ()
      else call_service pf (E2EMessage (ex_id e) (step_id step) text))"

definition e2e_trace_step :: "nat \<Rightarrow> string \<Rightarrow> pyval \<Rightarrow> string \<Rightarrow> nat \<Rightarrow> string \<Rightarrow> pyval" where
  "e2e_trace_step n kind agent content tokens stamp_text =
     PDict [(PStr ''step_number'', PInt (int n)), (PStr ''type'', PStr kind),
       (PStr ''agent_fqn'', agent), (PStr ''content'', PStr content),
       (PStr ''tokens_used'', PInt (int tokens)), (PStr ''timestamp'', PStr stamp_text)]"

definition e2e_trace_payload ::
  "StepIR \<Rightarrow> string \<Rightarrow> string \<Rightarrow> pyfloat \<Rightarrow> string option \<Rightarrow> pydict" where
  "e2e_trace_payload step text stamp_text budget scope =
     (let tokens = max 1 (count_words False text) in
      [(PStr ''schema_version'', PStr ''1.0''),
       (PStr ''steps'', PList
          [e2e_trace_step 1 ''thought'' (agent_fqn step)
             (''E2E runtime selected '' @ step_id step @ '' for deterministic execution.'') 0 stamp_text,
           e2e_trace_step 2 ''final'' (agent_fqn step) text tokens stamp_text]),
       (PStr ''total_tokens'', PInt (int tokens)), (PStr ''compute_budget_used'', PFloat budget),
       (PStr ''effective_budget_scope'', opt_str scope),
       (PStr ''compute_budget_exhausted'', PBool False), (PStr ''consensus_reached'', PBool True),
       (PStr ''stabilized'', PBool True), (PStr ''degradation_detected'', PBool False),
       (PStr ''last_updated_at'', PStr stamp_text)])"

definition simulate_e2e_runtime_completion ::
  "platform \<Rightarrow> Execution \<Rightarrow> StepIR \<Rightarrow> pydict \<Rightarrow> (pyfloat \<times> string) option \<Rightarrow> unit op" where
  "simulate_e2e_runtime_completion pf e step task_plan budget =
     ebind (generate_e2e_agent_response pf e step task_plan) (\<lambda>text.
     ebind (read_now pf) (\<lambda>now.
     let sid = step_id step;
         used = (case budget of None \<Rightarrow> Fin 0 | Some (b, _) \<Rightarrow> b);
         scope = map_option snd budget;
         trace_key = ''e2e/'' @ ex_id e @ ''/'' @ sid @ ''/trace.json'' in
     ebind (call_service pf (CreateBucket ''reasoning-traces'')) (\<lambda>_.
     ebind (elift (json_dumps (pf_runtime pf)
              (PDict (e2e_trace_payload step text (iso_text pf now) used scope)))) (\<lambda>encoded.
     ebind (call_service pf (UploadObject ''reasoning-traces'' trace_key encoded)) (\<lambda>_.
     ebind (fresh_uuid pf) (\<lambda>rid.
     ebind (row_time pf) (\<lambda>created.
     ebind (upsert_reasoning_trace_record
              \<lparr>tr_id = rid, tr_execution_id = ex_id e, tr_step_id = Some sid,
               tr_technique = ''e2e_mock_agent'', tr_storage_key = trace_key, tr_step_count = Some 2,
               tr_status = ''complete'', tr_compute_budget_used = Some used,
               tr_consensus_reached = Some True, tr_stabilized = Some True,
               tr_degradation_detected = Some False, tr_compute_budget_exhausted = False,
               tr_effective_budget_scope = scope, tr_created_at = created\<rparr>) (\<lambda>_.
     ebind (record_runtime_event pf (ex_id e) (Some sid) EV_reasoning_trace_emitted
              [(PStr ''technique'', PStr ''e2e_mock_agent''), (PStr ''storage_key'', PStr trace_key),
               (PStr ''step_count'', PInt 2)] (Some ES_running)) (\<lambda>_.
     ebind (publish_e2e_reasoning_event pf e step trace_key) (\<lambda>_.
     ebind (append_e2e_agent_message pf e step text) (\<lambda>_.
     ebind (record_runtime_event pf (ex_id e) (Some sid) EV_completed
              [(PStr ''step_type'', PStr (step_type step)),
               (PStr ''output'', PDict [(PStr ''content'', PStr text)])] (Some ES_running)) (\<lambda>_.
     release_step_dispatch_lease pf (ex_id e) sid))))))))))))"

definition launch_or_dispatch :: "platform \<Rightarrow> pydict \<Rightarrow> pydict \<Rightarrow> unit op" where
  "launch_or_dispatch pf contract payload =
     (let fallback = (if has_fallback pf then call_service pf (DispatchFallback payload) else eret ()) in
      if has_launch pf then
        ecatch (call_service pf (LaunchRuntime contract))
          (\<lambda>exc. if has_fallback pf then fallback else eraise exc)
      else fallback)"

definition dispatch_to_runtime ::
  "platform \<Rightarrow> uuid \<Rightarrow> WorkflowIR \<Rightarrow> StepIR \<Rightarrow> pydict option \<Rightarrow> unit op" where
  "dispatch_to_runtime pf eid ir step task_plan_payload =
     ebind (exec_ref eid) (\<lambda>e.
     ebind (elift (resolve_effective_compute_budget (pf_runtime pf) ir step)) (\<lambda>budget.
     ebind (case task_plan_payload of
              None \<Rightarrow> build_task_plan_payload pf e step
            | Some p \<Rightarrow> eret p) (\<lambda>task_plan.
     if e2e_mode pf then simulate_e2e_runtime_completion pf e step task_plan budget
     else
       ebind (elift (runtime_contract_payload pf e step task_plan budget)) (\<lambda>contract.
       launch_or_dispatch pf contract (runtime_payload e step budget)))))"

section \<open>Reprioritization\<close>

definition load_plan :: "platform \<Rightarrow> Execution \<Rightarrow> WorkflowIR op" where
  "load_plan pf e =
     ebind (resolve_workflow_version (ex_workflow_definition_id e) (Some (ex_workflow_version_id e))) (\<lambda>v.
     load_ir pf v)"

definition priority_change :: "StepIR \<times> rat \<Rightarrow> pyval" where
  "priority_change p =
     PDict [(PStr ''step_id'', PStr (step_id (fst p))), (PStr ''old_priority'', PFloat (Fin 0)),
       (PStr ''new_priority'', PFloat (Fin (snd p)))]"

definition handle_reprioritization_trigger :: "platform \<Rightarrow> string \<Rightarrow> uuid \<Rightarrow> unit op" where
  "handle_reprioritization_trigger pf trigger_reason eid =
     ebind (get_execution_by_id eid) (\<lambda>found.
     case found of
       None \<Rightarrow> eret ()
     | Some e \<Rightarrow>
         ebind (get_execution_state pf (ex_id e)) (\<lambda>st.
         ebind (load_plan pf e) (\<lambda>ir.
         ebind (elift (dependency_depths (recursion_depth pf) ir)) (\<lambda>depths.
         ebind (read_now pf) (\<lambda>t.
         let priorities = sorted_desc snd
               (map (\<lambda>s. (s, compute_priority s e t depths)) (runnable_steps ir st));
             affected = map (\<lambda>p. step_id (fst p)) priorities in
         ebind (record_runtime_event pf (ex_id e) None EV_reprioritized
                  [(PStr ''trigger_reason'', PStr trigger_reason),
                   (PStr ''steps_affected'', PList (map PStr affected)),
                   (PStr ''priority_changes'', PList (map priority_change priorities))] None) (\<lambda>_.
         publish_reprioritization pf e trigger_reason affected None None PNone))))))"

definition queue_order :: "Execution list \<Rightarrow> pyval" where
  "queue_order ordered =
     PList (map (\<lambda>(i, e). PDict [(PStr ''execution_id'', PStr (ex_id e)),
       (PStr ''position'', PInt (int (i + 1)))]) (enumerate 0 ordered))"

definition emit_firing :: "platform \<Rightarrow> Execution list \<Rightarrow> ReprioritizationFiring \<Rightarrow> unit op" where
  "emit_firing pf ordered firing =
     (case find (\<lambda>e. ex_id e = rf_execution_id firing) ordered of
        None \<Rightarrow> eraise RuntimeError
      | Some e \<Rightarrow>
          let trigger = rf_trigger firing in
          ebind (record_runtime_event pf (ex_id e) None EV_reprioritized
                   [(PStr ''trigger_reason'', PStr (rp_trigger_type trigger)),
                    (PStr ''trigger_id'', PStr (rp_id trigger)),
                    (PStr ''trigger_name'', PStr (rp_name trigger)),
                    (PStr ''new_queue_order'', queue_order ordered),
                    (PStr ''priority_changes'', PList [PDict
                       [(PStr ''execution_id'', PStr (rf_execution_id firing)),
                        (PStr ''old_position'', PInt (int (rf_old_position firing))),
                        (PStr ''new_position'', PInt (int (rf_new_position firing)))]]),
                    (PStr ''steps_affected'', PList [])] None) (\<lambda>_.
          publish_reprioritization pf e (rp_trigger_type trigger) [] (Some (rp_id trigger))
            (Some (rp_name trigger)) (queue_order ordered)))"

definition emit_queue_reprioritization :: "platform \<Rightarrow> ReprioritizationResult \<Rightarrow> unit op" where
  "emit_queue_reprioritization pf result =
     efor (emit_firing pf (rz_ordered_executions result)) (rz_firings result)"

section \<open>Processing one execution\<close>

text \<open>The first event after creation.\<close>

definition enter_queue :: "platform \<Rightarrow> uuid \<Rightarrow> ExecutionStateResponse \<Rightarrow> ExecutionStateResponse op" where
  "enter_queue pf eid st =
     ebind (get_events eid None None) (\<lambda>journal.
     case journal of
       [ev] \<Rightarrow>
         if ev_event_type ev = EV_created then
           ebind (record_runtime_event pf eid None EV_queued [] None) (\<lambda>_.
           get_execution_state pf eid)
         else eret st
     | _ \<Rightarrow> eret st)"

definition check_sla :: "platform \<Rightarrow> Execution \<Rightarrow> unit op" where
  "check_sla pf e =
     (case ex_sla_deadline e of
        None \<Rightarrow> eret ()
      | Some deadline \<Rightarrow>
          let total_window = deadline - ex_created_at e in
          ebind (read_now pf) (\<lambda>t.
          ewhen (0 < total_window \<and> 4 / 5 \<le> (of_int (t - ex_created_at e) / of_int total_window :: rat))
            (handle_reprioritization_trigger pf ''sla_deadline_approaching'' (ex_id e))))"

text \<open>Runnable steps and steps to retry, one entry per step id.\<close>

definition combine_steps :: "StepIR list \<Rightarrow> StepIR list \<Rightarrow> StepIR list" where
  "combine_steps runnable retryable =
     (if retryable = [] then runnable
      else map snd (aupdate (aupdate [] (map (\<lambda>s. (step_id s, s)) runnable))
                      (map (\<lambda>s. (step_id s, s)) retryable)))"

definition complete_if_done :: "platform \<Rightarrow> uuid \<Rightarrow> WorkflowIR \<Rightarrow> ExecutionStateResponse \<Rightarrow> unit op" where
  "complete_if_done pf eid ir st =
     ebind (exec_ref eid) (\<lambda>e.
     if length (st_completed_step_ids st) = length (steps ir) \<and> ex_status e \<noteq> ES_completed then
       ebind (read_now pf) (\<lambda>t.
       ebind (update_execution_status eid ES_completed None (Some t)) (\<lambda>_.
       record_runtime_event pf eid None EV_completed [(PStr ''execution_completed'', PBool True)]
         (Some ES_completed)))
     else eret ())"

text \<open>Every step is scored with the time of its own turn.\<close>

definition score_steps ::
  "platform \<Rightarrow> uuid \<Rightarrow> (string \<times> rat) list \<Rightarrow> StepIR list \<Rightarrow> StepIR list op" where
  "score_steps pf eid dependency_depth candidates =
     ebind (exec_ref eid) (\<lambda>e.
     ebind (emap (\<lambda>s. ebind (read_now pf) (\<lambda>t. eret (compute_priority s e t dependency_depth, s))) candidates) (\<lambda>scored.
     eret (map snd (sorted_desc fst scored))))"

text \<open>The handler of \<open>PolicySecretLeakError\<close>.\<close>

definition leaked_type :: "exn \<Rightarrow> string option" where
  "leaked_type exc =
     (case exc of
        PlatformError code _ [(k, PStr secret_type)] \<Rightarrow>
          if code = ''PROMPT_SECRET_DETECTED'' \<and> k = ''secret_type'' then Some secret_type else None
      | _ \<Rightarrow> None)"

definition block_dispatch :: "platform \<Rightarrow> uuid \<Rightarrow> StepIR \<Rightarrow> string \<Rightarrow> unit op" where
  "block_dispatch pf eid step secret_type =
     ebind (release_active_lease pf eid (step_id step)) (\<lambda>_.
     ebind (read_now pf) (\<lambda>t.
     ebind (update_execution_status eid ES_failed None (Some t)) (\<lambda>_.
     record_runtime_event pf eid (Some (step_id step)) EV_failed
       [(PStr ''step_type'', PStr (step_type step)), (PStr ''secret_type'', PStr secret_type)]
       (Some ES_failed))))"

definition start_step ::
  "platform \<Rightarrow> uuid \<Rightarrow> WorkflowIR \<Rightarrow> string set \<Rightarrow> StepIR \<Rightarrow> pydict \<Rightarrow> unit op" where
  "start_step pf eid ir retryable_ids step plan =
     ebind (exec_ref eid) (\<lambda>e.
     ebind (case ex_started_at e of Some t \<Rightarrow> eret t | None \<Rightarrow> read_now pf) (\<lambda>started.
     ebind (update_execution_status eid ES_running (Some started) None) (\<lambda>_.
     ebind (record_runtime_event pf eid (Some (step_id step))
              (if step_id step \<in> retryable_ids then EV_retried else EV_dispatched)
              [(PStr ''step_type'', PStr (step_type step))] (Some ES_running)) (\<lambda>_.
     ebind (dispatch_to_runtime pf eid ir step (Some plan)) (\<lambda>_.
     maybe_checkpoint pf eid)))))"

text \<open>One turn of the loop over the scored steps; \<open>False\<close> ends it.\<close>

definition dispatch_step ::
  "platform \<Rightarrow> uuid \<Rightarrow> WorkflowIR \<Rightarrow> ExecutionStateResponse \<Rightarrow> string set \<Rightarrow> StepIR \<Rightarrow> bool op" where
  "dispatch_step pf eid ir st retryable_ids step =
     ebind (capture_pre_dispatch_checkpoint pf eid step st) (\<lambda>go.
     if \<not> go then eret False
     else if step_type step = ''approval_gate'' then
       ebind (handle_approval_gate pf eid step) (\<lambda>_. eret True)
     else
       ebind (acquire_lease pf eid (step_id step)) (\<lambda>acquired.
       if \<not> acquired then eret True
       else
         ebind (exec_ref eid) (\<lambda>e.
         ebind (ecatch (ebind (persist_task_plan pf e step) (\<lambda>plan. eret (Some plan)))
                  (\<lambda>exc. case leaked_type exc of
                      None \<Rightarrow> eraise exc
                    | Some secret_type \<Rightarrow>
                        ebind (block_dispatch pf eid step secret_type) (\<lambda>_. eret None))) (\<lambda>outcome.
         case outcome of
           None \<Rightarrow> eret False
         | Some plan \<Rightarrow>
             ebind (start_step pf eid ir retryable_ids step plan) (\<lambda>_. eret True)))))"

definition process_execution :: "platform \<Rightarrow> uuid \<Rightarrow> unit op" where
  "process_execution pf eid =
     ebind (get_execution_state pf eid) (\<lambda>st0.
     ebind (exec_ref eid) (\<lambda>e.
     ebind (load_plan pf e) (\<lambda>ir.
     ebind (enter_queue pf eid st0) (\<lambda>st.
     ebind (check_sla pf e) (\<lambda>_.
     ebind (collect_retryable_steps pf eid ir st) (\<lambda>retryable.
     let candidates = combine_steps (runnable_steps ir st) retryable in
     if candidates = [] then complete_if_done pf eid ir st
     else
       ebind (elift (dependency_depths (recursion_depth pf) ir)) (\<lambda>depths.
       ebind (score_steps pf eid depths candidates) (\<lambda>scored.
       efor_until (dispatch_step pf eid ir st (step_id ` set retryable)) scored))))))))"

section \<open>A tick\<close>

definition group_by_workspace :: "Execution list \<Rightarrow> (uuid \<times> Execution list) list" where
  "group_by_workspace queued =
     foldl (\<lambda>d e. aset d (ex_workspace_id e)
         ((case map_of d (ex_workspace_id e) of None \<Rightarrow> [] | Some xs \<Rightarrow> xs) @ [e])) [] queued"

definition reorder_workspace :: "platform \<Rightarrow> uuid \<times> Execution list \<Rightarrow> Execution list op" where
  "reorder_workspace pf ws_group =
     ebind (evaluate_for_dispatch_cycle pf (snd ws_group) (fst ws_group) 25) (\<lambda>result.
     ebind (ewhen (rz_firings result \<noteq> []) (emit_queue_reprioritization pf result)) (\<lambda>_.
     eret (rz_ordered_executions result)))"

interpretation rq: queue_policy "reorder_workspace pf" for pf
  by unfold_locales
    (auto simp: reorder_workspace_def run_ebind run_simps dest: dispatch_cycle_perm
      split: prod.splits sum.splits)

definition order_queued :: "platform \<Rightarrow> Execution list \<Rightarrow> Execution list op" where
  "order_queued pf queued =
     (if queued \<noteq> [] \<and> has_reprioritization_service pf then
        ebind (emap (reorder_workspace pf) (group_by_workspace queued)) (\<lambda>groups.
        eret (concat groups))
      else eret (sort_key execution_priority_key queued))"

definition tick :: "platform \<Rightarrow> unit op" where
  "tick pf =
     ebind (list_by_statuses [ES_queued, ES_running]) (\<lambda>rows.
     let queued = filter (\<lambda>e. ex_status e = ES_queued) rows;
         running = sort_key execution_priority_key (filter (\<lambda>e. ex_status e \<noteq> ES_queued) rows) in
     ebind (order_queued pf queued) (\<lambda>reordered.
     efor (\<lambda>e. process_execution pf (ex_id e)) (running @ reordered)))"

end
