(* ===== verification/Execution_Service_Props.thy ===== *)
theory Execution_Service_Props
  imports Execution_Service
begin

text \<open>
  What the readers of the execution service guarantee on a store that satisfies the invariant: the
  state read through a checkpoint is the state a full replay of the journal gives, and a cached state is
  the projection of a prefix of the journal.
\<close>

section \<open>Reading through a checkpoint\<close>

lemma last_take_sequence:
  assumes "journal_numbered w" and "0 < n" and "n \<le> length (events_of w eid)"
  shows "take n (events_of w eid) \<noteq> []" and "ev_sequence (last (take n (events_of w eid))) = n"
proof -
  have num: "map ev_sequence (events_of w eid) = [1..<Suc (length (events_of w eid))]"
    using assms(1) by (simp add: journal_numbered_def)
  show ne: "take n (events_of w eid) \<noteq> []" using assms by auto
  have "last (take n (events_of w eid)) = events_of w eid ! (n - 1)"
    using assms ne by (simp add: last_conv_nth min_absorb2)
  with jn.numbered_nth [OF num, of "n - 1"] assms show
    "ev_sequence (last (take n (events_of w eid))) = n" by simp
qed

lemma events_of_id: "ev \<in> set (events_of w eid) \<Longrightarrow> ev_execution_id ev = eid"
  by (simp add: events_of_def)

lemma get_latest_checkpoint_Some:
  assumes "get_latest_checkpoint eid b w = (Inr (Some c), w')"
  shows "c \<in> set (checkpoints w) \<and> cp_execution_id c = eid"
proof -
  let ?xs = "filter (\<lambda>c. b \<or> \<not> cp_superseded c) (checkpoints_of w eid)"
  from assms obtain ys where "rev (sort_key (\<lambda>c. (cp_checkpoint_number c, cp_created_at c)) ?xs) = c # ys"
    by (auto simp: get_latest_checkpoint_def run_simps first_of_Some)
  then have "c \<in> set ?xs" by (metis list.set_intros(1) set_rev set_sort)
  then show ?thesis by (auto simp: checkpoints_of_def)
qed

lemma rel_sum_stamp:
  assumes "rel_sum (=) (\<lambda>a b. stamp s v a = stamp s v b) x y"
  shows "rbind x (\<lambda>st. Inr (stamp s v st)) = rbind y (\<lambda>st. Inr (stamp s v st))"
  using assms by (cases x; cases y) auto

lemma project_from_checkpoint:
  assumes ok: "store_ok rt w" and c: "c \<in> set (checkpoints w)" and e: "cp_execution_id c = eid"
  shows "rbind (project_state rt (drop (cp_last_event_sequence c) (events_of w eid)) (Some c))
      (\<lambda>st. Inr (stamp s v st)) =
    rbind (project_state rt (events_of w eid) None) (\<lambda>st. Inr (stamp s v st))"
proof -
  let ?n = "cp_last_event_sequence c" and ?evs = "events_of w eid"
  from store_okD(3) [OF ok c] e have
    n: "0 < ?n" "?n \<le> length ?evs" and cp: "checkpoint_of rt (take ?n ?evs) c"
    by (auto simp: checkpoint_at_def)
  note lt = last_take_sequence [OF store_okD(1) [OF ok] n]
  have "rel_sum (=) (\<lambda>a b. stamp s v a = stamp s v b)
      (project_state rt (drop ?n ?evs) (Some c)) (project_state rt (take ?n ?evs @ drop ?n ?evs) None)"
    using cp lt by (intro checkpoint_resume) (auto simp: e dest: in_set_takeD in_set_dropD events_of_id)
  then show ?thesis using rel_sum_stamp by simp
qed

lemma get_or_raise_run:
  "get_execution_or_raise eid w =
    (case one_or_none (executions_of w eid) of
       Inl e \<Rightarrow> (Inl e, w)
     | Inr None \<Rightarrow> (Inl (ExecutionNotFoundError eid), w)
     | Inr (Some e) \<Rightarrow> (Inr e, w))"
  by (simp add: get_execution_or_raise_def get_execution_by_id_def run_ebind run_simps
      split: sum.splits option.splits)

text \<open>Both readers, run on the same store.\<close>

lemma load_state_replay:
  assumes ok: "store_ok (pf_runtime pf) w"
  shows "load_state pf eid w = replay_execution pf eid w"
proof -
  note num = store_okD(1) [OF ok]
  obtain r where r: "get_execution_or_raise eid w = (r, w)"
    by (cases "one_or_none (executions_of w eid)" rule: sum.exhaust; cases "projr (one_or_none (executions_of w eid))")
      (auto simp: get_or_raise_run)
  show ?thesis
  proof (cases r)
    case (Inl x)
    with r show ?thesis by (simp add: load_state_def replay_execution_def run_ebind)
  next
    case (Inr e)
    obtain c where c: "get_latest_checkpoint eid False w = (Inr c, w)"
      by (simp add: get_latest_checkpoint_def run_simps)
    show ?thesis
    proof (cases c)
      case None
      with c r Inr show ?thesis
        by (simp add: load_state_def replay_execution_def run_ebind run_simps)
    next
      case (Some cp)
      from get_latest_checkpoint_Some c Some
      have cp: "cp \<in> set (checkpoints w)" "cp_execution_id cp = eid" by blast+
      let ?s = "ex_status e" and ?v = "PStr (ex_workflow_version_id e)"
      from project_from_checkpoint [OF ok cp, of ?s ?v] show ?thesis
        using c r Inr Some
        by (cases "project_state (pf_runtime pf) (drop (cp_last_event_sequence cp) (events_of w eid)) (Some cp)";
            cases "project_state (pf_runtime pf) (events_of w eid) None")
          (simp_all add: load_state_def replay_execution_def run_ebind run_simps
            get_events_since [OF num] get_events_all [OF num])
    qed
  qed
qed

lemma replay_state_at:
  assumes num: "journal_numbered w" and r: "replay_execution pf eid w = (Inr st, w')"
  shows "st_execution_id st = eid \<and> state_at (pf_runtime pf) (events_of w eid) st"
proof -
  let ?rt = "pf_runtime pf" and ?evs = "events_of w eid"
  from r have "\<exists>st0 s v. project_state ?rt ?evs None = Inr st0 \<and> st = stamp s v st0"
    by (simp add: replay_execution_def run_ebind run_simps get_or_raise_run get_events_all [OF num]
        split: sum.splits option.splits) blast
  then obtain st0 s v where p: "project_state ?rt ?evs None = Inr st0" and st: "st = stamp s v st0"
    by blast
  from p have ne: "?evs \<noteq> []" by (auto simp: project_state_def)
  then have "last ?evs \<in> set ?evs" by simp
  then have e: "ev_execution_id (last ?evs) = eid" by (rule events_of_id)
  with p have f: "rfold (project_step ?rt) ?evs (initial_state eid None) = Inr st0"
    by (simp add: project_state_nonempty [OF ne])
  have "ev_sequence (last ?evs) = length ?evs"
    using last_take_sequence(2) [OF num, of "length ?evs" eid] ne by simp
  with project_fold_position [OF f] ne e have
    "st_execution_id st0 = eid" "st_last_event_sequence st0 = length ?evs" by auto
  moreover have "same_core st0 (stamp s v st0)" for s v by (simp add: stamp_def same_core_def)
  ultimately show ?thesis using f ne st by (auto simp: state_at_def stamp_def same_core_def)
qed

definition codec_ok :: "platform \<Rightarrow> bool" where
  "codec_ok pf \<longleftrightarrow> (\<forall>st. state_codec pf st = Inr st)"

lemma frame_get_or_raise: "store_frame (get_execution_or_raise eid)"
  unfolding get_execution_or_raise_def
  by (rule frame_ebind, simp add: frame_ops) (auto simp: frame_basic split: option.splits)

lemma frame_load_state: "store_frame (load_state pf eid)"
  unfolding load_state_def
  by (intro frame_ebind frame_get_or_raise frame_ops)

lemma load_state_world: "snd (load_state pf eid w) = w"
  by (simp add: load_state_def run_ebind run_simps get_execution_or_raise_def get_execution_by_id_def
      get_latest_checkpoint_def get_events_def split: sum.splits option.splits)

lemma spec_load_state:
  "spec (store_ok (pf_runtime pf)) (\<lambda>_. True) (load_state pf eid)
     (\<lambda>st w. st_execution_id st = eid \<and> state_at (pf_runtime pf) (events_of w eid) st)"
proof (rule specI)
  fix w st w'
  assume ok: "store_ok (pf_runtime pf) w" and l: "load_state pf eid w = (Inr st, w')"
  from l load_state_world [of pf eid w] have "w' = w" by simp
  with l load_state_replay [OF ok] replay_state_at [OF store_okD(1) [OF ok]]
  show "st_execution_id st = eid \<and> state_at (pf_runtime pf) (events_of w' eid) st" by metis
qed (simp add: load_state_world)

lemma spec_get_state:
  assumes codec: "codec_ok pf"
  shows "spec (store_ok (pf_runtime pf)) (\<lambda>_. True) (get_execution_state pf eid)
     (\<lambda>st w. st_execution_id st = eid \<and> state_at (pf_runtime pf) (events_of w eid) st)"
proof -
  let ?rt = "pf_runtime pf"
  let ?Q = "\<lambda>st w. st_execution_id st = eid \<and> state_at ?rt (events_of w eid) st"
  have get: "spec (store_ok ?rt) (\<lambda>_. True) (redis_get pf (state_cache_key eid))
      (\<lambda>r w. \<forall>st. r = Some (RState st) \<longrightarrow> ?Q st w)"
  proof (rule specI)
    fix w assume ok: "store_ok ?rt w"
    with frame_redis_get [of pf "state_cache_key eid"]
    show "store_ok ?rt (snd (redis_get pf (state_cache_key eid) w))"
      by (auto simp: store_frame_def intro: store_ok_events_eq)
    fix r w' assume "redis_get pf (state_cache_key eid) w = (Inr r, w')"
    then show "\<forall>st. r = Some (RState st) \<longrightarrow> ?Q st w'"
      using store_okD(4) [OF ok, of eid]
      by (auto simp: redis_get_def run_ebind run_simps read_clock_def events_of_def
          split: option.splits if_splits)
  qed
  have set: "spec (store_ok ?rt) (?Q st) (redis_set pf (state_cache_key eid) (RState st) 30)
      (\<lambda>_. ?Q st)" for st
    using spec_redis_state [of ?rt st eid pf 30]
    by (auto simp: spec_def redis_set_def run_ebind run_simps read_clock_def events_of_def)
  show ?thesis
    unfolding get_execution_state_def
  proof (rule spec_ebind [OF get])
    fix r
    show "spec (store_ok ?rt) (\<lambda>w. \<forall>st. r = Some (RState st) \<longrightarrow> ?Q st w)
      (case r of None \<Rightarrow> ebind (load_state pf eid) (\<lambda>st.
           ebind (redis_set pf (state_cache_key eid) (RState st) 30) (\<lambda>_. eret st))
       | Some (RState st) \<Rightarrow> elift (state_codec pf st) | Some (RToken _) \<Rightarrow> eraise ValueError) ?Q"
    proof (cases r)
      case None
      have "spec (store_ok ?rt) (\<lambda>_. True) (ebind (load_state pf eid) (\<lambda>st.
           ebind (redis_set pf (state_cache_key eid) (RState st) 30) (\<lambda>_. eret st))) ?Q"
        by (rule spec_ebind [OF spec_load_state]) (rule spec_ebind [OF set], auto intro: spec_eret)
      with None show ?thesis by (auto simp: spec_def)
    next
      case (Some v)
      with codec show ?thesis
        by (cases v) (auto simp: codec_ok_def spec_def run_simps)
    qed
  qed
qed

section \<open>Operations that only read or touch other tables\<close>

lemma frame_option:
  "(r = None \<Longrightarrow> store_frame m) \<Longrightarrow> (\<And>x. r = Some x \<Longrightarrow> store_frame (f x)) \<Longrightarrow>
   store_frame (case r of None \<Rightarrow> m | Some x \<Rightarrow> f x)"
  by (cases r) auto

lemma frame_if: "store_frame m \<Longrightarrow> store_frame n \<Longrightarrow> store_frame (if b then m else n)"
  by simp

lemma frame_exec_ref: "store_frame (exec_ref eid)"
  unfolding exec_ref_def by (intro frame_ebind frame_option frame_ops)

lemma frame_resolve: "store_frame (resolve_workflow_version wid v)"
  unfolding resolve_workflow_version_def by (intro frame_ebind frame_option frame_ops)

lemma frame_load_ir: "store_frame (load_ir pf v)"
  unfolding load_ir_def by (rule frame_basic)

lemma frame_check_trigger: "store_frame (check_trigger tid)"
  unfolding check_trigger_def by (intro frame_ebind frame_option frame_ops)

lemma frame_check_quota: "store_frame (check_quota pf ws)"
  unfolding check_quota_def by (intro frame_ebind frame_option frame_if frame_ops)

lemma frame_overage: "store_frame (publish_billing_overage_required pf e q)"
  unfolding publish_billing_overage_required_def Let_def
  by (intro frame_ebind frame_if frame_ops frame_correlation)

lemmas frame_service = frame_get_or_raise frame_exec_ref frame_resolve frame_load_ir
  frame_check_trigger frame_check_quota frame_overage frame_correlation frame_publishers
  frame_load_state

end
