(* ===== verification/Execution_Scheduling_Props.thy ===== *)
theory Execution_Scheduling_Props
  imports Execution_Scheduling Execution_Service_Props
begin

text \<open>
  What the scheduler's decisions guarantee. The locale \<open>finite_dag\<close> holds the facts about the
  longest chain into a node of a finite acyclic relation; it is interpreted on the edges of a compiled
  workflow, and the memoised \<open>depth\<close> is proved to compute it.
\<close>

section \<open>Runnable steps\<close>

lemma dep_sets_foldl:
  "(case map_of (foldl (\<lambda>d (source, target).
        aset d target (insert source (case map_of d target of None \<Rightarrow> {} | Some s \<Rightarrow> s))) d es) t of
      None \<Rightarrow> {} | Some s \<Rightarrow> s) =
   (case map_of d t of None \<Rightarrow> {} | Some s \<Rightarrow> s) \<union> {a. (a, t) \<in> set es}"
proof (induction es arbitrary: d)
  case Nil
  then show ?case by simp
next
  case (Cons e es)
  obtain a b where e: "e = (a, b)" by fastforce
  show ?case by (auto simp: e Cons.IH)
qed

lemma dep_sets_get:
  "(case map_of (dep_sets ir) t of None \<Rightarrow> {} | Some s \<Rightarrow> s) = deps_of ir t"
proof -
  have "(case map_of (aupdate [] (map (\<lambda>s. (step_id s, {})) (steps ir))) t of
      None \<Rightarrow> {} | Some s \<Rightarrow> s) = ({} :: string set)"
    by (auto simp: map_of_aupdate map_add_def dest!: map_of_SomeD split: option.splits)
  then show ?thesis unfolding dep_sets_def dep_sets_foldl deps_of_def by (simp only: Un_empty_left)
qed

lemma set_runnable:
  "set (runnable_steps ir st) =
    {s \<in> set (steps ir). step_id s \<notin> set (st_completed_step_ids st) \<and>
       step_id s \<notin> set (st_active_step_ids st) \<and>
       deps_of ir (step_id s) \<subseteq> set (st_completed_step_ids st)}"
  by (auto simp: runnable_steps_def Let_def dep_sets_get)

lemma runnable_progress:
  assumes "dag_ir ir" and "\<not> ir_ids ir \<subseteq> set (st_completed_step_ids st)"
    and "runnable_steps ir st = []"
  shows "\<exists>s \<in> set (steps ir). step_id s \<in> set (st_active_step_ids st) \<and>
    step_id s \<notin> set (st_completed_step_ids st)"
proof -
  from dag_ir_ready [OF assms(1,2)] obtain s where s: "s \<in> set (steps ir)"
    "step_id s \<notin> set (st_completed_step_ids st)" "deps_of ir (step_id s) \<subseteq> set (st_completed_step_ids st)"
    by blast
  moreover have "s \<notin> set (runnable_steps ir st)" using assms(3) by simp
  ultimately show ?thesis by (auto simp: set_runnable)
qed

section \<open>Longest chains\<close>

locale finite_dag =
  fixes E :: "('a \<times> 'a) set"
  assumes finite_edges: "finite E" and acyclic_edges: "acyclic E"
begin

definition lengths :: "'a \<Rightarrow> nat set" where
  "lengths b = {n. \<exists>a. (a, b) \<in> E ^^ n}"

definition chain_length :: "'a \<Rightarrow> nat" where
  "chain_length b = Max (lengths b)"

lemma lengths_0 [simp]: "0 \<in> lengths b"
  by (simp add: lengths_def)

lemma lengths_Suc: "Suc n \<in> lengths b \<longleftrightarrow> (\<exists>p. (p, b) \<in> E \<and> n \<in> lengths p)"
  by (auto simp: lengths_def)

lemma finite_parents: "finite {p. (p, b) \<in> E}"
  using finite_edges by (rule finite_subset [OF _ finite_Domain, rotated]) auto

lemma lengths_conv: "lengths b = insert 0 (Suc ` (\<Union>p \<in> {p. (p, b) \<in> E}. lengths p))"
proof (rule set_eqI)
  show "n \<in> lengths b \<longleftrightarrow> n \<in> insert 0 (Suc ` (\<Union>p \<in> {p. (p, b) \<in> E}. lengths p))" for n
    by (cases n) (auto simp: lengths_Suc)
qed

lemma wf_edges: "wf E"
  using finite_edges acyclic_edges by (rule finite_acyclic_wf)

lemma finite_lengths: "finite (lengths b)"
proof (induction b rule: wf_induct [OF wf_edges])
  case (1 b)
  then show ?case by (subst lengths_conv) (simp add: finite_parents)
qed

lemma chain_length_root: "\<not> (\<exists>p. (p, b) \<in> E) \<Longrightarrow> chain_length b = 0"
  unfolding chain_length_def by (subst lengths_conv) simp

lemma chain_length_in: "chain_length b \<in> lengths b"
  unfolding chain_length_def by (intro Max_in finite_lengths) (metis lengths_0 empty_iff)

lemma chain_length_ge: "n \<in> lengths b \<Longrightarrow> n \<le> chain_length b"
  unfolding chain_length_def by (rule Max_ge [OF finite_lengths])

lemma chain_length_edge: "(p, b) \<in> E \<Longrightarrow> chain_length p < chain_length b"
proof -
  assume "(p, b) \<in> E"
  then have "Suc (chain_length p) \<in> lengths b" using chain_length_in [of p] by (auto simp: lengths_Suc)
  then show ?thesis by (simp add: chain_length_ge Suc_le_lessD)
qed

lemma chain_length_parent:
  assumes "\<exists>p. (p, b) \<in> E"
  shows "\<exists>p. (p, b) \<in> E \<and> chain_length b = Suc (chain_length p)"
proof -
  note chain_length_in [of b]
  moreover from assms chain_length_edge have "0 < chain_length b" by fastforce
  ultimately obtain n p where n: "chain_length b = Suc n" "(p, b) \<in> E" "n \<in> lengths p"
    by (cases "chain_length b") (auto simp: lengths_Suc)
  then have "n \<le> chain_length p" using chain_length_ge by simp
  with n chain_length_edge [OF n(2)] show ?thesis by auto
qed

lemma chain_length_Max:
  assumes "\<exists>p. (p, b) \<in> E"
  shows "chain_length b = Suc (Max (chain_length ` {p. (p, b) \<in> E}))"
proof -
  from chain_length_parent [OF assms] obtain p where p: "(p, b) \<in> E" "chain_length b = Suc (chain_length p)"
    by blast
  have "chain_length x \<le> chain_length p" if "(x, b) \<in> E" for x
    using chain_length_edge [OF that] p(2) by simp
  then have "Max (chain_length ` {p. (p, b) \<in> E}) = chain_length p"
    using p(1) finite_parents by (intro Max_eqI) auto
  with p show ?thesis by simp
qed

text \<open>Every smaller length occurs on the way, so a chain is shorter than the number of nodes.\<close>

lemma chain_length_below: "k \<le> chain_length b \<Longrightarrow> \<exists>a. (a, b) \<in> E\<^sup>* \<and> chain_length a = k"
proof (induction b rule: wf_induct [OF wf_edges])
  case (1 b)
  show ?case
  proof (cases "k = chain_length b")
    case True
    then show ?thesis by blast
  next
    case False
    with "1.prems" chain_length_root [of b] have "\<exists>p. (p, b) \<in> E" by fastforce
    then obtain p where p: "(p, b) \<in> E" "chain_length b = Suc (chain_length p)"
      using chain_length_parent by blast
    with False "1.prems" have "k \<le> chain_length p" by simp
    with "1.IH" p(1) obtain a where "(a, p) \<in> E\<^sup>*" "chain_length a = k" by blast
    with p(1) show ?thesis by (intro exI [of _ a]) auto
  qed
qed

lemma chain_length_bound:
  assumes "finite V" and "b \<in> V" and closed: "\<And>x y. (x, y) \<in> E \<Longrightarrow> x \<in> V"
  shows "chain_length b < card V"
proof -
  have "a \<in> V" if "(a, b) \<in> E\<^sup>*" for a
    using that assms(2) by (induction rule: converse_rtrancl_induct) (auto intro: closed)
  with chain_length_below have "{0..chain_length b} \<subseteq> chain_length ` V" by fastforce
  then have "card {0..chain_length b} \<le> card (chain_length ` V)"
    using assms(1) by (intro card_mono) auto
  also have "\<dots> \<le> card V" using assms(1) by (rule card_image_le)
  finally show ?thesis by simp
qed

end

text \<open>The edges of a compiled workflow; an ill-formed graph counts as empty, so that every
  workflow gives an instance.\<close>

definition dag_rel :: "WorkflowIR \<Rightarrow> (string \<times> string) set" where
  "dag_rel ir = (if dag_ir ir then set (dag_edges ir) else {})"

interpretation wf_dag: finite_dag "dag_rel ir" for ir
  by unfold_locales (auto simp: dag_rel_def dag_ir_def acyclic_def)

section \<open>The memoised depth\<close>

definition longest_chain :: "WorkflowIR \<Rightarrow> string \<Rightarrow> nat" where
  "longest_chain ir sid = Max {n. \<exists>a. (a, sid) \<in> set (dag_edges ir) ^^ n}"

lemma longest_chain_dag: "dag_ir ir \<Longrightarrow> longest_chain ir sid = wf_dag.chain_length ir sid"
  unfolding longest_chain_def wf_dag.chain_length_def wf_dag.lengths_def by (simp add: dag_rel_def)

lemma parents_of_get: "adj_get (parents_of ir) t = map fst (filter (\<lambda>e. snd e = t) (dag_edges ir))"
proof -
  have "adj_get (foldl (\<lambda>d (source, target). aset d target (adj_get d target @ [source])) d es) t =
      adj_get d t @ map fst (filter (\<lambda>e. snd e = t) es)" for d es
    by (induction es arbitrary: d) (auto simp: adj_get_aset)
  moreover have "adj_get (aupdate [] (map (\<lambda>s. (step_id s, [])) (steps ir))) t = []"
    using adj_get_init [of "map step_id (steps ir)" t] by (simp add: comp_def)
  ultimately show ?thesis by (simp only: parents_of_def append_Nil)
qed

lemma set_parents_of: "dag_ir ir \<Longrightarrow> set (adj_get (parents_of ir) t) = {p. (p, t) \<in> dag_rel ir}"
  by (force simp: parents_of_get dag_rel_def)

definition cache_ok :: "WorkflowIR \<Rightarrow> (string \<times> rat) list \<Rightarrow> bool" where
  "cache_ok ir c \<longleftrightarrow> (\<forall>k v. map_of c k = Some v \<longrightarrow> v = of_nat (wf_dag.chain_length ir k))"

lemma cache_ok_aset: "cache_ok ir c \<Longrightarrow> cache_ok ir (aset c k (of_nat (wf_dag.chain_length ir k)))"
  by (simp add: cache_ok_def)

definition depth_ok :: "WorkflowIR \<Rightarrow> nat \<Rightarrow> bool" where
  "depth_ok ir n \<longleftrightarrow> (\<forall>sid c. wf_dag.chain_length ir sid < n \<longrightarrow> cache_ok ir c \<longrightarrow>
     (\<exists>c'. depth n (parents_of ir) sid c = Inr (of_nat (wf_dag.chain_length ir sid), c') \<and> cache_ok ir c'))"

lemma max_depth_ok:
  assumes "depth_ok ir n" and "cache_ok ir c" and "\<forall>p \<in> set qs. wf_dag.chain_length ir p < n"
  shows "\<exists>c'. max_depth n (parents_of ir) qs (of_nat b) c =
    Inr (of_nat (Max (insert b (wf_dag.chain_length ir ` set qs))), c') \<and> cache_ok ir c'"
  using assms(2,3)
proof (induction qs arbitrary: b c)
  case Nil
  then show ?case by simp
next
  case (Cons q qs)
  from Cons.prems obtain c1 where c1: "depth n (parents_of ir) q c = Inr (of_nat (wf_dag.chain_length ir q), c1)"
    "cache_ok ir c1" using assms(1) unfolding depth_ok_def by (metis list.set_intros(1))
  have "Max (insert b (wf_dag.chain_length ir ` set (q # qs))) =
      Max (insert (max b (wf_dag.chain_length ir q)) (wf_dag.chain_length ir ` set qs))"
    by (cases "qs = []") (simp_all add: max.assoc)
  moreover have "(if of_nat b < (of_nat (wf_dag.chain_length ir q) :: rat)
      then of_nat (wf_dag.chain_length ir q) else of_nat b) = (of_nat (max b (wf_dag.chain_length ir q)) :: rat)"
    by (simp add: max_def)
  ultimately show ?case using Cons.IH [OF c1(2)] Cons.prems(2) c1(1) by simp
qed

lemma depth_ok_all:
  assumes "dag_ir ir"
  shows "depth_ok ir n"
proof (induction n)
  case 0
  show ?case by (simp add: depth_ok_def)
next
  case (Suc n)
  have "\<exists>c'. depth (Suc n) (parents_of ir) sid c = Inr (of_nat (wf_dag.chain_length ir sid), c') \<and> cache_ok ir c'"
    if fuel: "wf_dag.chain_length ir sid < Suc n" and c: "cache_ok ir c" for sid c
  proof (cases "map_of c sid")
    case (Some v)
    with c show ?thesis by (auto simp: cache_ok_def)
  next
    case None
    note ps = set_parents_of [OF assms, of sid]
    show ?thesis
    proof (cases "adj_get (parents_of ir) sid")
      case Nil
      with ps wf_dag.chain_length_root [of sid ir] have "wf_dag.chain_length ir sid = 0" by auto
      with None Nil c cache_ok_aset [OF c, of sid] show ?thesis by simp
    next
      case (Cons p rest)
      have below: "wf_dag.chain_length ir q < n" if "q \<in> set (p # rest)" for q
      proof -
        from that ps Cons have "(q, sid) \<in> dag_rel ir" by auto
        from wf_dag.chain_length_edge [OF this] fuel show ?thesis by simp
      qed
      from Suc below [of p] c obtain c1 where
        c1: "depth n (parents_of ir) p c = Inr (of_nat (wf_dag.chain_length ir p), c1)" "cache_ok ir c1"
        unfolding depth_ok_def by (metis list.set_intros(1))
      from max_depth_ok [OF Suc c1(2), of rest "wf_dag.chain_length ir p"] below obtain c2 where
        c2: "max_depth n (parents_of ir) rest (of_nat (wf_dag.chain_length ir p)) c1 =
          Inr (of_nat (Max (wf_dag.chain_length ir ` set (p # rest))), c2)" "cache_ok ir c2"
        by auto
      have len: "wf_dag.chain_length ir sid = Suc (Max (wf_dag.chain_length ir ` set (p # rest)))"
        using wf_dag.chain_length_Max [of sid ir] ps Cons by auto
      have "1 + of_nat (Max (wf_dag.chain_length ir ` set (p # rest))) =
          (of_nat (wf_dag.chain_length ir sid) :: rat)" using len by simp
      with None Cons c1 c2 cache_ok_aset [OF c2(2), of sid] show ?thesis by simp
    qed
  qed
  then show ?case by (simp add: depth_ok_def)
qed

lemma depths_ok:
  assumes "dag_ir ir" and "cache_ok ir c" and "\<forall>sid \<in> set ids. wf_dag.chain_length ir sid < n"
  shows "depths n (parents_of ir) ids c = Inr (map (\<lambda>sid. (sid, of_nat (wf_dag.chain_length ir sid))) ids)"
  using assms(2,3)
proof (induction ids arbitrary: c)
  case Nil
  then show ?case by simp
next
  case (Cons i ids)
  with depth_ok_all [OF assms(1), of n] obtain c' where
    "depth n (parents_of ir) i c = Inr (of_nat (wf_dag.chain_length ir i), c')" "cache_ok ir c'"
    unfolding depth_ok_def by (metis list.set_intros(1))
  with Cons show ?case by simp
qed

lemma chain_below_steps:
  assumes "dag_ir ir" and "sid \<in> ir_ids ir"
  shows "wf_dag.chain_length ir sid < length (steps ir)"
proof -
  have "wf_dag.chain_length ir sid < card (ir_ids ir)"
    using assms by (intro wf_dag.chain_length_bound) (auto simp: dag_rel_def dag_ir_def ir_ids_def)
  also have "\<dots> \<le> length (steps ir)" unfolding ir_ids_def using card_image_le card_length le_trans by blast
  finally show ?thesis .
qed

lemma dependency_depths_exact:
  assumes "dag_ir ir" and "length (steps ir) \<le> n"
  shows "\<exists>ds. dependency_depths n ir = Inr ds \<and>
    (\<forall>sid. map_of ds sid = (if sid \<in> ir_ids ir then Some (of_nat (longest_chain ir sid)) else None))"
proof -
  have "\<forall>sid \<in> set (map step_id (steps ir)). wf_dag.chain_length ir sid < n"
    using chain_below_steps [OF assms(1)] assms(2) by (fastforce simp: ir_ids_def)
  from depths_ok [OF assms(1) _ this, of "[]"] have "dependency_depths n ir =
      Inr (aupdate [] (map (\<lambda>sid. (sid, of_nat (longest_chain ir sid))) (map step_id (steps ir))))"
    by (simp add: dependency_depths_def cache_ok_def longest_chain_dag [OF assms(1)])
  moreover have "map_of (rev (map (\<lambda>sid. (sid, f sid)) ids)) sid = (if sid \<in> set ids then Some (f sid) else None)"
    for f :: "string \<Rightarrow> rat" and ids sid
    by (induction ids rule: rev_induct) (auto simp: rev_map)
  ultimately show ?thesis by (auto simp: map_of_aupdate ir_ids_def simp del: map_map)
qed

section \<open>The effective compute budget\<close>

text \<open>The valid budgets of a step and of its workflow, and the smaller of those there are.\<close>

definition budget_of :: "pyval \<Rightarrow> rat option" where
  "budget_of v = (case v of
     PInt i \<Rightarrow> if i = 1 then Some 1 else None
   | PFloat (Fin q) \<Rightarrow> if 0 < q \<and> q \<le> 1 then Some q else None
   | _ \<Rightarrow> None)"

lemma valid_budget_exact:
  assumes "\<And>i. v = PInt i \<Longrightarrow> \<not> isl (float_of_int i)"
  shows "valid_budget rt v = Inr (map_option Fin (budget_of v))"
proof (cases v)
  case (PInt i)
  with assms obtain f where f: "float_of_int i = Inr f" by (metis sum.collapse(2))
  from float_of_int_Fin [OF f] obtain q where q: "f = Fin q" "q \<le> 0 \<longleftrightarrow> i \<le> 0" "q \<le> 1 \<longleftrightarrow> i \<le> 1" by blast
  have "q = 1" if "i = 1" using f q(1) that by (simp add: float_of_int_def float_of_nat_def Let_def)
  with q show ?thesis
    by (auto simp: PInt valid_budget_def is_valid_compute_budget_def py_float_def f budget_of_def float_le_def)
next
  case (PFloat f)
  then show ?thesis
    by (cases f) (auto simp: valid_budget_def is_valid_compute_budget_def budget_of_def float_le_def)
qed (auto simp: valid_budget_def is_valid_compute_budget_def budget_of_def)

definition workflow_budget :: "WorkflowIR \<Rightarrow> pyval" where
  "workflow_budget ir = (case metadata ir of None \<Rightarrow> PNone | Some m \<Rightarrow> dget_none m ''compute_budget'')"

lemma effective_budget_exact:
  assumes "\<And>i. workflow_budget ir = PInt i \<Longrightarrow> \<not> isl (float_of_int i)"
  shows "resolve_effective_compute_budget rt ir step =
    Inr (case (budget_of (opt_val PFloat (compute_budget step)), budget_of (workflow_budget ir)) of
           (None, None) \<Rightarrow> None
         | (Some s, None) \<Rightarrow> Some (Fin s, ''step'')
         | (None, Some w) \<Rightarrow> Some (Fin w, ''workflow'')
         | (Some s, Some w) \<Rightarrow> Some (Fin (min s w), if s \<le> w then ''step'' else ''workflow''))"
proof -
  have "valid_budget rt (opt_val PFloat (compute_budget step)) =
      Inr (map_option Fin (budget_of (opt_val PFloat (compute_budget step))))"
    by (rule valid_budget_exact) (cases "compute_budget step"; simp add: opt_val_def)
  with valid_budget_exact [OF assms, where rt = rt] show ?thesis
    by (auto simp: resolve_effective_compute_budget_def workflow_budget_def Let_def float_le_def
        split: option.splits)
qed

section \<open>Properties\<close>

text \<open>The scheduler offers exactly the right steps: those not completed and not active whose
  dependencies are all completed. For a compiled workflow it always offers one while steps are missing
  and none of the missing ones is active, so an execution with nothing in flight can go on.\<close>

theorem runnable_steps_exact:
  assumes "compile rt safe_load schema_file limit src version = Inr ir"
  shows "set (runnable_steps ir st) =
      {s \<in> set (steps ir). step_id s \<notin> set (st_completed_step_ids st) \<and>
         step_id s \<notin> set (st_active_step_ids st) \<and>
         deps_of ir (step_id s) \<subseteq> set (st_completed_step_ids st)} \<and>
    (\<not> ir_ids ir \<subseteq> set (st_completed_step_ids st) \<longrightarrow>
     set (st_active_step_ids st) \<subseteq> set (st_completed_step_ids st) \<longrightarrow> runnable_steps ir st \<noteq> [])"
  using runnable_progress [OF compile_dag(1) [OF assms], of st] by (auto simp: set_runnable)

definition fetched_state :: ExecutionStateResponse where
  "fetched_state =
     \<lparr>st_execution_id = ''e'', st_status = ES_running, st_completed_step_ids = [''fetch''],
      st_active_step_ids = [], st_pending_step_ids = [''score''], st_step_results = [],
      st_last_event_sequence = 3, st_workflow_version_id = PNone\<rparr>"

theorem runnable_steps_exact_witness:
  "set (runnable_steps sample_ir fetched_state) =
      {s \<in> set (steps sample_ir). step_id s \<notin> set (st_completed_step_ids fetched_state) \<and>
         step_id s \<notin> set (st_active_step_ids fetched_state) \<and>
         deps_of sample_ir (step_id s) \<subseteq> set (st_completed_step_ids fetched_state)} \<and>
   runnable_steps sample_ir fetched_state \<noteq> []"
proof -
  have "map step_id (steps sample_ir) = [''fetch'', ''score'']" by code_simp
  then have "\<not> ir_ids sample_ir \<subseteq> set (st_completed_step_ids fetched_state)"
    by (auto simp: ir_ids_def fetched_state_def)
  moreover have "set (st_active_step_ids fetched_state) \<subseteq> set (st_completed_step_ids fetched_state)"
    by (simp add: fetched_state_def)
  ultimately show ?thesis using runnable_steps_exact [OF sample_compiles, of fetched_state] by blast
qed

text \<open>C23. The memoised recursive depth computation returns, for every step of an acyclic workflow, the
  length of the longest dependency chain that ends in it, and it needs no more nested calls than the
  workflow has steps.\<close>

theorem dependency_depths_longest_chain:
  assumes "dag_ir ir" and "length (steps ir) \<le> limit"
  shows "\<exists>ds. dependency_depths limit ir = Inr ds \<and>
    (\<forall>sid. map_of ds sid =
       (if sid \<in> ir_ids ir then Some (of_nat (Max {n. \<exists>a. (a, sid) \<in> set (dag_edges ir) ^^ n})) else None))"
  using dependency_depths_exact [OF assms] unfolding longest_chain_def .

theorem dependency_depths_longest_chain_witness:
  "\<exists>ds. dependency_depths 2 sample_ir = Inr ds \<and>
    (\<forall>sid. map_of ds sid = (if sid \<in> ir_ids sample_ir
       then Some (of_nat (Max {n. \<exists>a. (a, sid) \<in> set (dag_edges sample_ir) ^^ n})) else None))"
proof (rule dependency_depths_longest_chain)
  show "dag_ir sample_ir" by (rule compile_dag(1) [OF sample_compiles])
  have "length (steps sample_ir) = 2" by code_simp
  then show "length (steps sample_ir) \<le> 2" by simp
qed

text \<open>The effective compute budget is the smaller of the valid budgets of the step and of the
  workflow, with the scope it came from; a budget is valid when it is a number in (0, 1], and with no
  valid budget there is none.\<close>

theorem effective_budget_is_minimum:
  assumes "\<And>i. workflow_budget ir = PInt i \<Longrightarrow> \<bar>i\<bar> < 2 ^ 53"
  shows "resolve_effective_compute_budget rt ir step =
    Inr (case (budget_of (opt_val PFloat (compute_budget step)), budget_of (workflow_budget ir)) of
           (None, None) \<Rightarrow> None
         | (Some s, None) \<Rightarrow> Some (Fin s, ''step'')
         | (None, Some w) \<Rightarrow> Some (Fin w, ''workflow'')
         | (Some s, Some w) \<Rightarrow> Some (Fin (min s w), if s \<le> w then ''step'' else ''workflow''))"
proof (rule effective_budget_exact)
  fix i assume "workflow_budget ir = PInt i"
  then have i: "nat \<bar>i\<bar> \<le> 2 ^ 53" using assms [of i] by simp
  have "(2::nat) ^ 53 < 2 ^ 1024" by (rule power_strict_increasing) simp_all
  with i have "\<not> 2 ^ 1024 \<le> nat \<bar>i\<bar>" by linarith
  then show "\<not> isl (float_of_int i)"
    unfolding float_of_int_def float_of_nat_small [OF i] Let_def by simp
qed

theorem effective_budget_is_minimum_witness:
  "resolve_effective_compute_budget plain_runtime
     (sample_ir\<lparr>metadata := Some [(PStr ''compute_budget'', PFloat (Fin (1 / 2)))]\<rparr>)
     (hd (steps sample_ir)\<lparr>compute_budget := Some (Fin (1 / 4))\<rparr>) = Inr (Some (Fin (1 / 4), ''step''))"
  by (subst effective_budget_is_minimum)
    (simp_all add: workflow_budget_def dget_none_def dget_or_def dget_def budget_of_def opt_val_def)

end
