(* ===== verification/Execution_System.thy ===== *)
theory Execution_System
  imports Execution_Scheduler Execution_Scheduling_Props "HOL-Library.Sublist"
begin

text \<open>
  The execution engine as a whole: every operation of the service, of the checkpoint service and of
  the scheduler, in any order. The locale \<open>world_invariant\<close> says what it takes for a property of
  the store to survive all of them: it must not depend on other tables, survive an appended event, a
  dropped cache entry, a lease, a checkpoint of a state that was read from the store and the launch of a
  runtime with a contract free of secrets. The locale proves it for each operation once; it is
  interpreted on the store invariant, on the journal being append-only and on the launches.
\<close>

section \<open>What an invariant has to survive\<close>

text \<open>A contract whose task plan has no secret in it, and a plan that passed the preflight.\<close>

definition safe_contract :: "pydict \<Rightarrow> bool" where
  "safe_contract contract \<longleftrightarrow>
     (\<exists>text. dget contract ''task_plan_json'' = Some (PStr text) \<and> first_secret text = None)"

definition clean_plan :: "py_runtime \<Rightarrow> pydict \<Rightarrow> bool" where
  "clean_plan rt plan \<longleftrightarrow> (\<exists>text. json_dumps rt (PDict plan) = Inr text \<and> first_secret text = None)"

lemma contract_of_clean_plan:
  "runtime_contract_payload pf e step plan budget = Inr contract \<Longrightarrow> clean_plan (pf_runtime pf) plan \<Longrightarrow>
   safe_contract contract"
  by (auto simp: runtime_contract_payload_def rbind_eq_Inr Let_def clean_plan_def safe_contract_def dget_def)

locale world_invariant =
  fixes pf :: platform and I :: "(uuid \<times> ExecutionStateResponse) set \<Rightarrow> world \<Rightarrow> bool"
  assumes untouched: "I S w \<Longrightarrow> events w' = events w \<Longrightarrow> checkpoints w' = checkpoints w \<Longrightarrow>
      redis w' = redis w \<Longrightarrow> launches w' = launches w \<Longrightarrow> I S w'"
    and keeps_launch_call: "safe_contract contract \<Longrightarrow> keeps (I S) (call_service pf (LaunchRuntime contract))"
    and keeps_append: "keeps (I S) (append_event pf e t sid ag payload)"
    and keeps_delete: "keeps (I S) (redis_delete key)"
    and keeps_token: "keeps (I S) (redis_set_nx pf key (RToken tok) ttl)"
    and keeps_superseded: "keeps (I S) (mark_superseded_after eid n)"
    and drop_checkpoints: "I S w \<Longrightarrow> I S (w\<lparr>checkpoints := filter P (checkpoints w)\<rparr>)"
    and read_state: "spec (I S) (\<lambda>_. True) (get_execution_state pf eid)
        (\<lambda>st. I (insert (eid, st) S))"
    and forget: "I (insert x S) w \<Longrightarrow> I S w"
    and keeps_capture: "(eid, st) \<in> S \<Longrightarrow> keeps (I S) (capture pf eid st policy)"
    and keeps_periodic: "(eid, st) \<in> S \<Longrightarrow> keeps (I S) (periodic_checkpoint pf eid st)"
begin

lemma keeps_untouched: "store_frame m \<Longrightarrow> keeps (I S) m"
  by (auto simp: store_frame_def spec_def intro: untouched)

lemma keeps_call: "\<not> is_launch c \<Longrightarrow> keeps (I S) (call_service pf c)"
  by (rule keeps_untouched [OF frame_services(1)])

lemmas keeps_tables = frame_basic [THEN keeps_untouched] frame_services(2) [THEN keeps_untouched]
  frame_executions [THEN keeps_untouched] frame_queries [THEN keeps_untouched]
  frame_triggers [THEN keeps_untouched] frame_leases [THEN keeps_untouched]
  frame_waits [THEN keeps_untouched] frame_upserts [THEN keeps_untouched]
  frame_workflows [THEN keeps_untouched] frame_service [THEN keeps_untouched]
  frame_rollback_action [THEN keeps_untouched] frame_redis_get [THEN keeps_untouched]
  frame_dispatch_cycle [THEN keeps_untouched]

lemma keeps_read_state: "keeps (I S) (get_execution_state pf eid)"
  using read_state by (rule keeps_spec)

lemma keeps_bind_state:
  assumes "\<And>st. keeps (I (insert (eid, st) S)) (f st)"
  shows "keeps (I S) (ebind (get_execution_state pf eid) f)"
proof (rule specI)
  fix w assume I: "I S w"
  obtain r w1 where g: "get_execution_state pf eid w = (r, w1)" by fastforce
  show "I S (snd (ebind (get_execution_state pf eid) f w))"
  proof (cases r)
    case (Inl x)
    with g I spec_inv [OF keeps_read_state, of S w eid] show ?thesis by (simp add: run_ebind)
  next
    case (Inr st)
    with g specD [OF read_state I, of eid st w1] have "I (insert (eid, st) S) w1" by auto
    with assms have "I (insert (eid, st) S) (snd (f st w1))" by (auto intro: spec_inv)
    with g Inr show ?thesis by (simp add: run_ebind forget)
  qed
qed simp

lemma keeps_invalidate: "keeps (I S) (invalidate_state_cache eid)"
  unfolding invalidate_state_cache_def by (rule keeps_delete)

lemma keeps_domain_event: "keeps (I S) (append_domain_event pf eid t sid ag payload)"
  unfolding append_domain_event_def
  by (intro keeps_ebind keeps_append keeps_invalidate keeps_tables)

lemma keeps_prod: "(\<And>a b. keeps (I S) (f a b)) \<Longrightarrow> keeps (I S) (case p of (a, b) \<Rightarrow> f a b)"
  by (cases p) simp

lemmas keeps_steps = keeps_append keeps_delete keeps_token keeps_superseded keeps_invalidate
  keeps_domain_event keeps_tables

section \<open>The service\<close>

lemma keeps_create_execution:
  "keeps (I S) (create_execution pf data created_by parent rerun_of pre results)"
  unfolding create_execution_def Let_def
  by (intro keeps_ebind keeps_option keeps_prod keeps_ewhen keeps_steps)

lemma keeps_replay: "keeps (I S) (replay_execution pf eid)"
  unfolding replay_execution_def by (intro keeps_ebind keeps_steps)

lemma keeps_rollback: "keeps (I S) (rollback pf eid n initiated_by reason)"
  unfolding rollback_def rollback_apply_def rollback_quarantine_def
  by (intro keeps_ebind keeps_option keeps_ecatch keeps_steps)
    (rule keeps_emod, erule untouched, simp_all add: launches_def)

lemma keeps_gc: "keeps (I S) (gc_expired pf days)"
  unfolding gc_expired_def
  by (intro keeps_ebind keeps_steps) (auto intro!: keeps_emod drop_checkpoints)

lemma keeps_cancel: "keeps (I S) (cancel_execution pf eid)"
  unfolding cancel_execution_def by (intro keeps_ebind keeps_steps)

lemma keeps_pause: "keeps (I S) (pause_execution eid)"
  unfolding pause_execution_def by (intro keeps_ebind keeps_steps)

lemma keeps_resume: "keeps (I S) (resume_execution pf eid)"
  unfolding resume_execution_def
  by (intro keeps_ebind keeps_create_execution keeps_replay keeps_steps)

lemma keeps_resume_quota: "keeps (I S) (resume_paused_quota_exceeded pf ws)"
  unfolding resume_paused_quota_exceeded_def
  by (intro keeps_ebind keeps_prod keeps_efor keeps_steps)

lemma keeps_rerun: "keeps (I S) (rerun_execution pf eid overrides)"
  unfolding rerun_execution_def by (intro keeps_ebind keeps_create_execution keeps_steps)

lemma keeps_rollback_execution: "keeps (I S) (rollback_execution pf eid n ib reason authorized)"
  unfolding rollback_execution_def by (intro keeps_ebind keeps_rollback keeps_steps)

lemma keeps_validate_hot_change: "keeps (I S) (validate_hot_change pf eid vid)"
  unfolding validate_hot_change_def
  by (intro keeps_ebind keeps_option keeps_read_state keeps_steps)

lemma keeps_hot_change: "keeps (I S) (apply_hot_change pf eid vid)"
  unfolding apply_hot_change_def by (intro keeps_ebind keeps_validate_hot_change keeps_steps)

lemma keeps_approvals: "keeps (I S) (record_approval_decision pf eid sid d comment decided_by)"
  unfolding record_approval_decision_def Let_def
  by (intro keeps_ebind keeps_option keeps_ewhen keeps_steps)

lemma keeps_compensation: "keeps (I S) (trigger_compensation pf eid sid origin)"
  unfolding trigger_compensation_def Let_def
  by (intro keeps_ebind keeps_option keeps_read_state keeps_steps)

lemma keeps_cost: "keeps (I S) (record_cost_attribution pf e sid payload)"
  unfolding record_cost_attribution_def
  by (intro keeps_if keeps_ecatch keeps_ebind keeps_call keeps_steps) simp

lemma keeps_runtime_event: "keeps (I S) (record_runtime_event pf eid sid t payload status)"
  unfolding record_runtime_event_def
  by (intro keeps_ebind keeps_option keeps_cost keeps_steps)

lemma keeps_publish_reprioritization:
  "keeps (I S) (publish_reprioritization pf e reason affected tid tn qo)"
  unfolding publish_reprioritization_def by (intro keeps_ebind keeps_steps)

section \<open>The scheduler\<close>

lemmas keeps_engine = keeps_runtime_event keeps_publish_reprioritization keeps_steps

lemma keeps_preflight: "keeps (I S) (prompt_secret_preflight pf payload e step)"
  unfolding prompt_secret_preflight_def correlation_context_def
  by (intro keeps_ebind keeps_option keeps_call keeps_engine) simp

lemma spec_preflight:
  "spec (I S) (\<lambda>_. True) (prompt_secret_preflight pf payload e step) (\<lambda>_ _. clean_plan (pf_runtime pf) payload)"
proof (rule specI)
  show "I S (snd (prompt_secret_preflight pf payload e step w))" if "I S w" for w
    using spec_inv [OF keeps_preflight that] by simp
  show "clean_plan (pf_runtime pf) payload" if "prompt_secret_preflight pf payload e step w = (Inr u, w')" for w u w'
    using that by (auto simp: prompt_secret_preflight_def run_ebind run_simps clean_plan_def
        split: sum.splits option.splits prod.splits)
qed

lemma keeps_build_plan: "keeps (I S) (build_task_plan_payload pf e step)"
  unfolding build_task_plan_payload_def Let_def
  by (intro keeps_ebind keeps_option keeps_preflight keeps_engine)

lemma spec_build_plan:
  "spec (I S) (\<lambda>_. True) (build_task_plan_payload pf e step) (\<lambda>plan _. clean_plan (pf_runtime pf) plan)"
  unfolding build_task_plan_payload_def Let_def
  by (rule spec_ebind [where R = "\<lambda>_ _. True"], intro keeps_option keeps_ebind keeps_engine,
      rule spec_ebind [OF spec_preflight]) (simp add: spec_eret)

lemma spec_persist_plan:
  "spec (I S) (\<lambda>_. True) (persist_task_plan pf e step) (\<lambda>plan _. clean_plan (pf_runtime pf) plan)"
  unfolding persist_task_plan_def Let_def
  by (rule spec_ebind_post [OF spec_build_plan],
      intro spec_keeps_ebind spec_eret keeps_ebind keeps_ecatch keeps_call keeps_engine) simp_all

lemma keeps_acquire: "keeps (I S) (acquire_lease pf eid sid)"
  unfolding acquire_lease_def by (intro keeps_ebind keeps_if keeps_engine)

lemma keeps_release_active: "keeps (I S) (release_active_lease pf eid sid)"
  unfolding release_active_lease_def by (intro keeps_ebind keeps_option keeps_engine)

lemma keeps_release_step: "keeps (I S) (release_step_dispatch_lease pf eid sid)"
  unfolding release_step_dispatch_lease_def by (intro keeps_ebind keeps_release_active keeps_engine)

lemma keeps_retryable: "keeps (I S) (collect_retryable_steps pf eid ir st)"
  unfolding collect_retryable_steps_def retry_step_def
  by (intro keeps_if keeps_ebind keeps_emap keeps_option keeps_engine)

lemma keeps_pre_dispatch:
  "(eid, st) \<in> S \<Longrightarrow> keeps (I S) (capture_pre_dispatch_checkpoint pf eid step st)"
  unfolding capture_pre_dispatch_checkpoint_def Let_def
  by (intro keeps_if keeps_ebind keeps_ecatch keeps_capture keeps_engine; assumption)

lemma keeps_maybe_checkpoint: "keeps (I S) (maybe_checkpoint pf eid)"
  unfolding maybe_checkpoint_def
  by (rule keeps_ebind [OF keeps_untouched [OF frame_queries(1)]], rule keeps_if [OF _ keeps_bind_state])
    (auto intro!: keeps_ebind keeps_periodic keeps_engine)

lemma keeps_approval_gate: "keeps (I S) (handle_approval_gate pf eid step)"
  unfolding handle_approval_gate_def
  by (intro keeps_ebind keeps_option keeps_ewhen keeps_call keeps_engine) simp

lemma keeps_timeouts: "keeps (I S) (scan_approval_timeouts pf)"
  unfolding scan_approval_timeouts_def time_out_wait_def Let_def
  by (intro keeps_ebind keeps_efor keeps_option keeps_engine)

lemma keeps_simulate: "keeps (I S) (simulate_e2e_runtime_completion pf e step plan budget)"
  unfolding simulate_e2e_runtime_completion_def generate_e2e_agent_response_def
    publish_e2e_reasoning_event_def append_e2e_agent_message_def correlation_context_def Let_def
  by (intro keeps_ebind keeps_if keeps_release_step keeps_call keeps_engine) simp_all

lemma keeps_launch: "safe_contract contract \<Longrightarrow> keeps (I S) (launch_or_dispatch pf contract payload)"
  unfolding launch_or_dispatch_def Let_def
  by (intro keeps_if keeps_ecatch keeps_launch_call keeps_call keeps_engine) simp_all

lemma keeps_dispatch:
  assumes "\<And>p. plan = Some p \<Longrightarrow> clean_plan (pf_runtime pf) p"
  shows "keeps (I S) (dispatch_to_runtime pf eid ir step plan)"
proof -
  have plan: "spec (I S) (\<lambda>_. True)
      (case plan of None \<Rightarrow> build_task_plan_payload pf e step | Some p \<Rightarrow> eret p)
      (\<lambda>p _. clean_plan (pf_runtime pf) p)" for e
    using assms by (intro spec_option spec_build_plan spec_eret) auto
  have contract: "spec (I S) (\<lambda>_. True) (elift r) (\<lambda>x _. r = Inr x)" for r :: "pydict py"
    by (rule spec_elift)
  have launch: "keeps (I S) (ebind (elift (runtime_contract_payload pf e step p budget)) (\<lambda>contract.
      launch_or_dispatch pf contract (runtime_payload e step budget)))" if "clean_plan (pf_runtime pf) p" for e p budget
    using that by (intro spec_ebind_post [OF contract] keeps_launch) (rule contract_of_clean_plan)
  show ?thesis
    unfolding dispatch_to_runtime_def
    by (rule keeps_ebind [OF keeps_untouched [OF frame_exec_ref]],
        rule keeps_ebind [OF keeps_untouched [OF frame_basic(3)]], rule spec_ebind_post [OF plan],
        rule keeps_if [OF keeps_simulate], rule launch)
qed

lemma keeps_load_plan: "keeps (I S) (load_plan pf e)"
  unfolding load_plan_def by (intro keeps_ebind keeps_engine)

lemma keeps_trigger: "keeps (I S) (handle_reprioritization_trigger pf reason eid)"
  unfolding handle_reprioritization_trigger_def Let_def
  by (intro keeps_ebind keeps_option keeps_read_state keeps_load_plan keeps_engine)

lemma keeps_emit: "keeps (I S) (emit_queue_reprioritization pf result)"
  unfolding emit_queue_reprioritization_def emit_firing_def Let_def
  by (intro keeps_efor keeps_option keeps_ebind keeps_engine)

lemma keeps_check_sla: "keeps (I S) (check_sla pf e)"
  unfolding check_sla_def Let_def
  by (intro keeps_option keeps_ebind keeps_ewhen keeps_trigger keeps_engine)

lemma keeps_complete: "keeps (I S) (complete_if_done pf eid ir st)"
  unfolding complete_if_done_def by (intro keeps_ebind keeps_if keeps_engine)

lemma keeps_score: "keeps (I S) (score_steps pf eid depth_map candidates)"
  unfolding score_steps_def by (intro keeps_ebind keeps_emap keeps_engine)

lemma keeps_block: "keeps (I S) (block_dispatch pf eid step secret_type)"
  unfolding block_dispatch_def by (intro keeps_ebind keeps_release_active keeps_engine)

lemma keeps_start:
  "clean_plan (pf_runtime pf) plan \<Longrightarrow> keeps (I S) (start_step pf eid ir retry step plan)"
  unfolding start_step_def
  by (intro keeps_ebind keeps_option keeps_dispatch keeps_maybe_checkpoint keeps_engine) simp

text \<open>The outcome of planning a dispatch: a plan that passed the preflight, or the execution was
  failed.\<close>

lemma spec_plan_or_block:
  "spec (I S) (\<lambda>_. True)
     (ecatch (ebind (persist_task_plan pf e step) (\<lambda>plan. eret (Some plan)))
        (\<lambda>exc. case leaked_type exc of None \<Rightarrow> eraise exc
           | Some secret_type \<Rightarrow> ebind (block_dispatch pf eid step secret_type) (\<lambda>_. eret None)))
     (\<lambda>r _. \<forall>plan. r = Some plan \<longrightarrow> clean_plan (pf_runtime pf) plan)"
  by (intro spec_ecatch spec_ebind_post [OF spec_persist_plan] spec_option spec_eraise spec_eret
      spec_keeps_ebind [OF keeps_block]) auto

lemma keeps_dispatch_step:
  "(eid, st) \<in> S \<Longrightarrow> keeps (I S) (dispatch_step pf eid ir st retry step)"
  unfolding dispatch_step_def
  by (intro keeps_ebind [OF keeps_pre_dispatch] keeps_if keeps_ebind [OF keeps_approval_gate]
      keeps_ebind [OF keeps_acquire] keeps_ebind [OF keeps_untouched [OF frame_exec_ref]]
      spec_ebind_post [OF spec_plan_or_block] keeps_option keeps_ebind [OF keeps_start] keeps_engine) auto

lemma keeps_dispatch_all:
  assumes "(eid, st) \<in> S"
  shows "keeps (I S) (ebind (check_sla pf e) (\<lambda>_.
    ebind (collect_retryable_steps pf eid ir st) (\<lambda>retryable.
    let candidates = combine_steps (runnable_steps ir st) retryable in
    if candidates = [] then complete_if_done pf eid ir st
    else
      ebind (elift (dependency_depths (recursion_depth pf) ir)) (\<lambda>depths.
      ebind (score_steps pf eid depths candidates) (\<lambda>scored.
      efor_until (dispatch_step pf eid ir st (step_id ` set retryable)) scored)))))"
  unfolding Let_def
  by (intro keeps_ebind keeps_if keeps_efor_until keeps_check_sla keeps_retryable keeps_complete
      keeps_score keeps_dispatch_step assms keeps_engine)

text \<open>The state the loop works with was read from the store: before the first event was added to
  the journal, or after.\<close>

lemma keeps_bind_enter_queue:
  assumes "(eid, st0) \<in> S"
    and k: "\<And>st S. (eid, st) \<in> S \<Longrightarrow> keeps (I S) (k st)"
  shows "keeps (I S) (ebind (enter_queue pf eid st0) k)"
proof -
  have stay: "keeps (I S) (ebind (eret st0) k)"
    using k [OF assms(1)] by (simp add: ebind_def eret_def)
  have again: "keeps (I S) (ebind (ebind (record_runtime_event pf eid None EV_queued [] None)
      (\<lambda>_. get_execution_state pf eid)) k)"
    unfolding ebind_assoc by (intro keeps_ebind [OF keeps_runtime_event] keeps_bind_state k) auto
  show ?thesis
    unfolding enter_queue_def ebind_assoc
    by (rule keeps_ebind [OF keeps_untouched [OF frame_queries(2)]]) (auto simp: stay again split: list.split)
qed

lemma keeps_process: "keeps (I S) (process_execution pf eid)"
  unfolding process_execution_def
  by (intro keeps_bind_state keeps_ebind [OF keeps_untouched [OF frame_exec_ref]] keeps_ebind [OF keeps_load_plan]
      keeps_bind_enter_queue keeps_dispatch_all) auto

lemma keeps_tick: "keeps (I S) (tick pf)"
  unfolding tick_def order_queued_def reorder_workspace_def Let_def
  by (intro keeps_ebind keeps_efor keeps_if keeps_emap keeps_ewhen keeps_emit keeps_process keeps_engine)

end

section \<open>The invariants\<close>

text \<open>The states read from the store and still held stay projections of a prefix of the journal.\<close>

definition held_ok :: "platform \<Rightarrow> (uuid \<times> ExecutionStateResponse) set \<Rightarrow> world \<Rightarrow> bool" where
  "held_ok pf S w \<longleftrightarrow>
     (codec_ok pf \<longrightarrow> store_ok (pf_runtime pf) w \<and>
        (\<forall>(eid, st) \<in> S. st_execution_id st = eid \<and> state_at (pf_runtime pf) (events_of w eid) st))"

lemma prefix_events_of: "prefix (events w) (events w') \<Longrightarrow> prefix (events_of w eid) (events_of w' eid)"
  unfolding events_of_def prefix_def by auto

lemma state_at_prefix: "state_at rt evs st \<Longrightarrow> prefix evs evs' \<Longrightarrow> state_at rt evs' st"
  by (auto simp: prefix_def state_at_append)

lemma held_spec:
  assumes st: "codec_ok pf \<Longrightarrow> spec (store_ok (pf_runtime pf)) P m (\<lambda>_ _. True)"
    and P: "\<And>w. codec_ok pf \<Longrightarrow> held_ok pf S w \<Longrightarrow> P w"
    and ap: "\<And>j. keeps (\<lambda>w. prefix j (events w)) m"
  shows "keeps (held_ok pf S) m"
proof (rule specI)
  fix w assume h: "held_ok pf S w"
  show "held_ok pf S (snd (m w))"
  proof (cases "codec_ok pf")
    case True
    with h st P have "store_ok (pf_runtime pf) (snd (m w))" by (auto simp: held_ok_def dest: spec_inv)
    moreover have "prefix (events w) (events (snd (m w)))"
      using spec_inv [OF ap, of "events w" w] by simp
    ultimately show ?thesis
      using h by (auto simp: held_ok_def intro: state_at_prefix prefix_events_of)
  qed (simp add: held_ok_def)
qed simp

lemma keeps_same_events:
  assumes "\<And>w. events (snd (m w)) = events w"
  shows "keeps (\<lambda>w. prefix j (events w)) m"
  by (rule specI) (simp_all add: assms)

lemma keeps_prefix_frame: "store_frame m \<Longrightarrow> keeps (\<lambda>w. prefix j (events w)) m"
  by (rule keeps_same_events) (simp add: store_frame_def)

lemma prefix_append_event: "keeps (\<lambda>w. prefix j (events w)) (append_event pf e t sid ag payload)"
  by (rule specI)
    (auto simp: append_event_def run_ebind run_simps count_events_def fresh_uuid_def read_clock_def
      Let_def intro: prefix_prefix)

lemma prefix_launch: "keeps (\<lambda>w. prefix j (events w)) (call_service pf c)"
  by (rule keeps_same_events) (simp add: call_service_def split: option.splits)

lemma prefix_redis:
  "keeps (\<lambda>w. prefix j (events w)) (redis_delete key)"
  "keeps (\<lambda>w. prefix j (events w)) (redis_set pf key v ttl)"
  by (rule keeps_same_events, simp add: redis_delete_def redis_set_def run_ebind run_simps read_clock_def)+

lemma prefix_redis_nx: "keeps (\<lambda>w. prefix j (events w)) (redis_set_nx pf key v ttl)"
  unfolding redis_set_nx_def
  by (intro keeps_ebind keeps_option keeps_prefix_frame [OF frame_redis_get] prefix_redis keeps_basic)

lemma prefix_superseded: "keeps (\<lambda>w. prefix j (events w)) (mark_superseded_after eid n)"
  by (rule keeps_same_events) (simp add: mark_superseded_after_def run_simps)

lemma prefix_create_checkpoint: "keeps (\<lambda>w. prefix j (events w)) (create_checkpoint c)"
  by (rule keeps_same_events) (simp add: create_checkpoint_def)

lemma prefix_capture: "keeps (\<lambda>w. prefix j (events w)) (capture pf eid st policy)"
  unfolding capture_def
  by (intro keeps_ebind prefix_create_checkpoint frame_ops [THEN keeps_prefix_frame])

lemma prefix_periodic: "keeps (\<lambda>w. prefix j (events w)) (periodic_checkpoint pf eid st)"
  unfolding periodic_checkpoint_def
  by (intro keeps_ebind prefix_create_checkpoint frame_ops [THEN keeps_prefix_frame])

lemma prefix_read_state: "keeps (\<lambda>w. prefix j (events w)) (get_execution_state pf eid)"
  unfolding get_execution_state_def
  by (intro keeps_ebind keeps_option prefix_redis frame_load_state [THEN keeps_prefix_frame]
      frame_redis_get [THEN keeps_prefix_frame] frame_ops [THEN keeps_prefix_frame])
    (auto split: redis_val.split intro: keeps_basic)

lemma get_state_events: "events (snd (get_execution_state pf eid w)) = events w"
  by (auto simp: get_execution_state_def run_ebind run_simps redis_get_def redis_set_def read_clock_def
      load_state_def get_execution_or_raise_def get_execution_by_id_def get_latest_checkpoint_def
      get_events_def split: sum.splits option.splits redis_val.splits)

lemma prefix_read_state_spec:
  "spec (\<lambda>w. prefix j (events w)) (\<lambda>_. True) (get_execution_state pf eid) (\<lambda>_ w. prefix j (events w))"
  using prefix_read_state by (auto simp: spec_def)

interpretation ap: world_invariant pf "\<lambda>S w. prefix j (events w)" for pf j
  by unfold_locales
    (auto intro: prefix_launch prefix_append_event prefix_redis prefix_redis_nx prefix_superseded prefix_capture
      prefix_periodic prefix_read_state_spec)

lemma held_read_state:
  "spec (held_ok pf S) (\<lambda>_. True) (get_execution_state pf eid) (\<lambda>st. held_ok pf (insert (eid, st) S))"
proof (rule specI)
  show inv: "held_ok pf S (snd (get_execution_state pf eid w))" if "held_ok pf S w" for w
  proof -
    have "keeps (held_ok pf S) (get_execution_state pf eid)"
      by (rule held_spec [OF keeps_spec [OF spec_get_state]]) (auto intro: prefix_read_state)
    from spec_inv [OF this that] show ?thesis by simp
  qed
  fix w st w'
  assume h: "held_ok pf S w" and g: "get_execution_state pf eid w = (Inr st, w')"
  from inv [OF h] g have "held_ok pf S w'" by simp
  with h g specD [OF spec_get_state [of pf eid], of w st w'] show "held_ok pf (insert (eid, st) S) w'"
    by (auto simp: held_ok_def)
qed

lemma spec_periodic:
  "spec (store_ok rt) (\<lambda>w. st_execution_id st = eid \<and> state_at rt (events_of w eid) st)
     (periodic_checkpoint pf eid st) (\<lambda>_ _. True)"
proof -
  let ?xd = "py_dict (dget_or (st_step_results st) ''_execution_data'' (PDict []))"
  let ?R = "\<lambda>xd evs. ?xd = Inr xd \<and> st_execution_id st = eid \<and>
    state_at rt (filter (\<lambda>ev. ev_execution_id ev = eid) evs) st"
  show ?thesis
    unfolding periodic_checkpoint_def
  proof (rule spec_ebind [where R = "\<lambda>xd w. ?R xd (events w)"])
    show "spec (store_ok rt) (\<lambda>w. st_execution_id st = eid \<and> state_at rt (events_of w eid) st) (elift ?xd)
        (\<lambda>xd w. ?R xd (events w))"
      by (rule spec_elift) (simp add: events_of_def)
  next
    fix xd
    show "spec (store_ok rt) (\<lambda>w. ?R xd (events w)) (ebind (fresh_uuid pf) (\<lambda>cid. ebind (row_time pf) (\<lambda>t.
        create_checkpoint \<lparr>cp_id = cid, cp_execution_id = eid, cp_checkpoint_number = 1,
        cp_last_event_sequence = st_last_event_sequence st, cp_step_results = st_step_results st,
        cp_completed_step_ids = st_completed_step_ids st, cp_pending_step_ids = st_pending_step_ids st,
        cp_active_step_ids = st_active_step_ids st, cp_execution_data = xd, cp_current_context = [],
        cp_accumulated_costs = [], cp_superseded = False, cp_policy_snapshot = [], cp_created_at = t\<rparr>)))
        (\<lambda>_ _. True)"
      by (rule spec_ebind [OF spec_frame_events [where R = "?R xd", OF frame_basic(7)]],
          rule spec_ebind [OF spec_frame_events [where R = "?R xd", OF frame_basic(6)]],
          rule spec_weaken [OF spec_create_checkpoint], rule capture_faithful [where st = st and eid = eid])
        (simp_all add: events_of_def)
  qed
qed

lemma keeps_store_launch: "keeps (store_ok rt) (call_service pf c)"
  by (rule specI) (auto simp: call_service_def split: option.splits elim: store_ok_events_eq)

interpretation hd: world_invariant pf "held_ok pf" for pf
proof unfold_locales
  fix S and w w' :: world
  assume "held_ok pf S w" "events w' = events w" "checkpoints w' = checkpoints w" "redis w' = redis w"
  then show "held_ok pf S w'" by (auto simp: held_ok_def events_of_def intro: store_ok_events_eq)
next
  fix S w P assume "held_ok pf S w"
  then show "held_ok pf S (w\<lparr>checkpoints := filter P (checkpoints w)\<rparr>)"
    by (auto simp: held_ok_def events_of_def intro: store_ok_delete_checkpoints)
next
  fix S :: "(uuid \<times> ExecutionStateResponse) set" and eid st policy assume "(eid, st) \<in> S"
  then show "keeps (held_ok pf S) (capture pf eid st policy)"
    by (intro held_spec [OF spec_capture]) (auto simp: held_ok_def intro: prefix_capture)
next
  fix S :: "(uuid \<times> ExecutionStateResponse) set" and eid st assume "(eid, st) \<in> S"
  then show "keeps (held_ok pf S) (periodic_checkpoint pf eid st)"
    by (intro held_spec [OF spec_periodic]) (auto simp: held_ok_def intro: prefix_periodic)
next
  fix x S w assume "held_ok pf (insert x S) w"
  then show "held_ok pf S w" by (auto simp: held_ok_def)
qed (auto intro!: held_read_state held_spec [OF keeps_store_launch] prefix_launch held_spec [OF keeps_append_event] held_spec [OF keeps_redis_delete]
    held_spec [OF keeps_redis_set_nx] held_spec [OF keeps_mark_superseded] prefix_append_event
    prefix_redis prefix_redis_nx prefix_superseded)

section \<open>Launches\<close>

definition launches_safe :: "world \<Rightarrow> bool" where
  "launches_safe w \<longleftrightarrow> (\<forall>contract. LaunchRuntime contract \<in> set (calls w) \<longrightarrow> safe_contract contract)"

lemma launches_safe_eq: "launches w' = launches w \<Longrightarrow> launches_safe w' = launches_safe w"
proof -
  have "LaunchRuntime c \<in> set (calls v) \<longleftrightarrow> LaunchRuntime c \<in> set (launches v)" for c v
    by (simp add: launches_def)
  then show "launches w' = launches w \<Longrightarrow> ?thesis" by (simp add: launches_safe_def)
qed

lemma keeps_same_launches:
  assumes "\<And>w. launches (snd (m w)) = launches w"
  shows "keeps launches_safe m"
  by (rule specI) (simp_all add: launches_safe_eq [OF assms])

lemma keeps_launch_frame: "store_frame m \<Longrightarrow> keeps launches_safe m"
  by (rule keeps_same_launches) (simp add: store_frame_def)

lemma launches_primitive:
  "keeps launches_safe (append_event pf e t sid ag payload)"
  "keeps launches_safe (redis_delete key)" "keeps launches_safe (redis_set pf key v ttl)"
  "keeps launches_safe (mark_superseded_after eid n)" "keeps launches_safe (create_checkpoint cp)"
  by (rule keeps_same_launches, simp add: append_event_def redis_delete_def redis_set_def
      mark_superseded_after_def create_checkpoint_def run_ebind run_simps count_events_def fresh_uuid_def
      read_clock_def launches_def Let_def)+

lemma launches_redis_nx: "keeps launches_safe (redis_set_nx pf key v ttl)"
  unfolding redis_set_nx_def
  by (intro keeps_ebind keeps_option keeps_launch_frame [OF frame_redis_get] launches_primitive keeps_basic)

lemma launches_capture: "keeps launches_safe (capture pf eid st policy)"
  unfolding capture_def
  by (intro keeps_ebind launches_primitive keeps_basic frame_queries(4) [THEN keeps_launch_frame]
      frame_basic(6,7) [THEN keeps_launch_frame])

lemma launches_periodic: "keeps launches_safe (periodic_checkpoint pf eid st)"
  unfolding periodic_checkpoint_def
  by (intro keeps_ebind launches_primitive keeps_basic frame_basic(6,7) [THEN keeps_launch_frame])

lemma launches_read_state: "keeps launches_safe (get_execution_state pf eid)"
  unfolding get_execution_state_def
  by (intro keeps_ebind keeps_option launches_primitive frame_load_state [THEN keeps_launch_frame]
      frame_redis_get [THEN keeps_launch_frame] keeps_basic)
    (auto split: redis_val.split intro: keeps_basic)

lemma launches_call: "safe_contract contract \<Longrightarrow> keeps launches_safe (call_service pf (LaunchRuntime contract))"
  by (rule specI) (auto simp: call_service_def launches_safe_def split: option.splits)

interpretation ln: world_invariant pf "\<lambda>S. launches_safe" for pf
proof unfold_locales
  fix S and eid :: uuid
  show "spec launches_safe (\<lambda>_. True) (get_execution_state pf eid) (\<lambda>_. launches_safe)"
    using launches_read_state [of pf eid] by (auto simp: spec_def)
next
  fix S and w w' :: world
  assume "launches_safe w" "events w' = events w" "checkpoints w' = checkpoints w" "redis w' = redis w"
    "launches w' = launches w"
  then show "launches_safe w'" using launches_safe_eq [of w' w] by blast
qed (auto intro: launches_call launches_primitive launches_redis_nx launches_capture launches_periodic
    simp: launches_safe_def)

section \<open>Reachable worlds\<close>

text \<open>Any sequence of operations of the service, the checkpoint service and the scheduler, each run
  to its end, whatever it returns or raises.\<close>

inductive system_step :: "platform \<Rightarrow> world \<Rightarrow> world \<Rightarrow> bool" for pf where
  create: "system_step pf w (snd (create_execution pf data created_by parent rerun_of pre results w))"
| cancel: "system_step pf w (snd (cancel_execution pf eid w))"
| pause: "system_step pf w (snd (pause_execution eid w))"
| resume: "system_step pf w (snd (resume_execution pf eid w))"
| resume_quota: "system_step pf w (snd (resume_paused_quota_exceeded pf ws w))"
| rerun: "system_step pf w (snd (rerun_execution pf eid overrides w))"
| rollback: "system_step pf w (snd (rollback_execution pf eid n ib reason authorized w))"
| read_state: "system_step pf w (snd (get_execution_state pf eid w))"
| hot_change: "system_step pf w (snd (apply_hot_change pf eid vid w))"
| approval: "system_step pf w (snd (record_approval_decision pf eid sid d comment decided_by w))"
| compensation: "system_step pf w (snd (trigger_compensation pf eid sid origin w))"
| runtime_event: "system_step pf w (snd (record_runtime_event pf eid sid' t payload status w))"
| collect_checkpoints: "system_step pf w (snd (gc_expired pf days w))"
| tick: "system_step pf w (snd (tick pf w))"
| approval_timeouts: "system_step pf w (snd (scan_approval_timeouts pf w))"
| reprioritize: "system_step pf w (snd (handle_reprioritization_trigger pf reason eid w))"

inductive reachable :: "platform \<Rightarrow> world \<Rightarrow> world \<Rightarrow> bool" for pf w0 where
  init: "reachable pf w0 w0"
| step: "reachable pf w0 w \<Longrightarrow> system_step pf w w' \<Longrightarrow> reachable pf w0 w'"

context world_invariant
begin

lemmas step_invariants = keeps_create_execution keeps_cancel keeps_pause keeps_resume keeps_resume_quota
  keeps_rerun keeps_rollback_execution keeps_read_state keeps_hot_change keeps_approvals
  keeps_compensation keeps_runtime_event keeps_gc keeps_tick keeps_timeouts keeps_trigger

lemma step_keeps: "system_step pf w w' \<Longrightarrow> I S w \<Longrightarrow> I S w'"
  by (induction rule: system_step.induct) (blast intro: step_invariants [THEN spec_inv])+

lemma reachable_keeps: "reachable pf w0 w \<Longrightarrow> I S w0 \<Longrightarrow> I S w"
  by (induction rule: reachable.induct) (auto intro: step_keeps)

end

lemma reachable_store_ok:
  assumes "codec_ok pf" and "store_ok (pf_runtime pf) w0" and "reachable pf w0 w"
  shows "store_ok (pf_runtime pf) w"
  using hd.reachable_keeps [OF assms(3), of "{}"] assms(1,2) by (simp add: held_ok_def)

lemma reachable_launches_safe: "reachable pf w0 w \<Longrightarrow> launches_safe w0 \<Longrightarrow> launches_safe w"
  by (rule ln.reachable_keeps)

lemma reachable_append_only: "reachable pf w0 w \<Longrightarrow> prefix (events w0) (events w)"
  by (rule ap.reachable_keeps) auto

text \<open>A store with an empty journal, no checkpoints and no cached states.\<close>

definition fresh_store :: "world \<Rightarrow> bool" where
  "fresh_store w \<longleftrightarrow> events w = [] \<and> checkpoints w = [] \<and> redis w = []"

lemma fresh_store_ok: "fresh_store w \<Longrightarrow> store_ok rt w"
  by (simp add: fresh_store_def store_ok_def journal_numbered_def events_of_def checkpoints_of_def)

end
