(* ===== verification/Execution_Samples.thy ===== *)
theory Execution_Samples
  imports Execution_System
begin

text \<open>
  A small concrete deployment the witnesses run on: a platform without a broker whose clocks advance
  by a second per read, one published workflow of two agent steps with a checkpoint before every step,
  and the worlds after creating an execution, after a pause and after a checkpoint.
\<close>

definition second :: int where
  "second = 1000000"

definition sample_platform :: platform where
  "sample_platform =
     \<lparr>pf_runtime = plain_runtime, new_uuid = show_nat, clock = (\<lambda>n. int n * second),
      monotonic = (\<lambda>n. 0), db_clock = (\<lambda>n. int n * second), redis_clock = (\<lambda>n. int n * second),
      producer = None, state_codec = Inr, exn_text = (\<lambda>_. ''error''),
      call_outcome = (\<lambda>_ _. None), checkpoint_max_size_bytes = 100000,
      checkpoint_retention_days = 30, quota_enforcer = None,
      raise_for_quota_result = (\<lambda>_ _. Inr ()), attribution_fail_open = True,
      uuid_of_text = Some, download_object = (\<lambda>_ _ _. Inr None), json_loads = (\<lambda>_. Inr (PDict [])),
      validate_trace_step = Inr, worker_id = ''worker'', recursion_depth = 900,
      has_checkpoint_service = True, has_reprioritization_service = True,
      has_approval_requests = False, has_launch = True, has_fallback = False, plan_context = None,
      uuid5_url = id, iso_text = (\<lambda>_. ''now''), e2e_mode = False, e2e_response = (\<lambda>_ _ _. None)\<rparr>"

lemma sample_ir_code [code]:
  "sample_ir =
    \<lparr>schema_version = 1, workflow_id = ''workflow'',
     steps = map (\<lambda>i. \<lparr>step_id = i, step_type = ''agent_task'', agent_fqn = PStr ''ops:triage'',
       tool_fqn = PNone, input_bindings = Some [], output_schema = PNone, retry_config = None,
       timeout_seconds = None, compensation_handler = PNone, approval_config = None,
       reasoning_mode = PNone, compute_budget = None, context_budget_tokens = None,
       parallel_group = PNone, condition_expression = PNone\<rparr>) [''fetch'', ''score''],
     dag_edges = [(''fetch'', ''score'')], data_bindings = Some [], metadata = Some []\<rparr>"
  by code_simp

definition sample_definition :: WorkflowDefinition where
  "sample_definition =
     \<lparr>wd_id = ''wf'', wd_workspace_id = ''ws'', wd_name = ''triage'', wd_description = None,
      wd_status = WS_active, wd_current_version_id = Some ''v1'', wd_schema_version = 1, wd_tags = [],
      wd_created_by = None, wd_updated_by = None, wd_created_at = 0\<rparr>"

definition sample_version :: WorkflowVersion where
  "sample_version =
     \<lparr>wv_id = ''v1'', wv_definition_id = ''wf'', wv_version_number = 1, wv_yaml_source = ''src'',
      wv_compiled_ir = WorkflowIR_to_dict sample_ir, wv_schema_version = 1, wv_change_summary = None,
      wv_checkpoint_policy = Some [(PStr ''type'', PStr ''before_every_step'')], wv_created_by = None,
      wv_is_valid = True, wv_created_at = 0\<rparr>"

definition empty_world :: world where
  "empty_world =
     \<lparr>executions = [], events = [], checkpoints = [], rollback_actions = [], triggers = [], leases = [],
      task_plans = [], traces = [], approval_waits = [], compensations = [], wf_definitions = [],
      wf_versions = [], wf_triggers = [], redis = [], outbox = [], calls = [], w_ids = 0, w_reads = 0,
      w_commits = 0\<rparr>"

definition sample_world :: world where
  "sample_world = empty_world\<lparr>wf_definitions := [sample_definition], wf_versions := [sample_version]\<rparr>"

definition sample_request :: ExecutionCreate where
  "sample_request =
     \<lparr>ec_workflow_version_id = None, ec_workflow_definition_id = ''wf'', ec_trigger_type = TT_manual,
      ec_input_parameters = [], ec_workspace_id = ''ws'', ec_correlation_conversation_id = None,
      ec_correlation_interaction_id = None, ec_correlation_fleet_id = None,
      ec_correlation_goal_id = None, ec_trigger_id = None, ec_sla_deadline = None\<rparr>"

definition created_world :: world where
  "created_world = snd (create_execution sample_platform sample_request None None None [] [] sample_world)"

definition sample_execution :: Execution where
  "sample_execution =
     \<lparr>ex_id = ''0'', ex_workspace_id = ''ws'', ex_workflow_version_id = ''v1'',
      ex_workflow_definition_id = ''wf'', ex_trigger_id = None, ex_trigger_type = TT_manual,
      ex_status = ES_queued, ex_input_parameters = [], ex_correlation_workspace_id = ''ws'',
      ex_correlation_conversation_id = None, ex_correlation_interaction_id = None,
      ex_correlation_fleet_id = None, ex_correlation_goal_id = None, ex_parent_execution_id = None,
      ex_rerun_of_execution_id = None, ex_started_at = None, ex_completed_at = None,
      ex_sla_deadline = None, ex_created_by = None, ex_contract_id = None, ex_contract_snapshot = None,
      ex_checkpoint_policy_snapshot = Some [(PStr ''type'', PStr ''before_every_step'')],
      ex_created_at = 0\<rparr>"

definition sample_event :: ExecutionEvent where
  "sample_event =
     \<lparr>ev_id = ''1'', ev_execution_id = ''0'', ev_sequence = 1, ev_event_type = EV_created,
      ev_step_id = None, ev_agent_fqn = None,
      ev_payload = created_payload ''wf'' ''v1'' [''fetch'', ''score''] [] [] [],
      ev_correlation_workspace_id = ''ws'', ev_correlation_conversation_id = None,
      ev_correlation_interaction_id = None, ev_correlation_goal_id = None,
      ev_correlation_fleet_id = None, ev_correlation_execution_id = ''0'', ev_created_at = second\<rparr>"

lemma created_world_code [code]:
  "created_world = sample_world\<lparr>executions := [sample_execution], events := [sample_event],
     w_ids := 3, w_reads := 2\<rparr>"
  by code_simp

definition created_state :: ExecutionStateResponse where
  "created_state = projr (fst (replay_execution sample_platform ''0'' created_world))"

definition paused_world :: world where
  "paused_world = snd (pause_execution ''0'' created_world)"

definition captured_world :: world where
  "captured_world = snd (capture sample_platform ''0'' created_state None paused_world)"

definition sample_checkpoint :: ExecutionCheckpoint where
  "sample_checkpoint =
     \<lparr>cp_id = ''3'', cp_execution_id = ''0'', cp_checkpoint_number = 1, cp_last_event_sequence = 1,
      cp_step_results = [], cp_completed_step_ids = [], cp_pending_step_ids = [''fetch'', ''score''],
      cp_active_step_ids = [], cp_execution_data = [], cp_current_context = [],
      cp_accumulated_costs = [], cp_superseded = False,
      cp_policy_snapshot = [(PStr ''type'', PStr ''before_tool_invocations'')],
      cp_created_at = 2 * second\<rparr>"

lemma captured_world_code [code]:
  "captured_world = created_world\<lparr>executions := [sample_execution\<lparr>ex_status := ES_paused\<rparr>],
     checkpoints := [sample_checkpoint], w_ids := 4, w_reads := 3\<rparr>"
  by code_simp

end
