(* ===== verification/Execution_System_Props.thy ===== *)
theory Execution_System_Props
  imports Execution_Samples
begin

text \<open>
  Properties of the execution engine in every world it can reach: the journal, the checkpoints, the
  state readers, and what a rollback does to them.
\<close>

lemma sample_codec: "codec_ok sample_platform"
  by (simp add: codec_ok_def sample_platform_def)

lemma sample_fresh: "fresh_store sample_world"
  by (simp add: fresh_store_def sample_world_def empty_world_def)

lemma created_reachable: "reachable sample_platform sample_world created_world"
  unfolding created_world_def by (rule reachable.step [OF reachable.init system_step.create])

lemma ticked_reachable: "reachable sample_platform created_world (snd (tick sample_platform created_world))"
  by (rule reachable.step [OF reachable.init system_step.tick])

lemma ticked_reachable_start: "reachable sample_platform sample_world (snd (tick sample_platform created_world))"
  by (rule reachable.step [OF created_reachable system_step.tick])

section \<open>Every reachable world\<close>



text \<open>C2. In every reachable world the journal of an execution is numbered 1, 2, 3, ... without gaps,
  and whatever the engine does next only appends to it.\<close>

theorem journal_numbered_append_only:
  assumes "codec_ok pf" and "fresh_store w0" and "reachable pf w0 w" and "reachable pf w w'"
  shows "map ev_sequence (events_of w eid) = [1..<Suc (length (events_of w eid))] \<and>
    prefix (events_of w eid) (events_of w' eid)"
proof
  show "map ev_sequence (events_of w eid) = [1..<Suc (length (events_of w eid))]"
    using store_okD(1) [OF reachable_store_ok [OF assms(1) fresh_store_ok [OF assms(2)] assms(3)]]
    by (simp only: journal_numbered_def)
  show "prefix (events_of w eid) (events_of w' eid)"
    using assms(4) by (intro prefix_events_of reachable_append_only)
qed

theorem journal_numbered_append_only_witness:
  "map ev_sequence (events_of created_world ''0'') = [1..<Suc (length (events_of created_world ''0''))] \<and>
   prefix (events_of created_world ''0'') (events_of (snd (tick sample_platform created_world)) ''0'')"
  by (rule journal_numbered_append_only [OF sample_codec sample_fresh created_reachable ticked_reachable])




lemma created_read:
  "get_execution_state sample_platform ''0'' created_world =
    (Inr created_state, snd (get_execution_state sample_platform ''0'' created_world))"
proof (rule prod_eqI)
  show "fst (get_execution_state sample_platform ''0'' created_world) =
      fst (Inr created_state, snd (get_execution_state sample_platform ''0'' created_world))"
    unfolding fst_conv by code_simp
qed simp


section \<open>Rollback\<close>

lemma rolled_back_lists:
  "\<exists>st'. apply_rolled_back rt st (event_record pf e EV_rolled_back None None (rollback_payload aid c e reason) w) =
     Inr st' \<and> st_completed_step_ids st' = dedupe (cp_completed_step_ids c) \<and>
     st_pending_step_ids st' = dedupe (cp_pending_step_ids c) \<and>
     st_active_step_ids st' = dedupe (cp_active_step_ids c) \<and>
     st_step_results st' = cp_step_results c"
  by (simp add: apply_rolled_back_def event_record_def rollback_payload_def str_list_def dget_or_def dget_def
      Let_def comp_def)

text \<open>A rollback that returns: what it checked and what it left.\<close>

definition rolled_back_world ::
  "platform \<Rightarrow> Execution \<Rightarrow> ExecutionCheckpoint \<Rightarrow> uuid \<Rightarrow> string option \<Rightarrow> world \<Rightarrow> world \<Rightarrow> bool" where
  "rolled_back_world pf e c aid reason w w' \<longleftrightarrow>
     (\<exists>w1. events w1 = events w \<and>
        events w' = events w @ [event_record pf e EV_rolled_back None None (rollback_payload aid c e reason) w1]) \<and>
     executions w' = update_rows (\<lambda>x. ex_id x = ex_id e)
       (\<lambda>x. x\<lparr>ex_status := ES_rolled_back\<rparr>) (executions w) \<and>
     checkpoints w' = update_rows (\<lambda>x. cp_execution_id x = ex_id e)
       (\<lambda>x. x\<lparr>cp_superseded := cp_checkpoint_number c < cp_checkpoint_number x\<rparr>) (checkpoints w) \<and>
     redis w' = redis w"

lemma update_rows_status:
  "filter (\<lambda>x. ex_id x = eid) (update_rows (\<lambda>x. ex_id x = eid) (\<lambda>x. x\<lparr>ex_status := s\<rparr>) es) =
   map (\<lambda>x. x\<lparr>ex_status := s\<rparr>) (filter (\<lambda>x. ex_id x = eid) es)"
  by (induction es) (auto simp: update_rows_def)

lemma rollback_apply_success:
  assumes num: "journal_numbered w"
    and r: "rollback_apply pf e c ib reason delta w = (Inr r, w')"
  shows "rolled_back_world pf e c (rr_rollback_action_id r) reason w w'"
proof -
  define w1 where "w1 = snd (rollback_action pf (ex_id e) c ib delta RS_completed reason w)"
  define w2 where "w2 = w1\<lparr>checkpoints := update_rows (\<lambda>x. cp_execution_id x = ex_id e)
       (\<lambda>x. x\<lparr>cp_superseded := cp_checkpoint_number c < cp_checkpoint_number x\<rparr>) (checkpoints w1)\<rparr>"
  define w3 where "w3 = w2\<lparr>executions := update_rows (\<lambda>x. ex_id x = ex_id e)
       (\<lambda>x. x\<lparr>ex_status := ES_rolled_back\<rparr>) (executions w2)\<rparr>"
  have w1: "events w1 = events w" "executions w1 = executions w" "checkpoints w1 = checkpoints w" "redis w1 = redis w"
    by (simp_all add: w1_def rollback_action_def run_ebind run_simps fresh_uuid_def read_clock_def
        create_rollback_action_def Let_def)
  have "journal_numbered w3" using num by (simp add: w3_def w2_def w1 journal_numbered_def events_of_def)
  note ap = append_event_run [OF this, unfolded Let_def]
  obtain a where a: "rollback_action pf (ex_id e) c ib delta RS_completed reason w = (Inr a, w1)"
    by (simp add: w1_def rollback_action_def run_ebind run_simps fresh_uuid_def read_clock_def
        create_rollback_action_def Let_def)
  have "update_execution_status (ex_id e) ES_rolled_back None None w2 = (Inr (), w3)"
    by (simp add: update_execution_status_def set_execution_def run_simps w3_def)
  moreover have "mark_superseded_after (ex_id e) (cp_checkpoint_number c) w1 = (Inr (), w2)"
    by (simp add: mark_superseded_after_def run_simps w2_def)
  ultimately have "rr_rollback_action_id r = ra_id a \<and> executions w' = executions w3 \<and> checkpoints w' = checkpoints w3 \<and>
      redis w' = redis w3 \<and> events w' = events w3 @
        [event_record pf e EV_rolled_back None None (rollback_payload (ra_id a) c e reason) w3]"
    using r a
    by (auto simp: rollback_apply_def run_ebind run_simps ap correlation_def fresh_uuid_def
        publish_execution_rolled_back_def publish_def push_event_def split: option.splits)
  then show ?thesis
    by (auto simp: rolled_back_world_def w3_def w2_def w1 intro: exI [of _ w3])
qed

lemma rollback_quarantine_raises: "fst (rollback_quarantine pf e c ib eid n exc w) \<noteq> Inr r"
  by (simp add: rollback_quarantine_def rollback_action_def run_ebind run_simps fresh_uuid_def
      read_clock_def create_rollback_action_def update_execution_status_def set_execution_def Let_def)

lemma rollback_success:
  assumes num: "journal_numbered w" and r: "rollback pf eid n ib reason w = (Inr r, w')"
  shows "\<exists>e c. executions_of w eid = [e] \<and> ex_status e \<in> set ROLLBACK_ELIGIBLE_STATUSES \<and>
    c \<in> set (checkpoints_of w eid) \<and> cp_checkpoint_number c = n \<and>
    rolled_back_world pf e c (rr_rollback_action_id r) reason w w'"
proof -
  let ?w = "w\<lparr>w_reads := Suc (w_reads w)\<rparr>"
  from r obtain e c delta where e: "executions_of w eid = [e]"
    and s: "ex_status e \<in> set ROLLBACK_ELIGIBLE_STATUSES"
    and c: "filter (\<lambda>c. cp_checkpoint_number c = n) (checkpoints_of w eid) = [c]"
    and run: "ecatch (rollback_apply pf e c ib reason delta) (rollback_quarantine pf e c ib eid n) ?w = (Inr r, w')"
    by (auto simp: rollback_def run_ebind run_simps run_eguard get_execution_by_id_def
        get_checkpoint_by_number_def read_clock_def get_latest_checkpoint_def one_or_none_Some
        split: sum.splits option.splits if_splits)
  from run rollback_quarantine_raises have "rollback_apply pf e c ib reason delta ?w = (Inr r, w')"
    by (auto simp: ecatch_def split: prod.splits sum.splits) (metis fst_conv)
  moreover have "journal_numbered ?w" using num by (simp add: journal_numbered_def events_of_def)
  ultimately have "rolled_back_world pf e c (rr_rollback_action_id r) reason ?w w'"
    by (intro rollback_apply_success)
  then have "rolled_back_world pf e c (rr_rollback_action_id r) reason w w'"
    by (simp add: rolled_back_world_def)
  moreover from c have "c \<in> set (checkpoints_of w eid)" "cp_checkpoint_number c = n"
    by (auto dest: filter_singleD)
  ultimately show ?thesis using e s by blast
qed

lemma executions_of_id: "executions_of w eid = [e] \<Longrightarrow> ex_id e = eid"
  unfolding executions_of_def by (drule filter_singleD) simp

lemma rolled_back_journal:
  assumes num: "journal_numbered w" and rb: "rolled_back_world pf e c aid reason w w'"
  shows "journal_numbered w' \<and> (\<exists>w1. events_of w' (ex_id e) = events_of w (ex_id e) @
    [event_record pf e EV_rolled_back None None (rollback_payload aid c e reason) w1])"
proof -
  from rb obtain w1 where w1: "events w1 = events w" and
    ev: "events w' = events w @ [event_record pf e EV_rolled_back None None (rollback_payload aid c e reason) w1]"
    by (auto simp: rolled_back_world_def)
  let ?ev = "event_record pf e EV_rolled_back None None (rollback_payload aid c e reason) w1"
  have push: "events_of w' k = events_of (push_event ?ev w) k" for k
    by (simp add: events_of_def ev push_event_def)
  have "ev_sequence ?ev = Suc (length (events_of w (ev_execution_id ?ev)))"
    by (simp add: event_record_def events_of_def w1)
  then have "journal_numbered w'"
    using jn.push_numbered [of w _ ?ev] num by (simp add: journal_numbered_def push del: upt_Suc)
  moreover have "events_of w' (ex_id e) = events_of w (ex_id e) @ [?ev]"
    by (simp add: events_of_def ev event_record_def)
  ultimately show ?thesis by blast
qed

lemma rolled_back_projection:
  assumes st0: "project_state rt (events_of w eid) None = Inr st0" and eid: "ex_id e = eid"
    and evs: "events_of w' eid = events_of w eid @
      [event_record pf e EV_rolled_back None None (rollback_payload aid c e reason) w1]"
  shows "\<exists>st. project_state rt (events_of w' eid) None = Inr st \<and>
     st_completed_step_ids st = dedupe (cp_completed_step_ids c) \<and>
     st_pending_step_ids st = dedupe (cp_pending_step_ids c) \<and>
     st_active_step_ids st = dedupe (cp_active_step_ids c) \<and> st_step_results st = cp_step_results c"
proof -
  let ?ev = "event_record pf e EV_rolled_back None None (rollback_payload aid c e reason) w1"
  from st0 have ne: "events_of w eid \<noteq> []" by (auto simp: project_state_def)
  then have "ev_execution_id (last (events_of w eid)) = eid" by (metis events_of_id last_in_set)
  with st0 have fold: "rfold (project_step rt) (events_of w eid) (initial_state eid None) = Inr st0"
    by (simp add: project_state_nonempty [OF ne])
  obtain st' where "project_step rt ?ev st0 = Inr st'"
      "st_completed_step_ids st' = dedupe (cp_completed_step_ids c)"
      "st_pending_step_ids st' = dedupe (cp_pending_step_ids c)"
      "st_active_step_ids st' = dedupe (cp_active_step_ids c)" "st_step_results st' = cp_step_results c"
    using rolled_back_lists [of rt "st0\<lparr>st_execution_id := ev_execution_id ?ev, st_last_event_sequence := ev_sequence ?ev\<rparr>"
        pf e aid c reason w1]
    by (auto simp: project_step_def apply_event_def event_record_def)
  moreover from this have "project_state rt (events_of w' eid) None = Inr st'"
    using fold by (simp add: evs project_state_nonempty rfold_append event_record_def eid)
  ultimately show ?thesis by blast
qed

text \<open>C4. A rollback that returns leaves an execution whose replayed state has exactly the step lists
  and results of the target checkpoint and the status \<open>rolled_back\<close>, whatever happened after the
  checkpoint; checkpoints up to the target are live again and later ones superseded.\<close>

theorem rollback_restores_checkpoint:
  assumes "journal_numbered w" and "replay_execution pf eid w = (Inr before, w)"
    and "rollback pf eid n initiated_by reason w = (Inr r, w')"
  shows "\<exists>c \<in> set (checkpoints_of w eid). cp_checkpoint_number c = n \<and>
    (\<exists>st. replay_execution pf eid w' = (Inr st, w') \<and>
       st_completed_step_ids st = dedupe (cp_completed_step_ids c) \<and>
       st_pending_step_ids st = dedupe (cp_pending_step_ids c) \<and>
       st_active_step_ids st = dedupe (cp_active_step_ids c) \<and>
       st_step_results st = cp_step_results c \<and> st_status st = ES_rolled_back) \<and>
    (\<forall>x \<in> set (checkpoints_of w' eid). cp_superseded x \<longleftrightarrow> n < cp_checkpoint_number x)"
proof -
  let ?rt = "pf_runtime pf"
  from rollback_success [OF assms(1,3)] obtain e c where
    e: "executions_of w eid = [e]" and c: "c \<in> set (checkpoints_of w eid)" "cp_checkpoint_number c = n"
    and rb: "rolled_back_world pf e c (rr_rollback_action_id r) reason w w'" by blast
  note eid = executions_of_id [OF e]
  from rolled_back_journal [OF assms(1) rb] eid obtain w1 where num: "journal_numbered w'" and
    evs: "events_of w' eid = events_of w eid @ [event_record pf e EV_rolled_back None None
      (rollback_payload (rr_rollback_action_id r) c e reason) w1]" by auto
  from assms(2) obtain st0 where "project_state ?rt (events_of w eid) None = Inr st0"
    by (auto simp: replay_execution_def run_ebind run_simps get_or_raise_run get_events_all [OF assms(1)] e
        one_or_none_def split: sum.splits)
  from rolled_back_projection [OF this eid evs] obtain st' where st':
    "project_state ?rt (events_of w' eid) None = Inr st'"
    "st_completed_step_ids st' = dedupe (cp_completed_step_ids c)"
    "st_pending_step_ids st' = dedupe (cp_pending_step_ids c)"
    "st_active_step_ids st' = dedupe (cp_active_step_ids c)" "st_step_results st' = cp_step_results c"
    by blast
  have "executions_of w' eid = [e\<lparr>ex_status := ES_rolled_back\<rparr>]"
    using e rb by (auto simp: rolled_back_world_def executions_of_def eid update_rows_status)
  then have "\<exists>st. replay_execution pf eid w' = (Inr st, w') \<and>
       st_completed_step_ids st = dedupe (cp_completed_step_ids c) \<and>
       st_pending_step_ids st = dedupe (cp_pending_step_ids c) \<and>
       st_active_step_ids st = dedupe (cp_active_step_ids c) \<and>
       st_step_results st = cp_step_results c \<and> st_status st = ES_rolled_back"
    using st' by (simp add: replay_execution_def run_ebind run_simps get_or_raise_run get_events_all [OF num]
        one_or_none_def stamp_def)
  moreover have "\<forall>x \<in> set (checkpoints_of w' eid). cp_superseded x \<longleftrightarrow> n < cp_checkpoint_number x"
    using rb c(2) eid by (auto simp: rolled_back_world_def checkpoints_of_def update_rows_def)
  ultimately show ?thesis using c by blast
qed

lemma replay_world: "snd (replay_execution pf eid w) = w"
  by (simp add: replay_execution_def run_ebind run_simps get_or_raise_run get_events_def
      split: sum.splits option.splits)

lemma run_Inr: "\<not> isl (fst (m w)) \<Longrightarrow> m w = (Inr (projr (fst (m w))), snd (m w))"
  by (metis prod.collapse sum.collapse(2))

lemma paused_reachable: "reachable sample_platform sample_world paused_world"
  unfolding paused_world_def by (rule reachable.step [OF created_reachable system_step.pause])

lemma captured_numbered: "journal_numbered captured_world"
proof -
  have "journal_numbered paused_world"
    using store_okD(1) [OF reachable_store_ok [OF sample_codec fresh_store_ok [OF sample_fresh] paused_reachable]] .
  moreover have "events captured_world = events paused_world"
    unfolding captured_world_def capture_def create_checkpoint_def
    by (simp add: run_ebind run_simps run_eguard get_next_checkpoint_number_def fresh_uuid_def read_clock_def
        split: sum.splits)
  ultimately show ?thesis by (simp add: journal_numbered_def events_of_def)
qed

lemma captured_replay:
  "replay_execution sample_platform ''0'' captured_world =
    (Inr (projr (fst (replay_execution sample_platform ''0'' captured_world))), captured_world)"
proof -
  have "\<not> isl (fst (replay_execution sample_platform ''0'' captured_world))" by code_simp
  from run_Inr [where m = "replay_execution sample_platform ''0''", OF this] show ?thesis
    by (simp only: replay_world)
qed

lemma captured_rollback:
  "rollback sample_platform ''0'' 1 None None captured_world =
    (Inr (projr (fst (rollback sample_platform ''0'' 1 None None captured_world))),
     snd (rollback sample_platform ''0'' 1 None None captured_world))"
proof (rule run_Inr [where m = "rollback sample_platform ''0'' 1 None None" and w = captured_world])
  show "\<not> isl (fst (rollback sample_platform ''0'' 1 None None captured_world))" by code_simp
qed

theorem rollback_restores_checkpoint_witness:
  "\<exists>c \<in> set (checkpoints_of captured_world ''0''). cp_checkpoint_number c = 1 \<and>
    (\<exists>st. replay_execution sample_platform ''0'' (snd (rollback sample_platform ''0'' 1 None None captured_world)) =
         (Inr st, snd (rollback sample_platform ''0'' 1 None None captured_world)) \<and>
       st_completed_step_ids st = dedupe (cp_completed_step_ids c) \<and>
       st_pending_step_ids st = dedupe (cp_pending_step_ids c) \<and>
       st_active_step_ids st = dedupe (cp_active_step_ids c) \<and>
       st_step_results st = cp_step_results c \<and> st_status st = ES_rolled_back) \<and>
    list_all (\<lambda>x. cp_superseded x \<longleftrightarrow> 1 < cp_checkpoint_number x)
      (checkpoints_of (snd (rollback sample_platform ''0'' 1 None None captured_world)) ''0'')"
  unfolding list_all_iff
  by (rule rollback_restores_checkpoint [OF captured_numbered captured_replay captured_rollback])

end
