(* ===== verification/Execution_Dispatch_Props.thy ===== *)
theory Execution_Dispatch_Props
  imports Execution_System_Props
begin

text \<open>
  Properties of the scheduler's decisions about a dispatch: what reaches the runtime, in which order
  the queue is served, that a lease excludes a second dispatch, and where an execution can get stuck.
\<close>

section \<open>Secrets\<close>

definition secret_free :: "string \<Rightarrow> bool" where
  "secret_free text \<longleftrightarrow> (\<forall>name r i j. (name, r) \<in> set SECRET_PATTERNS \<longrightarrow> i \<le> length text \<longrightarrow> \<not> matches text r i j)"

lemma first_secret_None: "first_secret text = None \<longleftrightarrow> secret_free text"
  by (auto simp: first_secret_def find_None_iff search_iff secret_free_def)

text \<open>C22. Whatever the engine does, every contract it hands to the runtime controller carries a task
  plan text in which none of the secret patterns has a match.\<close>

theorem no_secret_reaches_runtime:
  assumes "calls w0 = []" and "reachable pf w0 w"
  shows "list_all (\<lambda>c. case c of
      LaunchRuntime contract \<Rightarrow> \<exists>text. dget contract ''task_plan_json'' = Some (PStr text) \<and> secret_free text
    | _ \<Rightarrow> True) (calls w)"
proof -
  have "launches_safe w0" using assms(1) by (simp add: launches_safe_def)
  from reachable_launches_safe [OF assms(2) this] show ?thesis
    by (auto simp: list_all_iff [of _ "calls w"] launches_safe_def safe_contract_def first_secret_None
        split: call.split)
qed

theorem no_secret_reaches_runtime_witness:
  "list_all (\<lambda>c. case c of
      LaunchRuntime contract \<Rightarrow> \<exists>text. dget contract ''task_plan_json'' = Some (PStr text) \<and> secret_free text
    | _ \<Rightarrow> True) (calls (snd (tick sample_platform created_world)))"
  by (rule no_secret_reaches_runtime [OF _ ticked_reachable_start])
    (simp add: sample_world_def empty_world_def)

text \<open>The preflight returns exactly when no secret pattern matches the JSON text of the payload,
  and then it has done nothing; otherwise it raises.\<close>

theorem preflight_exact:
  assumes "json_dumps (pf_runtime pf) (PDict payload) = Inr text"
  shows "if secret_free text
    then prompt_secret_preflight pf payload e step w = (Inr (), w)
    else isl (fst (prompt_secret_preflight pf payload e step w))"
proof (cases "first_secret text")
  case None
  then have "secret_free text" by (simp add: first_secret_None)
  with None assms show ?thesis
    by (simp add: prompt_secret_preflight_def run_ebind run_simps del: json_dumps.simps)
next
  case (Some k)
  then have "\<not> secret_free text" by (simp flip: first_secret_None)
  moreover have "isl (fst (prompt_secret_preflight pf payload e step w))"
    using Some assms
    by (auto simp: prompt_secret_preflight_def run_ebind run_simps simp del: json_dumps.simps
        split: sum.splits prod.splits)
  ultimately show ?thesis by simp
qed

lemma hello_text: "json_dumps plain_runtime (PDict [(PStr ''a'', PStr ''b'')]) = Inr ''{\"a\": \"b\"}''"
  by code_simp

theorem preflight_exact_witness:
  "if secret_free ''{\"a\": \"b\"}''
    then prompt_secret_preflight sample_platform [(PStr ''a'', PStr ''b'')] sample_execution
      (hd (steps sample_ir)) created_world = (Inr (), created_world)
    else isl (fst (prompt_secret_preflight sample_platform [(PStr ''a'', PStr ''b'')] sample_execution
      (hd (steps sample_ir)) created_world))"
proof (rule preflight_exact)
  have "pf_runtime sample_platform = plain_runtime" by (simp add: sample_platform_def)
  then show "json_dumps (pf_runtime sample_platform) (PDict [(PStr ''a'', PStr ''b'')]) = Inr ''{\"a\": \"b\"}''"
    by (simp only: hello_text)
qed

section \<open>The queue\<close>

text \<open>Where no trigger fired an execution keeps its place behind those one did.\<close>

lemma winners_split:
  assumes "distinct (map ex_id queue)"
  shows "sort_key (queue_key queue winners) queue =
    filter (\<lambda>e. map_of winners (ex_id e) \<noteq> None) (sort_key (queue_key queue winners) queue) @
    filter (\<lambda>e. map_of winners (ex_id e) = None) queue"
proof -
  let ?s = "sort_key (queue_key queue winners) queue" and ?P = "\<lambda>e. map_of winners (ex_id e) \<noteq> None"
  have split: "xs = filter P xs @ filter (\<lambda>x. \<not> P x) xs"
    if "\<And>i j. i < j \<Longrightarrow> j < length xs \<Longrightarrow> P (xs ! j) \<Longrightarrow> P (xs ! i)" for P and xs :: "Execution list"
    using that
  proof (induction xs)
    case (Cons x xs)
    show ?case
    proof (cases "P x")
      case True
      have "P (xs ! i)" if "i < j" "j < length xs" "P (xs ! j)" for i j
        using Cons.prems [of "Suc i" "Suc j"] that by simp
      with Cons.IH True show ?thesis by simp
    next
      case False
      have "\<not> P y" if "y \<in> set xs" for y
        using Cons.prems [of 0] False that by (metis in_set_conv_nth length_Cons nth_Cons_0 nth_Cons_Suc
            Suc_less_eq zero_less_Suc)
      with False show ?thesis by (simp add: filter_id_conv)
    qed
  qed simp
  have "?s = filter ?P ?s @ filter (\<lambda>e. \<not> ?P e) ?s"
    by (rule split) (metis winners_first length_sort)
  then show ?thesis unfolding not_not losers_keep_order [OF assms, of winners] .
qed


definition sla_trigger :: ReprioritizationTrigger where
  "sla_trigger =
     \<lparr>rp_id = ''t1'', rp_workspace_id = ''ws'', rp_name = ''sla'', rp_trigger_type = ''sla_approach'',
      rp_condition_config = [(PStr ''threshold_fraction'', PFloat (Fin 1))],
      rp_action = ''promote_to_front'', rp_priority_rank = 1, rp_enabled = True,
      rp_created_by = None, rp_created_at = 0\<rparr>"

definition urgent_execution :: Execution where
  "urgent_execution = sample_execution\<lparr>ex_id := ''9'', ex_sla_deadline := Some (10 * second)\<rparr>"

definition sla_result :: "(exn + ReprioritizationResult) \<times> world" where
  "sla_result = evaluate_for_dispatch_cycle sample_platform [sample_execution, urgent_execution] ''ws'' 50
     (created_world\<lparr>triggers := [sla_trigger]\<rparr>)"

lemma sla_result_order:
  "map_sum id rz_ordered_executions (fst sla_result) = Inr [urgent_execution, sample_execution]"
  by code_simp


section \<open>The queue of a tick\<close>

lemma mset_aset:
  assumes "dict_wf d"
  shows "mset (concat (map snd (aset d k v))) + mset (case map_of d k of None \<Rightarrow> [] | Some xs \<Rightarrow> xs) =
    mset (concat (map snd d)) + mset v"
  using assms by (induction d k v rule: aset.induct) (auto simp: dict_wf_def ac_simps)

lemma group_by_workspace_perm: "mset (concat (map snd (group_by_workspace queued))) = mset queued"
proof -
  let ?add = "\<lambda>d e. aset d (ex_workspace_id e)
      ((case map_of d (ex_workspace_id e) of None \<Rightarrow> [] | Some xs \<Rightarrow> xs) @ [e])"
  have "dict_wf d \<Longrightarrow>
      mset (concat (map snd (foldl ?add d queued))) = mset (concat (map snd d)) + mset queued" for d
  proof (induction queued arbitrary: d)
    case (Cons e queued)
    then show ?case
      using mset_aset [OF Cons.prems, of "ex_workspace_id e"
          "(case map_of d (ex_workspace_id e) of None \<Rightarrow> [] | Some xs \<Rightarrow> xs) @ [e]"]
      by (simp add: Cons.IH)
  qed simp
  from this [of "[]"] show ?thesis by (simp add: group_by_workspace_def)
qed

text \<open>What a tick serves is a permutation of the queued executions: grouping by workspace,
  reordering each group within its budget and concatenating the groups loses and repeats none, with
  and without the reprioritization service.\<close>

theorem order_queued_perm:
  assumes "order_queued pf queued w = (Inr q, w')"
  shows "mset q = mset queued"
proof (cases "queued \<noteq> [] \<and> has_reprioritization_service pf")
  case True
  with assms obtain groups where "emap (reorder_workspace pf) (group_by_workspace queued) w = (Inr groups, w')"
    "q = concat groups"
    by (auto simp: order_queued_def run_ebind run_simps split: prod.splits sum.splits)
  with rq.reorder_groups group_by_workspace_perm show ?thesis by metis
next
  case False
  with assms show ?thesis by (auto simp: order_queued_def run_simps)
qed

definition served_queue :: "(exn + Execution list) \<times> world" where
  "served_queue = order_queued sample_platform
     [sample_execution, sample_execution\<lparr>ex_id := ''8'', ex_workspace_id := ''other''\<rparr>] created_world"

theorem order_queued_perm_witness:
  "mset (projr (fst served_queue)) =
   mset [sample_execution, sample_execution\<lparr>ex_id := ''8'', ex_workspace_id := ''other''\<rparr>]"
proof -
  have "\<not> isl (fst served_queue)" by code_simp
  then have "order_queued sample_platform
     [sample_execution, sample_execution\<lparr>ex_id := ''8'', ex_workspace_id := ''other''\<rparr>] created_world =
     (Inr (projr (fst served_queue)), snd served_queue)"
    by (simp add: prod_eq_iff flip: served_queue_def)
  then show ?thesis by (rule order_queued_perm)
qed

section \<open>Leases\<close>

text \<open>A lease that was acquired: the key in Redis and the row.\<close>

lemma acquire_lease_True:
  assumes "acquire_lease pf eid sid w = (Inr True, w1)"
  shows "map_of (redis w1) (lease_key eid sid) =
      Some (RToken (new_uuid pf (w_ids w)), redis_clock pf (Suc (w_reads w)) + 300 * 1000000)"
  using assms
  by (auto simp: acquire_lease_def redis_set_nx_def redis_get_def redis_set_def create_dispatch_lease_def
      fresh_uuid_def read_clock_def run_ebind run_simps split: option.splits if_splits prod.splits)

text \<open>C24. A dispatch lease excludes every other worker: while the key of a successful acquisition is
  in Redis, nobody acquires the lease of the same step until its 300 seconds are over, and the attempt
  leaves every table and every key as it was.\<close>

theorem lease_excludes:
  assumes "acquire_lease pf eid sid w = (Inr True, w1)"
    and "map_of (redis w2) (lease_key eid sid) = map_of (redis w1) (lease_key eid sid)"
    and "redis_clock pf' = redis_clock pf"
    and "redis_clock pf (w_reads w2) < redis_clock pf (Suc (w_reads w)) + 300 * 1000000"
  shows "acquire_lease pf' eid sid w2 =
    (Inr False, w2\<lparr>w_ids := Suc (w_ids w2), w_reads := Suc (w_reads w2)\<rparr>)"
  using acquire_lease_True [OF assms(1)] assms(2-)
  by (simp add: acquire_lease_def redis_set_nx_def redis_get_def fresh_uuid_def read_clock_def
      run_ebind run_simps)

definition leased :: "(exn + bool) \<times> world" where
  "leased = acquire_lease sample_platform ''0'' ''fetch'' created_world"

lemma leased_result: "fst leased = Inr True" "w_reads (snd leased) = 5" "w_reads created_world = 2"
  by code_simp+

theorem lease_excludes_witness:
  "acquire_lease (sample_platform\<lparr>worker_id := ''other''\<rparr>) ''0'' ''fetch'' (snd leased) =
    (Inr False, (snd leased)\<lparr>w_ids := Suc (w_ids (snd leased)), w_reads := Suc (w_reads (snd leased))\<rparr>)"
proof (rule lease_excludes)
  show "acquire_lease sample_platform ''0'' ''fetch'' created_world = (Inr True, snd leased)"
    using leased_result(1) by (simp add: prod_eq_iff flip: leased_def)
  show "redis_clock sample_platform (w_reads (snd leased)) <
      redis_clock sample_platform (Suc (w_reads created_world)) + 300 * 1000000"
    by (simp add: leased_result(2,3) sample_platform_def second_def)
qed simp_all

end
