(* ===== verification/Execution_Lifecycle_Props.thy ===== *)
theory Execution_Lifecycle_Props
  imports Execution_System_Props
begin

text \<open>
  Properties of the operations on one execution: what creating it leaves in the journal, which
  statuses each operation accepts, that an approval is decided once, what a hot change requires, and
  the approval gates that time out. A successful run is taken apart with \<open>ebind_Inr\<close>; the
  relation \<open>journaled\<close> says that exactly one event was appended and no table was touched.
\<close>

section \<open>Successful runs\<close>

lemma get_or_raise_Inr: "get_execution_or_raise eid w = (Inr e, w') \<longleftrightarrow> executions_of w eid = [e] \<and> w' = w"
  by (auto simp: get_or_raise_run one_or_none_def split: list.splits sum.splits option.splits)

lemma exec_ref_Inr: "exec_ref eid w = (Inr e, w') \<longleftrightarrow> executions_of w eid = [e] \<and> w' = w"
  by (auto simp: exec_ref_def ebind_Inr get_execution_by_id_def one_or_none_Some run_simps split: option.splits)

lemma read_now_Inr: "read_now pf w = (Inr t, w') \<longleftrightarrow> t = clock pf (w_reads w) \<and> w' = w\<lparr>w_reads := Suc (w_reads w)\<rparr>"
  by (auto simp: read_clock_def)

lemma get_wait_Inr:
  "get_approval_wait eid sid w = (Inr (Some aw), w') \<longleftrightarrow> waits_of w eid sid = [aw] \<and> w' = w"
  by (auto simp: get_approval_wait_def one_or_none_Some)

lemmas success_simps = ebind_Inr case_option_Inr eguard_Inr eraise_Inr eret_Inr elift_Inr get_or_raise_Inr exec_ref_Inr read_now_Inr

section \<open>One event\<close>

text \<open>The tables other than the journal.\<close>

definition same_tables :: "world \<Rightarrow> world \<Rightarrow> bool" where
  "same_tables w w' \<longleftrightarrow>
     executions w' = executions w \<and> checkpoints w' = checkpoints w \<and>
     rollback_actions w' = rollback_actions w \<and> triggers w' = triggers w \<and> leases w' = leases w \<and>
     task_plans w' = task_plans w \<and> traces w' = traces w \<and> approval_waits w' = approval_waits w \<and>
     compensations w' = compensations w \<and> wf_definitions w' = wf_definitions w \<and>
     wf_versions w' = wf_versions w \<and> wf_triggers w' = wf_triggers w"

definition journaled ::
  "uuid \<Rightarrow> ExecutionEventType \<Rightarrow> string option \<Rightarrow> pydict \<Rightarrow> world \<Rightarrow> world \<Rightarrow> bool" where
  "journaled eid t sid payload w w' \<longleftrightarrow> same_tables w w' \<and>
     (\<exists>ev. events w' = events w @ [ev] \<and> ev_execution_id ev = eid \<and> ev_event_type ev = t \<and>
        ev_step_id ev = sid \<and> ev_payload ev = payload \<and>
        ev_sequence ev = Suc (length (events_of w eid)))"

lemma append_event_journaled:
  "append_event pf e t sid ag payload w = (Inr ev, w') \<Longrightarrow> journaled (ex_id e) t sid payload w w'"
  by (auto simp: append_event_def ebind_Inr count_events_def fresh_uuid_def read_clock_def run_simps
      journaled_def same_tables_def Let_def split: if_splits)

lemma quiet_tables:
  "same_tables w (snd (redis_delete key w))" "same_tables w (snd (correlation pf e w))"
  "same_tables w (snd (publish pf m w))" "same_tables w (snd (call_service pf c w))"
  by (simp_all add: same_tables_def redis_delete_def correlation_def fresh_uuid_def publish_def
      call_service_def run_ebind run_simps split: option.splits)

lemma quiet_events:
  "events (snd (redis_delete key w)) = events w" "events (snd (correlation pf e w)) = events w"
  "events (snd (publish pf m w)) = events w" "events (snd (call_service pf c w)) = events w"
  by (simp_all add: redis_delete_def correlation_def fresh_uuid_def publish_def call_service_def
      run_ebind run_simps split: option.splits)

lemma same_tables_trans: "same_tables a b \<Longrightarrow> same_tables b c \<Longrightarrow> same_tables a c"
  by (simp add: same_tables_def)

lemma journaled_quiet:
  "journaled eid t sid payload w w1 \<Longrightarrow> same_tables w1 w2 \<Longrightarrow> events w2 = events w1 \<Longrightarrow>
   journaled eid t sid payload w w2"
  unfolding journaled_def by (metis same_tables_trans)

lemma domain_event_journaled:
  assumes "append_domain_event pf eid t sid ag payload w = (Inr u, w')"
  shows "journaled eid t sid payload w w'"
proof -
  from assms obtain e ev w1 w2 ctx w3 where e: "executions_of w eid = [e]"
    and ap: "append_event pf e t sid ag payload w = (Inr ev, w1)"
    and inv: "redis_delete (state_cache_key (ex_id e)) w1 = (Inr (), w2)"
    and c: "correlation pf e w2 = (Inr ctx, w3)"
    and p: "publish_execution_status_changed pf (ex_id e) (status_value (ex_status e)) sid ctx w3 = (Inr u, w')"
    by (auto simp: append_domain_event_def success_simps invalidate_state_cache_def)
  from append_event_journaled [OF ap] executions_of_id [OF e] have "journaled eid t sid payload w w1" by simp
  moreover have "same_tables w1 w2" "same_tables w2 w3" "same_tables w3 w'"
    "events w2 = events w1" "events w3 = events w2" "events w' = events w3"
    using inv c p quiet_tables(1) [of w1 "state_cache_key (ex_id e)"] quiet_tables(2) [of w2 pf e]
      quiet_events(1) [of "state_cache_key (ex_id e)" w1] quiet_events(2) [of pf e w2]
      quiet_tables(3) [of w3 pf] quiet_events(3) [of pf _ w3]
    unfolding publish_execution_status_changed_def by (metis snd_conv)+
  ultimately show ?thesis by (metis journaled_quiet same_tables_trans)
qed

lemma journaled_events_of:
  assumes "journaled eid t sid payload w w'"
  shows "\<exists>ev. events_of w' eid = events_of w eid @ [ev] \<and> ev_event_type ev = t \<and> ev_step_id ev = sid \<and>
    ev_payload ev = payload"
  using assms by (auto simp: journaled_def events_of_def)

lemma journaled_rows:
  assumes "journaled eid t sid payload w w'"
  shows "executions w' = executions w" "approval_waits w' = approval_waits w"
    "executions_of w' k = executions_of w k" "waits_of w' k s = waits_of w k s"
  using assms by (simp_all add: journaled_def same_tables_def executions_of_def waits_of_def)

lemma update_status_run:
  "update_execution_status eid s started completed w = (Inr u, w') \<longleftrightarrow>
   w' = w\<lparr>executions := update_rows (\<lambda>e. ex_id e = eid) (\<lambda>e. e\<lparr>ex_status := s,
       ex_started_at := (case started of None \<Rightarrow> ex_started_at e | Some t \<Rightarrow> Some t),
       ex_completed_at := (case completed of None \<Rightarrow> ex_completed_at e | Some t \<Rightarrow> Some t)\<rparr>) (executions w)\<rparr>"
  by (auto simp: update_execution_status_def set_execution_def run_simps)

lemma filter_update_rows:
  "(\<And>x. P (f x) = P x) \<Longrightarrow> filter P (update_rows P f xs) = map f (filter P xs)"
  by (induction xs) (auto simp: update_rows_def)

lemma executions_of_status:
  assumes "update_execution_status eid s started completed w = (Inr u, w')" and "executions_of w eid = [e]"
  shows "\<exists>e'. executions_of w' eid = [e'] \<and> ex_status e' = s \<and> ex_id e' = eid \<and>
    ex_workflow_version_id e' = ex_workflow_version_id e \<and>
    (\<forall>t. completed = Some t \<longrightarrow> ex_completed_at e' = Some t)"
    and "approval_waits w' = approval_waits w" and "events w' = events w"
  using assms executions_of_id [OF assms(2)]
  by (auto simp: update_status_run executions_of_def filter_update_rows)

section \<open>Approvals\<close>

lemma update_wait_run:
  assumes "update_approval_wait (aw_id aw) d by t w = (Inr u, w')" and "waits_of w eid sid = [aw]"
  shows "waits_of w' eid sid = [aw\<lparr>aw_decision := Some d, aw_decided_by := by, aw_decided_at := Some t\<rparr>]"
    and "executions w' = executions w" and "events w' = events w"
proof -
  let ?P = "\<lambda>a :: ExecutionApprovalWait. aw_execution_id a = eid \<and> aw_step_id a = sid"
  let ?f = "\<lambda>a :: ExecutionApprovalWait. if aw_id a = aw_id aw
    then a\<lparr>aw_decision := Some d, aw_decided_by := by, aw_decided_at := Some t\<rparr> else a"
  have w': "w' = w\<lparr>approval_waits := map ?f (approval_waits w)\<rparr>"
    using assms(1) by (simp add: update_approval_wait_def run_simps update_rows_def)
  have "filter ?P (map ?f xs) = map ?f (filter ?P xs)" for xs by (induction xs) auto
  then show "waits_of w' eid sid = [aw\<lparr>aw_decision := Some d, aw_decided_by := by, aw_decided_at := Some t\<rparr>]"
    using assms(2) by (simp add: w' waits_of_def)
  show "executions w' = executions w" "events w' = events w" by (simp_all add: w')
qed

text \<open>A decision that was recorded: the world up to the second event.\<close>

lemma decision_run:
  assumes "record_approval_decision pf eid sid d comment by w = (Inr r, w')"
  obtains aw t where "waits_of w eid sid = [aw]" "aw_decision aw = None"
    "r = Some (aw\<lparr>aw_decision := Some d, aw_decided_by := Some by, aw_decided_at := Some t\<rparr>)"
    "waits_of w' eid sid = [aw\<lparr>aw_decision := Some d, aw_decided_by := Some by, aw_decided_at := Some t\<rparr>]"
    "map ex_status (executions_of w' eid) = [if d = AD_approved then ES_queued else ES_failed]"
    "map ev_event_type (events_of w' eid) = map ev_event_type (events_of w eid) @
       (if d = AD_approved then [EV_approved, EV_resumed] else [EV_rejected])"
proof -
  from assms obtain e aw w2 w3 w4 w5 where e: "executions_of w eid = [e]" and aw: "waits_of w eid sid = [aw]"
    and none: "aw_decision aw = None"
    and up: "update_approval_wait (aw_id aw) d (Some by) (clock pf (w_reads w)) (w\<lparr>w_reads := Suc (w_reads w)\<rparr>) = (Inr (), w2)"
    and st: "update_execution_status eid (if d = AD_approved then ES_running else ES_failed) None None w2 = (Inr (), w3)"
    and ev: "append_domain_event pf eid (if d = AD_approved then EV_approved else EV_rejected) (Some sid) None
        [(PStr ''comment'', opt_str comment)] w3 = (Inr (), w4)"
    and re: "ewhen (d = AD_approved) (ebind (update_execution_status eid ES_queued None None) (\<lambda>_.
         append_domain_event pf eid EV_resumed (Some sid) None [(PStr ''reason'', PStr ''approval_granted'')])) w4 = (Inr (), w5)"
    and get: "get_approval_wait eid sid w5 = (Inr r, w')"
    by (auto simp: record_approval_decision_def success_simps Let_def get_wait_Inr executions_of_id
        split: option.splits)
  from update_wait_run [OF up] aw have w2: "waits_of w2 eid sid = [aw\<lparr>aw_decision := Some d,
      aw_decided_by := Some by, aw_decided_at := Some (clock pf (w_reads w))\<rparr>]"
    "executions_of w2 eid = [e]" "events w2 = events w"
    using e by (simp_all add: waits_of_def executions_of_def)
  from executions_of_status [OF st w2(2)] obtain e3 where w3: "executions_of w3 eid = [e3]"
    "ex_status e3 = (if d = AD_approved then ES_running else ES_failed)"
    "waits_of w3 eid sid = waits_of w2 eid sid" "events w3 = events w"
    by (auto simp: w2(3) waits_of_def)
  note ev4 = domain_event_journaled [OF ev]
  note w4 = journaled_rows [OF ev4]
  from journaled_events_of [OF ev4] w3(4) have types4: "map ev_event_type (events_of w4 eid) =
      map ev_event_type (events_of w eid) @ [if d = AD_approved then EV_approved else EV_rejected]"
    by (auto simp: events_of_def)
  have w5: "waits_of w5 eid sid = waits_of w2 eid sid \<and>
      map ex_status (executions_of w5 eid) = [if d = AD_approved then ES_queued else ES_failed] \<and>
      map ev_event_type (events_of w5 eid) = map ev_event_type (events_of w eid) @
       (if d = AD_approved then [EV_approved, EV_resumed] else [EV_rejected])"
  proof (cases "d = AD_approved")
    case True
    with re obtain w6 where q: "update_execution_status eid ES_queued None None w4 = (Inr (), w6)"
      and rs: "append_domain_event pf eid EV_resumed (Some sid) None
        [(PStr ''reason'', PStr ''approval_granted'')] w6 = (Inr (), w5)"
      by (auto simp: run_ewhen ebind_Inr)
    note w6 = executions_of_status [OF q w4(3) [THEN trans, OF w3(1)]]
    note j = domain_event_journaled [OF rs]
    from journaled_events_of [OF j] w6(3) types4 True show ?thesis
      using w6(1,2) w3(3) journaled_rows [OF j] w4 by (auto simp: events_of_def waits_of_def)
  next
    case False
    with re have "w5 = w4" by (simp add: run_ewhen)
    with False w3 w4 types4 show ?thesis by simp
  qed
  with get w2(1) have "r = Some (aw\<lparr>aw_decision := Some d, aw_decided_by := Some by,
      aw_decided_at := Some (clock pf (w_reads w))\<rparr>)" "w' = w5"
    by (auto simp: get_approval_wait_def one_or_none_def)
  with that aw none w5 w2(1) show thesis by metis
qed

lemma decision_refused:
  "executions_of w eid = [e] \<Longrightarrow> waits_of w eid sid = [aw] \<Longrightarrow> aw_decision aw = Some d0 \<Longrightarrow>
   record_approval_decision pf eid sid d comment by w = (Inl (ApprovalAlreadyDecidedError eid sid), w)"
  by (simp add: record_approval_decision_def run_ebind run_eguard get_or_raise_run get_approval_wait_def
      one_or_none_def)

text \<open>C28. An approval is decided once. A decision that is recorded was the first one for its gate: the
  wait now carries it, the execution is queued again after an approval and failed after any other
  decision, the journal got exactly the matching events, and every later decision is refused.\<close>

theorem approval_decided_once:
  assumes "record_approval_decision pf eid sid d comment by w = (Inr r, w')"
  shows "map aw_decision (waits_of w eid sid) = [None] \<and> map aw_decision (waits_of w' eid sid) = [Some d] \<and>
    map ex_status (executions_of w' eid) = [if d = AD_approved then ES_queued else ES_failed] \<and>
    map ev_event_type (events_of w' eid) = map ev_event_type (events_of w eid) @
      (if d = AD_approved then [EV_approved, EV_resumed] else [EV_rejected]) \<and>
    fst (record_approval_decision pf eid sid d' comment' by' w') = Inl (ApprovalAlreadyDecidedError eid sid)"
proof -
  from decision_run [OF assms] obtain aw t where aw: "waits_of w eid sid = [aw]" "aw_decision aw = None"
    and w': "waits_of w' eid sid = [aw\<lparr>aw_decision := Some d, aw_decided_by := Some by, aw_decided_at := Some t\<rparr>]"
    and st: "map ex_status (executions_of w' eid) = [if d = AD_approved then ES_queued else ES_failed]"
    and ty: "map ev_event_type (events_of w' eid) = map ev_event_type (events_of w eid) @
       (if d = AD_approved then [EV_approved, EV_resumed] else [EV_rejected])" by metis
  from st obtain e where "executions_of w' eid = [e]" by (auto simp: map_eq_Cons_conv)
  with w' have "fst (record_approval_decision pf eid sid d' comment' by' w') =
      Inl (ApprovalAlreadyDecidedError eid sid)" by (simp add: decision_refused)
  with aw w' st ty show ?thesis by simp
qed

definition sample_wait :: ExecutionApprovalWait where
  "sample_wait =
     \<lparr>aw_id = ''w1'', aw_execution_id = ''0'', aw_step_id = ''fetch'', aw_required_approvers = [],
      aw_timeout_at = 1, aw_timeout_action = TA_skip, aw_decision = None, aw_decided_by = None,
      aw_decided_at = None, aw_interaction_message_id = None, aw_created_at = 0\<rparr>"

definition waiting_world :: world where
  "waiting_world = created_world\<lparr>approval_waits := [sample_wait],
     executions := [sample_execution\<lparr>ex_status := ES_waiting_for_approval\<rparr>]\<rparr>"

definition decided :: "(exn + ExecutionApprovalWait option) \<times> world" where
  "decided = record_approval_decision sample_platform ''0'' ''fetch'' AD_approved None ''alice'' waiting_world"

theorem approval_decided_once_witness:
  "map aw_decision (waits_of (snd decided) ''0'' ''fetch'') = [Some AD_approved] \<and>
   map ex_status (executions_of (snd decided) ''0'') = [ES_queued] \<and>
   fst (record_approval_decision sample_platform ''0'' ''fetch'' AD_rejected None ''bob'' (snd decided)) =
     Inl (ApprovalAlreadyDecidedError ''0'' ''fetch'')"
proof -
  have "\<not> isl (fst decided)" by code_simp
  then have "record_approval_decision sample_platform ''0'' ''fetch'' AD_approved None ''alice'' waiting_world =
      (Inr (projr (fst decided)), snd decided)"
    by (simp add: prod_eq_iff flip: decided_def)
  from approval_decided_once [OF this] show ?thesis by simp
qed

section \<open>Replaying one more event\<close>

lemma journaled_numbered:
  assumes "journaled eid t sid payload w w'" and "journal_numbered w"
  shows "journal_numbered w'"
proof -
  from assms(1) obtain ev where ev: "events w' = events w @ [ev]" "ev_execution_id ev = eid"
    "ev_sequence ev = Suc (length (events_of w eid))" by (auto simp: journaled_def)
  have "events_of w' k = events_of (push_event ev w) k" for k
    by (simp add: events_of_def ev(1) push_event_def)
  then show ?thesis
    using jn.push_numbered [of w _ ev] assms(2) ev by (simp add: journal_numbered_def del: upt_Suc)
qed

lemma replay_Inr:
  assumes "journal_numbered w"
  shows "replay_execution pf eid w = (Inr st, w') \<longleftrightarrow> w' = w \<and>
    (\<exists>e st0. executions_of w eid = [e] \<and> project_state (pf_runtime pf) (events_of w eid) None = Inr st0 \<and>
       st = stamp (ex_status e) (PStr (ex_workflow_version_id e)) st0)"
  by (auto simp: replay_execution_def success_simps get_events_all [OF assms] run_simps)

lemma replay_step:
  assumes num: "journal_numbered w" and j: "journaled eid t sid payload w w'"
    and before: "replay_execution pf eid w0 = (Inr st, w0)" and ev0: "events_of w0 eid = events_of w eid"
    and num0: "journal_numbered w0" and e: "executions_of w' eid = [e]"
  shows "\<exists>ev. ev_event_type ev = t \<and> ev_step_id ev = sid \<and> ev_payload ev = payload \<and>
    (\<forall>st1. apply_event (pf_runtime pf) st ev = Inr st1 \<longrightarrow>
      (\<exists>st'. replay_execution pf eid w' = (Inr st', w') \<and> same_core st' st1 \<and> st_status st' = ex_status e))"
proof -
  let ?rt = "pf_runtime pf"
  from j obtain ev where ev: "events_of w' eid = events_of w eid @ [ev]" "ev_execution_id ev = eid"
    "ev_event_type ev = t" "ev_step_id ev = sid" "ev_payload ev = payload"
    by (auto simp: journaled_def events_of_def)
  from before obtain e0 :: Execution and st0 where st0: "project_state ?rt (events_of w eid) None = Inr st0"
    and st: "st = stamp (ex_status e0) (PStr (ex_workflow_version_id e0)) st0"
    by (auto simp: replay_Inr [OF num0] ev0)
  from st0 have ne: "events_of w eid \<noteq> []" by (auto simp: project_state_def)
  then have "ev_execution_id (last (events_of w eid)) = eid" by (metis events_of_id last_in_set)
  with st0 ne have fold: "rfold (project_step ?rt) (events_of w eid) (initial_state eid None) = Inr st0"
    by (simp add: project_state_nonempty)
  have replay: "\<exists>st'. replay_execution pf eid w' = (Inr st', w') \<and> same_core st' st1 \<and> st_status st' = ex_status e"
    if "apply_event ?rt st ev = Inr st1" for st1
  proof -
    have "same_core st (st0\<lparr>st_execution_id := ev_execution_id ev, st_last_event_sequence := ev_sequence ev\<rparr>)"
      by (simp add: st stamp_def same_core_def)
    from apply_event_core [OF this, of ?rt ev] that obtain st2 where
      "project_step ?rt ev st0 = Inr st2" "same_core st1 st2"
      by (auto simp: project_step_def dest: rel_sum_Inr)
    moreover have "project_state ?rt (events_of w' eid) None = project_step ?rt ev st0"
      using fold ev by (simp add: project_state_nonempty rfold_append split: sum.splits)
    ultimately show ?thesis
      using e by (auto simp: replay_Inr [OF journaled_numbered [OF j num]] stamp_def same_core_def)
  qed
  with ev show ?thesis by blast
qed

section \<open>Gates that time out\<close>

lemma timeout_cost_free:
  "record_cost_attribution pf e sid [(PStr ''timeout_action'', v)] w = (Inr (), w)"
  by (simp add: record_cost_attribution_def COST_SIGNAL_KEYS_def dhas_def dget_def run_simps)

lemma gate_handled_once: "waits_of w eid (step_id step) = [aw] \<Longrightarrow> handle_approval_gate pf eid step w = (Inr (), w)"
  by (simp add: handle_approval_gate_def run_ebind run_simps get_approval_wait_def one_or_none_def)

lemma time_out_run:
  assumes "time_out_wait pf aw w = (Inr u, w')" and "waits_of w eid sid = [aw]"
    and "executions_of w eid = [e]"
  obtains w1 where "events w1 = events w"
    "journaled eid EV_approval_timed_out (Some sid)
      [(PStr ''timeout_action'', PStr (timeout_action_value (aw_timeout_action aw)))] w1 w'"
    "map ex_status (executions_of w' eid) = [if aw_timeout_action aw = TA_fail then ES_failed else ES_running]"
    "map aw_decision (waits_of w' eid sid) =
      [Some (if aw_timeout_action aw = TA_skip then AD_approved else AD_timed_out)]"
proof -
  from assms(2) have ids: "aw_execution_id aw = eid" "aw_step_id aw = sid"
    unfolding waits_of_def by (auto dest: filter_singleD)
  let ?d = "if aw_timeout_action aw = TA_skip then AD_approved else AD_timed_out"
  let ?s = "if timeout_action_value (aw_timeout_action aw) = ''fail'' then ES_failed else ES_running"
  let ?p = "[(PStr ''timeout_action'', PStr (timeout_action_value (aw_timeout_action aw)))]"
  from assms(1) obtain w2 where
    up: "update_approval_wait (aw_id aw) ?d (Some ''system'') (clock pf (w_reads w)) (w\<lparr>w_reads := Suc (w_reads w)\<rparr>) = (Inr (), w2)"
    and rest: "ebind (get_execution_by_id eid) (\<lambda>found.
     case found of None \<Rightarrow> eret () | Some e \<Rightarrow>
         ebind (update_execution_status (ex_id e) ?s None None) (\<lambda>_.
         record_runtime_event pf (ex_id e) (Some sid) EV_approval_timed_out ?p (Some ?s))) w2 = (Inr u, w')"
    by (auto simp: time_out_wait_def success_simps Let_def ids)
  note w2 = update_wait_run [OF up, of eid sid]
  have w2e: "executions_of w2 eid = [e]" and w2w: "map aw_decision (waits_of w2 eid sid) = [Some ?d]"
    and w2v: "events w2 = events w"
    using w2 assms(2,3) by (simp_all add: waits_of_def executions_of_def)
  from rest w2e obtain w3 where s3: "update_execution_status eid ?s None None w2 = (Inr (), w3)"
    and rt: "record_runtime_event pf eid (Some sid) EV_approval_timed_out ?p (Some ?s) w3 = (Inr u, w')"
    by (auto simp: ebind_Inr get_execution_by_id_def one_or_none_def executions_of_id)
  from executions_of_status [OF s3 w2e] obtain e3 where w3: "executions_of w3 eid = [e3]"
    "approval_waits w3 = approval_waits w2" "events w3 = events w2" by blast
  from rt w3(1) obtain w4 where s4: "update_execution_status eid ?s None None w3 = (Inr (), w4)"
    and d4: "append_domain_event pf eid EV_approval_timed_out (Some sid) None ?p w4 = (Inr (), w')"
    by (auto simp: record_runtime_event_def success_simps timeout_cost_free executions_of_id)
  from executions_of_status [OF s4 w3(1)] obtain e4 where w4: "executions_of w4 eid = [e4]" "ex_status e4 = ?s"
    "approval_waits w4 = approval_waits w3" "events w4 = events w3" by blast
  note j = domain_event_journaled [OF d4]
  have "waits_of w' eid sid = waits_of w2 eid sid"
    using journaled_rows(4) [OF j] w4(3) w3(2) by (simp add: waits_of_def)
  moreover have "?s = (if aw_timeout_action aw = TA_fail then ES_failed else ES_running)"
    by (cases "aw_timeout_action aw") simp_all
  ultimately show thesis
    using that [of w4] j w2v w2w w3(3) w4 journaled_rows(3) [OF j] by simp
qed


lemma waiting_numbered: "journal_numbered waiting_world"
proof -
  have "journal_numbered created_world"
    using store_okD(1) [OF reachable_store_ok [OF sample_codec fresh_store_ok [OF sample_fresh] created_reachable]] .
  then show ?thesis by (simp add: journal_numbered_def events_of_def waiting_world_def)
qed

definition timed_out :: "(exn + unit) \<times> world" where
  "timed_out = time_out_wait sample_platform sample_wait waiting_world"


section \<open>Which statuses an operation accepts\<close>

text \<open>The lifecycle guards. A finished execution cannot be cancelled, only a queued or running one
  can be paused, one that is still in progress cannot be resumed, and only a paused, waiting, failed
  or rolled-back one can be rolled back; the refused operation changes nothing.\<close>

theorem lifecycle_guards:
  assumes "executions_of w eid = [e]"
  shows "(ex_status e \<in> {ES_completed, ES_failed, ES_canceled} \<longrightarrow>
      isl (fst (cancel_execution pf eid w)) \<and> snd (cancel_execution pf eid w) = w) \<and>
    (ex_status e \<notin> {ES_queued, ES_running} \<longrightarrow>
      isl (fst (pause_execution eid w)) \<and> snd (pause_execution eid w) = w) \<and>
    (ex_status e \<in> {ES_queued, ES_running, ES_waiting_for_approval, ES_compensating} \<longrightarrow>
      resume_execution pf eid w = (Inl (ExecutionAlreadyRunningError eid), w)) \<and>
    (ex_status e \<notin> {ES_paused, ES_waiting_for_approval, ES_failed, ES_rolled_back} \<longrightarrow>
      rollback_execution pf eid n by reason True w = (Inl (RollbackNotEligibleError eid (ex_status e)), w))"
  using assms
  by (auto simp: cancel_execution_def pause_execution_def resume_execution_def rollback_execution_def
      rollback_def run_ebind run_eguard get_or_raise_run one_or_none_def get_execution_by_id_def
      ROLLBACK_ELIGIBLE_STATUSES_def)

lemma created_executions: "executions_of created_world ''0'' = [sample_execution]"
  by code_simp

theorem lifecycle_guards_witness:
  "resume_execution sample_platform ''0'' created_world = (Inl (ExecutionAlreadyRunningError ''0''), created_world) \<and>
   rollback_execution sample_platform ''0'' 1 None None True created_world =
     (Inl (RollbackNotEligibleError ''0'' ES_queued), created_world)"
  using lifecycle_guards [OF created_executions, of sample_platform 1 None None]
  by (simp add: sample_execution_def)

section \<open>Creation\<close>

lemma resolve_Inr:
  "resolve_workflow_version wid vid w = (Inr v, w') \<Longrightarrow> v \<in> set (wf_versions w) \<and> w' = w"
  by (auto simp: resolve_workflow_version_def success_simps get_version_by_id_def get_definition_by_id_def
      one_or_none_Some dest: filter_singleD)

lemma check_trigger_world: "snd (check_trigger t w) = w"
  by (simp add: check_trigger_def run_ebind run_eguard run_simps get_trigger_by_id_def count_active_for_trigger_def
      split: option.splits sum.splits)

lemma check_quota_run:
  "check_quota pf ws w = (Inr (s, q), w') \<Longrightarrow>
   s \<in> {ES_queued, ES_paused_quota_exceeded} \<and> events w' = events w \<and> same_tables w w'"
  by (auto simp: check_quota_def success_simps read_clock_def run_simps same_tables_def
      split: option.splits if_splits)

lemma quiet_overage:
  "same_tables w (snd (publish_billing_overage_required pf e q w)) \<and>
   events (snd (publish_billing_overage_required pf e q w)) = events w"
proof -
  obtain r w1 where c: "correlation pf e w = (r, w1)" by fastforce
  then have "same_tables w w1" "events w1 = events w"
    using quiet_tables(2) [of w pf e] quiet_events(2) [of pf e w] by simp_all
  with c quiet_tables(3) [of w1 pf] quiet_events(3) [of pf _ w1] same_tables_trans show ?thesis
    by (cases r) (auto simp: publish_billing_overage_required_def run_ebind run_simps Let_def same_tables_def)
qed

lemma create_run:
  assumes "create_execution pf data created_by parent rerun_of pre results w = (Inr e, w')"
  obtains v ir w0 where "resolve_workflow_version (ec_workflow_definition_id data) (ec_workflow_version_id data) w = (Inr v, w)"
    "check_trigger (ec_trigger_id data) w = (Inr (), w)" "ex_trigger_id e = ec_trigger_id data"
    "ex_workflow_version_id e = wv_id v"
    "WorkflowIR_from_dict (pf_runtime pf) (wv_compiled_ir v) = Inr ir"
    "ex_status e \<in> {ES_queued, ES_paused_quota_exceeded}" "ex_parent_execution_id e = parent"
    "events w0 = events w" "executions w0 = executions w @ [e]"
    "journaled (ex_id e) EV_created None (created_payload (ex_workflow_definition_id e) (wv_id v)
       (map step_id (steps ir)) pre results (ec_input_parameters data)) w0 w'"
proof -
  from assms obtain def :: WorkflowDefinition and v wa w1 initial quota w2 eid w3 t w4 ir ev w5 ctx w6 w7 where
    d: "filter (\<lambda>d. wd_id d = ec_workflow_definition_id data) (wf_definitions w) = [def]"
    and v: "resolve_workflow_version (wd_id def) (ec_workflow_version_id data) w = (Inr v, wa)"
    and tr: "check_trigger (ec_trigger_id data) wa = (Inr (), w1)"
    and qu: "check_quota pf (ec_workspace_id data) w1 = (Inr (initial, quota), w2)"
    and id: "fresh_uuid pf w2 = (Inr eid, w3)" and rt: "row_time pf w3 = (Inr t, w4)"
    and e: "e = new_execution data v (wd_id def) initial created_by parent rerun_of eid t"
    and ir: "WorkflowIR_from_dict (pf_runtime pf) (wv_compiled_ir v) = Inr ir"
    and ap: "append_event pf e EV_created None None (created_payload (wd_id def) (wv_id v)
       (map step_id (steps ir)) pre results (ec_input_parameters data))
       (w4\<lparr>executions := executions w4 @ [e]\<rparr>) = (Inr ev, w5)"
    and co: "correlation pf e w5 = (Inr ctx, w6)"
    and pu: "publish_execution_created pf eid (wd_id def) (wv_id v) (ex_workspace_id e) ctx w6 = (Inr (), w7)"
    and bi: "(case quota of Some q \<Rightarrow> ewhen (initial = ES_paused_quota_exceeded)
        (publish_billing_overage_required pf e q) | None \<Rightarrow> eret ()) w7 = (Inr (), w')"
    by (auto simp: create_execution_def success_simps get_definition_by_id_def one_or_none_Some Let_def
        create_execution_row_def load_ir_def run_simps)
  let ?w0 = "w4\<lparr>executions := executions w4 @ [e]\<rparr>"
  from resolve_Inr [OF v] have [simp]: "wa = w" by simp
  from d have id_def: "wd_id def = ec_workflow_definition_id data" by (auto dest: filter_singleD)
  from tr check_trigger_world [of "ec_trigger_id data" w] have w1 [simp]: "w1 = w" by simp
  from check_quota_run [OF qu] id rt have w4: "events w4 = events w" "executions w4 = executions w"
    "initial \<in> {ES_queued, ES_paused_quota_exceeded}"
    by (auto simp: fresh_uuid_def read_clock_def same_tables_def)
  note j5 = append_event_journaled [OF ap]
  have "same_tables w5 w6" "events w6 = events w5"
    using co quiet_tables(2) [of w5 pf e] quiet_events(2) [of pf e w5] by simp_all
  note j6 = journaled_quiet [OF j5 this]
  have "same_tables w6 w7" "events w7 = events w6"
    using pu quiet_tables(3) [of w6 pf] quiet_events(3) [of pf _ w6]
    unfolding publish_execution_created_def by (metis snd_conv)+
  note j7 = journaled_quiet [OF j6 this]
  have "same_tables w7 w'" "events w' = events w7"
    using bi quiet_overage [of w7 pf e]
    by (auto simp: run_ewhen run_simps same_tables_def split: option.splits if_splits) (metis snd_conv)+
  note j = journaled_quiet [OF j7 this]
  show thesis
    by (rule that [of v ir ?w0]) (use j e ir w4 v tr id_def in \<open>simp_all add: new_execution_def\<close>)
qed

lemma created_replay:
  assumes "create_execution pf data created_by parent rerun_of pre results w = (Inr e, w')"
    and "journal_numbered w" and "executions_of w (ex_id e) = []" and "events_of w (ex_id e) = []"
  shows "\<exists>v ir st. resolve_workflow_version (ec_workflow_definition_id data) (ec_workflow_version_id data) w = (Inr v, w) \<and> ex_workflow_version_id e = wv_id v \<and>
    WorkflowIR_from_dict (pf_runtime pf) (wv_compiled_ir v) = Inr ir \<and>
    replay_execution pf (ex_id e) w' = (Inr st, w') \<and>
    st_status st = ex_status e \<and> ex_status e \<in> {ES_queued, ES_paused_quota_exceeded} \<and>
    st_completed_step_ids st = dedupe pre \<and> st_active_step_ids st = [] \<and>
    st_pending_step_ids st = filter (\<lambda>s. s \<notin> set pre) (map step_id (steps ir)) \<and>
    st_last_event_sequence st = 1"
proof -
  from create_run [OF assms(1)] obtain v ir w0 where v: "resolve_workflow_version (ec_workflow_definition_id data) (ec_workflow_version_id data) w = (Inr v, w)"
    "ex_workflow_version_id e = wv_id v" and ir: "WorkflowIR_from_dict (pf_runtime pf) (wv_compiled_ir v) = Inr ir"
    and s: "ex_status e \<in> {ES_queued, ES_paused_quota_exceeded}"
    and w0: "events w0 = events w" "executions w0 = executions w @ [e]"
    and j: "journaled (ex_id e) EV_created None (created_payload (ex_workflow_definition_id e) (wv_id v)
       (map step_id (steps ir)) pre results (ec_input_parameters data)) w0 w'" by metis
  have num: "journal_numbered w'"
    by (rule journaled_numbered [OF j]) (use assms(2) w0(1) in \<open>simp add: journal_numbered_def events_of_def\<close>)
  from j assms(4) w0(1) obtain ev where ev: "events_of w' (ex_id e) = [ev]" "ev_event_type ev = EV_created"
    "ev_execution_id ev = ex_id e" "ev_sequence ev = 1"
    "ev_payload ev = created_payload (ex_workflow_definition_id e) (wv_id v)
       (map step_id (steps ir)) pre results (ec_input_parameters data)"
    by (auto simp: journaled_def events_of_def)
  have "executions_of w' (ex_id e) = [e]"
    using assms(3) w0(2) journaled_rows(1) [OF j] by (simp add: executions_of_def)
  moreover obtain st0 where "project_state (pf_runtime pf) [ev] None = Inr st0"
    "st_completed_step_ids st0 = dedupe pre" "st_active_step_ids st0 = []"
    "st_pending_step_ids st0 = filter (\<lambda>s. s \<notin> set pre) (map step_id (steps ir))"
    "st_last_event_sequence st0 = 1"
    using ev by (simp add: project_state_def project_step_def apply_event_def apply_created_def
        str_list_def created_payload_def dget_or_def dget_def Let_def comp_def set_version_def set_status_def dget_none_def)
  ultimately show ?thesis
    using v ir s ev(1) by (fastforce simp: replay_Inr [OF num] stamp_def)
qed

text \<open>C29. A created execution starts from its version: its replayed state has the status it was given
  (queued, or paused when the quota asks for an overage), the precompleted steps as completed, every
  other step of the compiled IR as pending and none as active.\<close>

theorem create_execution_starts:
  assumes "create_execution pf data created_by parent rerun_of pre results w = (Inr e, w')"
    and "journal_numbered w" and "executions_of w (ex_id e) = []" and "events_of w (ex_id e) = []"
  shows "\<exists>v ir st. v \<in> set (wf_versions w) \<and> ex_workflow_version_id e = wv_id v \<and>
    WorkflowIR_from_dict (pf_runtime pf) (wv_compiled_ir v) = Inr ir \<and>
    replay_execution pf (ex_id e) w' = (Inr st, w') \<and>
    st_status st = ex_status e \<and> ex_status e \<in> {ES_queued, ES_paused_quota_exceeded} \<and>
    st_completed_step_ids st = dedupe pre \<and> st_active_step_ids st = [] \<and>
    st_pending_step_ids st = filter (\<lambda>s. s \<notin> set pre) (map step_id (steps ir)) \<and>
    st_last_event_sequence st = 1"
  using created_replay [OF assms] resolve_Inr by metis

lemma sample_create:
  "create_execution sample_platform sample_request None None None [] [] sample_world =
    (Inr sample_execution, created_world)"
proof (rule prod_eqI)
  show "fst (create_execution sample_platform sample_request None None None [] [] sample_world) =
      fst (Inr sample_execution, created_world)"
    unfolding fst_conv by code_simp
qed (simp add: created_world_def)

lemma sample_world_empty: "journal_numbered sample_world" "executions_of sample_world eid = []"
    "events_of sample_world eid = []"
  by (simp_all add: journal_numbered_def events_of_def executions_of_def sample_world_def empty_world_def)

theorem create_execution_starts_witness:
  "\<exists>v ir st. v \<in> set (wf_versions sample_world) \<and> ex_workflow_version_id sample_execution = wv_id v \<and>
    WorkflowIR_from_dict (pf_runtime sample_platform) (wv_compiled_ir v) = Inr ir \<and>
    replay_execution sample_platform (ex_id sample_execution) created_world = (Inr st, created_world) \<and>
    st_status st = ex_status sample_execution \<and>
    ex_status sample_execution \<in> {ES_queued, ES_paused_quota_exceeded} \<and>
    st_completed_step_ids st = dedupe [] \<and> st_active_step_ids st = [] \<and>
    st_pending_step_ids st = filter (\<lambda>s. s \<notin> set []) (map step_id (steps ir)) \<and>
    st_last_event_sequence st = 1"
  by (rule create_execution_starts [OF sample_create sample_world_empty])

section \<open>Hot changes\<close>

lemma get_state_tables: "same_tables w (snd (get_execution_state pf eid w))"
proof -
  let ?w = "w\<lparr>w_reads := Suc (w_reads w)\<rparr>"
  obtain r where r: "load_state pf eid ?w = (r, ?w)" using load_state_world by (metis prod.collapse)
  show ?thesis
    by (cases r) (simp_all add: get_execution_state_def redis_get_def redis_set_def read_clock_def run_ebind
        run_simps same_tables_def r split: option.splits redis_val.splits)
qed

lemma version_Inr: "get_version_by_id vid w = (Inr (Some v), w') \<longleftrightarrow>
    filter (\<lambda>v. wv_id v = vid) (wf_versions w) = [v] \<and> w' = w"
  by (auto simp: get_version_by_id_def one_or_none_Some)

lemma resolve_Some_Inr: "resolve_workflow_version wid (Some vid) w = (Inr v, w') \<longleftrightarrow>
    filter (\<lambda>v. wv_id v = vid) (wf_versions w) = [v] \<and> w' = w"
  by (auto simp: resolve_workflow_version_def success_simps get_version_by_id_def one_or_none_Some)

text \<open>C33. A hot change that is applied was compatible: with the steps active in the state the service
  read, the new version keeps every one of them; the execution then runs the new version and its
  journal says so.\<close>

theorem hot_change_applied_is_compatible:
  assumes "apply_hot_change pf eid vid w = (Inr e', w')"
  shows "\<exists>e st old new old_ir new_ir. executions_of w eid = [e] \<and>
    fst (get_execution_state pf eid w) = Inr st \<and>
    old \<in> set (wf_versions w) \<and> WorkflowIR_from_dict (pf_runtime pf) (wv_compiled_ir old) = Inr old_ir \<and>
    new \<in> set (wf_versions w) \<and> WorkflowIR_from_dict (pf_runtime pf) (wv_compiled_ir new) = Inr new_ir \<and>
    wv_id old = ex_workflow_version_id e \<and> wv_id new = vid \<and>
    compatible (validate_compatibility old_ir new_ir (st_active_step_ids st)) \<and>
    ex_workflow_version_id e' = vid \<and> executions_of w' eid = [e'] \<and>
    map ev_event_type (events_of w' eid) = map ev_event_type (events_of w eid) @ [EV_hot_changed]"
proof -
  from assms obtain e st old new w1 old_ir new_ir e1 w2 w3 where
    e: "executions_of w eid = [e]" and st: "get_execution_state pf eid w = (Inr st, w1)"
    and old: "filter (\<lambda>v. wv_id v = ex_workflow_version_id e) (wf_versions w1) = [old]"
    and new: "filter (\<lambda>v. wv_id v = vid) (wf_versions w1) = [new]"
    and ir: "WorkflowIR_from_dict (pf_runtime pf) (wv_compiled_ir old) = Inr old_ir"
      "WorkflowIR_from_dict (pf_runtime pf) (wv_compiled_ir new) = Inr new_ir"
    and ok: "compatible (validate_compatibility old_ir new_ir (st_active_step_ids st))"
    and e1: "executions_of w1 eid = [e1]"
    and set: "set_execution (ex_id e1) (\<lambda>x. x\<lparr>ex_workflow_version_id := vid\<rparr>) w1 = (Inr (), w2)"
    and ev: "append_domain_event pf (ex_id e1) EV_hot_changed None None
       [(PStr ''old_version_id'', PStr (ex_workflow_version_id e1)), (PStr ''new_version_id'', PStr vid)] w2 = (Inr (), w3)"
    and inv: "redis_delete (state_cache_key (ex_id e1)) w3 = (Inr (), w')"
    and e': "executions_of w' (ex_id e1) = [e']"
    by (auto simp: apply_hot_change_def validate_hot_change_def success_simps version_Inr resolve_Some_Inr
        load_ir_def invalidate_state_cache_def)
  note tb = get_state_tables [of w pf eid, unfolded st snd_conv]
  have evs1: "events w1 = events w" using get_state_events [of pf eid w] st by simp
  note id = executions_of_id [OF e1]
  note j = domain_event_journaled [OF ev, unfolded id]
  have w2: "executions_of w2 eid = [e1\<lparr>ex_workflow_version_id := vid\<rparr>]" "events w2 = events w"
    using set e1 evs1 id by (auto simp: set_execution_def run_simps executions_of_def filter_update_rows)
  have w': "executions_of w' eid = executions_of w3 eid" "events w' = events w3"
    using inv by (auto simp: redis_delete_def run_simps executions_of_def)
  have "e' = e1\<lparr>ex_workflow_version_id := vid\<rparr>" "executions_of w' eid = [e']"
    using e' id w' w2(1) journaled_rows(3) [OF j] by auto
  moreover have "map ev_event_type (events_of w' eid) = map ev_event_type (events_of w eid) @ [EV_hot_changed]"
    using journaled_events_of [OF j] w' w2(2) by (auto simp: events_of_def)
  moreover have "wf_versions w1 = wf_versions w" using tb by (simp add: same_tables_def)
  ultimately show ?thesis
    using e st ir ok filter_singleD [OF old] filter_singleD [OF new]
    by (intro exI [of _ e] exI [of _ st] exI [of _ old] exI [of _ new] exI [of _ old_ir] exI [of _ new_ir]) simp
qed

definition two_versions :: world where
  "two_versions = created_world\<lparr>wf_versions := [sample_version,
     sample_version\<lparr>wv_id := ''v2'', wv_version_number := 2\<rparr>]\<rparr>"

definition changed :: "(exn + Execution) \<times> world" where
  "changed = apply_hot_change sample_platform ''0'' ''v2'' two_versions"

theorem hot_change_applied_is_compatible_witness:
  "ex_workflow_version_id (projr (fst changed)) = ''v2'' \<and>
   map ev_event_type (events_of (snd changed) ''0'') =
     map ev_event_type (events_of two_versions ''0'') @ [EV_hot_changed]"
proof -
  have "\<not> isl (fst changed)" by code_simp
  then have "apply_hot_change sample_platform ''0'' ''v2'' two_versions = (Inr (projr (fst changed)), snd changed)"
    by (simp add: prod_eq_iff flip: changed_def)
  from hot_change_applied_is_compatible [OF this] show ?thesis by auto
qed

end
