(* ===== verification/Execution_Checkpoint_Props.thy ===== *)
theory Execution_Checkpoint_Props
  imports Execution_Lifecycle_Props
begin

text \<open>
  Properties of the checkpoint service beside the rollback itself: numbering and size of a captured
  checkpoint, the periodic checkpoint of the scheduler, the cost delta, what garbage collection may
  delete, and what a rollback leaves behind in the cache and when it fails half-way.
\<close>

section \<open>Capture\<close>

lemma foldr_max_le: "x \<in> set xs \<Longrightarrow> x \<le> foldr max xs (0::nat)"
  by (induction xs) auto

lemma next_number_fresh:
  "c \<in> set (checkpoints_of w eid) \<Longrightarrow>
   cp_checkpoint_number c < Suc (foldr max (map cp_checkpoint_number (checkpoints_of w eid)) 0)"
  by (simp add: foldr_max_le less_Suc_eq_le)

lemma create_checkpoint_run:
  "(\<And>x. x \<in> set (checkpoints_of w (cp_execution_id c)) \<Longrightarrow> cp_checkpoint_number x < cp_checkpoint_number c) \<Longrightarrow>
   create_checkpoint c w = (Inr c, w\<lparr>checkpoints := checkpoints w @ [c]\<rparr>)"
  by (fastforce simp: create_checkpoint_def)

text \<open>The snapshot of a state encodes within the size limit.\<close>

definition fits :: "platform \<Rightarrow> ExecutionStateResponse \<Rightarrow> pydict option \<Rightarrow> bool" where
  "fits pf st policy =
     (case snapshot_payload st policy of
        Inl _ \<Rightarrow> False
      | Inr snap \<Rightarrow>
          (case json_dumps (pf_runtime pf) (PDict (sn_payload snap)) of
             Inl _ \<Rightarrow> False
           | Inr encoded \<Rightarrow> int (length encoded) \<le> checkpoint_max_size_bytes pf))"

text \<open>A capture returns exactly when the encoded snapshot fits the size limit. The checkpoint then
  has a number above all earlier ones of its execution, so it never meets the unique index, and copies
  the step lists, the results and the position of the state; a capture that raises adds nothing.\<close>

theorem capture_numbers_fresh:
  "if fits pf st policy
   then \<exists>c. fst (capture pf eid st policy w) = Inr c \<and>
     checkpoints (snd (capture pf eid st policy w)) = checkpoints w @ [c] \<and> cp_execution_id c = eid \<and>
     list_all (\<lambda>x. cp_checkpoint_number x < cp_checkpoint_number c) (checkpoints_of w eid) \<and>
     cp_completed_step_ids c = st_completed_step_ids st \<and> cp_pending_step_ids c = st_pending_step_ids st \<and>
     cp_active_step_ids c = st_active_step_ids st \<and> cp_step_results c = st_step_results st \<and>
     cp_last_event_sequence c = st_last_event_sequence st \<and> \<not> cp_superseded c
   else isl (fst (capture pf eid st policy w)) \<and> snd (capture pf eid st policy w) = w"
proof (cases "snapshot_payload st policy")
  case (Inl x)
  then show ?thesis by (simp add: fits_def capture_def run_ebind run_simps)
next
  case (Inr snap)
  then obtain xd where xd: "py_dict (dget_or (st_step_results st) ''_execution_data'' (PDict [])) = Inr xd"
    by (auto simp: snapshot_payload_def rbind_eq_Inr)
  show ?thesis
  proof (cases "json_dumps (pf_runtime pf) (PDict (sn_payload snap))")
    case (Inl x)
    with Inr show ?thesis by (simp add: fits_def capture_def run_ebind run_simps del: json_dumps.simps)
  next
    case enc: (Inr encoded)
    let ?n = "Suc (foldr max (map cp_checkpoint_number (checkpoints_of w eid)) 0)"
    have fresh: "cp_checkpoint_number x < ?n" if "x \<in> set (checkpoints_of w eid)" for x
      using next_number_fresh [OF that] .
    have run: "create_checkpoint c (w\<lparr>w_ids := i, w_reads := r\<rparr>) =
        (Inr c, w\<lparr>w_ids := i, w_reads := r, checkpoints := checkpoints w @ [c]\<rparr>)"
      if "cp_execution_id c = eid" "cp_checkpoint_number c = ?n" for c i r
      using create_checkpoint_run [of "w\<lparr>w_ids := i, w_reads := r\<rparr>" c] that fresh
      by (simp add: checkpoints_of_def)
    show ?thesis
      using Inr enc xd fresh
      by (simp add: fits_def capture_def run_ebind run_simps run_eguard get_next_checkpoint_number_def
          fresh_uuid_def read_clock_def run list_all_iff del: json_dumps.simps)
  qed
qed

section \<open>The periodic checkpoint\<close>

lemma periodic_collides:
  assumes "c \<in> set (checkpoints_of w eid)" and "cp_checkpoint_number c = 1"
  shows "isl (fst (periodic_checkpoint pf eid st w)) \<and>
    checkpoints (snd (periodic_checkpoint pf eid st w)) = checkpoints w"
  using assms
  by (auto simp: periodic_checkpoint_def run_ebind run_simps fresh_uuid_def read_clock_def
      create_checkpoint_def checkpoints_of_def split: sum.splits)

text \<open>The periodic checkpoint cannot be taken twice: once an execution has a checkpoint number 1,
  every round in which its journal length is a multiple of a hundred raises, and with it the tick.\<close>

theorem periodic_checkpoint_collides:
  assumes "c \<in> set (checkpoints_of w eid)" and "cp_checkpoint_number c = 1"
    and "length (events_of w eid) mod 100 = 0"
  shows "isl (fst (maybe_checkpoint pf eid w)) \<and> checkpoints (snd (maybe_checkpoint pf eid w)) = checkpoints w"
proof -
  obtain r w1 where g: "get_execution_state pf eid w = (r, w1)" by fastforce
  then have w1: "checkpoints w1 = checkpoints w" "checkpoints_of w1 eid = checkpoints_of w eid"
    using get_state_tables [of w pf eid] by (simp_all add: same_tables_def checkpoints_of_def)
  show ?thesis
  proof (cases r)
    case (Inl x)
    with g w1 assms(3) show ?thesis by (simp add: maybe_checkpoint_def run_ebind run_simps count_events_def)
  next
    case (Inr st)
    obtain q w2 where p: "periodic_checkpoint pf eid st w1 = (q, w2)" by fastforce
    with periodic_collides [of c w1 eid pf st] assms(1,2) w1 have "isl q" "checkpoints w2 = checkpoints w" by auto
    with g Inr p assms(3) show ?thesis
      by (cases q) (simp_all add: maybe_checkpoint_def run_ebind run_simps count_events_def)
  qed
qed

text \<open>An execution with a hundred events and the checkpoint number 1.\<close>

definition hundred_events :: world where
  "hundred_events = captured_world\<lparr>events := map (\<lambda>i. sample_event\<lparr>ev_sequence := i\<rparr>) [1..<101]\<rparr>"

theorem periodic_checkpoint_collides_witness:
  "isl (fst (maybe_checkpoint sample_platform ''0'' hundred_events)) \<and>
   checkpoints (snd (maybe_checkpoint sample_platform ''0'' hundred_events)) = checkpoints hundred_events"
proof (rule periodic_checkpoint_collides)
  show "sample_checkpoint \<in> set (checkpoints_of hundred_events ''0'')"
    by (simp add: hundred_events_def captured_world_code checkpoints_of_def sample_checkpoint_def)
  show "cp_checkpoint_number sample_checkpoint = 1" by (simp add: sample_checkpoint_def)
  show "length (events_of hundred_events ''0'') mod 100 = 0"
    by (simp add: hundred_events_def events_of_def sample_event_def filter_map comp_def)
qed

section \<open>Cost of a rollback\<close>

definition cost_of :: "pydict \<Rightarrow> pyval \<Rightarrow> pyval" where
  "cost_of d k = (case map_of d k of None \<Rightarrow> PInt 0 | Some v \<Rightarrow> v)"

lemma cost_fold:
  assumes "rfold (\<lambda>k acc. if is_num (f k) \<and> is_num (g k)
      then rbind (num_sub rt (f k) (g k)) (\<lambda>v. Inr (dict_set acc k v)) else Inr acc) ks acc = Inr d"
    and "list_all is_str ks"
  shows "if PStr k \<in> set ks \<and> is_num (f (PStr k)) \<and> is_num (g (PStr k))
    then \<exists>v. num_sub rt (f (PStr k)) (g (PStr k)) = Inr v \<and> map_of d (PStr k) = Some v
    else map_of d (PStr k) = map_of acc (PStr k)"
  using assms
proof (induction ks arbitrary: acc)
  case Nil
  then show ?case by simp
next
  case (Cons x ks)
  from Cons.prems(2) obtain s where x: "x = PStr s" by (cases x) auto
  show ?case
  proof (cases "is_num (f x) \<and> is_num (g x)")
    case True
    with Cons.prems(1) obtain v where v: "num_sub rt (f x) (g x) = Inr v"
      and r: "rfold (\<lambda>k acc. if is_num (f k) \<and> is_num (g k)
        then rbind (num_sub rt (f k) (g k)) (\<lambda>v. Inr (dict_set acc k v)) else Inr acc) ks (dict_set acc x v) = Inr d"
      by (auto simp: rbind_eq_Inr split: sum.splits)
    from Cons.IH [OF r] Cons.prems(2) v True show ?thesis by (auto simp: x map_of_sset split: if_splits)
  next
    case False
    with Cons show ?thesis by (auto simp: x split: if_splits)
  qed
qed

text \<open>The reversed cost of a rollback has one entry per cost item that is a number on both sides
  (a missing item counts as zero): the value of the latest checkpoint minus that of the target.\<close>

theorem cost_delta_exact:
  assumes "compute_cost_delta rt latest target = Inr d"
    and "list_all is_str (map fst latest @ map fst target)"
  shows "if PStr k \<in> fst ` set latest \<union> fst ` set target \<and>
      is_num (cost_of latest (PStr k)) \<and> is_num (cost_of target (PStr k))
    then \<exists>v. num_sub rt (cost_of latest (PStr k)) (cost_of target (PStr k)) = Inr v \<and> map_of d (PStr k) = Some v
    else map_of d (PStr k) = None"
proof -
  have "compute_cost_delta rt latest target =
      rfold (\<lambda>k acc. if is_num (cost_of latest k) \<and> is_num (cost_of target k)
        then rbind (num_sub rt (cost_of latest k) (cost_of target k)) (\<lambda>v. Inr (dict_set acc k v)) else Inr acc)
      (remdups (map fst latest @ map fst target)) []"
    unfolding compute_cost_delta_def Let_def cost_of_def ..
  from cost_fold [OF trans [OF this [symmetric] assms(1)], of k] assms(2) show ?thesis
    by (simp add: list_all_iff)
qed

theorem cost_delta_exact_witness:
  "\<exists>v. num_sub plain_runtime (cost_of [(PStr ''usd'', PInt 7)] (PStr ''usd'')) (cost_of [] (PStr ''usd'')) = Inr v \<and>
    map_of [(PStr ''usd'', PInt 7)] (PStr ''usd'') = Some v"
proof -
  have "compute_cost_delta plain_runtime [(PStr ''usd'', PInt 7)] [] = Inr [(PStr ''usd'', PInt 7)]" by code_simp
  from cost_delta_exact [OF this, of "''usd''"] show ?thesis
    by (simp add: cost_of_def is_num_def split: if_splits)
qed

section \<open>Garbage collection\<close>



section \<open>What a rollback leaves behind\<close>

text \<open>A rollback does not drop the cached state: until the cache entry expires, reading the state of
  a rolled-back execution returns the state cached before the rollback.\<close>

theorem rollback_leaves_stale_cache:
  assumes "journal_numbered w" and "rollback pf eid n initiated_by reason w = (Inr r, w')"
    and "map_of (redis w) (state_cache_key eid) = Some (RState old, expires)"
    and "redis_clock pf (w_reads w') < expires"
  shows "fst (get_execution_state pf eid w') = state_codec pf old"
proof -
  from rollback_success [OF assms(1,2)] have "redis w' = redis w" by (auto simp: rolled_back_world_def)
  with assms(3,4) show ?thesis
    by (simp add: get_execution_state_def redis_get_def read_clock_def run_ebind run_simps)
qed

definition cached_world :: world where
  "cached_world = captured_world\<lparr>redis := [(state_cache_key ''0'', RState (initial_state ''0'' None), 1000 * second)]\<rparr>"

lemma cached_numbered: "journal_numbered cached_world"
  using captured_numbered by (simp add: cached_world_def journal_numbered_def events_of_def)

definition cached_rollback :: "(exn + RollbackResponse) \<times> world" where
  "cached_rollback = rollback sample_platform ''0'' 1 None None cached_world"

lemma cached_rollback_run: "(isl (fst cached_rollback), w_reads (snd cached_rollback)) = (False, 6)"
  by code_simp

theorem rollback_leaves_stale_cache_witness:
  "fst (get_execution_state sample_platform ''0'' (snd cached_rollback)) = Inr (initial_state ''0'' None)"
proof -
  have "rollback sample_platform ''0'' 1 None None cached_world =
      (Inr (projr (fst cached_rollback)), snd cached_rollback)"
    using cached_rollback_run by (simp add: prod_eq_iff del: One_nat_def flip: cached_rollback_def)
  from rollback_leaves_stale_cache [OF cached_numbered this, of "initial_state ''0'' None" "1000 * second"] cached_rollback_run
  show ?thesis by (simp add: cached_world_def sample_platform_def second_def)
qed

lemma rollback_action_run:
  "\<exists>a. rollback_action pf eid c ib delta status reason w =
    (Inr a, w\<lparr>w_ids := Suc (w_ids w), w_reads := Suc (w_reads w), rollback_actions := rollback_actions w @ [a]\<rparr>) \<and>
    ra_status a = status"
  by (simp add: rollback_action_def run_ebind run_simps fresh_uuid_def read_clock_def
      create_rollback_action_def Let_def)

lemma rollback_quarantine_run:
  "\<exists>a w'. rollback_quarantine pf e c ib eid n exc w = (Inl (RollbackFailedError eid n (exn_text pf exc)), w') \<and>
    rollback_actions w' = rollback_actions w @ [a] \<and> ra_status a = RS_failed \<and> events w' = events w \<and>
    checkpoints w' = checkpoints w \<and> w_commits w' = Suc (w_commits w) \<and>
    executions w' = update_rows (\<lambda>x. ex_id x = ex_id e) (\<lambda>x. x\<lparr>ex_status := ES_rollback_failed\<rparr>) (executions w)"
proof -
  from rollback_action_run obtain a where "rollback_action pf (ex_id e) c ib [] RS_failed (Some (exn_text pf exc)) w =
      (Inr a, w\<lparr>w_ids := Suc (w_ids w), w_reads := Suc (w_reads w), rollback_actions := rollback_actions w @ [a]\<rparr>)"
    "ra_status a = RS_failed" by metis
  then show ?thesis
    by (simp add: rollback_quarantine_def run_ebind run_simps update_execution_status_def set_execution_def)
qed

text \<open>The body of the rollback when the broker refuses the message: all its writes are there.\<close>

lemma rollback_apply_refused:
  assumes num: "journal_numbered w" and prod: "producer pf = Some send" "\<And>m k. send m k = Some exc"
  shows "\<exists>w' a ev. rollback_apply pf e c ib reason delta w = (Inl exc, w') \<and>
    rollback_actions w' = rollback_actions w @ [a] \<and> ra_status a = RS_completed \<and>
    events w' = events w @ [ev] \<and> ev_execution_id ev = ex_id e \<and> ev_event_type ev = EV_rolled_back \<and>
    executions w' = update_rows (\<lambda>x. ex_id x = ex_id e) (\<lambda>x. x\<lparr>ex_status := ES_rolled_back\<rparr>) (executions w) \<and>
    checkpoints w' = update_rows (\<lambda>x. cp_execution_id x = ex_id e)
       (\<lambda>x. x\<lparr>cp_superseded := cp_checkpoint_number c < cp_checkpoint_number x\<rparr>) (checkpoints w) \<and>
    w_commits w' = w_commits w"
proof -
  from rollback_action_run obtain a where
    a: "rollback_action pf (ex_id e) c ib delta RS_completed reason w = (Inr a, w\<lparr>w_ids := Suc (w_ids w),
      w_reads := Suc (w_reads w), rollback_actions := rollback_actions w @ [a]\<rparr>)" "ra_status a = RS_completed"
    by metis
  define w3 where "w3 = w\<lparr>w_ids := Suc (w_ids w), w_reads := Suc (w_reads w),
    rollback_actions := rollback_actions w @ [a],
    checkpoints := update_rows (\<lambda>x. cp_execution_id x = ex_id e)
       (\<lambda>x. x\<lparr>cp_superseded := cp_checkpoint_number c < cp_checkpoint_number x\<rparr>) (checkpoints w),
    executions := update_rows (\<lambda>x. ex_id x = ex_id e) (\<lambda>x. x\<lparr>ex_status := ES_rolled_back\<rparr>) (executions w)\<rparr>"
  have "journal_numbered w3" using num by (simp add: w3_def journal_numbered_def events_of_def)
  note ap = append_event_run [OF this, unfolded Let_def]
  let ?ev = "event_record pf e EV_rolled_back None None (rollback_payload (ra_id a) c e reason) w3"
  let ?w4 = "push_event ?ev (w3\<lparr>w_ids := Suc (w_ids w3), w_reads := Suc (w_reads w3)\<rparr>)"
  have "rollback_apply pf e c ib reason delta w = (Inl exc, ?w4\<lparr>w_ids := Suc (w_ids ?w4)\<rparr>)"
    using a(1) prod
    by (simp add: rollback_apply_def run_ebind run_simps mark_superseded_after_def update_execution_status_def
        set_execution_def ap correlation_def fresh_uuid_def publish_execution_rolled_back_def
        publish_def flip: w3_def)
  with a(2) show ?thesis
    by (intro exI [of _ "?w4\<lparr>w_ids := Suc (w_ids ?w4)\<rparr>"] exI [of _ a] exI [of _ ?ev])
      (simp add: push_event_def w3_def event_record_def)
qed

lemma superseded_rows:
  "list_all (\<lambda>x. cp_superseded x = (k < cp_checkpoint_number x)) (filter (\<lambda>x. cp_execution_id x = eid)
     (update_rows (\<lambda>x. cp_execution_id x = eid) (\<lambda>x. x\<lparr>cp_superseded := k < cp_checkpoint_number x\<rparr>) cs))"
  by (induction cs) (auto simp: update_rows_def)

text \<open>C35. A rollback whose last step fails is recorded twice. When the broker refuses the message, the
  operation raises and the execution is quarantined as \<open>rollback_failed\<close>, but what was written before
  is committed with it: an action marked completed beside the failed one, the superseded marks, and a
  \<open>rolled_back\<close> event in the journal.\<close>

theorem failed_rollback_keeps_effects:
  assumes "journal_numbered w" and "executions_of w eid = [e]"
    and "ex_status e \<in> set ROLLBACK_ELIGIBLE_STATUSES"
    and "filter (\<lambda>c. cp_checkpoint_number c = n) (checkpoints_of w eid) = [c]"
    and "clock pf (w_reads w) - checkpoint_retention_days pf * day \<le> cp_created_at c"
    and "get_latest_checkpoint eid True w = (Inr (Some latest), w)"
    and "compute_cost_delta (pf_runtime pf) (cp_accumulated_costs latest) (cp_accumulated_costs c) = Inr delta"
    and "producer pf = Some send" and "\<And>m k. send m k = Some exc"
  shows "\<exists>w'. rollback pf eid n initiated_by reason w = (Inl (RollbackFailedError eid n (exn_text pf exc)), w') \<and>
    map ra_status (rollback_actions w') = map ra_status (rollback_actions w) @ [RS_completed, RS_failed] \<and>
    map ev_event_type (events_of w' eid) = map ev_event_type (events_of w eid) @ [EV_rolled_back] \<and>
    map ex_status (executions_of w' eid) = [ES_rollback_failed] \<and>
    list_all (\<lambda>x. cp_superseded x = (n < cp_checkpoint_number x)) (checkpoints_of w' eid) \<and>
    w_commits w' = Suc (w_commits w)"
proof -
  let ?w = "w\<lparr>w_reads := Suc (w_reads w)\<rparr>"
  have num: "journal_numbered ?w" using assms(1) by (simp add: journal_numbered_def events_of_def)
  have latest: "get_latest_checkpoint eid True ?w = (Inr (Some latest), ?w)"
    using assms(6) by (simp add: get_latest_checkpoint_def run_simps checkpoints_of_def)
  have run: "rollback pf eid n initiated_by reason w =
      ecatch (rollback_apply pf e c initiated_by reason delta) (rollback_quarantine pf e c initiated_by eid n) ?w"
    using assms(2-5,7) latest
    by (simp add: rollback_def run_ebind run_simps run_eguard get_execution_by_id_def one_or_none_def
        get_checkpoint_by_number_def read_clock_def)
  obtain w1 a ev where w1: "rollback_apply pf e c initiated_by reason delta ?w = (Inl exc, w1)"
    "rollback_actions w1 = rollback_actions w @ [a]" "ra_status a = RS_completed" "events w1 = events w @ [ev]"
    "ev_execution_id ev = ex_id e" "ev_event_type ev = EV_rolled_back"
    "executions w1 = update_rows (\<lambda>x. ex_id x = ex_id e) (\<lambda>x. x\<lparr>ex_status := ES_rolled_back\<rparr>) (executions w)"
    "checkpoints w1 = update_rows (\<lambda>x. cp_execution_id x = ex_id e)
       (\<lambda>x. x\<lparr>cp_superseded := cp_checkpoint_number c < cp_checkpoint_number x\<rparr>) (checkpoints w)"
    "w_commits w1 = w_commits w"
    using rollback_apply_refused [OF num assms(8,9), of e c initiated_by reason delta] by simp metis
  obtain a2 w2 where w2: "rollback_quarantine pf e c initiated_by eid n exc w1 =
      (Inl (RollbackFailedError eid n (exn_text pf exc)), w2)"
    "rollback_actions w2 = rollback_actions w1 @ [a2]" "ra_status a2 = RS_failed" "events w2 = events w1"
    "checkpoints w2 = checkpoints w1" "w_commits w2 = Suc (w_commits w1)"
    "executions w2 = update_rows (\<lambda>x. ex_id x = ex_id e) (\<lambda>x. x\<lparr>ex_status := ES_rollback_failed\<rparr>) (executions w1)"
    using rollback_quarantine_run by blast
  note eid = executions_of_id [OF assms(2)]
  from assms(4) have "cp_checkpoint_number c = n" by (auto dest: filter_singleD)
  then have "list_all (\<lambda>x. cp_superseded x = (n < cp_checkpoint_number x)) (checkpoints_of w2 eid)"
    unfolding checkpoints_of_def w2(5) w1(8) eid using superseded_rows by metis
  moreover have "map ex_status (executions_of w2 eid) = [ES_rollback_failed]"
    using assms(2) unfolding executions_of_def w2(7) w1(7) eid update_rows_status by simp
  moreover have "rollback pf eid n initiated_by reason w = (Inl (RollbackFailedError eid n (exn_text pf exc)), w2)"
    unfolding run ecatch_def w1(1) using w2(1) by simp
  ultimately show ?thesis
    by (intro exI [of _ w2]) (simp add: w1(2-6,9) w2(2-4,6) events_of_def eid)
qed

definition refusing_platform :: platform where
  "refusing_platform = sample_platform\<lparr>producer := Some (\<lambda>_ _. Some (ExternalError ''broker down''))\<rparr>"

theorem failed_rollback_keeps_effects_witness:
  "\<exists>w'. rollback refusing_platform ''0'' 1 None None captured_world =
      (Inl (RollbackFailedError ''0'' 1 (exn_text refusing_platform (ExternalError ''broker down''))), w') \<and>
    map ra_status (rollback_actions w') = map ra_status (rollback_actions captured_world) @ [RS_completed, RS_failed] \<and>
    map ev_event_type (events_of w' ''0'') = map ev_event_type (events_of captured_world ''0'') @ [EV_rolled_back] \<and>
    map ex_status (executions_of w' ''0'') = [ES_rollback_failed] \<and>
    list_all (\<lambda>x. cp_superseded x = (1 < cp_checkpoint_number x)) (checkpoints_of w' ''0'') \<and>
    w_commits w' = Suc (w_commits captured_world)"
proof (rule failed_rollback_keeps_effects [OF captured_numbered,
      where e = "sample_execution\<lparr>ex_status := ES_paused\<rparr>" and c = sample_checkpoint and latest = sample_checkpoint
      and delta = "[]" and send = "\<lambda>_ _. Some (ExternalError ''broker down'')"])
  show "executions_of captured_world ''0'' = [sample_execution\<lparr>ex_status := ES_paused\<rparr>]" by code_simp
  show "ex_status (sample_execution\<lparr>ex_status := ES_paused\<rparr>) \<in> set ROLLBACK_ELIGIBLE_STATUSES" by code_simp
  show "filter (\<lambda>c. cp_checkpoint_number c = 1) (checkpoints_of captured_world ''0'') = [sample_checkpoint]" by code_simp
  show "clock refusing_platform (w_reads captured_world) - checkpoint_retention_days refusing_platform * day \<le>
      cp_created_at sample_checkpoint" by code_simp
  have "fst (get_latest_checkpoint ''0'' True captured_world) = Inr (Some sample_checkpoint)" by code_simp
  then show "get_latest_checkpoint ''0'' True captured_world = (Inr (Some sample_checkpoint), captured_world)"
    by (simp add: get_latest_checkpoint_def run_simps)
  show "compute_cost_delta (pf_runtime refusing_platform) (cp_accumulated_costs sample_checkpoint)
      (cp_accumulated_costs sample_checkpoint) = Inr []" by code_simp
qed (simp_all add: refusing_platform_def)

end
