(* ===== verification/Execution_Projector_Props.thy ===== *)
theory Execution_Projector_Props
  imports Execution_Projector
begin

text \<open>
  The projector as an implementation of an abstract machine. The abstract state is the set of completed,
  active and pending steps; an event moves one step between them. The locale \<open>fold_refinement\<close> is the
  simulation argument: a concrete step that implements the abstract one under an invariant implements it
  along every sequence of events. The projector, with its lists, duplicate checks and removals, is the
  instance.
\<close>

section \<open>Simulation along a fold\<close>

locale fold_refinement =
  fixes cstep :: "'ev \<Rightarrow> 's \<Rightarrow> 'x + 's" and astep :: "'ev \<Rightarrow> 'a \<Rightarrow> 'a" and abs :: "'s \<Rightarrow> 'a"
    and inv :: "'s \<Rightarrow> bool" and ok :: "'ev \<Rightarrow> bool"
  assumes step_refines: "inv s \<Longrightarrow> ok ev \<Longrightarrow> cstep ev s = Inr s' \<Longrightarrow> inv s' \<and> abs s' = astep ev (abs s)"
begin

lemma fold_refines:
  "rfold cstep evs s = Inr s' \<Longrightarrow> inv s \<Longrightarrow> list_all ok evs \<Longrightarrow> inv s' \<and> abs s' = fold astep evs (abs s)"
proof (induction evs arbitrary: s)
  case (Cons ev evs)
  then obtain s1 where s1: "cstep ev s = Inr s1" "rfold cstep evs s1 = Inr s'"
    by (auto split: sum.splits)
  with step_refines [of s ev s1] Cons.prems have "inv s1" "abs s1 = astep ev (abs s)" by simp_all
  with Cons.IH [OF s1(2)] Cons.prems show ?case by simp
qed simp

end

section \<open>The abstract machine\<close>

type_synonym step_sets = "string set \<times> string set \<times> string set"

definition payload_steps :: "py_runtime \<Rightarrow> ExecutionEvent \<Rightarrow> string \<Rightarrow> string set" where
  "payload_steps rt ev key = (case str_list rt (ev_payload ev) key of Inr ids \<Rightarrow> set ids | Inl _ \<Rightarrow> {})"

text \<open>Starting a step makes it active, finishing it makes it completed, and a step that fails, is
  rejected, timed out or canceled is no longer active.\<close>

definition move_step :: "ExecutionEventType \<Rightarrow> string \<Rightarrow> step_sets \<Rightarrow> step_sets" where
  "move_step t s = (\<lambda>(completed, active, pending).
     if activating t then (completed, insert s active, pending - {s})
     else if t \<in> {EV_approved, EV_completed} then (insert s completed, active - {s}, pending - {s})
     else if t \<in> {EV_rejected, EV_approval_timed_out, EV_failed, EV_canceled} then (completed, active - {s}, pending)
     else (completed, active, pending))"

definition machine_step :: "py_runtime \<Rightarrow> ExecutionEvent \<Rightarrow> step_sets \<Rightarrow> step_sets" where
  "machine_step rt ev sets =
     (case ev_event_type ev of
        EV_created \<Rightarrow>
          (payload_steps rt ev ''precompleted_step_ids'', {},
           payload_steps rt ev ''all_step_ids'' - payload_steps rt ev ''precompleted_step_ids'')
      | EV_rolled_back \<Rightarrow>
          (payload_steps rt ev ''completed_step_ids'', payload_steps rt ev ''active_step_ids'',
           payload_steps rt ev ''pending_step_ids'')
      | t \<Rightarrow> (case ev_step_id ev of None \<Rightarrow> sets | Some s \<Rightarrow> move_step t s sets))"

definition step_sets_of :: "ExecutionStateResponse \<Rightarrow> step_sets" where
  "step_sets_of st = (set (st_completed_step_ids st), set (st_active_step_ids st), set (st_pending_step_ids st))"

section \<open>The projector implements it\<close>

definition lists_distinct :: "ExecutionStateResponse \<Rightarrow> bool" where
  "lists_distinct st \<longleftrightarrow> distinct (st_completed_step_ids st) \<and> distinct (st_active_step_ids st) \<and>
     distinct (st_pending_step_ids st)"

text \<open>A creation event lists each step once, as the compiled workflows the service writes it from do.\<close>

definition lists_once :: "py_runtime \<Rightarrow> ExecutionEvent \<Rightarrow> bool" where
  "lists_once rt ev \<longleftrightarrow> ev_event_type ev = EV_created \<longrightarrow>
     (case str_list rt (ev_payload ev) ''all_step_ids'' of Inr ids \<Rightarrow> distinct ids | Inl _ \<Rightarrow> True)"

lemma lists_case_events:
  assumes "lists_once rt ev"
  shows "ev_event_type ev = EV_created \<Longrightarrow> apply_created rt st ev = Inr st' \<Longrightarrow>
      lists_distinct st' \<and> step_sets_of st' = machine_step rt ev sets"
    and "ev_event_type ev = EV_rolled_back \<Longrightarrow> apply_rolled_back rt st ev = Inr st' \<Longrightarrow>
      lists_distinct st' \<and> step_sets_of st' = machine_step rt ev sets"
  using assms
  by (auto simp: apply_created_def apply_rolled_back_def rbind_eq_Inr Let_def lists_distinct_def step_sets_of_def
      machine_step_def payload_steps_def lists_once_def)

lemma result_events:
  "apply_context_assembled st ev = Inr st' \<or> apply_reprioritized st ev = Inr st' \<Longrightarrow>
   st_completed_step_ids st' = st_completed_step_ids st \<and> st_active_step_ids st' = st_active_step_ids st \<and>
   st_pending_step_ids st' = st_pending_step_ids st"
  by (auto simp: apply_context_assembled_def apply_reprioritized_def split: option.splits pyval.splits)

lemma apply_event_refines:
  assumes "lists_distinct st" and "lists_once rt ev" and "apply_event rt st ev = Inr st'"
  shows "lists_distinct st' \<and> step_sets_of st' = machine_step rt ev (step_sets_of st)"
proof (cases "ev_event_type ev \<in> {EV_created, EV_rolled_back, EV_context_assembled, EV_reprioritized}")
  case True
  then consider "ev_event_type ev = EV_created" | "ev_event_type ev = EV_rolled_back"
    | "ev_event_type ev \<in> {EV_context_assembled, EV_reprioritized}" by blast
  then show ?thesis
  proof cases
    case 1
    with assms(3) show ?thesis by (simp add: apply_event_def lists_case_events(1) [OF assms(2)])
  next
    case 2
    with assms(3) show ?thesis by (simp add: apply_event_def lists_case_events(2) [OF assms(2)])
  next
    case 3
    with assms(3) have "apply_context_assembled st ev = Inr st' \<or> apply_reprioritized st ev = Inr st'"
      by (auto simp: apply_event_def)
    from result_events [OF this] 3 assms(1) show ?thesis
      by (auto simp: step_sets_of_def lists_distinct_def machine_step_def move_step_def activating_def
          split: option.splits)
  qed
next
  case False
  with assms show ?thesis
    by (cases "ev_event_type ev"; cases "ev_step_id ev")
      (auto simp: apply_event_def handler_defs helper_defs step_sets_of_def lists_distinct_def machine_step_def
        move_step_def activating_def split: if_splits)
qed

interpretation projector: fold_refinement "project_step rt" "machine_step rt" step_sets_of lists_distinct "lists_once rt"
  for rt
proof
  fix ev st st'
  assume "lists_distinct st" "lists_once rt ev" "project_step rt ev st = Inr st'"
  then show "lists_distinct st' \<and> step_sets_of st' = machine_step rt ev (step_sets_of st)"
    using apply_event_refines [of "st\<lparr>st_execution_id := ev_execution_id ev, st_last_event_sequence := ev_sequence ev\<rparr>"]
    by (simp add: project_step_def lists_distinct_def step_sets_of_def)
qed

text \<open>C9. Refinement. The state the projector computes from a journal has, as its completed, active and
  pending steps, what the abstract machine computes: starting, finishing, failing and rolling back a step
  move it between the three sets, and the lists never hold a step twice.\<close>

theorem projector_refines_step_machine:
  assumes "project_state rt evs None = Inr st" and "list_all (lists_once rt) evs"
  shows "(set (st_completed_step_ids st), set (st_active_step_ids st), set (st_pending_step_ids st)) =
      fold (machine_step rt) evs ({}, {}, {}) \<and>
    distinct (st_completed_step_ids st) \<and> distinct (st_active_step_ids st) \<and> distinct (st_pending_step_ids st)"
proof -
  from assms(1) obtain e where "rfold (project_step rt) evs (initial_state e None) = Inr st"
    by (auto simp: project_state_def split: list.splits)
  from projector.fold_refines [OF this _ assms(2)] show ?thesis
    by (simp add: lists_distinct_def step_sets_of_def initial_state_def)
qed

text \<open>A journal: two steps, the first is dispatched and completes, the second is dispatched and fails.\<close>

definition demo_event :: "nat \<Rightarrow> ExecutionEventType \<Rightarrow> string option \<Rightarrow> pydict \<Rightarrow> ExecutionEvent" where
  "demo_event n t sid payload =
     \<lparr>ev_id = ''ev'', ev_execution_id = ''ex'', ev_sequence = n, ev_event_type = t, ev_step_id = sid,
      ev_agent_fqn = None, ev_payload = payload, ev_correlation_workspace_id = ''ws'',
      ev_correlation_conversation_id = None, ev_correlation_interaction_id = None,
      ev_correlation_goal_id = None, ev_correlation_fleet_id = None, ev_correlation_execution_id = ''ex'',
      ev_created_at = 0\<rparr>"

definition demo_journal :: "ExecutionEvent list" where
  "demo_journal =
     [demo_event 1 EV_created None [(PStr ''all_step_ids'', PList [PStr ''fetch'', PStr ''sum'', PStr ''send''])],
      demo_event 2 EV_dispatched (Some ''fetch'') [], demo_event 3 EV_completed (Some ''fetch'') [],
      demo_event 4 EV_dispatched (Some ''sum'') [], demo_event 5 EV_failed (Some ''sum'') []]"

definition demo_runtime :: py_runtime where
  "demo_runtime = \<lparr>rt_repr = (\<lambda>_. ''?''), rt_float = (\<lambda>_. None)\<rparr>"

definition demo_state :: ExecutionStateResponse where
  "demo_state =
     \<lparr>st_execution_id = ''ex'', st_status = ES_failed, st_completed_step_ids = [''fetch''],
      st_active_step_ids = [], st_pending_step_ids = [''send''],
      st_step_results =
        [(PStr ''fetch'', PDict [(PStr ''status'', PStr ''completed'')]),
         (PStr ''sum'', PDict [(PStr ''status'', PStr ''failed'')])],
      st_last_event_sequence = 5, st_workflow_version_id = PNone\<rparr>"

theorem projector_refines_step_machine_witness:
  "(set (st_completed_step_ids demo_state), set (st_active_step_ids demo_state), set (st_pending_step_ids demo_state)) =
      fold (machine_step demo_runtime) demo_journal ({}, {}, {}) \<and>
    distinct (st_completed_step_ids demo_state) \<and> distinct (st_active_step_ids demo_state) \<and>
    distinct (st_pending_step_ids demo_state)"
proof (rule projector_refines_step_machine)
  show "project_state demo_runtime demo_journal None = Inr demo_state" by code_simp
  show "list_all (lists_once demo_runtime) demo_journal" by code_simp
qed

end
