(* ===== verification/Workflow_Service.thy ===== *)
theory Workflow_Service
  imports Execution_Service
begin

text \<open>
  workflows/service.py and workflows/schemas.py: creating, updating and archiving workflows with their
  versions, the validation of checkpoint policies, and the administration of triggers with their cron
  jobs and masked secrets. The YAML parser, the schema files, the tag and label services and the cron
  scheduler are the parameter \<open>workflow_env\<close>.
\<close>

section \<open>Requests\<close>

text \<open>A field constraint of a request model: a violation is a validation error of the framework.\<close>

definition request_invalid :: exn where
  "request_invalid = ExternalError ''request validation''"

definition clean_optional_text :: "string option \<Rightarrow> string option" where
  "clean_optional_text v =
     (case v of
        None \<Rightarrow> None
      | Some s \<Rightarrow> (let stripped = strip s in if stripped = [] then None else Some stripped))"

datatype CheckpointPolicySchema =
    BeforeToolInvocations
  | BeforeEveryStep
  | NamedSteps "string list"
  | DisabledCheckpoints

text \<open>\<open>step_ids\<close> has at least one entry.\<close>

definition policy_valid :: "CheckpointPolicySchema \<Rightarrow> bool" where
  "policy_valid p = (case p of NamedSteps ids \<Rightarrow> ids \<noteq> [] | _ \<Rightarrow> True)"

fun policy_dump :: "CheckpointPolicySchema \<Rightarrow> pydict" where
  "policy_dump BeforeToolInvocations = [(PStr ''type'', PStr ''before_tool_invocations'')]"
| "policy_dump BeforeEveryStep = [(PStr ''type'', PStr ''before_every_step'')]"
| "policy_dump (NamedSteps ids) =
     [(PStr ''type'', PStr ''named_steps''), (PStr ''step_ids'', PList (map PStr ids))]"
| "policy_dump DisabledCheckpoints = [(PStr ''type'', PStr ''disabled'')]"

record WorkflowCreate =
  wc_name :: string
  wc_description :: "string option"
  wc_yaml_source :: string
  wc_change_summary :: "string option"
  wc_checkpoint_policy :: "CheckpointPolicySchema option"
  wc_tags :: "string list"
  wc_workspace_id :: uuid

text \<open>The lengths are checked on the given text, the validators then strip it.\<close>

definition validate_workflow_create :: "WorkflowCreate \<Rightarrow> WorkflowCreate py" where
  "validate_workflow_create d =
     (if 1 \<le> length (wc_name d) \<and> length (wc_name d) \<le> 200 \<and> wc_yaml_source d \<noteq> [] \<and>
         (case wc_checkpoint_policy d of None \<Rightarrow> True | Some p \<Rightarrow> policy_valid p)
      then Inr (d\<lparr>wc_name := strip (wc_name d),
                  wc_description := clean_optional_text (wc_description d),
                  wc_change_summary := clean_optional_text (wc_change_summary d),
                  wc_tags := filter (\<lambda>t. t \<noteq> []) (map strip (wc_tags d))\<rparr>)
      else Inl request_invalid)"

record WorkflowUpdate =
  wu_yaml_source :: string
  wu_change_summary :: "string option"
  wu_checkpoint_policy :: "CheckpointPolicySchema option"

definition validate_workflow_update :: "WorkflowUpdate \<Rightarrow> WorkflowUpdate py" where
  "validate_workflow_update d =
     (if wu_yaml_source d \<noteq> [] \<and>
         (case wu_checkpoint_policy d of None \<Rightarrow> True | Some p \<Rightarrow> policy_valid p)
      then Inr (d\<lparr>wu_change_summary := clean_optional_text (wu_change_summary d)\<rparr>)
      else Inl request_invalid)"

record TriggerCreate =
  wtc_trigger_type :: TriggerType
  wtc_name :: string
  wtc_config :: pydict
  wtc_max_concurrent_executions :: "int option"
  wtc_is_active :: bool

definition validate_trigger_create :: "TriggerCreate \<Rightarrow> TriggerCreate py" where
  "validate_trigger_create d =
     (if 1 \<le> length (wtc_name d) \<and> length (wtc_name d) \<le> 255 \<and>
         (case wtc_max_concurrent_executions d of None \<Rightarrow> True | Some n \<Rightarrow> 1 \<le> n)
      then Inr (d\<lparr>wtc_name := strip (wtc_name d)\<rparr>)
      else Inl request_invalid)"

section \<open>Responses\<close>

record WorkflowVersionResponse =
  vr_id :: uuid
  vr_version_number :: int
  vr_schema_version :: int
  vr_change_summary :: "string option"
  vr_checkpoint_policy :: "pydict option"
  vr_is_valid :: bool
  vr_created_at :: timestamp
  vr_created_by :: "uuid option"

definition version_response :: "WorkflowVersion \<Rightarrow> WorkflowVersionResponse" where
  "version_response v =
     \<lparr>vr_id = wv_id v, vr_version_number = wv_version_number v, vr_schema_version = wv_schema_version v,
      vr_change_summary = wv_change_summary v, vr_checkpoint_policy = wv_checkpoint_policy v,
      vr_is_valid = wv_is_valid v, vr_created_at = wv_created_at v, vr_created_by = wv_created_by v\<rparr>"

record WorkflowResponse =
  wr_id :: uuid
  wr_name :: string
  wr_description :: "string option"
  wr_status :: WorkflowStatus
  wr_schema_version :: int
  wr_tags :: "string list"
  wr_current_version :: "WorkflowVersionResponse option"
  wr_workspace_id :: uuid
  wr_created_at :: timestamp

text \<open>The relationship \<open>current_version\<close> follows the foreign key.\<close>

definition workflow_response :: "world \<Rightarrow> WorkflowDefinition \<Rightarrow> WorkflowResponse" where
  "workflow_response w d =
     \<lparr>wr_id = wd_id d, wr_name = wd_name d, wr_description = wd_description d, wr_status = wd_status d,
      wr_schema_version = wd_schema_version d, wr_tags = wd_tags d,
      wr_current_version =
        (case wd_current_version_id d of
           None \<Rightarrow> None
         | Some vid \<Rightarrow> map_option version_response (find (\<lambda>v. wv_id v = vid) (wf_versions w))),
      wr_workspace_id = wd_workspace_id d, wr_created_at = wd_created_at d\<rparr>"

record TriggerResponse =
  tg_id :: uuid
  tg_trigger_type :: TriggerType
  tg_name :: string
  tg_is_active :: bool
  tg_config :: pydict
  tg_max_concurrent_executions :: "int option"
  tg_last_fired_at :: "timestamp option"
  tg_created_at :: timestamp

definition mask_trigger_config :: "WorkflowTriggerDefinition \<Rightarrow> pydict" where
  "mask_trigger_config t =
     (if dhas (wt_config t) ''secret'' then sset (wt_config t) ''secret'' (PStr ''***'') else wt_config t)"

definition trigger_response :: "WorkflowTriggerDefinition \<Rightarrow> TriggerResponse" where
  "trigger_response t =
     \<lparr>tg_id = wt_id t, tg_trigger_type = wt_trigger_type t, tg_name = wt_name t,
      tg_is_active = wt_is_active t, tg_config = mask_trigger_config t,
      tg_max_concurrent_executions = wt_max_concurrent_executions t,
      tg_last_fired_at = wt_last_fired_at t, tg_created_at = wt_created_at t\<rparr>"

section \<open>Shared steps\<close>

record TagLabelFilterParams =
  fl_tags :: "string list"
  fl_labels :: "(string \<times> string) list"

record workflow_env =
  we_safe_load :: "string \<Rightarrow> string + pyval"
  we_schema_file :: "int \<Rightarrow> pyval option"
  we_has_scheduler :: bool
  we_has_tagging :: bool
  we_tag_query :: "(string list \<Rightarrow> uuid list \<Rightarrow> nat \<Rightarrow> uuid list) option"
  we_label_query :: "((string \<times> string) list \<Rightarrow> uuid list \<Rightarrow> nat \<Rightarrow> uuid list) option"

definition validate_and_compile :: "workflow_env \<Rightarrow> platform \<Rightarrow> string \<Rightarrow> WorkflowIR py" where
  "validate_and_compile env pf yaml_source =
     compile (pf_runtime pf) (we_safe_load env) (we_schema_file env) (recursion_depth pf) yaml_source 1"

definition get_definition_or_raise :: "uuid \<Rightarrow> WorkflowDefinition op" where
  "get_definition_or_raise wid =
     ebind (get_definition_by_id wid) (\<lambda>found.
     case found of None \<Rightarrow> eraise (WorkflowNotFoundError wid) | Some d \<Rightarrow> eret d)"

text \<open>The row behind a reference to a definition.\<close>

definition definition_ref :: "uuid \<Rightarrow> WorkflowDefinition op" where
  "definition_ref wid =
     ebind (get_definition_by_id wid) (\<lambda>found.
     case found of None \<Rightarrow> eraise AttributeError | Some d \<Rightarrow> eret d)"

definition respond_workflow :: "uuid \<Rightarrow> WorkflowResponse op" where
  "respond_workflow wid =
     ebind (definition_ref wid) (\<lambda>d. eget (\<lambda>w. workflow_response w d))"

definition workflow_correlation :: "platform \<Rightarrow> uuid option \<Rightarrow> uuid option \<Rightarrow> CorrelationContext op" where
  "workflow_correlation pf workspace_id execution_id =
     ebind (fresh_uuid pf) (\<lambda>cid.
     eret \<lparr>cc_tenant_id = None, cc_workspace_id = workspace_id, cc_conversation_id = None, cc_interaction_id = None,
           cc_execution_id = execution_id, cc_fleet_id = None, cc_goal_id = None, cc_agent_fqn = PNone,
           cc_correlation_id = cid\<rparr>)"

definition validate_checkpoint_policy ::
  "WorkflowIR \<Rightarrow> CheckpointPolicySchema option \<Rightarrow> pydict option py" where
  "validate_checkpoint_policy ir policy =
     (case policy of
        None \<Rightarrow> Inr None
      | Some p \<Rightarrow>
          let unknown =
            (case p of NamedSteps ids \<Rightarrow> filter (\<lambda>i. i \<notin> set (map step_id (steps ir))) ids | _ \<Rightarrow> [])
          in if unknown \<noteq> [] then
               Inl (ValidationError ''CHECKPOINT_POLICY_UNKNOWN_STEP''
                 (''Checkpoint policy references unknown step ids: '' @ join_with '', '' unknown))
             else Inr (Some (policy_dump p)))"

text \<open>A new version row and the announcement of it, as creation and update share them.\<close>

definition add_version ::
  "platform \<Rightarrow> uuid \<Rightarrow> int \<Rightarrow> string \<Rightarrow> WorkflowIR \<Rightarrow> string option \<Rightarrow> pydict option \<Rightarrow> uuid \<Rightarrow>
   WorkflowVersion op" where
  "add_version pf wid n source ir summary policy author =
     ebind (fresh_uuid pf) (\<lambda>vid.
     ebind (row_time pf) (\<lambda>t.
     let v = \<lparr>wv_id = vid, wv_definition_id = wid, wv_version_number = n, wv_yaml_source = source,
              wv_compiled_ir = WorkflowIR_to_dict ir, wv_schema_version = schema_version ir,
              wv_change_summary = summary, wv_checkpoint_policy = policy, wv_created_by = Some author,
              wv_is_valid = True, wv_created_at = t\<rparr>
     in ebind (create_version v) (\<lambda>_. eret v)))"

definition announce_version :: "platform \<Rightarrow> uuid \<Rightarrow> WorkflowVersion \<Rightarrow> unit op" where
  "announce_version pf wid v =
     ebind (definition_ref wid) (\<lambda>d.
     ebind (workflow_correlation pf (Some (wd_workspace_id d)) None) (\<lambda>ctx.
     publish_workflow_published pf wid (wv_id v) (wv_version_number v) (wd_workspace_id d)
       (wv_schema_version v) ctx))"

section \<open>Workflows\<close>

definition create_workflow ::
  "workflow_env \<Rightarrow> platform \<Rightarrow> WorkflowCreate \<Rightarrow> uuid \<Rightarrow> WorkflowResponse op" where
  "create_workflow env pf data created_by =
     ebind (get_definition_by_name (wc_workspace_id data) (wc_name data)) (\<lambda>existing.
     ebind (eguard (existing = None) (ValidationError ''WORKFLOW_NAME_CONFLICT''
              (''Workflow '' @ quoted (wc_name data) @ '' already exists in this workspace''))) (\<lambda>_.
     ebind (elift (validate_and_compile env pf (wc_yaml_source data))) (\<lambda>ir.
     ebind (elift (validate_checkpoint_policy ir (wc_checkpoint_policy data))) (\<lambda>policy.
     ebind (fresh_uuid pf) (\<lambda>wid.
     ebind (row_time pf) (\<lambda>t.
     ebind (create_definition
              \<lparr>wd_id = wid, wd_workspace_id = wc_workspace_id data, wd_name = wc_name data,
               wd_description = wc_description data, wd_status = WS_active, wd_current_version_id = None,
               wd_schema_version = schema_version ir, wd_tags = wc_tags data,
               wd_created_by = Some created_by, wd_updated_by = Some created_by, wd_created_at = t\<rparr>) (\<lambda>_.
     ebind (add_version pf wid 1 (wc_yaml_source data) ir (wc_change_summary data) policy created_by) (\<lambda>v.
     ebind (set_definition wid (\<lambda>d. d\<lparr>wd_current_version_id := Some (wv_id v)\<rparr>)) (\<lambda>_.
     ebind (announce_version pf wid v) (\<lambda>_.
     respond_workflow wid))))))))))"

definition update_workflow ::
  "workflow_env \<Rightarrow> platform \<Rightarrow> uuid \<Rightarrow> WorkflowUpdate \<Rightarrow> uuid \<Rightarrow> WorkflowResponse op" where
  "update_workflow env pf wid data updated_by =
     ebind (get_definition_or_raise wid) (\<lambda>d.
     ebind (elift (validate_and_compile env pf (wu_yaml_source data))) (\<lambda>ir.
     ebind (elift (validate_checkpoint_policy ir (wu_checkpoint_policy data))) (\<lambda>policy.
     ebind (list_versions_rows wid) (\<lambda>versions.
     ebind (add_version pf (wd_id d) ((if versions = [] then 0 else wv_version_number (last versions)) + 1)
              (wu_yaml_source data) ir (wu_change_summary data) policy updated_by) (\<lambda>v.
     ebind (set_definition (wd_id d) (\<lambda>d. d\<lparr>wd_current_version_id := Some (wv_id v),
              wd_schema_version := schema_version ir, wd_updated_by := Some updated_by\<rparr>)) (\<lambda>_.
     ebind (announce_version pf (wd_id d) v) (\<lambda>_.
     respond_workflow (wd_id d))))))))"

definition archive_workflow :: "workflow_env \<Rightarrow> platform \<Rightarrow> uuid \<Rightarrow> uuid \<Rightarrow> WorkflowResponse op" where
  "archive_workflow env pf wid updated_by =
     ebind (get_definition_or_raise wid) (\<lambda>d.
     ebind (eguard (wd_status d \<noteq> WS_archived)
              (ValidationError ''WORKFLOW_ALREADY_ARCHIVED'' ''Workflow is already archived'')) (\<lambda>_.
     ebind (set_definition (wd_id d) (\<lambda>d. d\<lparr>wd_status := WS_archived, wd_updated_by := Some updated_by\<rparr>)) (\<lambda>_.
     ebind (ewhen (we_has_tagging env) (call_service pf (CascadeTags ''workflow'' wid))) (\<lambda>_.
     respond_workflow (wd_id d)))))"

definition get_workflow :: "uuid \<Rightarrow> WorkflowResponse op" where
  "get_workflow wid =
     ebind (get_definition_or_raise wid) (\<lambda>d. eget (\<lambda>w. workflow_response w d))"

text \<open>The ids are a set in the code; the order of the list carries no meaning.\<close>

definition list_visible_workflows :: "uuid option \<Rightarrow> uuid list op" where
  "list_visible_workflows requester =
     (case requester of
        None \<Rightarrow> eret []
      | Some workspace_id \<Rightarrow>
          ebind (list_definitions workspace_id None None 0 10000 None) (\<lambda>(items, _).
          eret (map wd_id items)))"

definition resolve_filtered_entity_ids ::
  "workflow_env \<Rightarrow> uuid list \<Rightarrow> TagLabelFilterParams option \<Rightarrow> uuid list option op" where
  "resolve_filtered_entity_ids env visible filters =
     (case filters of
        None \<Rightarrow> eret None
      | Some f \<Rightarrow>
          if fl_tags f = [] \<and> fl_labels f = [] then eret None
          else
            ebind (if fl_tags f = [] then eret (Some visible)
                   else (case we_tag_query env of
                           None \<Rightarrow> eret None
                         | Some query \<Rightarrow>
                             ebind (read_clock (query (fl_tags f) visible)) (\<lambda>tagged.
                             eret (Some (filter (\<lambda>i. i \<in> set tagged) visible))))) (\<lambda>after_tags.
            case after_tags of
              None \<Rightarrow> eret (Some [])
            | Some filtered \<Rightarrow>
                if fl_labels f = [] then eret (Some filtered)
                else (case we_label_query env of
                        None \<Rightarrow> eret (Some [])
                      | Some query \<Rightarrow>
                          ebind (read_clock (query (fl_labels f) filtered)) (\<lambda>labelled.
                          eret (Some (filter (\<lambda>i. i \<in> set labelled) filtered))))))"

definition list_workflows ::
  "workflow_env \<Rightarrow> uuid \<Rightarrow> WorkflowStatus option \<Rightarrow> string list option \<Rightarrow> nat \<Rightarrow> nat \<Rightarrow>
   TagLabelFilterParams option \<Rightarrow> (WorkflowResponse list \<times> nat) op" where
  "list_workflows env workspace_id status tags page page_size filters =
     ebind (list_visible_workflows (Some workspace_id)) (\<lambda>visible.
     ebind (resolve_filtered_entity_ids env visible filters) (\<lambda>allowed_ids.
     ebind (if allowed_ids = Some [] then eret 0 else elift (page_offset page page_size)) (\<lambda>skip.
     ebind (list_definitions workspace_id status tags skip page_size allowed_ids) (\<lambda>(items, total).
     eget (\<lambda>w. (map (workflow_response w) items, total))))))"

definition get_version :: "uuid \<Rightarrow> int \<Rightarrow> WorkflowVersionResponse op" where
  "get_version wid n =
     ebind (get_version_by_number wid n) (\<lambda>found.
     case found of
       None \<Rightarrow> eraise (WorkflowNotFoundError (wid @ ''/versions/'' @ show_int n))
     | Some v \<Rightarrow> eret (version_response v))"

definition list_versions :: "uuid \<Rightarrow> WorkflowVersionResponse list op" where
  "list_versions wid =
     ebind (get_definition_or_raise wid) (\<lambda>_.
     ebind (list_versions_rows wid) (\<lambda>vs. eret (map version_response vs)))"

section \<open>Triggers\<close>

definition register_cron_if_needed ::
  "workflow_env \<Rightarrow> platform \<Rightarrow> WorkflowTriggerDefinition \<Rightarrow> unit op" where
  "register_cron_if_needed env pf t =
     (if \<not> we_has_scheduler env \<or> wt_trigger_type t \<noteq> TT_cron \<or> \<not> wt_is_active t then eret ()
      else if \<not> truthy (dget_none (wt_config t) ''cron_expression'') then eret ()
      else call_service pf (AddCronJob (wt_id t)))"

definition remove_cron_if_needed ::
  "workflow_env \<Rightarrow> platform \<Rightarrow> WorkflowTriggerDefinition \<Rightarrow> unit op" where
  "remove_cron_if_needed env pf t =
     (if \<not> we_has_scheduler env \<or> wt_trigger_type t \<noteq> TT_cron then eret ()
      else ecatch (call_service pf (RemoveCronJob (wt_id t))) (\<lambda>_. eret ()))"

definition wf_create_trigger ::
  "workflow_env \<Rightarrow> platform \<Rightarrow> uuid \<Rightarrow> TriggerCreate \<Rightarrow> TriggerResponse op" where
  "wf_create_trigger env pf wid data =
     ebind (get_definition_or_raise wid) (\<lambda>d.
     ebind (fresh_uuid pf) (\<lambda>tid.
     ebind (row_time pf) (\<lambda>created.
     let t = \<lparr>wt_id = tid, wt_definition_id = wd_id d, wt_trigger_type = wtc_trigger_type data,
              wt_name = wtc_name data, wt_is_active = wtc_is_active data, wt_config = wtc_config data,
              wt_max_concurrent_executions = wtc_max_concurrent_executions data,
              wt_last_fired_at = None, wt_created_at = created\<rparr> in
     ebind (create_trigger_row t) (\<lambda>_.
     ebind (register_cron_if_needed env pf t) (\<lambda>_.
     eret (trigger_response t))))))"

text \<open>The trigger of a workflow, as update and deletion look it up.\<close>

definition owned_trigger :: "uuid \<Rightarrow> uuid \<Rightarrow> WorkflowTriggerDefinition op" where
  "owned_trigger wid tid =
     ebind (get_definition_or_raise wid) (\<lambda>_.
     ebind (get_trigger_by_id tid) (\<lambda>found.
     case found of
       None \<Rightarrow> eraise (TriggerNotFoundError tid)
     | Some t \<Rightarrow> if wt_definition_id t \<noteq> wid then eraise (TriggerNotFoundError tid) else eret t))"

definition apply_trigger_update ::
  "TriggerCreate \<Rightarrow> WorkflowTriggerDefinition \<Rightarrow> WorkflowTriggerDefinition" where
  "apply_trigger_update data t =
     t\<lparr>wt_trigger_type := wtc_trigger_type data, wt_name := wtc_name data, wt_config := wtc_config data,
       wt_max_concurrent_executions := wtc_max_concurrent_executions data, wt_is_active := wtc_is_active data\<rparr>"

definition wf_update_trigger ::
  "workflow_env \<Rightarrow> platform \<Rightarrow> uuid \<Rightarrow> uuid \<Rightarrow> TriggerCreate \<Rightarrow> TriggerResponse op" where
  "wf_update_trigger env pf wid tid data =
     ebind (owned_trigger wid tid) (\<lambda>t.
     ebind (remove_cron_if_needed env pf t) (\<lambda>_.
     ebind (update_trigger_row (wt_id t) (apply_trigger_update data)) (\<lambda>_.
     ebind (register_cron_if_needed env pf (apply_trigger_update data t)) (\<lambda>_.
     eret (trigger_response (apply_trigger_update data t))))))"

definition wf_delete_trigger :: "workflow_env \<Rightarrow> platform \<Rightarrow> uuid \<Rightarrow> uuid \<Rightarrow> unit op" where
  "wf_delete_trigger env pf wid tid =
     ebind (owned_trigger wid tid) (\<lambda>t.
     ebind (remove_cron_if_needed env pf t) (\<lambda>_.
     delete_trigger_row (wt_id t)))"

definition wf_list_triggers :: "uuid \<Rightarrow> (TriggerResponse list \<times> nat) op" where
  "wf_list_triggers wid =
     ebind (get_definition_or_raise wid) (\<lambda>_.
     ebind (list_triggers_rows wid) (\<lambda>ts. eret (map trigger_response ts, length ts)))"

fun trigger_type_value :: "TriggerType \<Rightarrow> string" where
  "trigger_type_value TT_webhook = ''webhook''"
| "trigger_type_value TT_cron = ''cron''"
| "trigger_type_value TT_orchestrator = ''orchestrator''"
| "trigger_type_value TT_manual = ''manual''"
| "trigger_type_value TT_api = ''api''"
| "trigger_type_value TT_event_bus = ''event_bus''"
| "trigger_type_value TT_workspace_goal = ''workspace_goal''"

definition record_trigger_fired :: "platform \<Rightarrow> uuid \<Rightarrow> uuid option \<Rightarrow> unit op" where
  "record_trigger_fired pf tid execution_id =
     ebind (get_trigger_by_id tid) (\<lambda>found.
     case found of
       None \<Rightarrow> eraise (TriggerNotFoundError tid)
     | Some t \<Rightarrow>
         ebind (read_now pf) (\<lambda>now.
         ebind (update_trigger_row (wt_id t) (\<lambda>x. x\<lparr>wt_last_fired_at := Some now\<rparr>)) (\<lambda>_.
         ebind (workflow_correlation pf None execution_id) (\<lambda>ctx.
         publish_trigger_fired pf (wt_definition_id t) (wt_id t) (trigger_type_value (wt_trigger_type t))
           execution_id ctx))))"

end
