(* ===== verification/Workflow_Service_Props.thy ===== *)
theory Workflow_Service_Props
  imports Workflow_Service Execution_Lifecycle_Props
begin

text \<open>
  Properties of the workflow service: version numbers and names whatever sequence of operations ran,
  checkpoint policies, masked secrets, the concurrency limit of a trigger, and that what was published
  is what an execution runs.
\<close>

section \<open>Versions\<close>

definition versions_of :: "world \<Rightarrow> uuid \<Rightarrow> WorkflowVersion list" where
  "versions_of w wid = filter (\<lambda>v. wv_definition_id v = wid) (wf_versions w)"

definition push_version :: "WorkflowVersion \<Rightarrow> world \<Rightarrow> world" where
  "push_version v w = w\<lparr>wf_versions := wf_versions w @ [v]\<rparr>"

abbreviation version_no :: "WorkflowVersion \<Rightarrow> nat" where
  "version_no v \<equiv> nat (wv_version_number v)"

interpretation vn: numbered_journal versions_of push_version wv_definition_id version_no
  by unfold_locales (simp add: versions_of_def push_version_def)

definition workflow_names :: "world \<Rightarrow> (uuid \<times> string) list" where
  "workflow_names w = map (\<lambda>d. (wd_workspace_id d, wd_name d)) (wf_definitions w)"

text \<open>Versions are numbered from 1 without gaps and names are unique in a workspace.\<close>

definition wf_ok :: "world \<Rightarrow> bool" where
  "wf_ok w \<longleftrightarrow>
     (\<forall>wid. map version_no (versions_of w wid) = [1..<Suc (length (versions_of w wid))]) \<and>
     distinct (workflow_names w)"

definition wf_frame :: "'a op \<Rightarrow> bool" where
  "wf_frame m \<longleftrightarrow> (\<forall>w. wf_versions (snd (m w)) = wf_versions w \<and> workflow_names (snd (m w)) = workflow_names w)"

lemma wf_ok_eq:
  "wf_versions w' = wf_versions w \<Longrightarrow> workflow_names w' = workflow_names w \<Longrightarrow> wf_ok w \<Longrightarrow> wf_ok w'"
  by (simp add: wf_ok_def versions_of_def)

lemma keeps_wf_frame: "wf_frame m \<Longrightarrow> keeps wf_ok m"
  unfolding wf_frame_def spec_def using wf_ok_eq by blast

lemma wf_frame_basic:
  "wf_frame (eret x)" "wf_frame (eraise e)" "wf_frame (elift r)" "wf_frame (eget f)" "wf_frame (eguard b e)"
  "wf_frame (fresh_uuid pf)" "wf_frame (read_clock c)" "wf_frame (publish pf m)" "wf_frame (call_service pf c')"
  "wf_frame (get_definition_by_id wid)" "wf_frame (get_definition_by_name ws n)" "wf_frame (get_trigger_by_id tid)"
  "wf_frame (create_trigger_row t)" "wf_frame (update_trigger_row tid g)" "wf_frame (delete_trigger_row tid)"
  by (simp_all add: wf_frame_def run_simps run_eguard fresh_uuid_def read_clock_def publish_def call_service_def
      get_definition_by_id_def get_definition_by_name_def get_trigger_by_id_def create_trigger_row_def
      update_trigger_row_def delete_trigger_row_def workflow_names_def split: option.splits)

lemma wf_frame_set_definition:
  "(\<And>d. wd_workspace_id (f d) = wd_workspace_id d \<and> wd_name (f d) = wd_name d) \<Longrightarrow> wf_frame (set_definition wid f)"
  by (auto simp: wf_frame_def set_definition_def run_simps workflow_names_def update_rows_def)

lemmas keeps_wf_basic = wf_frame_basic [THEN keeps_wf_frame] wf_frame_set_definition [THEN keeps_wf_frame]

lemma version_number_nth:
  assumes "wf_ok w" and "i < length (versions_of w wid)"
  shows "wv_version_number (versions_of w wid ! i) = int (Suc i)"
proof -
  from assms(1) have "map version_no (versions_of w wid) = [1..<Suc (length (versions_of w wid))]"
    unfolding wf_ok_def by blast
  from vn.numbered_nth [OF this assms(2)] show ?thesis by linarith
qed

lemma list_versions_run:
  assumes "wf_ok w"
  shows "list_versions_rows wid w = (Inr (versions_of w wid), w)"
proof -
  have "sorted (map wv_version_number (versions_of w wid))"
    by (auto simp: sorted_iff_nth_mono version_number_nth [OF assms])
  then show ?thesis by (simp add: list_versions_rows_def run_simps sort_key_sorted flip: versions_of_def)
qed

lemma wf_ok_push:
  assumes "wf_ok w" and "version_no v = Suc (length (versions_of w (wv_definition_id v)))"
  shows "wf_ok (push_version v w)"
proof -
  have "workflow_names (push_version v w) = workflow_names w"
    by (simp add: workflow_names_def push_version_def)
  with assms vn.push_numbered [of w _ v] show ?thesis by (simp add: wf_ok_def del: upt_Suc)
qed

text \<open>The number an update gives to the next version.\<close>

lemma next_version_number:
  assumes "wf_ok w"
  shows "(if versions_of w wid = [] then 0 else wv_version_number (last (versions_of w wid))) + 1 =
    int (Suc (length (versions_of w wid)))"
  using version_number_nth [OF assms, of "length (versions_of w wid) - 1" wid]
  by (cases "versions_of w wid = []") (auto simp: last_conv_nth)

lemma create_version_keeps:
  assumes "wf_ok w" and "wv_version_number v = int (Suc (length (versions_of w (wv_definition_id v)))) \<or>
      wv_version_number v = 1"
  shows "wf_ok (snd (create_version v w))"
proof (cases "\<exists>x \<in> set (wf_versions w). wv_definition_id x = wv_definition_id v \<and>
    wv_version_number x = wv_version_number v")
  case True
  with assms(1) show ?thesis by (simp add: create_version_def)
next
  case False
  have "wv_version_number v = int (Suc (length (versions_of w (wv_definition_id v))))"
  proof (cases "versions_of w (wv_definition_id v)")
    case Nil
    with assms(2) show ?thesis by auto
  next
    case (Cons x xs)
    with version_number_nth [OF assms(1), of 0 "wv_definition_id v"] have "wv_version_number x = 1" by simp
    moreover have "x \<in> set (wf_versions w)" "wv_definition_id x = wv_definition_id v"
      using Cons by (auto simp: versions_of_def filter_eq_Cons_iff)
    ultimately show ?thesis using False assms(2) by auto
  qed
  then have "wf_ok (push_version v w)" by (intro wf_ok_push [OF assms(1)]) simp
  with False show ?thesis by (auto simp: create_version_def push_version_def)
qed

lemma add_version_keeps:
  "spec wf_ok (\<lambda>w. n = int (Suc (length (versions_of w wid))) \<or> n = 1)
     (add_version pf wid n source ir summary policy author) (\<lambda>_ _. True)"
proof (rule specI)
  fix w assume ok: "wf_ok w" and n: "n = int (Suc (length (versions_of w wid))) \<or> n = 1"
  let ?w = "w\<lparr>w_ids := Suc (w_ids w), w_reads := Suc (w_reads w)\<rparr>"
  have "wf_ok ?w" by (rule wf_ok_eq [OF _ _ ok]) (simp_all add: workflow_names_def)
  moreover have "versions_of ?w wid = versions_of w wid" by (simp add: versions_of_def)
  ultimately show "wf_ok (snd (add_version pf wid n source ir summary policy author w))"
    using n create_version_keeps [of ?w]
    by (simp add: add_version_def run_ebind run_simps fresh_uuid_def read_clock_def Let_def split: prod.splits sum.splits)
       (metis (no_types, lifting) snd_conv WorkflowVersion.select_convs(2,3))
qed simp

lemma create_definition_keeps: "keeps wf_ok (create_definition d)"
  by (rule specI)
    (auto simp: create_definition_def wf_ok_def workflow_names_def versions_of_def)

section \<open>Any sequence of operations\<close>

lemma keeps_prod2: "(\<And>a b. keeps I (f a b)) \<Longrightarrow> keeps I (case p of (a, b) \<Rightarrow> f a b)"
  by (cases p) simp

lemma keeps_definition_ops:
  "keeps wf_ok (get_definition_or_raise wid)" "keeps wf_ok (definition_ref wid)"
  "keeps wf_ok (respond_workflow wid)" "keeps wf_ok (workflow_correlation pf ws e)"
  "keeps wf_ok (announce_version pf wid v)" "keeps wf_ok (owned_trigger wid tid)"
  "keeps wf_ok (register_cron_if_needed env pf t)" "keeps wf_ok (remove_cron_if_needed env pf t)"
  unfolding get_definition_or_raise_def definition_ref_def respond_workflow_def workflow_correlation_def
    announce_version_def owned_trigger_def register_cron_if_needed_def remove_cron_if_needed_def
    publish_workflow_published_def
  by (intro keeps_ebind keeps_if keeps_option keeps_ecatch keeps_wf_basic; simp)+

lemma keeps_create_workflow: "keeps wf_ok (create_workflow env pf data author)"
  unfolding create_workflow_def
  by (intro keeps_ebind keeps_wf_basic create_definition_keeps keeps_definition_ops
      spec_weaken [OF add_version_keeps]) simp_all

lemma list_versions_spec:
  "spec wf_ok (\<lambda>_. True) (list_versions_rows wid) (\<lambda>vs w.
     (if vs = [] then 0 else wv_version_number (last vs)) + 1 = int (Suc (length (versions_of w wid))))"
proof (rule specI)
  fix w vs w' assume ok: "wf_ok w" and run: "list_versions_rows wid w = (Inr vs, w')"
  from run have "vs = versions_of w wid" "w' = w" by (auto simp: list_versions_run [OF ok])
  with next_version_number [OF ok, of wid]
  show "(if vs = [] then 0 else wv_version_number (last vs)) + 1 = int (Suc (length (versions_of w' wid)))"
    by (simp only:)
qed (simp add: list_versions_run)

lemma definition_or_raise_id:
  "spec wf_ok (\<lambda>_. True) (get_definition_or_raise wid) (\<lambda>d _. wd_id d = wid)"
proof (rule specI)
  fix w d w' assume "get_definition_or_raise wid w = (Inr d, w')"
  then have "filter (\<lambda>d. wd_id d = wid) (wf_definitions w) = [d]"
    by (auto simp: get_definition_or_raise_def success_simps get_definition_by_id_def one_or_none_Some)
  then show "wd_id d = wid" by (auto dest: filter_singleD)
qed (use spec_inv [OF keeps_definition_ops(1)] in blast)

lemma keeps_update_workflow: "keeps wf_ok (update_workflow env pf wid data author)"
  unfolding update_workflow_def
proof (rule spec_ebind_post [OF definition_or_raise_id])
  fix d :: WorkflowDefinition assume id: "wd_id d = wid"
  show "keeps wf_ok (ebind (elift (validate_and_compile env pf (wu_yaml_source data))) (\<lambda>ir.
     ebind (elift (validate_checkpoint_policy ir (wu_checkpoint_policy data))) (\<lambda>policy.
     ebind (list_versions_rows wid) (\<lambda>versions.
     ebind (add_version pf (wd_id d) ((if versions = [] then 0 else wv_version_number (last versions)) + 1)
              (wu_yaml_source data) ir (wu_change_summary data) policy author) (\<lambda>v.
     ebind (set_definition (wd_id d) (\<lambda>d. d\<lparr>wd_current_version_id := Some (wv_id v),
              wd_schema_version := schema_version ir, wd_updated_by := Some author\<rparr>)) (\<lambda>_.
     ebind (announce_version pf (wd_id d) v) (\<lambda>_.
     respond_workflow (wd_id d))))))))"
    unfolding id
    apply (rule keeps_ebind [OF keeps_wf_basic(3)])+
    apply (rule spec_ebind [OF list_versions_spec])
    apply (rule spec_ebind [where R = "\<lambda>_ _. True"])
     apply (rule spec_weaken [OF add_version_keeps])
      apply simp
     apply simp
    apply (intro keeps_ebind keeps_wf_basic keeps_definition_ops)
    apply simp
    done
qed

lemma keeps_other_ops:
  "keeps wf_ok (archive_workflow env pf wid author)" "keeps wf_ok (wf_create_trigger env pf wid tdata)"
  "keeps wf_ok (wf_update_trigger env pf wid tid tdata)" "keeps wf_ok (wf_delete_trigger env pf wid tid)"
  "keeps wf_ok (record_trigger_fired pf tid eid)"
  unfolding archive_workflow_def wf_create_trigger_def wf_update_trigger_def wf_delete_trigger_def
    record_trigger_fired_def publish_trigger_fired_def Let_def
  by (intro keeps_ebind keeps_ewhen keeps_option keeps_wf_basic keeps_definition_ops; simp)+

inductive workflow_step :: "workflow_env \<Rightarrow> platform \<Rightarrow> world \<Rightarrow> world \<Rightarrow> bool" for env pf where
  create: "workflow_step env pf w (snd (create_workflow env pf data author w))"
| update: "workflow_step env pf w (snd (update_workflow env pf wid udata author w))"
| archive: "workflow_step env pf w (snd (archive_workflow env pf wid author w))"
| create_trigger: "workflow_step env pf w (snd (wf_create_trigger env pf wid tdata w))"
| update_trigger: "workflow_step env pf w (snd (wf_update_trigger env pf wid tid tdata w))"
| delete_trigger: "workflow_step env pf w (snd (wf_delete_trigger env pf wid tid w))"
| fired: "workflow_step env pf w (snd (record_trigger_fired pf tid eid w))"

inductive workflow_reachable :: "workflow_env \<Rightarrow> platform \<Rightarrow> world \<Rightarrow> world \<Rightarrow> bool" for env pf w0 where
  init: "workflow_reachable env pf w0 w0"
| step: "workflow_reachable env pf w0 w \<Longrightarrow> workflow_step env pf w w' \<Longrightarrow> workflow_reachable env pf w0 w'"

lemma workflow_step_ok: "workflow_step env pf w w' \<Longrightarrow> wf_ok w \<Longrightarrow> wf_ok w'"
  by (induction rule: workflow_step.induct)
    (blast intro: spec_inv [OF keeps_create_workflow] spec_inv [OF keeps_update_workflow]
      keeps_other_ops [THEN spec_inv])+

lemma workflow_reachable_ok: "workflow_reachable env pf w0 w \<Longrightarrow> wf_ok w0 \<Longrightarrow> wf_ok w"
  by (induction rule: workflow_reachable.induct) (auto intro: workflow_step_ok)

text \<open>C25. Whatever the workflow service does, successful or not, the versions of each workflow are
  numbered 1, 2, 3, ... in the order they were published, and no two workflows of a workspace have the
  same name.\<close>

theorem versions_numbered_names_unique:
  assumes "wf_versions w0 = []" and "wf_definitions w0 = []" and "workflow_reachable env pf w0 w"
  shows "map wv_version_number (versions_of w wid) = map int [1..<Suc (length (versions_of w wid))] \<and>
    distinct (workflow_names w)"
proof -
  have "wf_ok w0" using assms(1,2) by (simp add: wf_ok_def versions_of_def workflow_names_def)
  from workflow_reachable_ok [OF assms(3) this] have ok: "wf_ok w" .
  have "map wv_version_number (versions_of w wid) = map int [1..<Suc (length (versions_of w wid))]"
    by (rule nth_equalityI) (simp_all add: version_number_nth [OF ok] del: upt_Suc)
  with ok show ?thesis by (simp add: wf_ok_def)
qed

text \<open>A compiler whose YAML parser knows one text, without cron scheduler and tag services.\<close>

definition sample_env :: workflow_env where
  "sample_env = \<lparr>we_safe_load = (\<lambda>_. Inr (PDict sample_payload)), we_schema_file = (\<lambda>_. Some (PDict [])),
     we_has_scheduler = False, we_has_tagging = False, we_tag_query = None, we_label_query = None\<rparr>"

definition publish_request :: WorkflowCreate where
  "publish_request = \<lparr>wc_name = ''triage'', wc_description = None, wc_yaml_source = ''src'',
     wc_change_summary = None, wc_checkpoint_policy = Some (NamedSteps [''fetch'']), wc_tags = [],
     wc_workspace_id = ''ws''\<rparr>"

definition published :: "(exn + WorkflowResponse) \<times> world" where
  "published = create_workflow sample_env sample_platform publish_request ''alice'' empty_world"

definition published_world :: world where
  "published_world = snd published"

theorem versions_numbered_names_unique_witness:
  "map wv_version_number (versions_of published_world ''0'') =
     map int [1..<Suc (length (versions_of published_world ''0''))] \<and> distinct (workflow_names published_world)"
proof (rule versions_numbered_names_unique [where ?w0.0 = empty_world])
  show "workflow_reachable sample_env sample_platform empty_world published_world"
    unfolding published_world_def published_def
    by (rule workflow_reachable.step [OF workflow_reachable.init workflow_step.create])
qed (simp_all add: empty_world_def)

section \<open>Requests and responses\<close>

text \<open>Checkpoint policies. A policy is stored exactly when every step it names is a step of the
  compiled workflow; what is stored is what the checkpoint service later reads.\<close>

theorem checkpoint_policy_checked:
  "(if set (case p of NamedSteps ids \<Rightarrow> ids | _ \<Rightarrow> []) \<subseteq> set (map step_id (steps ir))
    then validate_checkpoint_policy ir (Some p) = Inr (Some (policy_dump p))
    else isl (validate_checkpoint_policy ir (Some p))) \<and>
   should_capture rt s (Some (policy_dump p)) = Inr (case p of
       BeforeToolInvocations \<Rightarrow> step_type s = ''tool_call''
     | BeforeEveryStep \<Rightarrow> True
     | NamedSteps ids \<Rightarrow> step_id s \<in> set ids
     | DisabledCheckpoints \<Rightarrow> False)"
proof
  show "if set (case p of NamedSteps ids \<Rightarrow> ids | _ \<Rightarrow> []) \<subseteq> set (map step_id (steps ir))
    then validate_checkpoint_policy ir (Some p) = Inr (Some (policy_dump p))
    else isl (validate_checkpoint_policy ir (Some p))"
    by (cases p) (auto simp: validate_checkpoint_policy_def filter_empty_conv Let_def)
  show "should_capture rt s (Some (policy_dump p)) = Inr (case p of
       BeforeToolInvocations \<Rightarrow> step_type s = ''tool_call''
     | BeforeEveryStep \<Rightarrow> True
     | NamedSteps ids \<Rightarrow> step_id s \<in> set ids
     | DisabledCheckpoints \<Rightarrow> False)"
    by (cases p) (auto simp: should_capture_def policy_or_default_def dget_or_def dget_def image_image Let_def)
qed

section \<open>Secrets of a trigger\<close>

lemma cron_keeps_triggers:
  "register_cron_if_needed env pf t w = (Inr u, w') \<Longrightarrow> wf_triggers w' = wf_triggers w"
  "remove_cron_if_needed env pf t w = (Inr u, w') \<Longrightarrow> wf_triggers w' = wf_triggers w"
  by (auto simp: register_cron_if_needed_def remove_cron_if_needed_def ecatch_def call_service_def run_simps
      split: if_splits option.splits)

lemma definition_or_raise_Inr:
  "get_definition_or_raise wid w = (Inr d, w') \<longleftrightarrow>
   filter (\<lambda>d. wd_id d = wid) (wf_definitions w) = [d] \<and> w' = w"
  by (auto simp: get_definition_or_raise_def success_simps get_definition_by_id_def one_or_none_Some)

lemma owned_trigger_Inr:
  "owned_trigger wid tid w = (Inr t, w') \<longleftrightarrow>
   (\<exists>d. filter (\<lambda>d. wd_id d = wid) (wf_definitions w) = [d]) \<and>
   filter (\<lambda>t. wt_id t = tid) (wf_triggers w) = [t] \<and> wt_definition_id t = wid \<and> w' = w"
  by (auto simp: owned_trigger_def definition_or_raise_Inr success_simps get_trigger_by_id_def one_or_none_Some
      split: if_splits) (auto simp: one_or_none_def)

text \<open>Each operation that returns a trigger answers for a row of the table it leaves behind.\<close>

lemma created_trigger_stored:
  "wf_create_trigger env pf wid data w = (Inr r, w1) \<Longrightarrow> \<exists>t \<in> set (wf_triggers w1). r = trigger_response t"
  by (auto simp: wf_create_trigger_def success_simps create_trigger_row_def run_simps Let_def
      dest!: cron_keeps_triggers(1))

lemma updated_trigger_stored:
  assumes "wf_update_trigger env pf wid tid data w = (Inr r, w1)"
  shows "\<exists>t \<in> set (wf_triggers w1). r = trigger_response t"
proof -
  from assms obtain t wa wb where t: "filter (\<lambda>t. wt_id t = tid) (wf_triggers w) = [t]"
    and a: "remove_cron_if_needed env pf t w = (Inr (), wa)"
    and b: "register_cron_if_needed env pf (apply_trigger_update data t)
      (wa\<lparr>wf_triggers := update_rows (\<lambda>x. wt_id x = wt_id t) (apply_trigger_update data) (wf_triggers wa)\<rparr>) =
      (Inr (), wb)"
    and r: "r = trigger_response (apply_trigger_update data t)" "w1 = wb"
    by (auto simp: wf_update_trigger_def success_simps owned_trigger_Inr update_trigger_row_def run_simps)
  from filter_singleD [OF t] have "t \<in> set (wf_triggers w)" by blast
  with cron_keeps_triggers(2) [OF a] cron_keeps_triggers(1) [OF b]
  have "apply_trigger_update data t \<in> set (wf_triggers w1)"
    by (force simp: r update_rows_def)
  with r show ?thesis by blast
qed

lemma listed_trigger_stored:
  "wf_list_triggers wid w = (Inr (ts, n), w1) \<Longrightarrow> r \<in> set ts \<Longrightarrow>
   \<exists>t \<in> set (wf_triggers w1). r = trigger_response t"
  by (auto simp: wf_list_triggers_def success_simps definition_or_raise_Inr list_triggers_rows_def run_simps)

text \<open>A response never shows the secret of a trigger: wherever the service returns a trigger, the
  configuration has \<open>***\<close> in place of the secret and every other entry as it is stored in the row.\<close>

theorem trigger_secret_masked:
  assumes "wf_create_trigger env pf wid data w = (Inr r, w1) \<or>
    wf_update_trigger env pf wid tid data w = (Inr r, w1) \<or>
    (\<exists>ts n. wf_list_triggers wid w = (Inr (ts, n), w1) \<and> r \<in> set ts)"
  shows "\<exists>t \<in> set (wf_triggers w1). tg_id r = wt_id t \<and>
    dget (tg_config r) = (if dhas (wt_config t) ''secret''
      then (dget (wt_config t))(''secret'' \<mapsto> PStr ''***'') else dget (wt_config t))"
proof -
  from assms obtain t where t: "t \<in> set (wf_triggers w1)" and r: "r = trigger_response t"
    using created_trigger_stored updated_trigger_stored listed_trigger_stored by metis
  show ?thesis
    by (rule bexI [OF _ t]) (auto simp: r trigger_response_def mask_trigger_config_def fun_eq_iff)
qed

definition secret_trigger :: TriggerCreate where
  "secret_trigger = \<lparr>wtc_trigger_type = TT_webhook, wtc_name = ''hook'',
     wtc_config = [(PStr ''path'', PStr ''/hook''), (PStr ''secret'', PStr ''s3cr3t'')],
     wtc_max_concurrent_executions = Some 1, wtc_is_active = True\<rparr>"

definition hook_added :: "(exn + TriggerResponse) \<times> world" where
  "hook_added = wf_create_trigger sample_env sample_platform ''0'' secret_trigger published_world"

lemma hook_added_Inr: "\<not> isl (fst hook_added)"
  by code_simp

theorem trigger_secret_masked_witness:
  "\<exists>t \<in> set (wf_triggers (snd hook_added)). tg_id (projr (fst hook_added)) = wt_id t \<and>
    dget (tg_config (projr (fst hook_added))) = (if dhas (wt_config t) ''secret''
      then (dget (wt_config t))(''secret'' \<mapsto> PStr ''***'') else dget (wt_config t))"
  by (rule trigger_secret_masked [of sample_env sample_platform "''0''" secret_trigger published_world])
    (use hook_added_Inr in \<open>simp add: prod_eq_iff sum.expand flip: hook_added_def\<close>)

section \<open>From a published text to a running execution\<close>

lemma announce_tables:
  assumes "announce_version pf wid v w = (Inr u, w')"
  shows "same_tables w w'"
proof -
  from assms obtain d :: WorkflowDefinition and m where
    "publish pf m (w\<lparr>w_ids := Suc (w_ids w)\<rparr>) = (Inr u, w')"
    by (auto simp: announce_version_def definition_ref_def workflow_correlation_def success_simps
        get_definition_by_id_def fresh_uuid_def publish_workflow_published_def)
  with quiet_tables(3) [of "w\<lparr>w_ids := Suc (w_ids w)\<rparr>" pf m] show ?thesis by (simp add: same_tables_def)
qed

text \<open>What creation and update share: the version is stored, the definition points to it.\<close>

lemma release_run:
  assumes "ebind (add_version pf wid n src ir summary policy author) (\<lambda>v.
      ebind (set_definition wid (f v)) (\<lambda>_. ebind (announce_version pf wid v) (\<lambda>_. respond_workflow wid))) w =
      (Inr r, w1)"
    and f: "\<And>v d. wd_current_version_id (f v d) = Some (wv_id v) \<and> wd_id (f v d) = wd_id d"
  shows "\<exists>v \<in> set (wf_versions w1). wv_compiled_ir v = WorkflowIR_to_dict ir \<and> wr_id r = wid \<and>
    (\<forall>d \<in> set (wf_definitions w1). wd_id d = wid \<longrightarrow> wd_current_version_id d = Some (wv_id v))"
proof -
  from assms(1) obtain v wa wb wc where a: "add_version pf wid n src ir summary policy author w = (Inr v, wa)"
    and b: "wb = wa\<lparr>wf_definitions := update_rows (\<lambda>d. wd_id d = wid) (f v) (wf_definitions wa)\<rparr>"
    and c: "announce_version pf wid v wb = (Inr (), wc)" and r: "respond_workflow wid wc = (Inr r, w1)"
    by (auto simp: success_simps set_definition_def run_simps)
  from a have v: "v \<in> set (wf_versions wa)" "wv_compiled_ir v = WorkflowIR_to_dict ir"
    by (auto simp: add_version_def success_simps create_version_def Let_def split: if_splits)
  from c have st: "same_tables wb wc" by (rule announce_tables)
  from r have "w1 = wc" "wr_id r = wid"
    by (auto simp: respond_workflow_def definition_ref_def success_simps get_definition_by_id_def
        one_or_none_Some run_simps workflow_response_def dest: filter_singleD)
  with v st f show ?thesis by (auto simp: same_tables_def b update_rows_def)
qed

lemma publish_run:
  assumes "src = wc_yaml_source cdata \<and> create_workflow env pf cdata author w = (Inr r, w1) \<or>
    src = wu_yaml_source udata \<and> update_workflow env pf wid udata author w = (Inr r, w1)"
  shows "\<exists>ir. validate_and_compile env pf src = Inr ir \<and>
    (\<exists>v \<in> set (wf_versions w1). wv_compiled_ir v = WorkflowIR_to_dict ir \<and>
      (\<forall>d \<in> set (wf_definitions w1). wd_id d = wr_id r \<longrightarrow> wd_current_version_id d = Some (wv_id v)))"
  using assms
proof
  assume "src = wc_yaml_source cdata \<and> create_workflow env pf cdata author w = (Inr r, w1)"
  then show ?thesis
    by (auto simp: create_workflow_def ebind_Inr [where m = "get_definition_by_name _ _"]
        ebind_Inr [where m = "eguard _ _"] ebind_Inr [where m = "elift _"] ebind_Inr [where m = "fresh_uuid _"]
        ebind_Inr [where m = "read_clock _"] ebind_Inr [where m = "create_definition _"] elift_Inr eguard_Inr
        dest!: release_run)
next
  assume "src = wu_yaml_source udata \<and> update_workflow env pf wid udata author w = (Inr r, w1)"
  then show ?thesis
    by (auto simp: update_workflow_def ebind_Inr [where m = "get_definition_or_raise _"]
        ebind_Inr [where m = "elift _"] ebind_Inr [where m = "list_versions_rows _"] elift_Inr
        dest!: release_run)
qed

lemma resolve_current:
  assumes "resolve_workflow_version wid None w = (Inr v, w')" and "v0 \<in> set (wf_versions w)"
    and "\<forall>d \<in> set (wf_definitions w). wd_id d = wid \<longrightarrow> wd_current_version_id d = Some (wv_id v0)"
  shows "v = v0"
proof -
  from assms(1) obtain d cur where "filter (\<lambda>d. wd_id d = wid) (wf_definitions w) = [d]"
    and "wd_current_version_id d = Some cur" and v: "filter (\<lambda>v. wv_id v = cur) (wf_versions w) = [v]"
    by (auto simp: resolve_workflow_version_def success_simps get_version_by_id_def get_definition_by_id_def
        one_or_none_Some)
  with assms(3) have "cur = wv_id v0" by (auto dest: filter_singleD)
  with assms(2) have "v0 \<in> set (filter (\<lambda>v. wv_id v = cur) (wf_versions w))" by simp
  with v show ?thesis by simp
qed

text \<open>C8. What was published is what runs. After a workflow text was published, by creating the workflow
  or by updating it, an execution of its current version that is created next replays to a state whose
  pending steps are the steps the compiler produced from that text, in their order, and these form a
  directed acyclic graph.\<close>

theorem published_text_is_what_runs:
  assumes "src = wc_yaml_source cdata \<and> create_workflow env pf cdata author w = (Inr r, w1) \<or>
      src = wu_yaml_source udata \<and> update_workflow env pf wid udata author w = (Inr r, w1)"
    and "create_execution pf edata by None None [] [] w1 = (Inr e, w2)"
    and "ec_workflow_definition_id edata = wr_id r" and "ec_workflow_version_id edata = None"
    and "journal_numbered w1" and "executions_of w1 (ex_id e) = []" and "events_of w1 (ex_id e) = []"
  shows "\<exists>ir st. validate_and_compile env pf src = Inr ir \<and> dag_ir ir \<and>
    replay_execution pf (ex_id e) w2 = (Inr st, w2) \<and> st_status st = ex_status e \<and>
    st_pending_step_ids st = map step_id (steps ir) \<and>
    st_completed_step_ids st = [] \<and> st_active_step_ids st = []"
proof -
  from publish_run [OF assms(1)] obtain ir v where ir: "validate_and_compile env pf src = Inr ir"
    and v: "v \<in> set (wf_versions w1)" "wv_compiled_ir v = WorkflowIR_to_dict ir"
      "\<forall>d \<in> set (wf_definitions w1). wd_id d = wr_id r \<longrightarrow> wd_current_version_id d = Some (wv_id v)" by blast
  from ir have c: "compile (pf_runtime pf) (we_safe_load env) (we_schema_file env) (recursion_depth pf) src 1 = Inr ir"
    by (simp add: validate_and_compile_def)
  then have "WorkflowIR_from_dict (pf_runtime pf) (WorkflowIR_to_dict ir) = Inr ir"
    by (rule compile_InrE) (use compile_steps_norm workflow_roundtrip in metis)
  moreover from created_replay [OF assms(2,5-7)] assms(3,4) obtain v' ir' st where
    v': "resolve_workflow_version (wr_id r) None w1 = (Inr v', w1)"
      "WorkflowIR_from_dict (pf_runtime pf) (wv_compiled_ir v') = Inr ir'"
    and st: "replay_execution pf (ex_id e) w2 = (Inr st, w2)" "st_status st = ex_status e"
      "st_completed_step_ids st = dedupe []" "st_active_step_ids st = []"
      "st_pending_step_ids st = filter (\<lambda>s. s \<notin> set []) (map step_id (steps ir'))"
    by auto
  ultimately have "ir' = ir" using resolve_current [OF v'(1) v(1,3)] v(2) by simp
  with ir st compile_dag(1) [OF c] show ?thesis by auto
qed

definition run_request :: ExecutionCreate where
  "run_request = sample_request\<lparr>ec_workflow_definition_id := ''0''\<rparr>"

definition launched :: "(exn + Execution) \<times> world" where
  "launched = create_execution sample_platform run_request None None None [] [] published_world"

lemma published_Inr: "fst published = Inr (projr (fst published))" "wr_id (projr (fst published)) = ''0''"
  by code_simp+

lemma launched_Inr: "fst launched = Inr (projr (fst launched))"
  by code_simp

lemma published_run: "create_workflow sample_env sample_platform publish_request ''alice'' empty_world =
    (Inr (projr (fst published)), published_world)"
  by (simp add: prod_eq_iff published_world_def flip: published_Inr(1) published_def)

lemma launched_run: "create_execution sample_platform run_request None None None [] [] published_world =
    (Inr (projr (fst launched)), snd launched)"
  by (simp add: prod_eq_iff flip: launched_Inr launched_def)

lemma published_world_tables: "executions published_world = []" "events published_world = []"
  by code_simp+

theorem published_text_is_what_runs_witness:
  "\<exists>ir st. validate_and_compile sample_env sample_platform ''src'' = Inr ir \<and> dag_ir ir \<and>
    replay_execution sample_platform (ex_id (projr (fst launched))) (snd launched) = (Inr st, snd launched) \<and>
    st_status st = ex_status (projr (fst launched)) \<and>
    st_pending_step_ids st = map step_id (steps ir) \<and>
    st_completed_step_ids st = [] \<and> st_active_step_ids st = []"
  by (rule published_text_is_what_runs [OF _ launched_run, where cdata = publish_request])
    (use published_run published_Inr(2) in \<open>auto simp: publish_request_def run_request_def sample_request_def
      published_world_tables journal_numbered_def events_of_def executions_of_def\<close>)

section \<open>The concurrency limit of a trigger\<close>

text \<open>The executions of a trigger that count against its limit.\<close>

definition trigger_load :: "world \<Rightarrow> uuid \<Rightarrow> nat" where
  "trigger_load w tid = length (filter (\<lambda>e. ex_trigger_id e = Some tid \<and>
     ex_status e \<in> {ES_queued, ES_running, ES_waiting_for_approval, ES_compensating}) (executions w))"

lemma check_trigger_run:
  assumes "check_trigger (Some tid) w = (Inr (), w')"
  shows "\<exists>t. filter (\<lambda>t. wt_id t = tid) (wf_triggers w) = [t] \<and>
    (case wt_max_concurrent_executions t of None \<Rightarrow> True | Some limit \<Rightarrow> int (trigger_load w tid) < limit)"
proof -
  from assms obtain t where t: "filter (\<lambda>t. wt_id t = tid) (wf_triggers w) = [t]"
    and "case wt_max_concurrent_executions t of None \<Rightarrow> True | Some limit \<Rightarrow> int (trigger_load w (wt_id t)) < limit"
    by (auto simp: check_trigger_def success_simps get_trigger_by_id_def one_or_none_Some run_simps
        count_active_for_trigger_def trigger_load_def split: option.splits)
  with filter_singleD [OF t] show ?thesis by auto
qed

text \<open>C27. The concurrency limit of a trigger. An execution a trigger starts is only created below the
  limit: the load of the trigger grows by at most one and stays within the limit. The other triggers
  keep their load.\<close>

theorem trigger_limit_kept:
  assumes "create_execution pf data by parent rerun_of pre results w = (Inr e, w')"
    and "ec_trigger_id data = Some tid"
  shows "(\<exists>t. filter (\<lambda>t. wt_id t = tid) (wf_triggers w) = [t] \<and>
      (case wt_max_concurrent_executions t of None \<Rightarrow> True | Some limit \<Rightarrow> int (trigger_load w' tid) \<le> limit)) \<and>
    trigger_load w' k = (if k = tid \<and> ex_status e = ES_queued then Suc (trigger_load w k) else trigger_load w k)"
proof -
  from create_run [OF assms(1)] obtain w0 x where t: "check_trigger (Some tid) w = (Inr (), w)"
    "ex_trigger_id e = Some tid" and s: "ex_status e \<in> {ES_queued, ES_paused_quota_exceeded}"
    and "executions w0 = executions w @ [e]" and "journaled (ex_id e) EV_created None x w0 w'"
    unfolding assms(2) by metis
  then have ex: "executions w' = executions w @ [e]" by (auto simp: journaled_def same_tables_def)
  have load: "trigger_load w' k =
      (if k = tid \<and> ex_status e = ES_queued then Suc (trigger_load w k) else trigger_load w k)" for k
    using t(2) s by (auto simp: trigger_load_def ex)
  with check_trigger_run [OF t(1)] show ?thesis by (fastforce split: option.splits)
qed

definition hook_world :: world where
  "hook_world = snd hook_added"

definition hooked :: "(exn + Execution) \<times> world" where
  "hooked = create_execution sample_platform (run_request\<lparr>ec_trigger_id := Some (tg_id (projr (fst hook_added)))\<rparr>)
     None None None [] [] hook_world"

lemma hooked_Inr: "fst hooked = Inr (projr (fst hooked))"
  by code_simp

theorem trigger_limit_kept_witness:
  "(\<exists>t. filter (\<lambda>t. wt_id t = tg_id (projr (fst hook_added))) (wf_triggers hook_world) = [t] \<and>
      (case wt_max_concurrent_executions t of None \<Rightarrow> True
       | Some limit \<Rightarrow> int (trigger_load (snd hooked) (tg_id (projr (fst hook_added)))) \<le> limit)) \<and>
    trigger_load (snd hooked) ''0'' =
      (if ''0'' = tg_id (projr (fst hook_added)) \<and> ex_status (projr (fst hooked)) = ES_queued
       then Suc (trigger_load hook_world ''0'') else trigger_load hook_world ''0'')"
  by (rule trigger_limit_kept [of sample_platform "run_request\<lparr>ec_trigger_id := Some (tg_id (projr (fst hook_added)))\<rparr>"
        None None None "[]" "[]"])
    (use hooked_Inr in \<open>simp_all add: prod_eq_iff flip: hooked_def\<close>)

end
