(* ===== verification/Workflow_Links.thy ===== *)
theory Workflow_Links
  imports Workflow_Service_Props
begin

text \<open>
  The foreign keys between the workflow tables as an invariant of the service: a version and a trigger
  belong to a stored workflow, and the current version of a workflow is a stored version of that workflow.
\<close>

section \<open>Links\<close>

definition has_definition :: "uuid \<Rightarrow> world \<Rightarrow> bool" where
  "has_definition wid w \<longleftrightarrow> (\<exists>d \<in> set (wf_definitions w). wd_id d = wid)"

definition has_version :: "uuid \<Rightarrow> uuid \<Rightarrow> world \<Rightarrow> bool" where
  "has_version wid vid w \<longleftrightarrow> (\<exists>v \<in> set (wf_versions w). wv_id v = vid \<and> wv_definition_id v = wid)"

definition rows_linked :: "world \<Rightarrow> bool" where
  "rows_linked w \<longleftrightarrow>
     (\<forall>v \<in> set (wf_versions w). has_definition (wv_definition_id v) w) \<and>
     (\<forall>t \<in> set (wf_triggers w). has_definition (wt_definition_id t) w) \<and>
     (\<forall>d \<in> set (wf_definitions w). \<forall>vid. wd_current_version_id d = Some vid \<longrightarrow> has_version (wd_id d) vid w)"

lemmas link_defs = rows_linked_def has_definition_def has_version_def

text \<open>Operations that leave the three tables alone.\<close>

definition link_frame :: "'a op \<Rightarrow> bool" where
  "link_frame m \<longleftrightarrow>
     (\<forall>w. wf_definitions (snd (m w)) = wf_definitions w \<and> wf_versions (snd (m w)) = wf_versions w \<and>
        wf_triggers (snd (m w)) = wf_triggers w)"

lemma link_frame_run:
  assumes "link_frame m"
  shows "has_definition wid (snd (m w)) = has_definition wid w" and "rows_linked (snd (m w)) = rows_linked w"
proof -
  from assms have t: "wf_definitions (snd (m w)) = wf_definitions w" "wf_versions (snd (m w)) = wf_versions w"
    "wf_triggers (snd (m w)) = wf_triggers w" by (simp_all add: link_frame_def)
  show "has_definition wid (snd (m w)) = has_definition wid w" "rows_linked (snd (m w)) = rows_linked w"
    unfolding link_defs t by (rule refl)+
qed

lemma spec_link_frame: "link_frame m \<Longrightarrow> spec rows_linked (has_definition wid) m (\<lambda>_. has_definition wid)"
  by (simp add: spec_def link_frame_run)

lemma keeps_link_frame: "link_frame m \<Longrightarrow> keeps rows_linked m"
  by (simp add: spec_def link_frame_run)

lemma link_frame_basic:
  "link_frame (eret x)" "link_frame (eraise e)" "link_frame (elift r)" "link_frame (eget f)" "link_frame (eguard b e)"
  "link_frame (fresh_uuid pf)" "link_frame (read_clock c)" "link_frame (publish pf m)"
  "link_frame (call_service pf c')" "link_frame (get_definition_by_id wid)"
  "link_frame (get_definition_by_name ws n)" "link_frame (get_trigger_by_id tid)"
  "link_frame (list_versions_rows wid)"
  by (simp_all add: link_frame_def run_simps run_eguard fresh_uuid_def read_clock_def publish_def call_service_def
      get_definition_by_id_def get_definition_by_name_def get_trigger_by_id_def list_versions_rows_def
      split: option.splits)

lemmas keeps_link_basic = link_frame_basic [THEN keeps_link_frame]

lemma keeps_link_ops:
  "keeps rows_linked (get_definition_or_raise wid)" "keeps rows_linked (definition_ref wid)"
  "keeps rows_linked (respond_workflow wid)" "keeps rows_linked (workflow_correlation pf ws e)"
  "keeps rows_linked (announce_version pf wid v)" "keeps rows_linked (owned_trigger wid tid)"
  "keeps rows_linked (register_cron_if_needed env pf t)" "keeps rows_linked (remove_cron_if_needed env pf t)"
  unfolding get_definition_or_raise_def definition_ref_def respond_workflow_def workflow_correlation_def
    announce_version_def owned_trigger_def register_cron_if_needed_def remove_cron_if_needed_def
    publish_workflow_published_def
  by (intro keeps_ebind keeps_if keeps_option keeps_ecatch keeps_link_basic; simp)+

section \<open>Rows\<close>

lemma create_definition_linked:
  assumes "wd_current_version_id d = None"
  shows "spec rows_linked (\<lambda>_. True) (create_definition d) (\<lambda>_. has_definition (wd_id d))"
  by (rule specI) (use assms in \<open>auto simp: create_definition_def link_defs split: if_splits\<close>)

lemma create_version_linked:
  "spec rows_linked (has_definition (wv_definition_id v)) (create_version v)
     (\<lambda>_. has_version (wv_definition_id v) (wv_id v))"
  by (rule specI) (auto simp: create_version_def link_defs split: if_splits)

text \<open>A step that leaves the tables alone keeps what is known about them.\<close>

lemma frame_then:
  assumes "link_frame m" and "\<And>x. spec rows_linked (has_definition wid) (f x) Q"
  shows "spec rows_linked (has_definition wid) (ebind m f) Q"
  by (rule spec_ebind [OF spec_link_frame [OF assms(1)] assms(2)])

lemma add_version_linked:
  "spec rows_linked (has_definition wid) (add_version pf wid n source ir summary policy author)
     (\<lambda>v. has_version wid (wv_id v))"
proof -
  have "spec rows_linked (has_definition (wv_definition_id v))
      (ebind (create_version v) (\<lambda>_. eret v)) (\<lambda>v'. has_version (wv_definition_id v) (wv_id v'))" for v
    by (rule spec_ebind [OF create_version_linked]) (simp add: spec_eret)
  from this [of "\<lparr>wv_id = i, wv_definition_id = wid, wv_version_number = n, wv_yaml_source = source,
      wv_compiled_ir = WorkflowIR_to_dict ir, wv_schema_version = schema_version ir,
      wv_change_summary = summary, wv_checkpoint_policy = policy, wv_created_by = Some author,
      wv_is_valid = True, wv_created_at = t\<rparr>" for i t]
  show ?thesis
    unfolding add_version_def Let_def
    by - (rule frame_then [OF link_frame_basic(6)], rule frame_then [OF link_frame_basic(7)], simp)
qed

lemma set_definition_rows:
  assumes "\<And>d. wd_id (f d) = wd_id d"
  shows "spec rows_linked (\<lambda>w. \<forall>d \<in> set (wf_definitions w). wd_id d = wid \<longrightarrow>
       (\<forall>vid. wd_current_version_id (f d) = Some vid \<longrightarrow> has_version wid vid w))
     (set_definition wid f) (\<lambda>_ _. True)"
proof (rule specI)
  fix w assume l: "rows_linked w" and v: "\<forall>d \<in> set (wf_definitions w). wd_id d = wid \<longrightarrow>
       (\<forall>vid. wd_current_version_id (f d) = Some vid \<longrightarrow> has_version wid vid w)"
  let ?w = "snd (set_definition wid f w)"
  have w: "wf_versions ?w = wf_versions w" "wf_triggers ?w = wf_triggers w"
    "wf_definitions ?w = map (\<lambda>d. if wd_id d = wid then f d else d) (wf_definitions w)"
    by (simp_all add: set_definition_def run_simps update_rows_def)
  have "has_definition k ?w = has_definition k w" for k
    using assms by (auto simp: has_definition_def w)
  moreover have "has_version k i ?w = has_version k i w" for k i by (simp add: has_version_def w)
  ultimately show "rows_linked ?w"
    using l v assms unfolding rows_linked_def w by auto
qed simp

lemma set_definition_linked:
  assumes "\<And>d. wd_id (f d) = wd_id d \<and> wd_current_version_id (f d) = Some vid"
  shows "spec rows_linked (has_version wid vid) (set_definition wid f) (\<lambda>_ _. True)"
  by (rule set_definition_rows [THEN spec_weaken]) (use assms in \<open>auto split: if_splits\<close>)

lemma set_definition_keeps:
  assumes "\<And>d. wd_id (f d) = wd_id d \<and> wd_current_version_id (f d) = wd_current_version_id d"
  shows "keeps rows_linked (set_definition wid f)"
  by (rule set_definition_rows [THEN spec_weaken]) (use assms in \<open>auto simp: rows_linked_def\<close>)

lemma create_trigger_linked:
  "spec rows_linked (has_definition (wt_definition_id t)) (create_trigger_row t) (\<lambda>_ _. True)"
  by (rule specI) (auto simp: create_trigger_row_def run_simps link_defs)

lemma trigger_rows_linked:
  "(\<And>t. wt_definition_id (f t) = wt_definition_id t) \<Longrightarrow> keeps rows_linked (update_trigger_row tid f)"
  "keeps rows_linked (delete_trigger_row tid)"
  by (auto simp: spec_def update_trigger_row_def delete_trigger_row_def run_simps update_rows_def link_defs)

lemma definition_or_raise_linked:
  "spec rows_linked (\<lambda>_. True) (get_definition_or_raise wid) (\<lambda>d w. wd_id d = wid \<and> has_definition wid w)"
proof (rule specI)
  fix w d w' assume "get_definition_or_raise wid w = (Inr d, w')"
  then have "filter (\<lambda>d. wd_id d = wid) (wf_definitions w) = [d]" "w' = w" by (auto simp: definition_or_raise_Inr)
  then show "wd_id d = wid \<and> has_definition wid w'" by (auto simp: has_definition_def dest: filter_singleD)
qed (use spec_inv [OF keeps_link_ops(1)] in blast)

section \<open>Operations\<close>

lemma release_linked:
  assumes "\<And>v d. wd_id (f v d) = wd_id d \<and> wd_current_version_id (f v d) = Some (wv_id v)"
  shows "spec rows_linked (has_definition wid)
     (ebind (add_version pf wid n source ir summary policy author) (\<lambda>v.
      ebind (set_definition wid (f v)) (\<lambda>_. ebind (announce_version pf wid v) (\<lambda>_. respond_workflow wid))))
     (\<lambda>_ _. True)"
  by (rule spec_ebind [OF add_version_linked], rule spec_ebind [OF set_definition_linked])
    (use assms in \<open>auto intro: keeps_ebind keeps_link_ops\<close>)

lemma definition_then:
  assumes "\<And>d. wd_id d = wid \<Longrightarrow> spec rows_linked (has_definition wid) (f d) Q"
  shows "spec rows_linked (\<lambda>_. True) (ebind (get_definition_or_raise wid) f) Q"
  by (rule spec_ebind [OF definition_or_raise_linked]) (use assms in \<open>auto simp: spec_def\<close>)

lemma create_workflow_linked: "keeps rows_linked (create_workflow env pf data author)"
proof -
  have "spec rows_linked (\<lambda>_. True) (ebind (create_definition d) (\<lambda>_.
     ebind (add_version pf (wd_id d) 1 source ir summary policy author) (\<lambda>v.
     ebind (set_definition (wd_id d) (\<lambda>d. d\<lparr>wd_current_version_id := Some (wv_id v)\<rparr>)) (\<lambda>_.
     ebind (announce_version pf (wd_id d) v) (\<lambda>_. respond_workflow (wd_id d)))))) (\<lambda>_ _. True)"
    if "wd_current_version_id d = None" for d source ir summary policy
    by (rule spec_ebind [OF create_definition_linked [OF that]], rule release_linked) simp
  from this [of "\<lparr>wd_id = wid, wd_workspace_id = ws, wd_name = n, wd_description = de, wd_status = st,
      wd_current_version_id = None, wd_schema_version = sv, wd_tags = tg, wd_created_by = cb,
      wd_updated_by = ub, wd_created_at = t\<rparr>" for wid ws n de st sv tg cb ub t]
  show ?thesis
    unfolding create_workflow_def
    by - ((rule keeps_ebind, rule keeps_link_basic)+, simp)
qed

lemma update_workflow_linked: "keeps rows_linked (update_workflow env pf wid data author)"
  unfolding update_workflow_def
  by (rule definition_then, simp only:)
    (rule frame_then [OF link_frame_basic(3)], rule frame_then [OF link_frame_basic(3)],
      rule frame_then [OF link_frame_basic(13)], rule release_linked, simp)

lemma trigger_ops_linked:
  "keeps rows_linked (wf_create_trigger env pf wid data)"
  "keeps rows_linked (wf_update_trigger env pf wid tid data)"
  "keeps rows_linked (wf_delete_trigger env pf wid tid)"
proof -
  have "spec rows_linked (has_definition (wt_definition_id t)) (ebind (create_trigger_row t) (\<lambda>_.
      ebind (register_cron_if_needed env pf t) (\<lambda>_. eret (trigger_response t)))) (\<lambda>_ _. True)" for t
    by (rule spec_ebind [OF create_trigger_linked]) (intro keeps_ebind keeps_link_ops keeps_link_basic)
  from this [of "\<lparr>wt_id = i, wt_definition_id = wid, wt_trigger_type = tt, wt_name = n, wt_is_active = a,
      wt_config = c, wt_max_concurrent_executions = m, wt_last_fired_at = lf, wt_created_at = ca\<rparr>" for i tt n a c m lf ca]
  show "keeps rows_linked (wf_create_trigger env pf wid data)"
    unfolding wf_create_trigger_def Let_def
    by - (rule definition_then, rule frame_then [OF link_frame_basic(6)],
        rule frame_then [OF link_frame_basic(7)], simp)
  show "keeps rows_linked (wf_update_trigger env pf wid tid data)" "keeps rows_linked (wf_delete_trigger env pf wid tid)"
    unfolding wf_update_trigger_def wf_delete_trigger_def
    by (intro keeps_ebind keeps_link_ops keeps_link_basic trigger_rows_linked; simp add: apply_trigger_update_def)+
qed

lemma other_ops_linked:
  "keeps rows_linked (archive_workflow env pf wid author)" "keeps rows_linked (record_trigger_fired pf tid eid)"
  unfolding archive_workflow_def record_trigger_fired_def publish_trigger_fired_def
  by (intro keeps_ebind keeps_ewhen keeps_option keeps_link_ops keeps_link_basic set_definition_keeps
      trigger_rows_linked; simp)+

lemma workflow_step_linked: "workflow_step env pf w w' \<Longrightarrow> rows_linked w \<Longrightarrow> rows_linked w'"
  by (induction rule: workflow_step.induct)
    (blast intro: spec_inv [OF create_workflow_linked] spec_inv [OF update_workflow_linked]
      trigger_ops_linked [THEN spec_inv] other_ops_linked [THEN spec_inv])+

lemma workflow_reachable_linked: "workflow_reachable env pf w0 w \<Longrightarrow> rows_linked w0 \<Longrightarrow> rows_linked w"
  by (induction rule: workflow_reachable.induct) (auto intro: workflow_step_linked)

text \<open>C26. Referential integrity. Whatever the workflow service does, every version and every trigger
  belongs to a stored workflow, and the current version of a workflow is a stored version of that same
  workflow.\<close>

theorem workflow_rows_linked:
  assumes "workflow_reachable env pf w0 w"
    and "wf_definitions w0 = []" and "wf_versions w0 = []" and "wf_triggers w0 = []"
  shows "list_all (\<lambda>v. list_ex (\<lambda>d. wd_id d = wv_definition_id v) (wf_definitions w)) (wf_versions w) \<and>
    list_all (\<lambda>t. list_ex (\<lambda>d. wd_id d = wt_definition_id t) (wf_definitions w)) (wf_triggers w) \<and>
    list_all (\<lambda>d. case wd_current_version_id d of None \<Rightarrow> True
      | Some vid \<Rightarrow> list_ex (\<lambda>v. wv_id v = vid \<and> wv_definition_id v = wd_id d) (wf_versions w)) (wf_definitions w)"
proof -
  have "rows_linked w0" using assms(2-4) by (simp add: rows_linked_def)
  from workflow_reachable_linked [OF assms(1) this] show ?thesis
    by (auto simp: link_defs list_all_iff list_ex_iff split: option.splits)
qed

theorem workflow_rows_linked_witness:
  "list_all (\<lambda>v. list_ex (\<lambda>d. wd_id d = wv_definition_id v) (wf_definitions hook_world)) (wf_versions hook_world) \<and>
    list_all (\<lambda>t. list_ex (\<lambda>d. wd_id d = wt_definition_id t) (wf_definitions hook_world)) (wf_triggers hook_world) \<and>
    list_all (\<lambda>d. case wd_current_version_id d of None \<Rightarrow> True
      | Some vid \<Rightarrow> list_ex (\<lambda>v. wv_id v = vid \<and> wv_definition_id v = wd_id d) (wf_versions hook_world))
      (wf_definitions hook_world)"
proof (rule workflow_rows_linked [where ?w0.0 = empty_world])
  have "workflow_reachable sample_env sample_platform empty_world published_world"
    unfolding published_world_def published_def
    by (rule workflow_reachable.step [OF workflow_reachable.init workflow_step.create])
  then show "workflow_reachable sample_env sample_platform empty_world hook_world"
    unfolding hook_world_def hook_added_def
    by (rule workflow_reachable.step) (rule workflow_step.create_trigger)
qed (simp_all add: empty_world_def)

end
