(* ===== verification/Event_Transport.thy ===== *)
theory Event_Transport
  imports Execution_World
begin

text \<open>
  common/events: the envelope of a message with the normalisation of legacy forms (envelope.py), the loop
  of a consumer (consumer.py) and the retry handler with its dead-letter topic (retry.py). JSON and UTF-8
  decoding and the validation of the envelope model are parameters.
\<close>

section \<open>Envelopes\<close>

record EventEnvelope =
  en_event_type :: string
  en_version :: string
  en_source :: string
  en_correlation_context :: CorrelationContext
  en_trace_context :: pydict
  en_occurred_at :: timestamp
  en_payload :: pydict

datatype raw_message = RawEnvelope EventEnvelope | RawBytes string | RawText string | RawDict pydict | RawOther

text \<open>The libraries a consumer uses: UTF-8 decoding and the validation of \<open>EventEnvelope\<close>.\<close>

record transport_env =
  te_decode :: "string \<Rightarrow> string py"
  te_validate :: "pydict \<Rightarrow> EventEnvelope py"

definition dict_pop :: "pydict \<Rightarrow> string \<Rightarrow> pydict" where
  "dict_pop d k = filter (\<lambda>(k', _). \<not> key_eq k' (PStr k)) d"

definition starts_with :: "string \<Rightarrow> string \<Rightarrow> bool" where
  "starts_with s p \<longleftrightarrow> take (length p) s = p"

definition infer_legacy_source :: "py_runtime \<Rightarrow> pydict \<Rightarrow> string" where
  "infer_legacy_source rt payload =
     (let event_type = py_str rt (dget_or payload ''event_type'' (PStr ''''))
      in if starts_with event_type ''runtime.'' then ''runtime-controller''
         else if starts_with event_type ''sandbox.'' then ''sandbox-manager''
         else if starts_with event_type ''simulation.'' then ''simulation-controller''
         else ''legacy-event-source'')"

definition fallback_correlation_id :: "platform \<Rightarrow> pydict \<Rightarrow> string op" where
  "fallback_correlation_id pf payload =
     (let v = dget_none payload ''event_id''; text_id = py_str (pf_runtime pf) v
      in if v \<noteq> PNone \<and> uuid_of_text pf text_id \<noteq> None then eret text_id else fresh_uuid pf)"

definition inherit_id :: "pydict \<Rightarrow> pydict \<Rightarrow> string \<Rightarrow> pydict" where
  "inherit_id normalized correlation key =
     (if \<not> dhas correlation key \<and> dget_none normalized key \<noteq> PNone
      then sset correlation key (dget_none normalized key) else correlation)"

definition unwrap_envelope :: "pydict \<Rightarrow> pydict" where
  "unwrap_envelope payload =
     (let n = (case dget_none payload ''envelope'' of PDict e \<Rightarrow> e | _ \<Rightarrow> payload)
      in if dhas n ''correlation'' \<and> \<not> dhas n ''correlation_context''
         then sset (dict_pop n ''correlation'') ''correlation_context'' (dget_none n ''correlation'')
         else n)"

definition inherited_correlation :: "pydict \<Rightarrow> pydict" where
  "inherited_correlation n =
     foldl (inherit_id n) (case dget_none n ''correlation_context'' of PDict c \<Rightarrow> c | _ \<Rightarrow> [])
       [''workspace_id'', ''conversation_id'', ''interaction_id'', ''execution_id'', ''fleet_id'', ''goal_id'']"

definition text_dict :: "py_runtime \<Rightarrow> pydict \<Rightarrow> pydict" where
  "text_dict rt d = foldl (\<lambda>acc (k, v). sset acc (py_str rt k) (PStr (py_str rt v))) [] d"

definition normalized_trace :: "py_runtime \<Rightarrow> pydict \<Rightarrow> pydict \<Rightarrow> pydict" where
  "normalized_trace rt n correlation =
     (let tc = (case dget_none n ''trace_context'' of PDict d \<Rightarrow> d | _ \<Rightarrow> []);
          trace_id = py_or (dget_none n ''trace_id'') (dget_none correlation ''trace_id'')
      in text_dict rt
           (if trace_id \<noteq> PNone \<and> \<not> dhas tc ''trace_id'' then sset tc ''trace_id'' (PStr (py_str rt trace_id))
            else tc))"

definition normalized_payload :: "pydict \<Rightarrow> pydict" where
  "normalized_payload n =
     (case dget_none n ''payload'' of
        PNone \<Rightarrow> sset n ''payload'' (PDict [])
      | PDict _ \<Rightarrow> n
      | v \<Rightarrow> sset n ''payload'' (PDict [(PStr ''value'', v)]))"

definition normalize_event_envelope_payload :: "platform \<Rightarrow> pydict \<Rightarrow> pydict op" where
  "normalize_event_envelope_payload pf payload =
     (let n = unwrap_envelope payload; correlation = inherited_correlation n; rt = pf_runtime pf in
      ebind (if dget_none correlation ''correlation_id'' = PNone
             then ebind (fallback_correlation_id pf n) (\<lambda>cid. eret (sset correlation ''correlation_id'' (PStr cid)))
             else eret correlation) (\<lambda>correlation.
      let n1 = sset n ''correlation_context'' (PDict correlation);
          n2 = dict_setdefault n1 ''version'' (PStr ''1.0'');
          n3 = dict_setdefault n2 ''source'' (PStr (infer_legacy_source rt n2));
          n4 = sset n3 ''trace_context'' (PDict (normalized_trace rt n3 correlation))
      in eret (normalized_payload n4)))"

definition parse_event_envelope :: "platform \<Rightarrow> transport_env \<Rightarrow> raw_message \<Rightarrow> EventEnvelope op" where
  "parse_event_envelope pf te raw =
     (let finish = (\<lambda>v. ebind (elift (py_dict v)) (\<lambda>d.
            ebind (normalize_event_envelope_payload pf d) (\<lambda>n. elift (te_validate te n)))) in
      case raw of
        RawEnvelope e \<Rightarrow> eret e
      | RawBytes b \<Rightarrow> ebind (elift (rbind (te_decode te b) (json_loads pf))) finish
      | RawText s \<Rightarrow> ebind (elift (json_loads pf s)) finish
      | RawDict d \<Rightarrow> finish (PDict d)
      | RawOther \<Rightarrow> eraise TypeError)"

section \<open>The consumer loop\<close>

type_synonym event_handler = "EventEnvelope \<Rightarrow> unit op"

text \<open>A consumer reads its messages in order and commits the offset after each handled one. The first
  exception ends its task with \<open>KafkaConsumerError\<close>. The result is the number of committed messages
  and whether the task has ended.\<close>

fun consume ::
  "(raw_message \<Rightarrow> EventEnvelope op) \<Rightarrow> event_handler \<Rightarrow> raw_message list \<Rightarrow> world \<Rightarrow> (nat \<times> exn option) \<times> world" where
  "consume parse h [] w = ((0, None), w)"
| "consume parse h (m # ms) w =
     (case ebind (parse m) h w of
        (Inr _, w1) \<Rightarrow> (let ((n, r), w2) = consume parse h ms w1 in ((Suc n, r), w2))
      | (Inl e, w1) \<Rightarrow> ((0, Some e), w1))"

section \<open>Retries\<close>

definition dlq_message :: "platform \<Rightarrow> string \<Rightarrow> EventEnvelope \<Rightarrow> exn \<Rightarrow> nat \<Rightarrow> timestamp \<Rightarrow> message" where
  "dlq_message pf topic env e attempt t =
     \<lparr>msg_topic = topic @ ''.dlq'', msg_key = cc_correlation_id (en_correlation_context env),
      msg_event_type = en_event_type env,
      msg_payload = [(PStr ''original_payload'', PDict (en_payload env)),
        (PStr ''failure_reason'', PStr (exn_text pf e)), (PStr ''attempt_count'', PInt (int attempt)),
        (PStr ''failed_at'', PStr (iso_text pf t))],
      msg_correlation = en_correlation_context env, msg_source = topic @ ''.consumer''\<rparr>"

text \<open>The loop with the attempts that are left and those made so far.\<close>

fun retry_loop :: "platform \<Rightarrow> string \<Rightarrow> EventEnvelope \<Rightarrow> event_handler \<Rightarrow> nat \<Rightarrow> nat \<Rightarrow> unit op" where
  "retry_loop pf topic env h 0 attempt = eret ()"
| "retry_loop pf topic env h (Suc left) attempt =
     ecatch (h env) (\<lambda>e.
       if left > 0 then retry_loop pf topic env h left (Suc attempt)
       else ebind (read_now pf) (\<lambda>t. publish pf (dlq_message pf topic env e (Suc attempt) t)))"

definition retry_handle :: "platform \<Rightarrow> nat \<Rightarrow> string \<Rightarrow> EventEnvelope \<Rightarrow> event_handler \<Rightarrow> unit op" where
  "retry_handle pf max_attempts topic env h = retry_loop pf topic env h max_attempts 0"

end
