(* ===== verification/Py_Fnmatch.thy ===== *)
theory Py_Fnmatch
  imports Py_Values
begin

text \<open>
  \<open>fnmatch.fnmatch\<close> of the standard library, which the trigger patterns use: \<open>*\<close>, \<open>?\<close> and character
  classes with ranges and negation. The translation of a class follows the library: the text between
  the brackets is cut at the hyphens that make ranges, empty ranges are removed, and a leading
  exclamation mark negates. File names are not case-folded (POSIX).
\<close>

section \<open>Patterns\<close>

datatype glob = Lit char | AnyChar | AnyRun | OneOf bool "(char \<times> char) list"

text \<open>\<open>pat.find('-', k, j)\<close> on the text of a class.\<close>

definition find_hyphen :: "nat \<Rightarrow> string \<Rightarrow> nat option" where
  "find_hyphen k s =
     (let rest = drop k s; upto_hyphen = takeWhile (\<lambda>c. c \<noteq> CHR ''-'') rest
      in if upto_hyphen = rest then None else Some (k + length upto_hyphen))"

lemma find_hyphen_less: "find_hyphen k s = Some n \<Longrightarrow> n < length s"
proof -
  assume f: "find_hyphen k s = Some n"
  let ?b = "takeWhile (\<lambda>c. c \<noteq> CHR ''-'') (drop k s)"
  from f have n: "?b \<noteq> drop k s" "n = k + length ?b" by (auto simp: find_hyphen_def Let_def split: if_splits)
  have "length ?b \<le> length (drop k s)" by (rule length_takeWhile_le)
  moreover have "length ?b \<noteq> length (drop k s)" using n(1) by (metis takeWhile_eq_take take_all order_refl)
  ultimately show ?thesis using n(2) by simp
qed

function range_chunks :: "nat \<Rightarrow> string \<Rightarrow> string list" where
  "range_chunks k s =
     (case find_hyphen k s of
        None \<Rightarrow> [s]
      | Some n \<Rightarrow> take n s # range_chunks 2 (drop (Suc n) s))"
  by pat_completeness auto
termination
  by (relation "measure (\<lambda>(k, s). length s)") (auto dest: find_hyphen_less)

declare range_chunks.simps [simp del]

text \<open>A class that ends in a hyphen keeps it as a character.\<close>

definition close_chunks :: "string list \<Rightarrow> string list" where
  "close_chunks cs =
     (if last cs = [] \<and> butlast cs \<noteq> [] then butlast (butlast cs) @ [last (butlast cs) @ ''-''] else cs)"

fun drop_empty_ranges :: "string list \<Rightarrow> string list" where
  "drop_empty_ranges [] = []"
| "drop_empty_ranges (c # cs) =
     (case drop_empty_ranges cs of
        [] \<Rightarrow> [c]
      | d # ds \<Rightarrow>
          if (of_char (hd d) :: nat) < of_char (last c) then (butlast c @ tl d) # ds else c # d # ds)"

text \<open>The members of a class as ranges: between two chunks stands a range, everything else is itself.\<close>

fun class_ranges :: "string list \<Rightarrow> (char \<times> char) list" where
  "class_ranges [] = []"
| "class_ranges [c] = map (\<lambda>x. (x, x)) c"
| "class_ranges ([] # d # ds) = (CHR ''-'', CHR ''-'') # class_ranges (d # ds)"
| "class_ranges ((x # c) # d # ds) =
     map (\<lambda>x. (x, x)) (butlast (x # c)) @ (last (x # c), hd d) # class_ranges (tl d # ds)"

definition translate_class :: "string \<Rightarrow> glob" where
  "translate_class stuff =
     (let chunks = drop_empty_ranges (close_chunks
            (range_chunks (if take 1 stuff = ''!'' then 2 else 1) stuff))
      in case chunks of
           [[]] \<Rightarrow> OneOf False []
         | (c # cs) # ds \<Rightarrow>
             if c = CHR ''!'' then (if cs = [] \<and> ds = [] then AnyChar else OneOf True (class_ranges (cs # ds)))
             else OneOf False (class_ranges chunks)
         | _ \<Rightarrow> OneOf False (class_ranges chunks))"

text \<open>The text of a class and what follows it; without a closing bracket there is no class.\<close>

definition split_class :: "string \<Rightarrow> (string \<times> string) option" where
  "split_class s =
     (let i = (if take 1 s = ''!'' then 1 else 0);
          j = (if take 1 (drop i s) = '']'' then Suc i else i);
          body = takeWhile (\<lambda>c. c \<noteq> CHR '']'') (drop j s);
          n = j + length body
      in if n < length s then Some (take n s, drop (Suc n) s) else None)"

lemma split_class_less: "split_class s = Some (c, r) \<Longrightarrow> length r < length s"
  by (auto simp: split_class_def Let_def split: if_splits)

function translate :: "string \<Rightarrow> glob list" where
  "translate [] = []"
| "translate (c # s) =
     (if c = CHR ''*'' then AnyRun # translate s
      else if c = CHR ''?'' then AnyChar # translate s
      else if c = CHR ''['' then
        (case split_class s of
           None \<Rightarrow> Lit c # translate s
         | Some (stuff, rest) \<Rightarrow> translate_class stuff # translate rest)
      else Lit c # translate s)"
  by pat_completeness auto
termination
  by (relation "measure length") (auto dest: split_class_less)

section \<open>Matching\<close>

fun glob_char :: "glob \<Rightarrow> char \<Rightarrow> bool" where
  "glob_char (Lit d) c = (c = d)"
| "glob_char (OneOf neg rs) c =
     (list_ex (\<lambda>(lo, hi). (of_char lo :: nat) \<le> of_char c \<and> (of_char c :: nat) \<le> of_char hi) rs \<noteq> neg)"
| "glob_char _ c = True"

fun glob_match :: "glob list \<Rightarrow> string \<Rightarrow> bool" where
  "glob_match [] s = (s = [])"
| "glob_match (p # ps) [] = (p = AnyRun \<and> glob_match ps [])"
| "glob_match (p # ps) (c # s) =
     (if p = AnyRun then glob_match ps (c # s) \<or> glob_match (p # ps) s
      else glob_char p c \<and> glob_match ps s)"

definition fnmatch :: "string \<Rightarrow> string \<Rightarrow> bool" where
  "fnmatch name pat = glob_match (translate pat) name"

section \<open>Lemmas\<close>

text \<open>A run matches any split of the text, the meaning of \<open>*\<close>.\<close>

lemma any_run_iff: "glob_match (AnyRun # ps) s \<longleftrightarrow> (\<exists>u v. s = u @ v \<and> glob_match ps v)"
proof (induction s)
  case (Cons c s)
  then show ?case by (auto simp: Cons_eq_append_conv)
qed simp

lemma fnmatch_star [simp]: "fnmatch s ''*''"
  by (simp add: fnmatch_def any_run_iff)

text \<open>A pattern without special characters matches itself and nothing else.\<close>

lemma fnmatch_literal:
  assumes "CHR ''*'' \<notin> set pat" and "CHR ''?'' \<notin> set pat" and "CHR ''['' \<notin> set pat"
  shows "fnmatch s pat \<longleftrightarrow> s = pat"
  unfolding fnmatch_def using assms
proof (induction pat arbitrary: s)
  case (Cons c pat)
  then show ?case by (cases s) auto
qed simp

text \<open>A prefix pattern \<open>p*\<close>, the usual form of a topic filter.\<close>

lemma fnmatch_prefix:
  assumes "CHR ''*'' \<notin> set p" and "CHR ''?'' \<notin> set p" and "CHR ''['' \<notin> set p"
  shows "fnmatch s (p @ ''*'') \<longleftrightarrow> (\<exists>t. s = p @ t)"
  unfolding fnmatch_def using assms
proof (induction p arbitrary: s)
  case Nil
  then show ?case by (simp add: any_run_iff)
next
  case (Cons c p)
  then show ?case by (cases s) auto
qed

end
