(* ===== verification/Execution_Jobs.thy ===== *)
theory Execution_Jobs
  imports Workflow_Service Execution_Scheduler Event_Transport Py_Fnmatch
begin

text \<open>
  What drives the engine: the consumer handlers of execution/events.py and, in main.py, the jobs of the
  workflow scheduler and the handlers subscribed to the broker, each inside a database session that is
  committed on success and rolled back on an exception. A job has no commit of its own inside, so a
  rollback returns to the tables it started with; Redis, the broker and the called services are outside
  the session.
\<close>

section \<open>Sessions\<close>

definition rollback_tables :: "world \<Rightarrow> world \<Rightarrow> world" where
  "rollback_tables w w' =
     w'\<lparr>executions := executions w, events := events w, checkpoints := checkpoints w,
        rollback_actions := rollback_actions w, triggers := triggers w, leases := leases w,
        task_plans := task_plans w, traces := traces w, approval_waits := approval_waits w,
        compensations := compensations w, wf_definitions := wf_definitions w,
        wf_versions := wf_versions w, wf_triggers := wf_triggers w\<rparr>"

text \<open>\<open>try: m; session.commit() except Exception: session.rollback()\<close>; the exception is logged.\<close>

definition in_session :: "'a op \<Rightarrow> unit op" where
  "in_session m =
     (\<lambda>w. case m w of
            (Inr _, w') \<Rightarrow> (Inr (), w')
          | (Inl _, w') \<Rightarrow> (Inr (), rollback_tables w w'))"

section \<open>Consumer handlers\<close>

definition ACTIVE_EXECUTION_STATUSES :: "ExecutionStatus list" where
  "ACTIVE_EXECUTION_STATUSES = [ES_queued, ES_running, ES_waiting_for_approval, ES_compensating]"

definition uuid_of :: "platform \<Rightarrow> pyval \<Rightarrow> uuid py" where
  "uuid_of pf v =
     (case uuid_of_text pf (py_str (pf_runtime pf) v) of None \<Rightarrow> Inl ValueError | Some u \<Rightarrow> Inr u)"

definition coerce_uuid :: "platform \<Rightarrow> pyval \<Rightarrow> uuid option py" where
  "coerce_uuid pf v = (if v = PNone then Inr None else rbind (uuid_of pf v) (\<lambda>u. Inr (Some u)))"

text \<open>An id of the payload, else the one of the correlation context.\<close>

definition payload_or_context :: "platform \<Rightarrow> EventEnvelope \<Rightarrow> string \<Rightarrow> uuid option \<Rightarrow> uuid option op" where
  "payload_or_context pf env key fallback =
     ebind (elift (coerce_uuid pf (dget_none (en_payload env) key))) (\<lambda>u.
     eret (case u of None \<Rightarrow> fallback | Some x \<Rightarrow> Some x))"

definition find_active_execution_ids :: "uuid option \<Rightarrow> uuid option \<Rightarrow> uuid list op" where
  "find_active_execution_ids fleet_id interaction_id =
     eget (\<lambda>w. map ex_id (filter (\<lambda>e. ex_status e \<in> set ACTIVE_EXECUTION_STATUSES \<and>
       (case fleet_id of None \<Rightarrow> True | Some f \<Rightarrow> ex_correlation_fleet_id e = Some f) \<and>
       (case interaction_id of None \<Rightarrow> True | Some i \<Rightarrow> ex_correlation_interaction_id e = Some i))
       (executions w)))"

definition workflow_runtime_consumer_handler :: "EventEnvelope \<Rightarrow> event_handler option \<Rightarrow> unit op" where
  "workflow_runtime_consumer_handler env handler = (case handler of None \<Rightarrow> eret () | Some h \<Rightarrow> h env)"

text \<open>Without a service a handler only passes the envelope on.\<close>

definition pass_on :: "EventEnvelope \<Rightarrow> event_handler option \<Rightarrow> uuid list op" where
  "pass_on env handler = (case handler of None \<Rightarrow> eret [] | Some h \<Rightarrow> ebind (h env) (\<lambda>_. eret []))"

definition reasoning_budget_consumer_handler ::
  "platform \<Rightarrow> EventEnvelope \<Rightarrow> event_handler option \<Rightarrow> bool \<Rightarrow> uuid list op" where
  "reasoning_budget_consumer_handler pf env handler has_scheduler =
     (if \<not> has_scheduler then pass_on env handler
      else if en_event_type env \<noteq> ''budget.threshold_breached'' \<and>
              dget_none (en_payload env) ''event_type'' \<noteq> PStr ''budget.threshold_breached'' then eret []
      else
        ebind (payload_or_context pf env ''execution_id'' (cc_execution_id (en_correlation_context env))) (\<lambda>found.
        case found of
          None \<Rightarrow> eret []
        | Some eid \<Rightarrow>
            ebind (handle_reprioritization_trigger pf ''budget_threshold_breached'' eid) (\<lambda>_. eret [eid])))"

definition fleet_health_consumer_handler ::
  "platform \<Rightarrow> EventEnvelope \<Rightarrow> event_handler option \<Rightarrow> bool \<Rightarrow> uuid list op" where
  "fleet_health_consumer_handler pf env handler has_scheduler =
     (if \<not> has_scheduler then pass_on env handler
      else
        let reported = py_str (pf_runtime pf) (dget_or (en_payload env) ''event_type'' (PStr (en_event_type env))) in
        if reported \<notin> {''member.failed'', ''fleet.health.updated''} then eret []
        else
          ebind (payload_or_context pf env ''fleet_id'' (cc_fleet_id (en_correlation_context env))) (\<lambda>found.
          case found of
            None \<Rightarrow> eret []
          | Some fleet \<Rightarrow>
              ebind (find_active_execution_ids (Some fleet) None) (\<lambda>ids.
              ebind (efor (handle_reprioritization_trigger pf ''resource_constraint_changed'') ids) (\<lambda>_.
              eret ids))))"

definition attention_consumer_handler ::
  "platform \<Rightarrow> EventEnvelope \<Rightarrow> event_handler option \<Rightarrow> bool \<Rightarrow> uuid list op" where
  "attention_consumer_handler pf env handler has_scheduler =
     (if \<not> has_scheduler then pass_on env handler
      else
        ebind (payload_or_context pf env ''execution_id'' (cc_execution_id (en_correlation_context env))) (\<lambda>found.
        ebind (case found of
                 Some eid \<Rightarrow> eret [eid]
               | None \<Rightarrow>
                   ebind (payload_or_context pf env ''interaction_id''
                            (cc_interaction_id (en_correlation_context env))) (\<lambda>interaction.
                   case interaction of
                     None \<Rightarrow> eret []
                   | Some i \<Rightarrow> find_active_execution_ids None (Some i))) (\<lambda>ids.
        ebind (efor (handle_reprioritization_trigger pf ''external_event'') ids) (\<lambda>_. eret ids))))"

text \<open>The loop over the triggers: those that do not match are skipped, for each other one an execution
  of its workflow is created and the trigger recorded as fired.\<close>

definition trigger_request ::
  "TriggerType \<Rightarrow> pydict \<Rightarrow> uuid option \<Rightarrow> uuid \<Rightarrow> WorkflowResponse \<Rightarrow> ExecutionCreate" where
  "trigger_request tt params goal_id tid flow =
     \<lparr>ec_workflow_version_id = None, ec_workflow_definition_id = wr_id flow, ec_trigger_type = tt,
      ec_input_parameters = params, ec_workspace_id = wr_workspace_id flow,
      ec_correlation_conversation_id = None, ec_correlation_interaction_id = None,
      ec_correlation_fleet_id = None, ec_correlation_goal_id = goal_id, ec_trigger_id = Some tid,
      ec_sla_deadline = None\<rparr>"

definition fire_trigger ::
  "platform \<Rightarrow> TriggerType \<Rightarrow> pydict \<Rightarrow> uuid option \<Rightarrow> uuid \<Rightarrow> uuid \<Rightarrow> uuid op" where
  "fire_trigger pf tt params goal_id wid tid =
     ebind (get_workflow wid) (\<lambda>flow.
     ebind (create_execution pf (trigger_request tt params goal_id tid flow) None None None [] []) (\<lambda>e.
     ebind (record_trigger_fired pf tid (Some (ex_id e))) (\<lambda>_.
     eret (ex_id e))))"

fun fire_matching ::
  "(WorkflowTriggerDefinition \<Rightarrow> bool) \<Rightarrow> (WorkflowTriggerDefinition \<Rightarrow> uuid op) \<Rightarrow>
   WorkflowTriggerDefinition list \<Rightarrow> uuid list op" where
  "fire_matching P f [] = eret []"
| "fire_matching P f (t # ts) =
     (if P t then ebind (f t) (\<lambda>i. ebind (fire_matching P f ts) (\<lambda>is. eret (i # is)))
      else fire_matching P f ts)"

definition config_text :: "platform \<Rightarrow> WorkflowTriggerDefinition \<Rightarrow> string \<Rightarrow> string \<Rightarrow> string" where
  "config_text pf t key fallback = py_str (pf_runtime pf) (dget_or (wt_config t) key (PStr fallback))"

definition goal_trigger_matches :: "platform \<Rightarrow> string \<Rightarrow> string \<Rightarrow> WorkflowTriggerDefinition \<Rightarrow> bool" where
  "goal_trigger_matches pf workspace_id goal_type t \<longleftrightarrow>
     config_text pf t ''workspace_id'' workspace_id = workspace_id \<and>
     fnmatch goal_type (config_text pf t ''goal_type_pattern'' ''*'')"

definition workspace_goal_consumer_handler ::
  "platform \<Rightarrow> EventEnvelope \<Rightarrow> event_handler option \<Rightarrow> bool \<Rightarrow> bool \<Rightarrow> uuid list op" where
  "workspace_goal_consumer_handler pf env handler has_workflows has_executions =
     (if \<not> has_workflows \<and> \<not> has_executions then pass_on env handler
      else if \<not> has_workflows \<or> \<not> has_executions then eret []
      else
        ebind (payload_or_context pf env ''workspace_id'' (cc_workspace_id (en_correlation_context env))) (\<lambda>found.
        case found of
          None \<Rightarrow> eret []
        | Some workspace_id \<Rightarrow>
            ebind (payload_or_context pf env ''goal_id'' (cc_goal_id (en_correlation_context env))) (\<lambda>goal_id.
            let goal_type = py_str (pf_runtime pf) (dget_or (en_payload env) ''goal_type'' (PStr '''')) in
            ebind (list_active_triggers_by_type TT_workspace_goal) (\<lambda>ts.
            fire_matching (goal_trigger_matches pf workspace_id goal_type)
              (\<lambda>t. fire_trigger pf TT_workspace_goal (en_payload env) goal_id (wt_definition_id t) (wt_id t)) ts))))"

definition fire_cron_trigger :: "platform \<Rightarrow> uuid \<Rightarrow> uuid op" where
  "fire_cron_trigger pf tid =
     ebind (get_trigger_by_id tid) (\<lambda>found.
     case found of
       None \<Rightarrow> eraise ValueError
     | Some t \<Rightarrow> fire_trigger pf TT_cron [] None (wt_definition_id t) (wt_id t))"

definition event_bus_matches :: "platform \<Rightarrow> string \<Rightarrow> string \<Rightarrow> WorkflowTriggerDefinition \<Rightarrow> bool" where
  "event_bus_matches pf topic event_type t \<longleftrightarrow>
     (let configured_topic = config_text pf t ''topic'' '''';
          configured_event_type = config_text pf t ''event_type_pattern'' ''*''
      in (configured_topic = [] \<or> fnmatch topic configured_topic) \<and>
         (configured_event_type = [] \<or> fnmatch event_type configured_event_type))"

definition event_bus_consumer_handler :: "platform \<Rightarrow> EventEnvelope \<Rightarrow> uuid list op" where
  "event_bus_consumer_handler pf env =
     (let topic = py_str (pf_runtime pf) (dget_or (en_payload env) ''topic'' (PStr ''''));
          event_type = py_str (pf_runtime pf) (dget_or (en_payload env) ''event_type'' (PStr (en_event_type env)))
      in if topic = [] then eret []
         else
           ebind (list_active_triggers_by_type TT_event_bus) (\<lambda>ts.
           fire_matching (event_bus_matches pf topic event_type)
             (\<lambda>t. fire_trigger pf TT_event_bus (en_payload env) None (wt_definition_id t) (wt_id t)) ts))"

section \<open>Jobs of the scheduler process\<close>

definition fire_cron_trigger_job :: "platform \<Rightarrow> string \<Rightarrow> string \<Rightarrow> unit op" where
  "fire_cron_trigger_job pf workflow_text trigger_text =
     in_session
       (ebind (elift (uuid_of pf (PStr workflow_text))) (\<lambda>wid.
        ebind (get_workflow wid) (\<lambda>flow.
        ebind (elift (uuid_of pf (PStr trigger_text))) (\<lambda>tid.
        ebind (create_execution pf (trigger_request TT_cron [] None tid flow) None None None [] []) (\<lambda>e.
        record_trigger_fired pf tid (Some (ex_id e)))))))"

definition load_cron_trigger :: "platform \<Rightarrow> WorkflowTriggerDefinition \<Rightarrow> unit op" where
  "load_cron_trigger pf t =
     (let expression = strip (config_text pf t ''cron_expression'' '''');
          timezone = config_text pf t ''timezone'' ''UTC''
      in if expression = [] then eret ()
         else call_service pf (LoadCronJob (wt_id t) (wt_definition_id t) expression timezone))"

definition load_cron_triggers :: "platform \<Rightarrow> unit op" where
  "load_cron_triggers pf =
     ecatch (ebind (list_active_triggers_by_type TT_cron) (\<lambda>ts. efor (load_cron_trigger pf) ts)) (\<lambda>_. eret ())"

definition run_tick :: "platform \<Rightarrow> unit op" where
  "run_tick pf = in_session (tick pf)"

definition run_approval_timeout_scan :: "platform \<Rightarrow> unit op" where
  "run_approval_timeout_scan pf = in_session (scan_approval_timeouts pf)"

section \<open>Subscribed handlers\<close>

fun event_type_value :: "ExecutionEventType \<Rightarrow> string" where
  "event_type_value EV_created = ''created''"
| "event_type_value EV_queued = ''queued''"
| "event_type_value EV_dispatched = ''dispatched''"
| "event_type_value EV_runtime_started = ''runtime_started''"
| "event_type_value EV_sandbox_requested = ''sandbox_requested''"
| "event_type_value EV_waiting_for_approval = ''waiting_for_approval''"
| "event_type_value EV_approved = ''approved''"
| "event_type_value EV_rejected = ''rejected''"
| "event_type_value EV_approval_timed_out = ''approval_timed_out''"
| "event_type_value EV_resumed = ''resumed''"
| "event_type_value EV_retried = ''retried''"
| "event_type_value EV_completed = ''completed''"
| "event_type_value EV_failed = ''failed''"
| "event_type_value EV_canceled = ''canceled''"
| "event_type_value EV_compensated = ''compensated''"
| "event_type_value EV_compensation_failed = ''compensation_failed''"
| "event_type_value EV_hot_changed = ''hot_changed''"
| "event_type_value EV_reasoning_trace_emitted = ''reasoning_trace_emitted''"
| "event_type_value EV_self_correction_started = ''self_correction_started''"
| "event_type_value EV_self_correction_converged = ''self_correction_converged''"
| "event_type_value EV_context_assembled = ''context_assembled''"
| "event_type_value EV_reprioritized = ''reprioritized''"
| "event_type_value EV_rolled_back = ''rolled_back''"

definition event_types :: "ExecutionEventType list" where
  "event_types =
     [EV_created, EV_queued, EV_dispatched, EV_runtime_started, EV_sandbox_requested,
      EV_waiting_for_approval, EV_approved, EV_rejected, EV_approval_timed_out, EV_resumed, EV_retried,
      EV_completed, EV_failed, EV_canceled, EV_compensated, EV_compensation_failed, EV_hot_changed,
      EV_reasoning_trace_emitted, EV_self_correction_started, EV_self_correction_converged,
      EV_context_assembled, EV_reprioritized, EV_rolled_back]"

definition event_type_of_value :: "string \<Rightarrow> ExecutionEventType py" where
  "event_type_of_value s =
     (case find (\<lambda>t. event_type_value t = s) event_types of None \<Rightarrow> Inl ValueError | Some t \<Rightarrow> Inr t)"

text \<open>The payload of a message is JSON: no value of it has a \<open>model_dump\<close> or attributes.\<close>

fun jsonable_runtime_value :: "py_runtime \<Rightarrow> pyval \<Rightarrow> pyval" where
  "jsonable_runtime_value rt (PDict d) =
     PDict (foldl (\<lambda>acc (k, v). sset acc k v) [] (map (\<lambda>(k, v). (py_str rt k, jsonable_runtime_value rt v)) d))"
| "jsonable_runtime_value rt (PList xs) = PList (map (jsonable_runtime_value rt) xs)"
| "jsonable_runtime_value rt v = v"

definition workflow_runtime_event_payload :: "py_runtime \<Rightarrow> pydict \<Rightarrow> pydict" where
  "workflow_runtime_event_payload rt payload =
     (if dhas payload ''fallback_taken''
      then sset payload ''fallback_taken'' (jsonable_runtime_value rt (dget_none payload ''fallback_taken''))
      else
        let fallback_taken =
          (case dget_none payload ''model_router_response'' of PDict r \<Rightarrow> dget_none r ''fallback_taken'' | _ \<Rightarrow> PNone)
        in if fallback_taken \<noteq> PNone
           then sset payload ''fallback_taken'' (jsonable_runtime_value rt fallback_taken) else payload)"

fun runtime_status :: "ExecutionEventType \<Rightarrow> ExecutionStatus option" where
  "runtime_status EV_completed = Some ES_running"
| "runtime_status EV_failed = Some ES_failed"
| "runtime_status EV_runtime_started = Some ES_running"
| "runtime_status _ = None"

text \<open>The column \<open>step_id\<close> takes a text or nothing; the database driver refuses anything else.\<close>

definition step_id_column :: "pyval \<Rightarrow> string option py" where
  "step_id_column v =
     (case v of PNone \<Rightarrow> Inr None | PStr s \<Rightarrow> Inr (Some s) | _ \<Rightarrow> Inl (ExternalError ''step_id is not a text''))"

text \<open>The event type is read before the \<open>try\<close>.\<close>

definition workflow_runtime_handler :: "platform \<Rightarrow> event_handler" where
  "workflow_runtime_handler pf env =
     (let payload = en_payload env; execution_id = dget_none payload ''execution_id'';
          event_type = dget_none payload ''event_type'' in
      if execution_id = PNone \<or> event_type = PNone then eret ()
      else
        ebind (elift (event_type_of_value (py_str (pf_runtime pf) event_type))) (\<lambda>t.
        let runtime_payload = workflow_runtime_event_payload (pf_runtime pf) payload in
        in_session
          (ebind (elift (uuid_of pf execution_id)) (\<lambda>eid.
           ebind (elift (step_id_column (dget_none runtime_payload ''step_id''))) (\<lambda>sid.
           record_runtime_event pf eid sid t runtime_payload (runtime_status t))))))"

definition reprioritization_handler :: "platform \<Rightarrow> string \<Rightarrow> event_handler" where
  "reprioritization_handler pf trigger_reason env =
     (let execution_id = dget_none (en_payload env) ''execution_id'' in
      if execution_id = PNone then eret ()
      else in_session
        (ebind (elift (uuid_of pf execution_id)) (\<lambda>eid. handle_reprioritization_trigger pf trigger_reason eid)))"

definition fire_goal_trigger :: "platform \<Rightarrow> pydict \<Rightarrow> pyval \<Rightarrow> WorkflowTriggerDefinition \<Rightarrow> uuid op" where
  "fire_goal_trigger pf payload goal_id t =
     ebind (get_workflow (wt_definition_id t)) (\<lambda>flow.
     ebind (elift (if truthy goal_id then rbind (uuid_of pf goal_id) (\<lambda>g. Inr (Some g)) else Inr None)) (\<lambda>goal.
     ebind (create_execution pf (trigger_request TT_workspace_goal payload goal (wt_id t) flow)
              None None None [] []) (\<lambda>e.
     ebind (record_trigger_fired pf (wt_id t) (Some (ex_id e))) (\<lambda>_.
     eret (ex_id e)))))"

text \<open>The body of the \<open>try\<close>.\<close>

definition fire_goal_triggers :: "platform \<Rightarrow> EventEnvelope \<Rightarrow> uuid list op" where
  "fire_goal_triggers pf env =
     (let payload = en_payload env;
          workspace_id = py_str (pf_runtime pf) (dget_none payload ''workspace_id'');
          goal_type = py_str (pf_runtime pf) (dget_or payload ''goal_type'' (PStr ''''));
          goal_id = dget_none payload ''goal_id'' in
      ebind (list_active_triggers_by_type TT_workspace_goal) (\<lambda>ts.
      fire_matching (goal_trigger_matches pf workspace_id goal_type) (fire_goal_trigger pf payload goal_id) ts))"

definition workspace_goal_handler :: "platform \<Rightarrow> event_handler" where
  "workspace_goal_handler pf env =
     (if dget_none (en_payload env) ''workspace_id'' = PNone then eret ()
      else in_session (fire_goal_triggers pf env))"

definition event_bus_handler :: "platform \<Rightarrow> event_handler" where
  "event_bus_handler pf env = in_session (event_bus_consumer_handler pf env)"

text \<open>The topics the handlers are subscribed to.\<close>

definition register_execution_consumers :: "platform \<Rightarrow> (string \<times> event_handler) list" where
  "register_execution_consumers pf =
     [(''workflow.runtime'', workflow_runtime_handler pf),
      (''runtime.reasoning'', reprioritization_handler pf ''budget_threshold_breached''),
      (''fleet.health'', reprioritization_handler pf ''resource_constraint_changed''),
      (''workspace.goal'', workspace_goal_handler pf),
      (''interaction.attention'', reprioritization_handler pf ''external_event''),
      (''event.bus'', event_bus_handler pf)]"

end
