(* ===== verification/Execution_Jobs_Props.thy ===== *)
theory Execution_Jobs_Props
  imports Execution_Jobs Workflow_Links
begin

text \<open>
  Properties of the jobs and handlers around the engine: an event or a goal starts one execution for each
  matching trigger or leaves no row behind; a consumer goes through its topic until a message it cannot
  read; a retried event is delivered or dead-lettered; and what becomes of a cron job when its trigger is
  changed. The locale \<open>trigger_firing\<close> is what the loop over the triggers needs of firing one.
\<close>

section \<open>Firing triggers\<close>

text \<open>The execution a trigger starts for an event.\<close>

definition started_by ::
  "TriggerType \<Rightarrow> pydict \<Rightarrow> WorkflowTriggerDefinition \<Rightarrow> Execution \<Rightarrow> bool" where
  "started_by tt payload t e \<longleftrightarrow>
     ex_trigger_id e = Some (wt_id t) \<and> ex_trigger_type e = tt \<and>
     ex_workflow_definition_id e = wt_definition_id t \<and> ex_input_parameters e = payload \<and>
     ex_status e \<in> {ES_queued, ES_paused_quota_exceeded}"

locale trigger_firing =
  fixes f :: "WorkflowTriggerDefinition \<Rightarrow> uuid op" and started :: "WorkflowTriggerDefinition \<Rightarrow> Execution \<Rightarrow> bool"
  assumes fires: "f t w = (Inr i, w') \<Longrightarrow> \<exists>e. executions w' = executions w @ [e] \<and> ex_id e = i \<and> started t e"
begin

lemma matching_fire:
  "fire_matching P f ts w = (Inr ids, w') \<Longrightarrow>
   \<exists>es. executions w' = executions w @ es \<and> map ex_id es = ids \<and> list_all2 started (filter P ts) es"
proof (induction ts arbitrary: w ids)
  case Nil
  then show ?case by (simp add: run_simps)
next
  case (Cons t ts)
  show ?case
  proof (cases "P t")
    case True
    with Cons.prems obtain i w1 rest where f: "f t w = (Inr i, w1)"
      and r: "fire_matching P f ts w1 = (Inr rest, w')" and ids: "ids = i # rest"
      by (auto simp: ebind_Inr eret_Inr)
    from fires [OF f] obtain e where "executions w1 = executions w @ [e]" "ex_id e = i" "started t e" by blast
    moreover from Cons.IH [OF r] obtain es where
      "executions w' = executions w1 @ es" "map ex_id es = rest" "list_all2 started (filter P ts) es" by blast
    ultimately show ?thesis using True ids by (intro exI [of _ "e # es"]) simp
  next
    case False
    with Cons show ?thesis by simp
  qed
qed

end

lemma created_row:
  assumes "create_execution pf data by parent rerun_of pre results w = (Inr e, w')"
  shows "ex_trigger_type e = ec_trigger_type data" and "ex_input_parameters e = ec_input_parameters data"
    and "ex_workflow_definition_id e = ec_workflow_definition_id data"
  using assms
  by (auto simp: create_execution_def success_simps get_definition_by_id_def one_or_none_Some Let_def
      create_execution_row_def run_simps new_execution_def dest: filter_singleD)

lemma created_for_trigger:
  assumes "create_execution pf (trigger_request tt payload goal (wt_id t) flow) None None None [] [] w = (Inr e, w')"
    and "wr_id flow = wt_definition_id t"
  shows "executions w' = executions w @ [e]" and "started_by tt payload t e"
proof -
  from create_run [OF assms(1)] obtain w0 x where "ex_trigger_id e = Some (wt_id t)"
    and s: "ex_status e \<in> {ES_queued, ES_paused_quota_exceeded}"
    and w0: "executions w0 = executions w @ [e]" "journaled (ex_id e) EV_created None x w0 w'"
    by (simp add: trigger_request_def) metis
  with created_row [OF assms(1)] assms(2) show "started_by tt payload t e"
    by (simp add: started_by_def trigger_request_def)
  from w0 show "executions w' = executions w @ [e]" by (simp add: journaled_def same_tables_def)
qed

lemma get_workflow_Inr:
  "get_workflow wid w = (Inr flow, w') \<Longrightarrow> w' = w \<and> wr_id flow = wid"
  by (auto simp: get_workflow_def success_simps definition_or_raise_Inr run_simps workflow_response_def
      dest: filter_singleD)

lemma record_fired_executions:
  "record_trigger_fired pf tid eid w = (Inr u, w') \<Longrightarrow> executions w' = executions w"
  by (auto simp: record_trigger_fired_def success_simps get_trigger_by_id_def update_trigger_row_def run_simps
      workflow_correlation_def fresh_uuid_def publish_trigger_fired_def publish_def split: option.splits)

interpretation bus: trigger_firing
  "\<lambda>t. fire_trigger pf tt payload goal (wt_definition_id t) (wt_id t)" "started_by tt payload"
  for pf tt payload goal
proof
  fix t :: WorkflowTriggerDefinition and w i w' assume "fire_trigger pf tt payload goal (wt_definition_id t) (wt_id t) w = (Inr i, w')"
  then obtain flow e w1 w2 where flow: "get_workflow (wt_definition_id t) w = (Inr flow, w1)"
    and c: "create_execution pf (trigger_request tt payload goal (wt_id t) flow) None None None [] [] w1 = (Inr e, w2)"
    and r: "record_trigger_fired pf (wt_id t) (Some (ex_id e)) w2 = (Inr (), w')" and i: "i = ex_id e"
    by (auto simp: fire_trigger_def ebind_Inr eret_Inr)
  from get_workflow_Inr [OF flow] created_for_trigger [OF c] record_fired_executions [OF r] i
  show "\<exists>e. executions w' = executions w @ [e] \<and> ex_id e = i \<and> started_by tt payload t e" by auto
qed

interpretation goals: trigger_firing "fire_goal_trigger pf payload goal_id" "started_by TT_workspace_goal payload"
  for pf payload goal_id
proof
  fix t :: WorkflowTriggerDefinition and w i w' assume "fire_goal_trigger pf payload goal_id t w = (Inr i, w')"
  then obtain flow goal e w1 w2 where flow: "get_workflow (wt_definition_id t) w = (Inr flow, w1)"
    and c: "create_execution pf (trigger_request TT_workspace_goal payload goal (wt_id t) flow) None None None [] [] w1
      = (Inr e, w2)"
    and r: "record_trigger_fired pf (wt_id t) (Some (ex_id e)) w2 = (Inr (), w')" and i: "i = ex_id e"
    by (auto simp: fire_goal_trigger_def ebind_Inr eret_Inr elift_Inr)
  from get_workflow_Inr [OF flow] created_for_trigger [OF c] record_fired_executions [OF r] i
  show "\<exists>e. executions w' = executions w @ [e] \<and> ex_id e = i \<and> started_by TT_workspace_goal payload t e" by auto
qed

section \<open>Sessions\<close>

lemma in_session_run:
  "in_session m w = (Inr (), case fst (m w) of Inr _ \<Rightarrow> snd (m w) | Inl _ \<Rightarrow> rollback_tables w (snd (m w)))"
  by (simp add: in_session_def split: prod.splits sum.splits)

lemma rollback_same: "same_tables w (rollback_tables w w')" "events (rollback_tables w w') = events w"
  by (simp_all add: same_tables_def rollback_tables_def)

lemma list_active_run:
  "list_active_triggers_by_type tt w = (Inr (filter (\<lambda>t. wt_trigger_type t = tt \<and> wt_is_active t) (wf_triggers w)), w)"
  by (simp add: list_active_triggers_by_type_def run_simps)

text \<open>The triggers an event fires: those of its kind that are active and match, in the order of the table.\<close>

definition fired_triggers ::
  "TriggerType \<Rightarrow> (WorkflowTriggerDefinition \<Rightarrow> bool) \<Rightarrow> world \<Rightarrow> WorkflowTriggerDefinition list" where
  "fired_triggers tt P w = filter (\<lambda>t. (wt_trigger_type t = tt \<and> wt_is_active t) \<and> P t) (wf_triggers w)"

definition all_or_nothing ::
  "(WorkflowTriggerDefinition \<Rightarrow> Execution \<Rightarrow> bool) \<Rightarrow> WorkflowTriggerDefinition list \<Rightarrow> bool \<Rightarrow> world \<Rightarrow> world \<Rightarrow> bool" where
  "all_or_nothing started ts fails w w' \<longleftrightarrow>
     (if fails then same_tables w w' \<and> events w' = events w
      else \<exists>es. executions w' = executions w @ es \<and> list_all2 started ts es)"

lemma session_fires:
  assumes "\<And>ids w'. m w = (Inr ids, w') \<Longrightarrow> \<exists>es. executions w' = executions w @ es \<and> list_all2 started ts es"
  shows "\<exists>w'. in_session m w = (Inr (), w') \<and> all_or_nothing started ts (isl (fst (m w))) w w'"
  using assms by (cases "m w"; cases "fst (m w)")
    (auto simp: in_session_run all_or_nothing_def rollback_same)

text \<open>C10. A message that fires triggers is handled completely or not at all. Whatever the engine does,
  the handlers of the event bus and of workspace goals return; when firing every active matching trigger
  succeeds, exactly one execution per such trigger has been added, in the order of the triggers, with the
  workflow of the trigger and the payload of the message; when it fails anywhere, no table has changed.\<close>

theorem triggers_fire_all_or_nothing:
  "let topic = py_str (pf_runtime pf) (dget_or (en_payload env) ''topic'' (PStr []));
       event_type = py_str (pf_runtime pf) (dget_or (en_payload env) ''event_type'' (PStr (en_event_type env)));
       workspace = dget_none (en_payload env) ''workspace_id'';
       goal_type = py_str (pf_runtime pf) (dget_or (en_payload env) ''goal_type'' (PStr []))
   in (\<exists>w'. event_bus_handler pf env w = (Inr (), w') \<and>
        all_or_nothing (started_by TT_event_bus (en_payload env))
          (if topic = [] then [] else fired_triggers TT_event_bus (event_bus_matches pf topic event_type) w)
          (isl (fst (event_bus_consumer_handler pf env w))) w w') \<and>
      (\<exists>w'. workspace_goal_handler pf env w = (Inr (), w') \<and>
        (if workspace = PNone then w' = w
         else all_or_nothing (started_by TT_workspace_goal (en_payload env))
           (fired_triggers TT_workspace_goal (goal_trigger_matches pf (py_str (pf_runtime pf) workspace) goal_type) w)
           (isl (fst (fire_goal_triggers pf env w))) w w'))"
proof -
  have bus: "\<exists>w'. event_bus_handler pf env w = (Inr (), w') \<and>
      all_or_nothing (started_by TT_event_bus (en_payload env))
        (if topic = [] then [] else fired_triggers TT_event_bus (event_bus_matches pf topic event_type) w)
        (isl (fst (event_bus_consumer_handler pf env w))) w w'"
    if "topic = py_str (pf_runtime pf) (dget_or (en_payload env) ''topic'' (PStr []))"
      "event_type = py_str (pf_runtime pf) (dget_or (en_payload env) ''event_type'' (PStr (en_event_type env)))"
    for topic event_type
    unfolding event_bus_handler_def
    by (rule session_fires)
      (use that in \<open>auto simp: event_bus_consumer_handler_def ebind_Inr list_active_run eret_Inr fired_triggers_def
        Let_def filter_filter conj_commute dest!: bus.matching_fire split: if_splits\<close>)
  have goal: "\<exists>w'. in_session (fire_goal_triggers pf env) w = (Inr (), w') \<and>
      all_or_nothing (started_by TT_workspace_goal (en_payload env))
        (fired_triggers TT_workspace_goal (goal_trigger_matches pf (py_str (pf_runtime pf) workspace) goal_type) w)
        (isl (fst (fire_goal_triggers pf env w))) w w'"
    if "workspace = dget_none (en_payload env) ''workspace_id''"
      "goal_type = py_str (pf_runtime pf) (dget_or (en_payload env) ''goal_type'' (PStr []))"
    for workspace goal_type
    by (rule session_fires)
      (use that in \<open>auto simp: fire_goal_triggers_def ebind_Inr list_active_run fired_triggers_def Let_def
        filter_filter conj_commute dest!: goals.matching_fire\<close>)
  from bus [OF refl refl] goal [OF refl refl] show ?thesis
    unfolding Let_def by (auto simp: workspace_goal_handler_def run_simps)
qed

section \<open>What a rollback does not undo\<close>

definition sent :: "message \<Rightarrow> world \<Rightarrow> bool" where
  "sent m w \<longleftrightarrow> m \<in> set (outbox w)"

lemma sent_keep_basic:
  "keeps (sent m) (eret x)" "keeps (sent m) (eraise ex)" "keeps (sent m) (elift r)" "keeps (sent m) (eget f)"
  "keeps (sent m) (eguard b ex)" "keeps (sent m) (fresh_uuid pf)" "keeps (sent m) (read_clock c)"
  "keeps (sent m) (publish pf m')" "keeps (sent m) (get_definition_by_id wid)" "keeps (sent m) (get_version_by_id vid)"
  "keeps (sent m) (get_trigger_by_id tid)" "keeps (sent m) (count_active_for_trigger tid)"
  "keeps (sent m) (count_events eid)" "keeps (sent m) (create_execution_row e)"
  "keeps (sent m) (update_trigger_row tid g)"
  by (auto simp: spec_def sent_def run_simps run_eguard fresh_uuid_def read_clock_def publish_def
      get_definition_by_id_def get_version_by_id_def get_trigger_by_id_def count_active_for_trigger_def count_events_def
      create_execution_row_def update_trigger_row_def split: option.splits)

lemma sent_append: "keeps (sent m) (append_event pf e t sid ag payload)"
  unfolding append_event_def Let_def
  by (intro keeps_ebind sent_keep_basic) (auto simp: spec_def sent_def)

lemma sent_steps:
  "keeps (sent m) (correlation pf e)" "keeps (sent m) (workflow_correlation pf ws eid)"
  "keeps (sent m) (resolve_workflow_version wid vid)" "keeps (sent m) (check_trigger tid)"
  "keeps (sent m) (check_quota pf workspace)" "keeps (sent m) (load_ir pf v)"
  "keeps (sent m) (publish_billing_overage_required pf e q)" "keeps (sent m) (get_workflow wid)"
  unfolding correlation_def workflow_correlation_def resolve_workflow_version_def check_trigger_def check_quota_def
    load_ir_def publish_billing_overage_required_def get_workflow_def get_definition_or_raise_def Let_def
  by (intro keeps_ebind keeps_if keeps_option sent_keep_basic)+

lemma sent_fire: "keeps (sent m) (fire_trigger pf tt params goal wid tid)"
  unfolding fire_trigger_def create_execution_def record_trigger_fired_def publish_execution_created_def
    publish_trigger_fired_def Let_def
  by (intro keeps_ebind keeps_option keeps_prod2 keeps_ewhen sent_steps sent_append sent_keep_basic)

lemma sent_fire_matching: "(\<And>t. keeps (sent m) (f t)) \<Longrightarrow> keeps (sent m) (fire_matching P f ts)"
  by (induction ts) (auto intro!: keeps_ebind sent_keep_basic)

text \<open>Creating an execution announces it.\<close>

definition announces :: "uuid \<Rightarrow> message \<Rightarrow> bool" where
  "announces eid m \<longleftrightarrow> msg_event_type m = ''execution.created'' \<and>
     dget (msg_payload m) ''execution_id'' = Some (PStr eid)"

lemma publish_sent: "publish pf m w = (Inr u, w') \<Longrightarrow> producer pf \<noteq> None \<Longrightarrow> m \<in> set (outbox w')"
  by (auto simp: publish_def split: option.splits)

lemma created_announced:
  assumes "create_execution pf data by parent rerun_of pre results w = (Inr e, w')" and "producer pf \<noteq> None"
  shows "\<exists>m \<in> set (outbox w'). announces (ex_id e) m"
proof -
  from assms(1) obtain wa wb d v ws ctx w6 w7 quota initial where
    "check_quota pf (ec_workspace_id data) wa = (Inr (initial, quota), wb)"
    and pu: "publish_execution_created pf (ex_id e) d v ws ctx w6 = (Inr (), w7)"
    and bi: "(case quota of Some q \<Rightarrow> ewhen (initial = ES_paused_quota_exceeded)
        (publish_billing_overage_required pf e q) | None \<Rightarrow> eret ()) w7 = (Inr (), w')"
    by (auto simp: create_execution_def success_simps Let_def new_execution_def)
  from publish_sent [OF pu [unfolded publish_execution_created_def] assms(2)]
  obtain m where m: "m \<in> set (outbox w7)" "announces (ex_id e) m"
    by (rule that) (simp add: announces_def execution_message_def dget_def)
  have "keeps (sent m) (case quota of Some q \<Rightarrow> ewhen (initial = ES_paused_quota_exceeded)
        (publish_billing_overage_required pf e q) | None \<Rightarrow> eret ())"
    by (intro keeps_option keeps_ewhen sent_steps sent_keep_basic)
  from specD [OF this _ _ bi] m show ?thesis by (auto simp: sent_def)
qed

lemma fired_announced:
  assumes "fire_trigger pf tt params goal wid tid w = (Inr i, w')" and "producer pf \<noteq> None"
  shows "\<exists>m \<in> set (outbox w'). announces i m"
proof -
  from assms(1) obtain flow e w1 w2 where
    c: "create_execution pf (trigger_request tt params goal tid flow) None None None [] [] w1 = (Inr e, w2)"
    and r: "record_trigger_fired pf tid (Some (ex_id e)) w2 = (Inr (), w')" and i: "i = ex_id e"
    by (auto simp: fire_trigger_def ebind_Inr eret_Inr)
  from created_announced [OF c assms(2)] obtain m where m: "m \<in> set (outbox w2)" "announces i m"
    unfolding i by blast
  have "keeps (sent m) (record_trigger_fired pf tid (Some (ex_id e)))"
    unfolding record_trigger_fired_def publish_trigger_fired_def
    by (intro keeps_ebind keeps_option sent_steps sent_keep_basic)
  from specD [OF this _ _ r] m show ?thesis by (auto simp: sent_def)
qed

lemma fire_matching_filter: "fire_matching P f ts = fire_matching (\<lambda>_. True) f (filter P ts)"
  by (induction ts) auto

text \<open>Announced, then rolled back. When a later trigger fails, for instance because it is at its
  concurrency limit, the execution an earlier trigger started is rolled back with everything else, but its
  announcement has already been sent: consumers learn of an execution that does not exist.\<close>

theorem rolled_back_execution_was_announced:
  assumes "event_bus_consumer_handler pf env w = (Inl err, w1)"
    and "fired_triggers TT_event_bus (event_bus_matches pf
       (py_str (pf_runtime pf) (dget_or (en_payload env) ''topic'' (PStr [])))
       (py_str (pf_runtime pf) (dget_or (en_payload env) ''event_type'' (PStr (en_event_type env))))) w = t # ts"
    and "fire_trigger pf TT_event_bus (en_payload env) None (wt_definition_id t) (wt_id t) w = (Inr eid, w2)"
    and "producer pf \<noteq> None" and "eid \<notin> ex_id ` set (executions w)"
  shows "\<exists>w'. event_bus_handler pf env w = (Inr (), w') \<and> eid \<notin> ex_id ` set (executions w') \<and>
    list_ex (announces eid) (outbox w')"
proof -
  let ?f = "\<lambda>t. fire_trigger pf TT_event_bus (en_payload env) None (wt_definition_id t) (wt_id t)"
  from fired_announced [OF assms(3,4)] obtain m where m: "m \<in> set (outbox w2)" "announces eid m" by blast
  from assms(1) have run: "fire_matching (\<lambda>_. True) ?f (t # ts) w = (Inl err, w1)"
    unfolding assms(2) [symmetric] fired_triggers_def
    by (simp add: event_bus_consumer_handler_def Let_def run_ebind list_active_run fire_matching_filter [of "event_bus_matches _ _ _"]
        filter_filter conj_commute eret_def split: if_splits)
  have "keeps (sent m) (ebind (fire_matching (\<lambda>_. True) ?f ts) (\<lambda>is. eret (eid # is)))"
    by (intro keeps_ebind sent_fire_matching sent_fire sent_keep_basic)
  from spec_inv [OF this, of w2] m(1) run assms(3) have "m \<in> set (outbox w1)"
    by (simp add: run_ebind sent_def)
  with m(2) assms(1,5) show ?thesis
    by (auto simp: event_bus_handler_def in_session_run rollback_tables_def list_ex_iff)
qed

text \<open>Two triggers on the same topic; the second already has its one execution.\<close>

definition bus_trigger :: "uuid \<Rightarrow> int option \<Rightarrow> WorkflowTriggerDefinition" where
  "bus_trigger tid limit = \<lparr>wt_id = tid, wt_definition_id = ''wf'', wt_trigger_type = TT_event_bus, wt_name = tid,
     wt_is_active = True, wt_config = [(PStr ''topic'', PStr ''orders.*'')],
     wt_max_concurrent_executions = limit, wt_last_fired_at = None, wt_created_at = 0\<rparr>"

definition bus_world :: world where
  "bus_world = sample_world\<lparr>wf_triggers := [bus_trigger ''all'' None, bus_trigger ''one'' (Some 1)],
     executions := [sample_execution\<lparr>ex_id := ''busy'', ex_trigger_id := Some ''one''\<rparr>]\<rparr>"

definition bus_envelope :: EventEnvelope where
  "bus_envelope = \<lparr>en_event_type = ''order.placed'', en_version = ''1.0'', en_source = ''shop'',
     en_correlation_context = \<lparr>cc_tenant_id = None, cc_workspace_id = None, cc_conversation_id = None, cc_interaction_id = None,
       cc_execution_id = None, cc_fleet_id = None, cc_goal_id = None, cc_agent_fqn = PNone,
       cc_correlation_id = ''c''\<rparr>,
     en_trace_context = [], en_occurred_at = 0, en_payload = [(PStr ''topic'', PStr ''orders.eu'')]\<rparr>"

text \<open>A broker that takes every message.\<close>

definition loud_platform :: platform where
  "loud_platform = sample_platform\<lparr>producer := Some (\<lambda>_ _. None)\<rparr>"

definition bus_outcome :: "(exn + uuid list) \<times> world" where
  "bus_outcome = event_bus_consumer_handler loud_platform bus_envelope bus_world"

definition bus_first :: WorkflowTriggerDefinition where
  "bus_first = hd (wf_triggers bus_world)"

definition bus_fired :: "(exn + uuid) \<times> world" where
  "bus_fired = fire_trigger loud_platform TT_event_bus (en_payload bus_envelope) None
     (wt_definition_id bus_first) (wt_id bus_first) bus_world"

lemma bus_runs: "isl (fst bus_outcome)" "\<not> isl (fst bus_fired)"
    "projr (fst bus_fired) \<notin> ex_id ` set (executions bus_world)"
  by code_simp+

lemma bus_matching:
  "fired_triggers TT_event_bus (event_bus_matches loud_platform
     (py_str (pf_runtime loud_platform) (dget_or (en_payload bus_envelope) ''topic'' (PStr [])))
     (py_str (pf_runtime loud_platform)
       (dget_or (en_payload bus_envelope) ''event_type'' (PStr (en_event_type bus_envelope))))) bus_world =
   bus_first # tl (wf_triggers bus_world)"
  by code_simp

theorem rolled_back_execution_was_announced_witness:
  "\<exists>w'. event_bus_handler loud_platform bus_envelope bus_world = (Inr (), w') \<and>
    projr (fst bus_fired) \<notin> ex_id ` set (executions w') \<and> list_ex (announces (projr (fst bus_fired))) (outbox w')"
proof (rule rolled_back_execution_was_announced [OF _ bus_matching])
  show "event_bus_consumer_handler loud_platform bus_envelope bus_world = (Inl (projl (fst bus_outcome)), snd bus_outcome)"
    using bus_runs(1) by (simp add: prod_eq_iff flip: bus_outcome_def)
  show "fire_trigger loud_platform TT_event_bus (en_payload bus_envelope) None
      (wt_definition_id bus_first) (wt_id bus_first) bus_world = (Inr (projr (fst bus_fired)), snd bus_fired)"
    using bus_runs(2) by (simp add: prod_eq_iff flip: bus_fired_def)
qed (use bus_runs(3) in \<open>simp_all add: loud_platform_def\<close>)

section \<open>Consumers\<close>

text \<open>A runtime event whose type is not one of the engine's.\<close>

definition unknown_event :: "platform \<Rightarrow> EventEnvelope \<Rightarrow> bool" where
  "unknown_event pf env \<longleftrightarrow>
     dget_none (en_payload env) ''execution_id'' \<noteq> PNone \<and> dget_none (en_payload env) ''event_type'' \<noteq> PNone \<and>
     isl (event_type_of_value (py_str (pf_runtime pf) (dget_none (en_payload env) ''event_type'')))"

lemma ebind_raises:
  "fst (ebind m f w) = Inl e \<Longrightarrow> fst (m w) = Inl e \<or> (\<exists>x w1. m w = (Inr x, w1) \<and> fst (f x w1) = Inl e)"
  by (auto simp: run_ebind split: prod.splits sum.splits)

lemma runtime_handler_raises:
  "fst (workflow_runtime_handler pf env w) = Inl e \<longleftrightarrow> unknown_event pf env \<and> e = ValueError"
  by (auto simp: workflow_runtime_handler_def unknown_event_def event_type_of_value_def Let_def run_ebind run_simps
      in_session_run split: option.splits sum.splits)

text \<open>Reading stops at the first message that cannot be handled.\<close>

lemma consume_append:
  "consume parse h ms w = ((n, Some e), w') \<Longrightarrow> consume parse h (take (Suc n) ms @ later) w = ((n, Some e), w')"
proof (induction ms arbitrary: w n)
  case (Cons m ms)
  then show ?case by (cases n) (auto split: prod.splits sum.splits)
qed simp

lemma consume_stops:
  "consume parse h ms w = ((n, r), w') \<Longrightarrow>
   case r of None \<Rightarrow> n = length ms | Some e \<Rightarrow> n < length ms \<and> (\<exists>w1. fst (ebind (parse (ms ! n)) h w1) = Inl e)"
proof (induction ms arbitrary: w n)
  case (Cons m ms)
  show ?case
  proof (cases "ebind (parse m) h w")
    case (Pair x w1)
    show ?thesis
    proof (cases x)
      case (Inl e)
      with Pair Cons.prems show ?thesis by (auto intro!: exI [of _ w])
    next
      case (Inr u)
      with Pair Cons.prems obtain k where k: "consume parse h ms w1 = ((k, r), w')" "n = Suc k"
        by (auto split: prod.splits)
      with Cons.IH [OF k(1)] show ?thesis by (auto split: option.splits)
    qed
  qed
qed simp


definition runtime_message :: "string \<Rightarrow> raw_message" where
  "runtime_message event_type = RawEnvelope (bus_envelope\<lparr>en_payload :=
     [(PStr ''execution_id'', PStr ''busy''), (PStr ''event_type'', PStr event_type)]\<rparr>)"

definition plain_transport :: transport_env where
  "plain_transport = \<lparr>te_decode = Inr, te_validate = (\<lambda>_. Inl TypeError)\<rparr>"

definition topic_messages :: "raw_message list" where
  "topic_messages = map runtime_message [''runtime_started'', ''paused'', ''completed'']"

definition consumed :: "(nat \<times> exn option) \<times> world" where
  "consumed = consume (parse_event_envelope sample_platform plain_transport)
     (workflow_runtime_handler sample_platform) topic_messages bus_world"

lemma consumed_one: "fst consumed = (1, Some ValueError)"
  by code_simp


section \<open>Retries\<close>

text \<open>The world after a number of failed attempts, if they all failed.\<close>

primrec after_failures :: "event_handler \<Rightarrow> EventEnvelope \<Rightarrow> nat \<Rightarrow> world \<Rightarrow> world option" where
  "after_failures h env 0 w = Some w"
| "after_failures h env (Suc k) w =
     (case h env w of (Inl _, w1) \<Rightarrow> after_failures h env k w1 | (Inr _, _) \<Rightarrow> None)"

lemma retry_loop_run:
  "(\<exists>k \<le> n. \<exists>wk w'. after_failures h env k w = Some wk \<and> h env wk = (Inr (), w') \<and>
      retry_loop pf topic env h (Suc n) a w = (Inr (), w')) \<or>
   (\<exists>wk e w'. after_failures h env n w = Some wk \<and> h env wk = (Inl e, w') \<and>
      retry_loop pf topic env h (Suc n) a w =
        publish pf (dlq_message pf topic env e (a + Suc n) (clock pf (w_reads w'))) (w'\<lparr>w_reads := Suc (w_reads w')\<rparr>))"
proof (induction n arbitrary: a w)
  case 0
  then show ?case
    by (cases "h env w"; cases "fst (h env w)") (auto simp: ecatch_def run_ebind read_clock_def)
next
  case (Suc n)
  show ?case
  proof (cases "h env w")
    case (Pair x w1)
    show ?thesis
    proof (cases x)
      case (Inl e)
      with Pair have step: "after_failures h env (Suc k) w = after_failures h env k w1" for k by simp
      from Inl Pair have "retry_loop pf topic env h (Suc (Suc n)) a w = retry_loop pf topic env h (Suc n) (Suc a) w1"
        by (simp add: ecatch_def)
      with Suc.IH [of w1 "Suc a"] step show ?thesis by (auto simp del: retry_loop.simps after_failures.simps)
    next
      case (Inr u)
      with Pair show ?thesis by (auto simp: ecatch_def intro!: exI [of _ 0])
    qed
  qed
qed

text \<open>Retrying an event. The handler is tried until it succeeds, at most as often as allowed, and then
  nothing else happens; when every attempt fails, the event is sent to the dead-letter topic with the last
  error and the number of attempts. The handler's exception never reaches the caller.\<close>

theorem retry_delivers_or_dead_letters:
  "(\<exists>k \<le> n. \<exists>wk w'. after_failures h env k w = Some wk \<and> h env wk = (Inr (), w') \<and>
      retry_handle pf (Suc n) topic env h w = (Inr (), w')) \<or>
   (\<exists>wk e w'. after_failures h env n w = Some wk \<and> h env wk = (Inl e, w') \<and>
      retry_handle pf (Suc n) topic env h w =
        publish pf (dlq_message pf topic env e (Suc n) (clock pf (w_reads w'))) (w'\<lparr>w_reads := Suc (w_reads w')\<rparr>))"
  using retry_loop_run [of n h env w pf topic 0] by (simp add: retry_handle_def)

section \<open>Cron jobs\<close>

text \<open>The call of the scheduler library that last concerned the job of a trigger.\<close>

fun concerns_job :: "uuid \<Rightarrow> call \<Rightarrow> bool" where
  "concerns_job tid (AddCronJob t) = (t = tid)"
| "concerns_job tid (LoadCronJob t _ _ _) = (t = tid)"
| "concerns_job tid (RemoveCronJob t) = (t = tid)"
| "concerns_job tid _ = False"

definition last_job_call :: "uuid \<Rightarrow> world \<Rightarrow> call option" where
  "last_job_call tid w = find (concerns_job tid) (rev (calls w))"

lemma register_cron_call:
  assumes "register_cron_if_needed env pf t w = (Inr u, w')" and "we_has_scheduler env"
    and "wt_trigger_type t = TT_cron" and "wt_is_active t" and "truthy (dget_none (wt_config t) ''cron_expression'')"
  shows "last_job_call (wt_id t) w' = Some (AddCronJob (wt_id t))"
  using assms by (auto simp: register_cron_if_needed_def call_service_def last_job_call_def split: option.splits)

text \<open>Changing a cron trigger disarms it. After an active cron trigger was created or updated through
  a service that has the scheduler, the job registered under the trigger's id is the empty job: it carries
  neither the workflow nor the cron expression, and it has replaced the job that was loaded at start-up.\<close>

theorem cron_change_registers_empty_job:
  assumes "wf_create_trigger env pf wid data w = (Inr r, w1) \<or> wf_update_trigger env pf wid tid data w = (Inr r, w1)"
    and "we_has_scheduler env" and "wtc_trigger_type data = TT_cron" and "wtc_is_active data"
    and "truthy (dget_none (wtc_config data) ''cron_expression'')"
  shows "last_job_call (tg_id r) w1 = Some (AddCronJob (tg_id r))"
  using assms(1)
proof
  assume "wf_create_trigger env pf wid data w = (Inr r, w1)"
  then show ?thesis
    using assms(2-) by (auto simp: wf_create_trigger_def success_simps Let_def trigger_response_def
        dest!: register_cron_call)
next
  assume "wf_update_trigger env pf wid tid data w = (Inr r, w1)"
  then show ?thesis
    using assms(2-) by (auto simp: wf_update_trigger_def success_simps trigger_response_def apply_trigger_update_def
        dest!: register_cron_call)
qed

definition cron_request :: TriggerCreate where
  "cron_request = \<lparr>wtc_trigger_type = TT_cron, wtc_name = ''nightly'',
     wtc_config = [(PStr ''cron_expression'', PStr ''0 3 * * *'')], wtc_max_concurrent_executions = None,
     wtc_is_active = True\<rparr>"

definition scheduling_env :: workflow_env where
  "scheduling_env = sample_env\<lparr>we_has_scheduler := True\<rparr>"

definition cron_added :: "(exn + TriggerResponse) \<times> world" where
  "cron_added = wf_create_trigger scheduling_env sample_platform ''wf'' cron_request sample_world"

lemma cron_added_Inr: "\<not> isl (fst cron_added)"
  by code_simp

theorem cron_change_registers_empty_job_witness:
  "last_job_call (tg_id (projr (fst cron_added))) (snd cron_added) = Some (AddCronJob (tg_id (projr (fst cron_added))))"
proof (rule cron_change_registers_empty_job)
  show "wf_create_trigger scheduling_env sample_platform ''wf'' cron_request sample_world =
        (Inr (projr (fst cron_added)), snd cron_added) \<or>
      wf_update_trigger scheduling_env sample_platform ''wf'' ''t'' cron_request sample_world =
        (Inr (projr (fst cron_added)), snd cron_added)"
    using cron_added_Inr by (simp add: prod_eq_iff flip: cron_added_def)
qed (simp_all add: scheduling_env_def cron_request_def dget_none_def dget_or_def dget_def)

end
