(* ===== verification/Billing_Model.thy ===== *)
theory Billing_Model
  imports Event_Transport
begin

text \<open>
  billing: the tables of plans, subscriptions, usage, overage authorizations and payment graces
  (billing/plans/models.py, billing/subscriptions/models.py, billing/quotas/models.py,
  billing/payment_failure_grace/models.py), the exceptions, the resolution of the active
  subscription of a workspace (billing/subscriptions/resolver.py) and the repository of usage
  (billing/quotas/usage_repository.py). A \<open>Decimal\<close> is a rational number: the columns have at most four
  decimals and twenty digits, below the 28 digits the decimal context computes with.
\<close>

section \<open>Tables\<close>

record Workspace =
  ws_id :: uuid
  ws_tenant_id :: uuid
  ws_owner_id :: uuid
  ws_status :: string
  ws_created_at :: timestamp

record Tenant =
  tn_id :: uuid
  tn_kind :: string

record Plan =
  pl_id :: uuid
  pl_slug :: string
  pl_display_name :: string
  pl_description :: "string option"
  pl_tier :: string
  pl_is_public :: bool
  pl_is_active :: bool
  pl_allowed_model_tier :: string
  pl_created_at :: timestamp

record PlanVersion =
  pv_plan_id :: uuid
  pv_version :: int
  pv_price_monthly :: rat
  pv_executions_per_day :: int
  pv_executions_per_month :: int
  pv_minutes_per_day :: int
  pv_minutes_per_month :: int
  pv_max_workspaces :: int
  pv_max_agents_per_workspace :: int
  pv_max_users_per_workspace :: int
  pv_overage_price_per_minute :: rat
  pv_trial_days :: int
  pv_quota_period_anchor :: string
  pv_extras_json :: pydict
  pv_published_at :: "timestamp option"
  pv_deprecated_at :: "timestamp option"
  pv_created_at :: timestamp
  pv_created_by :: "uuid option"

record Subscription =
  sb_id :: uuid
  sb_tenant_id :: uuid
  sb_scope_type :: string
  sb_scope_id :: uuid
  sb_plan_id :: uuid
  sb_plan_version :: int
  sb_status :: string
  sb_started_at :: timestamp
  sb_current_period_start :: timestamp
  sb_current_period_end :: timestamp
  sb_cancel_at_period_end :: bool
  sb_payment_method_id :: "uuid option"
  sb_stripe_customer_id :: "string option"
  sb_stripe_subscription_id :: "string option"
  sb_created_by_user_id :: "uuid option"
  sb_created_at :: timestamp

datatype metric = Executions | Minutes

record UsageRecord =
  ur_tenant_id :: uuid
  ur_workspace_id :: uuid
  ur_subscription_id :: uuid
  ur_metric :: metric
  ur_period_start :: timestamp
  ur_period_end :: timestamp
  ur_quantity :: rat
  ur_is_overage :: bool

record OverageAuthorization =
  oa_id :: uuid
  oa_tenant_id :: uuid
  oa_workspace_id :: uuid
  oa_subscription_id :: uuid
  oa_billing_period_start :: timestamp
  oa_billing_period_end :: timestamp
  oa_authorized_at :: timestamp
  oa_authorized_by_user_id :: uuid
  oa_max_overage_eur :: "rat option"
  oa_revoked_at :: "timestamp option"
  oa_revoked_by_user_id :: "uuid option"

datatype GraceResolution = GR_payment_recovered | GR_downgraded_to_free | GR_manually_resolved

record PaymentFailureGrace =
  pg_id :: uuid
  pg_tenant_id :: uuid
  pg_subscription_id :: uuid
  pg_started_at :: timestamp
  pg_grace_ends_at :: timestamp
  pg_reminders_sent :: nat
  pg_last_reminder_at :: "timestamp option"
  pg_resolved_at :: "timestamp option"
  pg_resolution :: "GraceResolution option"

text \<open>Calls to the payment provider that change a subscription, and entries of the audit chain.\<close>

datatype provider_call =
    CreateCustomer uuid uuid string
  | AttachPaymentMethod string string
  | UpdateSubscription string string bool string
  | CancelSubscription string bool

record audit_entry =
  ae_event_type :: string
  ae_payload :: pydict
  ae_tenant_id :: "uuid option"

text \<open>A context of a plan, and the two totals of a period as dictionaries hold them.\<close>

record plan_context =
  pc_subscription :: Subscription
  pc_plan :: Plan
  pc_version :: PlanVersion

record usage =
  us_executions :: rat
  us_minutes :: rat

datatype cached = CachedContext plan_context | CachedUsage usage

text \<open>The database, the usage keys in Redis, the cache of the enforcer, the usage reports the payment
  provider accepted and the messages on the invalidation channel. A published agent is its workspace and status, a member the
  workspace, user and role; a model is its provider, name and quality tier; a processed webhook its provider,
  event id and event type.\<close>

record billing =
  b_workspaces :: "Workspace list"
  b_tenants :: "Tenant list"
  b_plans :: "Plan list"
  b_plan_versions :: "PlanVersion list"
  b_subscriptions :: "Subscription list"
  b_usage :: "UsageRecord list"
  b_authorizations :: "OverageAuthorization list"
  b_graces :: "PaymentFailureGrace list"
  b_webhooks :: "(string \<times> string \<times> string) list"
  b_processed :: "uuid list"
  b_agent_profiles :: "(uuid \<times> string) list"
  b_memberships :: "(uuid \<times> uuid \<times> string) list"
  b_model_catalog :: "(string \<times> string \<times> string option) list"
  b_redis :: "(string \<times> usage \<times> timestamp) list"
  b_cache :: "(string \<times> rat \<times> cached) list"
  b_reported :: "(string \<times> rat \<times> string) list"
  b_invalidations :: "(uuid \<times> string) list"
  b_provider_calls :: "provider_call list"
  b_audit :: "audit_entry list"
  b_ids :: nat
  b_reads :: nat

type_synonym 'a bop = "(billing, exn, 'a) eff"

text \<open>The settings and libraries: the presence of Redis, the lifetime of cached values, the payment
  provider (it may raise, and then has not taken the report), the conversion of a decimal to the nearest
  double and to text, the name-based identifiers, and the parser of ISO timestamps, which reads a text
  without time zone as UTC.\<close>

record billing_env =
  be_has_redis :: bool
  be_ttl_seconds :: int
  be_provider :: "(string \<Rightarrow> rat \<Rightarrow> string \<Rightarrow> nat \<Rightarrow> exn option) option"
  be_float :: "rat \<Rightarrow> pyfloat"
  be_fromisoformat :: "string \<Rightarrow> timestamp option"
  be_uuid5 :: "string \<Rightarrow> uuid"
  be_decimal_text :: "rat \<Rightarrow> string"

definition b_clock :: "(nat \<Rightarrow> 'a) \<Rightarrow> 'a bop" where
  "b_clock c = (\<lambda>b. (Inr (c (b_reads b)), b\<lparr>b_reads := Suc (b_reads b)\<rparr>))"

section \<open>Exceptions\<close>

definition NoActiveSubscriptionError :: "uuid \<Rightarrow> exn" where
  "NoActiveSubscriptionError workspace_id =
     PlatformError ''BILLING_NO_ACTIVE_SUBSCRIPTION'' ''Workspace has no active subscription''
       [(''workspace_id'', PStr workspace_id)]"

definition SubscriptionSuspendedError :: "uuid \<Rightarrow> exn" where
  "SubscriptionSuspendedError workspace_id =
     PlatformError ''BILLING_SUBSCRIPTION_SUSPENDED'' ''The active subscription is suspended''
       [(''workspace_id'', PStr workspace_id)]"

definition OverageRequiredError :: "uuid \<Rightarrow> string \<Rightarrow> exn" where
  "OverageRequiredError workspace_id quota_name =
     PlatformError ''BILLING_OVERAGE_REQUIRED'' ''Overage authorization is required before work can continue''
       [(''workspace_id'', PStr workspace_id), (''quota_name'', PStr quota_name)]"

section \<open>The active subscription\<close>

definition ACTIVE_SUBSCRIPTION_STATUSES :: "string list" where
  "ACTIVE_SUBSCRIPTION_STATUSES = [''trial'', ''active'', ''cancellation_pending'']"

definition session_get :: "('r \<Rightarrow> uuid) \<Rightarrow> uuid \<Rightarrow> 'r list \<Rightarrow> 'r option" where
  "session_get key k rows = find (\<lambda>r. key r = k) rows"

text \<open>The newest of the subscriptions: created last, among those the greatest id.\<close>

definition newest_subscription :: "Subscription list \<Rightarrow> Subscription option" where
  "newest_subscription rows =
     (case sort_key (\<lambda>s. (sb_created_at s, sb_id s)) rows of [] \<Rightarrow> None | ss \<Rightarrow> Some (last ss))"

definition resolve_active_subscription :: "uuid \<Rightarrow> Subscription bop" where
  "resolve_active_subscription workspace_id =
     (\<lambda>b. case session_get ws_id workspace_id (b_workspaces b) of
            None \<Rightarrow> (Inl (NoActiveSubscriptionError workspace_id), b)
          | Some w \<Rightarrow>
              (case session_get tn_id (ws_tenant_id w) (b_tenants b) of
                 None \<Rightarrow> (Inl (NoActiveSubscriptionError workspace_id), b)
               | Some t \<Rightarrow>
                   let scope_type = (if tn_kind t = ''enterprise'' then ''tenant'' else ''workspace'');
                       scope_id = (if scope_type = ''tenant'' then tn_id t else ws_id w)
                   in (case newest_subscription (filter (\<lambda>s. sb_scope_type s = scope_type \<and> sb_scope_id s = scope_id \<and>
                              sb_status s \<in> set ACTIVE_SUBSCRIPTION_STATUSES) (b_subscriptions b)) of
                         None \<Rightarrow> (Inl (NoActiveSubscriptionError workspace_id), b)
                       | Some s \<Rightarrow> (Inr s, b))))"

section \<open>Usage\<close>

definition usage_key :: "platform \<Rightarrow> uuid \<Rightarrow> timestamp \<Rightarrow> string" where
  "usage_key pf subscription_id period_start =
     ''quota:usage:'' @ subscription_id @ '':'' @ iso_text pf period_start"

definition usage_invalidate :: "billing_env \<Rightarrow> platform \<Rightarrow> uuid \<Rightarrow> timestamp \<Rightarrow> unit bop" where
  "usage_invalidate be pf subscription_id period_start =
     (if be_has_redis be
      then emod (\<lambda>b. b\<lparr>b_redis := adel (b_redis b) (usage_key pf subscription_id period_start),
             b_invalidations := b_invalidations b @ [(subscription_id, iso_text pf period_start)]\<rparr>)
      else eret ())"

text \<open>The columns of the unique constraint \<open>usage_records_unique_aggregate\<close>.\<close>

definition same_aggregate :: "UsageRecord \<Rightarrow> UsageRecord \<Rightarrow> bool" where
  "same_aggregate r x \<longleftrightarrow>
     ur_tenant_id x = ur_tenant_id r \<and> ur_workspace_id x = ur_workspace_id r \<and>
     ur_subscription_id x = ur_subscription_id r \<and> ur_metric x = ur_metric r \<and>
     ur_period_start x = ur_period_start r \<and> ur_is_overage x = ur_is_overage r"

text \<open>\<open>INSERT ... ON CONFLICT DO UPDATE ... RETURNING quantity\<close>.\<close>

definition upsert_usage :: "UsageRecord \<Rightarrow> UsageRecord list \<Rightarrow> UsageRecord list \<times> rat" where
  "upsert_usage r rows =
     (case find (same_aggregate r) rows of
        None \<Rightarrow> (rows @ [r], ur_quantity r)
      | Some old \<Rightarrow>
          (map (\<lambda>x. if same_aggregate r x
                    then x\<lparr>ur_quantity := ur_quantity x + ur_quantity r, ur_period_end := ur_period_end r\<rparr>
                    else x) rows,
           ur_quantity old + ur_quantity r))"

text \<open>\<open>increment\<close> as metering calls it, with the workspace, the end of the period and the tenant.\<close>

definition usage_increment ::
  "billing_env \<Rightarrow> platform \<Rightarrow> uuid \<Rightarrow> timestamp \<Rightarrow> metric \<Rightarrow> rat \<Rightarrow> bool \<Rightarrow> uuid \<Rightarrow> timestamp \<Rightarrow> uuid \<Rightarrow> rat bop" where
  "usage_increment be pf subscription_id period_start m quantity is_overage workspace_id period_end tenant_id =
     ebind (eget (\<lambda>b. session_get sb_id subscription_id (b_subscriptions b))) (\<lambda>found.
     case found of
       None \<Rightarrow> eraise ValueError
     | Some _ \<Rightarrow>
         let r = \<lparr>ur_tenant_id = tenant_id, ur_workspace_id = workspace_id,
                  ur_subscription_id = subscription_id, ur_metric = m, ur_period_start = period_start,
                  ur_period_end = period_end, ur_quantity = quantity, ur_is_overage = is_overage\<rparr> in
         ebind (\<lambda>b. let (rows, total) = upsert_usage r (b_usage b) in (Inr total, b\<lparr>b_usage := rows\<rparr>)) (\<lambda>total.
         ebind (usage_invalidate be pf subscription_id period_start) (\<lambda>_.
         eret total)))"

text \<open>The rows are read ordered by metric and each overwrites the total of its metric.\<close>

definition get_current_usage :: "uuid \<Rightarrow> timestamp \<Rightarrow> usage bop" where
  "get_current_usage subscription_id period_start =
     eget (\<lambda>b.
       let rows = filter (\<lambda>r. ur_subscription_id r = subscription_id \<and> ur_period_start r = period_start \<and>
             \<not> ur_is_overage r) (b_usage b);
           ordered = filter (\<lambda>r. ur_metric r = Executions) rows @ filter (\<lambda>r. ur_metric r = Minutes) rows
       in foldl (\<lambda>totals r. case ur_metric r of
              Executions \<Rightarrow> totals\<lparr>us_executions := ur_quantity r\<rparr>
            | Minutes \<Rightarrow> totals\<lparr>us_minutes := ur_quantity r\<rparr>)
            \<lparr>us_executions = 0, us_minutes = 0\<rparr> ordered)"

definition get_period_history :: "uuid \<Rightarrow> nat \<Rightarrow> UsageRecord list bop" where
  "get_period_history subscription_id limit =
     eget (\<lambda>b. take (limit * 2)
       (sort_key (\<lambda>r. (- ur_period_start r, if ur_metric r = Executions then 0 :: nat else 1))
         (filter (\<lambda>r. ur_subscription_id r = subscription_id) (b_usage b))))"

end
