(* ===== verification/Billing_Quotas.thy ===== *)
theory Billing_Quotas
  imports Billing_Model
begin

text \<open>
  billing/quotas/enforcer.py, schemas.py and http.py: the quota checks with their two caches, the
  exceptions a refused check raises and the body of its response. Timing metrics are left out.
\<close>

section \<open>Results\<close>

datatype QuotaDecision =
    QD_OK | QD_HARD_CAP_EXCEEDED | QD_OVERAGE_REQUIRED | QD_OVERAGE_AUTHORIZED | QD_OVERAGE_CAP_EXCEEDED
  | QD_MODEL_TIER_NOT_ALLOWED | QD_NO_ACTIVE_SUBSCRIPTION | QD_SUSPENDED

fun decision_value :: "QuotaDecision \<Rightarrow> string" where
  "decision_value QD_OK = ''OK''"
| "decision_value QD_HARD_CAP_EXCEEDED = ''HARD_CAP_EXCEEDED''"
| "decision_value QD_OVERAGE_REQUIRED = ''OVERAGE_REQUIRED''"
| "decision_value QD_OVERAGE_AUTHORIZED = ''OVERAGE_AUTHORIZED''"
| "decision_value QD_OVERAGE_CAP_EXCEEDED = ''OVERAGE_CAP_EXCEEDED''"
| "decision_value QD_MODEL_TIER_NOT_ALLOWED = ''MODEL_TIER_NOT_ALLOWED''"
| "decision_value QD_NO_ACTIVE_SUBSCRIPTION = ''NO_ACTIVE_SUBSCRIPTION''"
| "decision_value QD_SUSPENDED = ''SUSPENDED''"

record QuotaCheckResult =
  qc_decision :: QuotaDecision
  qc_quota_name :: "string option"
  qc_current :: "rat option"
  qc_limit :: "rat option"
  qc_reset_at :: "timestamp option"
  qc_plan_slug :: "string option"
  qc_upgrade_url :: "string option"
  qc_overage_available :: bool
  qc_message :: "string option"

definition quota_ok :: "QuotaCheckResult \<Rightarrow> bool" where
  "quota_ok r \<longleftrightarrow> qc_decision r \<in> {QD_OK, QD_OVERAGE_AUTHORIZED}"

text \<open>\<open>_result\<close> with the quota as (name, current, limit); an absent argument is \<open>None\<close>.\<close>

definition quota_result_of ::
  "QuotaDecision \<Rightarrow> (string \<times> rat \<times> rat) option \<Rightarrow> Subscription option \<Rightarrow> Plan option \<Rightarrow> uuid option \<Rightarrow>
   bool \<Rightarrow> string option \<Rightarrow> QuotaCheckResult" where
  "quota_result_of decision quota subscription plan workspace_id overage_available message =
     (let resolved = (case workspace_id of
            Some w \<Rightarrow> Some w
          | None \<Rightarrow> (case subscription of
                Some s \<Rightarrow> (if sb_scope_type s = ''workspace'' then Some (sb_scope_id s) else None)
              | None \<Rightarrow> None))
      in \<lparr>qc_decision = decision, qc_quota_name = map_option fst quota,
          qc_current = map_option (\<lambda>q. fst (snd q)) quota, qc_limit = map_option (\<lambda>q. snd (snd q)) quota,
          qc_reset_at = map_option sb_current_period_end subscription,
          qc_plan_slug = map_option pl_slug plan,
          qc_upgrade_url = map_option (\<lambda>w. ''/workspaces/'' @ w @ ''/billing/upgrade'') resolved,
          qc_overage_available = overage_available, qc_message = message\<rparr>)"

definition is_unlimited :: "PlanVersion \<Rightarrow> bool" where
  "is_unlimited v \<longleftrightarrow>
     pv_executions_per_day v = 0 \<and> pv_executions_per_month v = 0 \<and> pv_minutes_per_day v = 0 \<and>
     pv_minutes_per_month v = 0 \<and> pv_max_workspaces v = 0 \<and> pv_max_agents_per_workspace v = 0 \<and>
     pv_max_users_per_workspace v = 0"

definition limit_failure :: "string \<Rightarrow> rat \<Rightarrow> rat \<Rightarrow> (string \<times> rat \<times> rat) option" where
  "limit_failure quota_name projected limit =
     (if limit = 0 \<or> projected \<le> limit then None else Some (quota_name, projected, limit))"

definition model_allowed :: "string \<Rightarrow> string \<Rightarrow> bool" where
  "model_allowed allowed_model_tier quality_tier \<longleftrightarrow>
     (if allowed_model_tier = ''all'' then True
      else if allowed_model_tier = ''standard'' then quality_tier \<in> {''tier2'', ''tier3''}
      else quality_tier = ''tier3'')"

section \<open>The local cache\<close>

text \<open>\<open>_TTLCache\<close>: the items in the order of their last use. An expired item is dropped when it is read.\<close>

definition cache_get :: "platform \<Rightarrow> string \<Rightarrow> cached option bop" where
  "cache_get pf key =
     ebind (eget (\<lambda>b. map_of (b_cache b) key)) (\<lambda>found.
     case found of
       None \<Rightarrow> eret None
     | Some (expires_at, v) \<Rightarrow>
         ebind (b_clock (monotonic pf)) (\<lambda>now.
         if expires_at \<le> now then ebind (emod (\<lambda>b. b\<lparr>b_cache := adel (b_cache b) key\<rparr>)) (\<lambda>_. eret None)
         else ebind (emod (\<lambda>b. b\<lparr>b_cache := adel (b_cache b) key @ [(key, expires_at, v)]\<rparr>)) (\<lambda>_. eret (Some v))))"

definition cache_maxsize :: nat where
  "cache_maxsize = 4096"

definition cache_set :: "billing_env \<Rightarrow> platform \<Rightarrow> string \<Rightarrow> cached \<Rightarrow> unit bop" where
  "cache_set be pf key v =
     ebind (b_clock (monotonic pf)) (\<lambda>now.
     emod (\<lambda>b. let items = adel (b_cache b) key @ [(key, now + of_int (be_ttl_seconds be), v)]
               in b\<lparr>b_cache := drop (length items - cache_maxsize) items\<rparr>))"

definition cache_delete_prefix :: "string \<Rightarrow> unit bop" where
  "cache_delete_prefix p = emod (\<lambda>b. b\<lparr>b_cache := filter (\<lambda>(k, _). \<not> starts_with k p) (b_cache b)\<rparr>)"

section \<open>Plans and usage\<close>

definition plan_row :: "Subscription \<Rightarrow> (Plan \<times> PlanVersion) list bop" where
  "plan_row s =
     eget (\<lambda>b. [(p, v). p \<leftarrow> b_plans b, v \<leftarrow> b_plan_versions b, pl_id p = sb_plan_id s \<and>
        pv_plan_id v = sb_plan_id s \<and> pv_version v = sb_plan_version s])"

definition enforcer_plan_context :: "billing_env \<Rightarrow> platform \<Rightarrow> uuid \<Rightarrow> plan_context option bop" where
  "enforcer_plan_context be pf workspace_id =
     (let cache_key = workspace_id @ '':plan_context'' in
      ebind (cache_get pf cache_key) (\<lambda>cached.
      case cached of
        Some (CachedContext c) \<Rightarrow> eret (Some c)
      | _ \<Rightarrow>
          ebind (ecatch (ebind (resolve_active_subscription workspace_id) (\<lambda>s. eret (Some s)))
                   (\<lambda>e. if e = NoActiveSubscriptionError workspace_id then eret None else eraise e)) (\<lambda>found.
          case found of
            None \<Rightarrow> eret None
          | Some s \<Rightarrow>
              ebind (plan_row s) (\<lambda>rows.
              case rows of
                [] \<Rightarrow> eret None
              | (p, v) # _ \<Rightarrow>
                  let c = \<lparr>pc_subscription = s, pc_plan = p, pc_version = v\<rparr> in
                  ebind (cache_set be pf cache_key (CachedContext c)) (\<lambda>_. eret (Some c))))))"

definition redis_usage :: "billing_env \<Rightarrow> platform \<Rightarrow> Subscription \<Rightarrow> usage option bop" where
  "redis_usage be pf s =
     (if \<not> be_has_redis be then eret None
      else
        ebind (b_clock (redis_clock pf)) (\<lambda>now.
        eget (\<lambda>b. case map_of (b_redis b) (usage_key pf (sb_id s) (sb_current_period_start s)) of
               None \<Rightarrow> None
             | Some (u, expires) \<Rightarrow> if now < expires then Some u else None)))"

definition set_redis_usage :: "billing_env \<Rightarrow> platform \<Rightarrow> Subscription \<Rightarrow> usage \<Rightarrow> unit bop" where
  "set_redis_usage be pf s u =
     (if \<not> be_has_redis be then eret ()
      else
        ebind (b_clock (redis_clock pf)) (\<lambda>now.
        emod (\<lambda>b. b\<lparr>b_redis := aset (b_redis b) (usage_key pf (sb_id s) (sb_current_period_start s))
          (u, now + be_ttl_seconds be * 1000000)\<rparr>)))"

definition enforcer_usage :: "billing_env \<Rightarrow> platform \<Rightarrow> Subscription \<Rightarrow> uuid \<Rightarrow> usage bop" where
  "enforcer_usage be pf s workspace_id =
     (let cache_key = workspace_id @ '':'' @ sb_id s @ '':'' @ iso_text pf (sb_current_period_start s) in
      ebind (cache_get pf cache_key) (\<lambda>cached.
      case cached of
        Some (CachedUsage u) \<Rightarrow> eret u
      | _ \<Rightarrow>
          ebind (redis_usage be pf s) (\<lambda>shared.
          case shared of
            Some u \<Rightarrow> ebind (cache_set be pf cache_key (CachedUsage u)) (\<lambda>_. eret u)
          | None \<Rightarrow>
              ebind (get_current_usage (sb_id s) (sb_current_period_start s)) (\<lambda>u.
              ebind (cache_set be pf cache_key (CachedUsage u)) (\<lambda>_.
              ebind (set_redis_usage be pf s u) (\<lambda>_. eret u))))))"

definition overage_authorization :: "Subscription \<Rightarrow> uuid \<Rightarrow> (bool \<times> rat option) bop" where
  "overage_authorization s workspace_id =
     eget (\<lambda>b. case find (\<lambda>a. oa_workspace_id a = workspace_id \<and> oa_subscription_id a = sb_id s \<and>
                  oa_billing_period_start a = sb_current_period_start s \<and> oa_revoked_at a = None)
                  (b_authorizations b) of
            None \<Rightarrow> (False, None)
          | Some a \<Rightarrow> (True, oa_max_overage_eur a))"

definition recorded_overage :: "uuid \<Rightarrow> timestamp \<Rightarrow> billing \<Rightarrow> rat" where
  "recorded_overage subscription_id period_start b =
     sum_list (map ur_quantity (filter (\<lambda>r. ur_subscription_id r = subscription_id \<and>
       ur_period_start r = period_start \<and> ur_metric r = Minutes \<and> ur_is_overage r) (b_usage b)))"

definition projected_overage_eur :: "Subscription \<Rightarrow> rat \<Rightarrow> rat \<Rightarrow> rat \<Rightarrow> rat bop" where
  "projected_overage_eur s projected included_limit price =
     eget (\<lambda>b. (recorded_overage (sb_id s) (sb_current_period_start s) b + max (projected - included_limit) 0) * price)"

section \<open>Checks\<close>

definition failed_quota :: "PlanVersion \<Rightarrow> usage \<Rightarrow> rat \<Rightarrow> (string \<times> rat \<times> rat) option" where
  "failed_quota v u projected_minutes =
     (case limit_failure ''executions_per_month'' (us_executions u + 1) (of_int (pv_executions_per_month v)) of
        Some f \<Rightarrow> Some f
      | None \<Rightarrow> limit_failure ''minutes_per_month'' (us_minutes u + projected_minutes) (of_int (pv_minutes_per_month v)))"

text \<open>What happens once a quota is exceeded.\<close>

definition decide_overage :: "plan_context \<Rightarrow> uuid \<Rightarrow> string \<times> rat \<times> rat \<Rightarrow> QuotaCheckResult bop" where
  "decide_overage c workspace_id failure =
     (let s = pc_subscription c; plan = pc_plan c; price = pv_overage_price_per_minute (pc_version c);
          (quota_name, current, limit) = failure in
      if price > 0 then
        ebind (overage_authorization s workspace_id) (\<lambda>(authorized, max_eur).
        if authorized then
          (case max_eur of
             None \<Rightarrow> eret (quota_result_of QD_OVERAGE_AUTHORIZED None None (Some plan) None False None)
           | Some cap \<Rightarrow>
               ebind (projected_overage_eur s current limit price) (\<lambda>eur.
               if eur > cap then
                 eret (quota_result_of QD_OVERAGE_CAP_EXCEEDED (Some (quota_name, eur, cap)) (Some s) (Some plan) None
                   True None)
               else eret (quota_result_of QD_OVERAGE_AUTHORIZED None None (Some plan) None False None)))
        else eret (quota_result_of QD_OVERAGE_REQUIRED (Some failure) (Some s) (Some plan) None True None))
      else eret (quota_result_of QD_HARD_CAP_EXCEEDED (Some failure) (Some s) (Some plan) None False None))"

definition check_execution :: "billing_env \<Rightarrow> platform \<Rightarrow> uuid \<Rightarrow> rat \<Rightarrow> QuotaCheckResult bop" where
  "check_execution be pf workspace_id projected_minutes =
     ebind (enforcer_plan_context be pf workspace_id) (\<lambda>found.
     case found of
       None \<Rightarrow> eret (quota_result_of QD_NO_ACTIVE_SUBSCRIPTION None None None (Some workspace_id) False None)
     | Some c \<Rightarrow>
         if sb_status (pc_subscription c) = ''suspended'' then
           eret (quota_result_of QD_SUSPENDED None None (Some (pc_plan c)) (Some workspace_id) False None)
         else if is_unlimited (pc_version c) then
           eret (quota_result_of QD_OK None None (Some (pc_plan c)) None False None)
         else
           ebind (enforcer_usage be pf (pc_subscription c) workspace_id) (\<lambda>u.
           case failed_quota (pc_version c) u projected_minutes of
             None \<Rightarrow> eret (quota_result_of QD_OK None None (Some (pc_plan c)) None False None)
           | Some failure \<Rightarrow> decide_overage c workspace_id failure))"

text \<open>The caps on workspaces, agents and users: a count, one more, and the limit of the plan.\<close>

definition cap_result :: "string \<Rightarrow> nat \<Rightarrow> int \<Rightarrow> plan_context \<Rightarrow> QuotaCheckResult" where
  "cap_result quota_name count limit c =
     (case limit_failure quota_name (of_nat count + 1) (of_int limit) of
        None \<Rightarrow> quota_result_of QD_OK None None (Some (pc_plan c)) None False None
      | Some f \<Rightarrow>
          quota_result_of QD_HARD_CAP_EXCEEDED (Some f) (Some (pc_subscription c)) (Some (pc_plan c)) None False None)"

definition context_for_user :: "billing_env \<Rightarrow> platform \<Rightarrow> uuid \<Rightarrow> plan_context option bop" where
  "context_for_user be pf user_id =
     ebind (eget (\<lambda>b. sort_key ws_created_at
              (filter (\<lambda>w. ws_owner_id w = user_id \<and> ws_status w \<noteq> ''deleted'') (b_workspaces b)))) (\<lambda>ws.
     case ws of [] \<Rightarrow> eret None | w # _ \<Rightarrow> enforcer_plan_context be pf (ws_id w))"

definition check_workspace_create :: "billing_env \<Rightarrow> platform \<Rightarrow> uuid \<Rightarrow> QuotaCheckResult bop" where
  "check_workspace_create be pf user_id =
     ebind (context_for_user be pf user_id) (\<lambda>found.
     case found of
       None \<Rightarrow> eret (quota_result_of QD_OK None None None None False None)
     | Some c \<Rightarrow>
         if is_unlimited (pc_version c) then eret (quota_result_of QD_OK None None (Some (pc_plan c)) None False None)
         else
           eget (\<lambda>b. cap_result ''max_workspaces''
             (length (filter (\<lambda>w. ws_owner_id w = user_id \<and> ws_status w \<noteq> ''deleted'') (b_workspaces b)))
             (pv_max_workspaces (pc_version c)) c))"

definition check_in_workspace ::
  "billing_env \<Rightarrow> platform \<Rightarrow> uuid \<Rightarrow> (billing \<Rightarrow> plan_context \<Rightarrow> QuotaCheckResult) \<Rightarrow> QuotaCheckResult bop" where
  "check_in_workspace be pf workspace_id f =
     ebind (enforcer_plan_context be pf workspace_id) (\<lambda>found.
     case found of
       None \<Rightarrow> eret (quota_result_of QD_NO_ACTIVE_SUBSCRIPTION None None None (Some workspace_id) False None)
     | Some c \<Rightarrow>
         if is_unlimited (pc_version c) then eret (quota_result_of QD_OK None None (Some (pc_plan c)) None False None)
         else eget (\<lambda>b. f b c))"

definition check_agent_publish :: "billing_env \<Rightarrow> platform \<Rightarrow> uuid \<Rightarrow> QuotaCheckResult bop" where
  "check_agent_publish be pf workspace_id =
     check_in_workspace be pf workspace_id (\<lambda>b c. cap_result ''max_agents_per_workspace''
       (length (filter (\<lambda>(w, status). w = workspace_id \<and> status = ''published'') (b_agent_profiles b)))
       (pv_max_agents_per_workspace (pc_version c)) c)"

definition check_user_invite :: "billing_env \<Rightarrow> platform \<Rightarrow> uuid \<Rightarrow> QuotaCheckResult bop" where
  "check_user_invite be pf workspace_id =
     check_in_workspace be pf workspace_id (\<lambda>b c. cap_result ''max_users_per_workspace''
       (length (filter (\<lambda>(w, _, _). w = workspace_id) (b_memberships b)))
       (pv_max_users_per_workspace (pc_version c)) c)"

text \<open>\<open>provider:model\<close> is split at the first colon; without one any provider matches.\<close>

definition model_quality_tier :: "string \<Rightarrow> string bop" where
  "model_quality_tier model_id =
     ebind (eget (\<lambda>b. map (\<lambda>(_, _, tier). tier)
       (if CHR '':'' \<in> set model_id then
          (let provider = takeWhile (\<lambda>c. c \<noteq> CHR '':'') model_id; model = drop (Suc (length provider)) model_id
           in filter (\<lambda>(p, m, _). p = provider \<and> m = model) (b_model_catalog b))
        else filter (\<lambda>(_, m, _). m = model_id) (b_model_catalog b)))) (\<lambda>tiers.
     ebind (elift (one_or_none tiers)) (\<lambda>found.
     eret (case found of Some (Some t) \<Rightarrow> if t = [] then ''tier1'' else t | _ \<Rightarrow> ''tier1'')))"

definition check_model_tier :: "billing_env \<Rightarrow> platform \<Rightarrow> uuid \<Rightarrow> string \<Rightarrow> string option \<Rightarrow> QuotaCheckResult bop" where
  "check_model_tier be pf workspace_id model_id model_tier =
     ebind (enforcer_plan_context be pf workspace_id) (\<lambda>found.
     case found of
       None \<Rightarrow> eret (quota_result_of QD_NO_ACTIVE_SUBSCRIPTION None None None (Some workspace_id) False None)
     | Some c \<Rightarrow>
         if pl_allowed_model_tier (pc_plan c) = ''all'' then
           eret (quota_result_of QD_OK None None (Some (pc_plan c)) None False None)
         else
           ebind (case model_tier of
                    Some t \<Rightarrow> if t = [] then model_quality_tier model_id else eret t
                  | None \<Rightarrow> model_quality_tier model_id) (\<lambda>tier.
           if model_allowed (pl_allowed_model_tier (pc_plan c)) tier then
             eret (quota_result_of QD_OK None None (Some (pc_plan c)) None False None)
           else
             eret (quota_result_of QD_MODEL_TIER_NOT_ALLOWED (Some (''allowed_model_tier'', 1, 0))
               (Some (pc_subscription c)) (Some (pc_plan c)) None False
               (Some (''Model '' @ model_id @ '' is not allowed by the active plan.'')))))"

definition invalidate_workspace :: "billing_env \<Rightarrow> uuid \<Rightarrow> unit bop" where
  "invalidate_workspace be workspace_id =
     ebind (cache_delete_prefix (workspace_id @ '':'')) (\<lambda>_.
     if be_has_redis be
     then emod (\<lambda>b. b\<lparr>b_redis := adel (b_redis b) (''quota:plan_version:'' @ workspace_id)\<rparr>)
     else eret ())"

section \<open>Refused checks\<close>

definition number_of :: "billing_env \<Rightarrow> rat option \<Rightarrow> pyval" where
  "number_of be v = (case v of None \<Rightarrow> PInt 0 | Some x \<Rightarrow> PFloat (be_float be x))"

definition opt_text :: "string option \<Rightarrow> pyval" where
  "opt_text v = (case v of None \<Rightarrow> PNone | Some s \<Rightarrow> PStr s)"

definition reset_text :: "platform \<Rightarrow> QuotaCheckResult \<Rightarrow> pyval" where
  "reset_text pf r = opt_text (map_option (iso_text pf) (qc_reset_at r))"

definition text_or :: "string option \<Rightarrow> string \<Rightarrow> string" where
  "text_or v fallback = (case v of Some s \<Rightarrow> if s = [] then fallback else s | None \<Rightarrow> fallback)"

text \<open>\<open>raise_for_quota_result\<close> with a workspace, as the callers give it.\<close>

definition raise_for_quota_result_of ::
  "billing_env \<Rightarrow> platform \<Rightarrow> QuotaCheckResult \<Rightarrow> uuid \<Rightarrow> unit py" where
  "raise_for_quota_result_of be pf r workspace_id =
     (case qc_decision r of
        QD_OK \<Rightarrow> Inr ()
      | QD_OVERAGE_AUTHORIZED \<Rightarrow> Inr ()
      | QD_HARD_CAP_EXCEEDED \<Rightarrow>
          Inl (PlatformError ''BILLING_QUOTA_EXCEEDED'' ''Quota has been exceeded''
            [(''quota_name'', PStr (text_or (qc_quota_name r) ''quota'')),
             (''current'', number_of be (qc_current r)), (''limit'', number_of be (qc_limit r)),
             (''reset_at'', reset_text pf r), (''plan_slug'', opt_text (qc_plan_slug r)),
             (''upgrade_url'', opt_text (qc_upgrade_url r)),
             (''overage_available'', PBool (qc_overage_available r))])
      | QD_MODEL_TIER_NOT_ALLOWED \<Rightarrow>
          Inl (PlatformError ''BILLING_MODEL_TIER_NOT_ALLOWED''
            ''Requested model tier is not allowed by the active subscription''
            [(''workspace_id'', PStr workspace_id), (''model_id'', PStr (text_or (qc_quota_name r) ''model'')),
             (''allowed_model_tier'', PStr (text_or (qc_plan_slug r) ''unknown'')),
             (''quota_name'', PStr (text_or (qc_quota_name r) ''allowed_model_tier'')),
             (''reset_at'', reset_text pf r), (''plan_slug'', opt_text (qc_plan_slug r)),
             (''upgrade_url'', opt_text (qc_upgrade_url r))])
      | QD_OVERAGE_CAP_EXCEEDED \<Rightarrow>
          Inl (PlatformError ''BILLING_OVERAGE_CAP_EXCEEDED'' ''Authorized overage cap has been exceeded''
            [(''workspace_id'', PStr workspace_id),
             (''cap_eur'', PStr (case qc_limit r of Some x \<Rightarrow> if x = 0 then ''0'' else be_decimal_text be x | None \<Rightarrow> ''0'')),
             (''quota_name'', opt_text (qc_quota_name r)), (''reset_at'', reset_text pf r),
             (''plan_slug'', opt_text (qc_plan_slug r)), (''upgrade_url'', opt_text (qc_upgrade_url r))])
      | QD_OVERAGE_REQUIRED \<Rightarrow> Inl (OverageRequiredError workspace_id (text_or (qc_quota_name r) ''quota''))
      | QD_NO_ACTIVE_SUBSCRIPTION \<Rightarrow> Inl (NoActiveSubscriptionError workspace_id)
      | QD_SUSPENDED \<Rightarrow> Inl (SubscriptionSuspendedError workspace_id))"

definition json_number :: "billing_env \<Rightarrow> rat option \<Rightarrow> pyval" where
  "json_number be v =
     (case v of
        None \<Rightarrow> PNone
      | Some x \<Rightarrow> if x = of_int \<lfloor>x\<rfloor> then PInt \<lfloor>x\<rfloor> else PFloat (be_float be x))"

definition code_by_decision :: "QuotaDecision \<Rightarrow> string" where
  "code_by_decision d =
     (case d of
        QD_HARD_CAP_EXCEEDED \<Rightarrow> ''quota_exceeded''
      | QD_OVERAGE_CAP_EXCEEDED \<Rightarrow> ''overage_cap_exceeded''
      | QD_MODEL_TIER_NOT_ALLOWED \<Rightarrow> ''model_tier_not_allowed''
      | QD_NO_ACTIVE_SUBSCRIPTION \<Rightarrow> ''no_active_subscription''
      | QD_SUSPENDED \<Rightarrow> ''subscription_suspended''
      | QD_OK \<Rightarrow> ''ok''
      | QD_OVERAGE_AUTHORIZED \<Rightarrow> ''overage_authorized''
      | QD_OVERAGE_REQUIRED \<Rightarrow> ''overage_required'')"

definition quota_error_body :: "billing_env \<Rightarrow> platform \<Rightarrow> QuotaCheckResult \<Rightarrow> pydict" where
  "quota_error_body be pf r =
     (let quota = [(PStr ''quota_name'', opt_text (qc_quota_name r)),
            (PStr ''current'', json_number be (qc_current r)), (PStr ''limit'', json_number be (qc_limit r)),
            (PStr ''reset_at'', reset_text pf r), (PStr ''plan_slug'', opt_text (qc_plan_slug r))];
          available = [(PStr ''overage_available'', PBool (qc_overage_available r))]
      in if qc_decision r = QD_OVERAGE_REQUIRED
         then (PStr ''status'', PStr ''paused_quota_exceeded'') # quota @ available
         else [(PStr ''code'', PStr (code_by_decision (qc_decision r))),
               (PStr ''message'', PStr (text_or (qc_message r) ''Billing quota check failed'')),
               (PStr ''details'',
                  PDict (quota @ [(PStr ''upgrade_url'', opt_text (qc_upgrade_url r))] @ available))])"

definition quota_result_to_http :: "billing_env \<Rightarrow> platform \<Rightarrow> QuotaCheckResult \<Rightarrow> (int \<times> pydict) option" where
  "quota_result_to_http be pf r =
     (if quota_ok r then None
      else Some (case qc_decision r of
                   QD_HARD_CAP_EXCEEDED \<Rightarrow> 402 | QD_OVERAGE_REQUIRED \<Rightarrow> 202
                 | QD_OVERAGE_CAP_EXCEEDED \<Rightarrow> 402 | QD_MODEL_TIER_NOT_ALLOWED \<Rightarrow> 402
                 | _ \<Rightarrow> 403,
                 quota_error_body be pf r))"

text \<open>The result as the execution service reads it.\<close>

definition engine_result :: "(rat \<Rightarrow> pyval) \<Rightarrow> QuotaCheckResult \<Rightarrow> quota_result" where
  "engine_result decimal r =
     \<lparr>qr_decision = decision_value (qc_decision r), qr_quota_name = opt_text (qc_quota_name r),
      qr_current = (case qc_current r of None \<Rightarrow> PNone | Some x \<Rightarrow> decimal x),
      qr_limit = (case qc_limit r of None \<Rightarrow> PNone | Some x \<Rightarrow> decimal x),
      qr_plan_slug = opt_text (qc_plan_slug r)\<rparr>"

end
