(* ===== verification/Billing_Metering.thy ===== *)
theory Billing_Metering
  imports Billing_Quotas Execution_Jobs
begin

text \<open>
  billing/quotas/metering.py, overage.py and reconciliation.py: the consumer that turns the end of a
  computation into usage, the authorizations of overage with the routes that call them, and the check
  that no event was missed.
\<close>

section \<open>Amounts\<close>

text \<open>\<open>quantize(Decimal("0.0001"), ROUND_HALF_UP)\<close> of a value that is not negative.\<close>

definition quantize4 :: "rat \<Rightarrow> rat" where
  "quantize4 x = of_int \<lfloor>x * 10000 + 1 / 2\<rfloor> / 10000"

text \<open>The text of the seconds has at most 15 digits for computations shorter than 31 years, so it is the
  exact number of microseconds; the quotient by 60 is then rounded once.\<close>

definition minutes_between :: "timestamp \<Rightarrow> timestamp \<Rightarrow> rat" where
  "minutes_between start_ts end_ts = quantize4 (of_int (max (end_ts - start_ts) 0) / 1000000 / 60)"

definition new_overage_minutes :: "rat \<Rightarrow> rat \<Rightarrow> rat \<Rightarrow> rat \<Rightarrow> rat" where
  "new_overage_minutes previous current included_limit overage_price =
     (if included_limit \<le> 0 \<or> overage_price \<le> 0 then 0
      else
        let previous_overage = max (previous - included_limit) 0;
            current_overage = max (current - included_limit) 0
        in quantize4 (max (current_overage - previous_overage) 0))"

section \<open>Fields of an event\<close>

definition event_id_text :: "platform \<Rightarrow> billing_env \<Rightarrow> pyval \<Rightarrow> uuid" where
  "event_id_text pf be v =
     (let t = py_str (pf_runtime pf) v
      in case uuid_of_text pf t of Some u \<Rightarrow> u | None \<Rightarrow> be_uuid5 be t)"

definition metering_event_id :: "platform \<Rightarrow> billing_env \<Rightarrow> EventEnvelope \<Rightarrow> uuid" where
  "metering_event_id pf be env =
     (let p = en_payload env; ctx = en_correlation_context env;
          named = py_or (dget_none p ''event_id'') (dget_none p ''execution_event_id'')
      in if truthy named then event_id_text pf be named
         else (case cc_execution_id ctx of
                 Some u \<Rightarrow> u
               | None \<Rightarrow>
                   (let x = dget_none p ''execution_id''
                    in if truthy x then event_id_text pf be x else cc_correlation_id ctx)))"

definition metering_workspace_id :: "platform \<Rightarrow> EventEnvelope \<Rightarrow> uuid py" where
  "metering_workspace_id pf env =
     (case cc_workspace_id (en_correlation_context env) of
        Some w \<Rightarrow> Inr w
      | None \<Rightarrow>
          rbind (coerce_uuid pf (dget_none (en_payload env) ''workspace_id'')) (\<lambda>found.
          case found of None \<Rightarrow> Inl ValueError | Some w \<Rightarrow> Inr w))"

definition metering_tenant_id :: "platform \<Rightarrow> EventEnvelope \<Rightarrow> uuid option py" where
  "metering_tenant_id pf env =
     (case cc_tenant_id (en_correlation_context env) of
        Some t \<Rightarrow> Inr (Some t)
      | None \<Rightarrow> coerce_uuid pf (dget_none (en_payload env) ''tenant_id''))"

definition metering_timestamp :: "platform \<Rightarrow> billing_env \<Rightarrow> pyval \<Rightarrow> timestamp py" where
  "metering_timestamp pf be v =
     (if v = PNone then Inl ValueError
      else
        let raw = concat (map (\<lambda>c. if c = CHR ''Z'' then ''+00:00'' else [c]) (py_str (pf_runtime pf) v))
        in case be_fromisoformat be raw of None \<Rightarrow> Inl ValueError | Some t \<Rightarrow> Inr t)"

definition first_truthy :: "pydict \<Rightarrow> string \<Rightarrow> string \<Rightarrow> string \<Rightarrow> pyval" where
  "first_truthy p k1 k2 k3 = py_or (py_or (dget_none p k1) (dget_none p k2)) (dget_none p k3)"

section \<open>The metering job\<close>

record MeteringResult =
  mr_event_id :: uuid
  mr_processed :: bool
  mr_minutes :: rat
  mr_overage_minutes :: rat

definition mark_processed :: "uuid \<Rightarrow> bool bop" where
  "mark_processed event_id =
     ebind (eget (\<lambda>b. event_id \<in> set (b_processed b))) (\<lambda>seen.
     if seen then eret False
     else ebind (emod (\<lambda>b. b\<lparr>b_processed := b_processed b @ [event_id]\<rparr>)) (\<lambda>_. eret True))"

text \<open>\<open>one()\<close> raises without a row, and with two.\<close>

definition metering_plan_context :: "Subscription \<Rightarrow> (Plan \<times> PlanVersion) bop" where
  "metering_plan_context s =
     ebind (plan_row s) (\<lambda>rows.
     case rows of
       [] \<Rightarrow> eraise (ExternalError ''NoResultFound'')
     | [row] \<Rightarrow> eret row
     | _ \<Rightarrow> eraise MultipleResultsFound)"

definition provider_subscription_id :: "Subscription \<Rightarrow> string" where
  "provider_subscription_id s =
     text_or (sb_stripe_subscription_id s)
       (''stub_sub_'' @ take 24 (filter (\<lambda>c. c \<noteq> CHR ''-'') (sb_id s)))"

definition report_usage :: "billing_env \<Rightarrow> string \<Rightarrow> rat \<Rightarrow> string \<Rightarrow> unit bop" where
  "report_usage be sid quantity idempotency_key =
     (case be_provider be of
        None \<Rightarrow> eret ()
      | Some report \<Rightarrow>
          (\<lambda>b. case report sid quantity idempotency_key (length (b_reported b)) of
                 None \<Rightarrow> (Inr (), b\<lparr>b_reported := b_reported b @ [(sid, quantity, idempotency_key)]\<rparr>)
               | Some e \<Rightarrow> (Inl e, b)))"

text \<open>The three increments of an event and the report of its overage.\<close>

definition record_usage ::
  "billing_env \<Rightarrow> platform \<Rightarrow> uuid \<Rightarrow> uuid \<Rightarrow> Subscription \<Rightarrow> PlanVersion \<Rightarrow> rat \<Rightarrow> MeteringResult bop" where
  "record_usage be pf event_id workspace_id s version minutes =
     (let increment = (\<lambda>m q over. usage_increment be pf (sb_id s) (sb_current_period_start s) m q over
            workspace_id (sb_current_period_end s) (sb_tenant_id s)) in
      ebind (increment Executions 1 False) (\<lambda>_.
      ebind (increment Minutes minutes False) (\<lambda>post_minutes.
      let overage_minutes = new_overage_minutes (post_minutes - minutes) post_minutes
            (of_int (pv_minutes_per_month version)) (pv_overage_price_per_minute version) in
      ebind (if overage_minutes > 0
             then ebind (increment Minutes overage_minutes True) (\<lambda>_.
                  report_usage be (provider_subscription_id s) overage_minutes event_id)
             else eret ()) (\<lambda>_.
      eret \<lparr>mr_event_id = event_id, mr_processed = True, mr_minutes = minutes,
            mr_overage_minutes = overage_minutes\<rparr>))))"

definition process_event :: "billing_env \<Rightarrow> platform \<Rightarrow> EventEnvelope \<Rightarrow> MeteringResult bop" where
  "process_event be pf env =
     (let event_id = metering_event_id pf be env;
          skipped = \<lparr>mr_event_id = event_id, mr_processed = False, mr_minutes = 0, mr_overage_minutes = 0\<rparr>;
          p = en_payload env in
      if en_event_type env \<noteq> ''execution.compute.end'' then eret skipped
      else
        ebind (mark_processed event_id) (\<lambda>inserted.
        if \<not> inserted then eret skipped
        else
          ebind (elift (metering_workspace_id pf env)) (\<lambda>workspace_id.
          ebind (elift (metering_tenant_id pf env)) (\<lambda>_.
          ebind (resolve_active_subscription workspace_id) (\<lambda>s.
          ebind (metering_plan_context s) (\<lambda>(_, version).
          ebind (elift (metering_timestamp pf be
                   (first_truthy p ''active_started_at'' ''start_ts'' ''started_at''))) (\<lambda>start_ts.
          ebind (elift (metering_timestamp pf be
                   (first_truthy p ''active_ended_at'' ''end_ts'' ''ended_at''))) (\<lambda>end_ts.
          record_usage be pf event_id workspace_id s version (minutes_between start_ts end_ts)))))))))"

text \<open>A rollback of the session: the tables are back, what left the database stays.\<close>

definition rollback_billing :: "billing \<Rightarrow> billing \<Rightarrow> billing" where
  "rollback_billing b b' =
     b'\<lparr>b_workspaces := b_workspaces b, b_tenants := b_tenants b, b_plans := b_plans b,
        b_plan_versions := b_plan_versions b, b_subscriptions := b_subscriptions b, b_usage := b_usage b,
        b_authorizations := b_authorizations b, b_graces := b_graces b, b_webhooks := b_webhooks b,
        b_processed := b_processed b,
        b_agent_profiles := b_agent_profiles b, b_memberships := b_memberships b,
        b_model_catalog := b_model_catalog b, b_audit := b_audit b\<rparr>"

text \<open>The job of a handled event is built without a Redis client.\<close>

definition metering_handle_event :: "billing_env \<Rightarrow> platform \<Rightarrow> EventEnvelope \<Rightarrow> unit bop" where
  "metering_handle_event be pf env =
     (\<lambda>b. case process_event (be\<lparr>be_has_redis := False\<rparr>) pf env b of
            (Inr _, b') \<Rightarrow> (Inr (), b')
          | (Inl e, b') \<Rightarrow> (Inl e, rollback_billing b b'))"

section \<open>Authorizations of overage\<close>

text \<open>Operations on the billing state and the world of the execution engine.\<close>

type_synonym 'a cop = "(billing \<times> world, exn, 'a) eff"

definition in_billing :: "'a bop \<Rightarrow> 'a cop" where
  "in_billing m = (\<lambda>(b, w). case m b of (r, b') \<Rightarrow> (r, (b', w)))"

definition in_world :: "'a op \<Rightarrow> 'a cop" where
  "in_world m = (\<lambda>(b, w). case m w of (r, w') \<Rightarrow> (r, (b, w')))"

definition publish_overage_event :: "platform \<Rightarrow> Subscription \<Rightarrow> string \<Rightarrow> pydict \<Rightarrow> unit op" where
  "publish_overage_event pf s event_type payload =
     (case producer pf of
        None \<Rightarrow> eret ()
      | Some _ \<Rightarrow>
          ebind (fresh_uuid pf) (\<lambda>cid.
          publish pf
            \<lparr>msg_topic = ''billing.lifecycle'', msg_key = sb_tenant_id s, msg_event_type = event_type,
             msg_payload = payload,
             msg_correlation =
               \<lparr>cc_tenant_id = Some (sb_tenant_id s),
                cc_workspace_id = (if sb_scope_type s = ''workspace'' then Some (sb_scope_id s) else None),
                cc_conversation_id = None, cc_interaction_id = None, cc_execution_id = None,
                cc_fleet_id = None, cc_goal_id = None, cc_agent_fqn = PNone, cc_correlation_id = cid\<rparr>,
             msg_source = ''billing.overage''\<rparr>))"

definition get_for_period :: "uuid \<Rightarrow> timestamp \<Rightarrow> OverageAuthorization option bop" where
  "get_for_period workspace_id period_start =
     eget (\<lambda>b. first_of (sort_key (\<lambda>a. - oa_authorized_at a)
       (filter (\<lambda>a. oa_workspace_id a = workspace_id \<and> oa_billing_period_start a = period_start)
         (b_authorizations b))))"

text \<open>The insertion, which a row of the same workspace and period stops, and the revival of a revoked
  row.\<close>

definition authorize_row ::
  "platform \<Rightarrow> Subscription \<Rightarrow> uuid \<Rightarrow> timestamp \<Rightarrow> rat option \<Rightarrow> uuid \<Rightarrow> OverageAuthorization bop" where
  "authorize_row pf s workspace_id period_start max_overage_eur user_id =
     ebind (get_for_period workspace_id period_start) (\<lambda>found.
     case found of
       None \<Rightarrow>
         ebind (\<lambda>b. (Inr (new_uuid pf (b_ids b)), b\<lparr>b_ids := Suc (b_ids b)\<rparr>)) (\<lambda>aid.
         ebind (b_clock (db_clock pf)) (\<lambda>now.
         let a = \<lparr>oa_id = aid, oa_tenant_id = sb_tenant_id s, oa_workspace_id = workspace_id,
                  oa_subscription_id = sb_id s, oa_billing_period_start = period_start,
                  oa_billing_period_end = sb_current_period_end s, oa_authorized_at = now,
                  oa_authorized_by_user_id = user_id, oa_max_overage_eur = max_overage_eur,
                  oa_revoked_at = None, oa_revoked_by_user_id = None\<rparr> in
         ebind (emod (\<lambda>b. b\<lparr>b_authorizations := b_authorizations b @ [a]\<rparr>)) (\<lambda>_. eret a)))
     | Some a \<Rightarrow>
         if oa_revoked_at a = None then eret a
         else
           let a' = a\<lparr>oa_revoked_at := None, oa_revoked_by_user_id := None,
                      oa_max_overage_eur := max_overage_eur\<rparr> in
           ebind (emod (\<lambda>b. b\<lparr>b_authorizations :=
                    update_rows (\<lambda>x. oa_id x = oa_id a) (\<lambda>_. a') (b_authorizations b)\<rparr>)) (\<lambda>_.
           eret a'))"

text \<open>\<open>has_service\<close>: the service was built with an execution service.\<close>

definition authorize ::
  "billing_env \<Rightarrow> platform \<Rightarrow> bool \<Rightarrow> uuid \<Rightarrow> timestamp option \<Rightarrow> rat option \<Rightarrow> uuid \<Rightarrow> OverageAuthorization cop" where
  "authorize be pf has_service workspace_id billing_period_start max_overage_eur user_id =
     ebind (in_billing (resolve_active_subscription workspace_id)) (\<lambda>s.
     let period_start = (case billing_period_start of None \<Rightarrow> sb_current_period_start s | Some t \<Rightarrow> t) in
     ebind (in_billing (authorize_row pf s workspace_id period_start max_overage_eur user_id)) (\<lambda>a.
     ebind (if has_service then in_world (ebind (resume_paused_quota_exceeded pf workspace_id) (\<lambda>_. eret ()))
            else eret ()) (\<lambda>_.
     ebind (in_world (publish_overage_event pf s ''billing.overage.authorized''
              [(PStr ''workspace_id'', PStr workspace_id), (PStr ''authorization_id'', PStr (oa_id a)),
               (PStr ''billing_period_start'', PStr (iso_text pf period_start)),
               (PStr ''max_overage_eur'',
                  case max_overage_eur of None \<Rightarrow> PNone | Some x \<Rightarrow> PStr (be_decimal_text be x)),
               (PStr ''authorized_by_user_id'', PStr user_id)])) (\<lambda>_.
     eret a))))"

definition revoke_row :: "platform \<Rightarrow> uuid \<Rightarrow> uuid \<Rightarrow> OverageAuthorization bop" where
  "revoke_row pf authorization_id user_id =
     ebind (b_clock (clock pf)) (\<lambda>now.
     ebind (emod (\<lambda>b. b\<lparr>b_authorizations := update_rows (\<lambda>a. oa_id a = authorization_id)
              (\<lambda>a. a\<lparr>oa_revoked_at := Some now, oa_revoked_by_user_id := Some user_id\<rparr>)
              (b_authorizations b)\<rparr>)) (\<lambda>_.
     ebind (eget (\<lambda>b. filter (\<lambda>a. oa_id a = authorization_id) (b_authorizations b))) (\<lambda>rows.
     ebind (elift (one_or_none rows)) (\<lambda>found.
     case found of None \<Rightarrow> eraise (NoActiveSubscriptionError authorization_id) | Some a \<Rightarrow> eret a))))"

definition revoke :: "platform \<Rightarrow> uuid \<Rightarrow> uuid \<Rightarrow> OverageAuthorization cop" where
  "revoke pf authorization_id user_id =
     ebind (in_billing (revoke_row pf authorization_id user_id)) (\<lambda>a.
     ebind (in_billing (eget (\<lambda>b. session_get sb_id (oa_subscription_id a) (b_subscriptions b)))) (\<lambda>found.
     ebind (case found of
              None \<Rightarrow> eret ()
            | Some s \<Rightarrow> in_world (publish_overage_event pf s ''billing.overage.revoked''
                [(PStr ''workspace_id'', PStr (oa_workspace_id a)), (PStr ''authorization_id'', PStr (oa_id a)),
                 (PStr ''revoked_by_user_id'', PStr user_id)])) (\<lambda>_.
     eret a)))"

definition is_authorized_for_period :: "uuid \<Rightarrow> timestamp \<Rightarrow> bool bop" where
  "is_authorized_for_period workspace_id period_start =
     ebind (get_for_period workspace_id period_start) (\<lambda>found.
     eret (case found of None \<Rightarrow> False | Some a \<Rightarrow> oa_revoked_at a = None))"

definition current_overage_eur :: "uuid \<Rightarrow> timestamp \<Rightarrow> rat bop" where
  "current_overage_eur subscription_id period_start =
     eget (\<lambda>b. case session_get sb_id subscription_id (b_subscriptions b) of
        None \<Rightarrow> 0
      | Some s \<Rightarrow>
          (case find (\<lambda>v. pv_plan_id v = sb_plan_id s \<and> pv_version v = sb_plan_version s) (b_plan_versions b) of
             None \<Rightarrow> 0
           | Some v \<Rightarrow> recorded_overage subscription_id period_start b * pv_overage_price_per_minute v))"

section \<open>The overage routes\<close>

definition HTTPException :: "int \<Rightarrow> string \<Rightarrow> exn" where
  "HTTPException status_code code = PlatformError code ''HTTPException'' [(''status_code'', PInt status_code)]"

definition require_workspace_member :: "uuid \<Rightarrow> uuid \<Rightarrow> string bop" where
  "require_workspace_member workspace_id user_id =
     ebind (eget (\<lambda>b. find (\<lambda>(w, u, _). w = workspace_id \<and> u = user_id) (b_memberships b))) (\<lambda>found.
     case found of
       None \<Rightarrow> eraise (HTTPException 404 ''workspace_not_found'')
     | Some (_, _, role) \<Rightarrow> eret role)"

definition require_workspace_admin :: "uuid \<Rightarrow> uuid \<Rightarrow> unit bop" where
  "require_workspace_admin workspace_id user_id =
     ebind (require_workspace_member workspace_id user_id) (\<lambda>role.
     eguard (role \<in> {''owner'', ''admin''}) (HTTPException 403 ''not_workspace_admin''))"

definition subscription_context :: "uuid \<Rightarrow> plan_context bop" where
  "subscription_context workspace_id =
     ebind (resolve_active_subscription workspace_id) (\<lambda>s.
     ebind (plan_row s) (\<lambda>rows.
     case rows of
       [] \<Rightarrow> eraise (HTTPException 404 ''billing_plan_not_found'')
     | (p, v) # _ \<Rightarrow> eret \<lparr>pc_subscription = s, pc_plan = p, pc_version = v\<rparr>))"

text \<open>The overage service of the routes is built without an execution service.\<close>

definition authorize_overage ::
  "billing_env \<Rightarrow> platform \<Rightarrow> uuid \<Rightarrow> rat option \<Rightarrow> uuid \<Rightarrow> OverageAuthorization cop" where
  "authorize_overage be pf workspace_id max_overage_eur actor_id =
     ebind (in_billing (require_workspace_admin workspace_id actor_id)) (\<lambda>_.
     authorize be pf False workspace_id None max_overage_eur actor_id)"

definition current_authorization :: "uuid \<Rightarrow> Subscription \<Rightarrow> OverageAuthorization option bop" where
  "current_authorization workspace_id s =
     eget (\<lambda>b. first_of (sort_key (\<lambda>a. - oa_authorized_at a)
       (filter (\<lambda>a. oa_workspace_id a = workspace_id \<and> oa_subscription_id a = sb_id s \<and>
          oa_billing_period_start a = sb_current_period_start s) (b_authorizations b))))"

definition revoke_overage :: "platform \<Rightarrow> uuid \<Rightarrow> uuid \<Rightarrow> unit cop" where
  "revoke_overage pf workspace_id actor_id =
     ebind (in_billing (require_workspace_admin workspace_id actor_id)) (\<lambda>_.
     ebind (in_billing (subscription_context workspace_id)) (\<lambda>c.
     ebind (in_billing (current_authorization workspace_id (pc_subscription c))) (\<lambda>found.
     case found of
       None \<Rightarrow> eret ()
     | Some a \<Rightarrow> ebind (revoke pf (oa_id a) actor_id) (\<lambda>_. eret ()))))"

section \<open>Reconciliation\<close>

text \<open>The rate is the exact quotient; the code rounds it to a float.\<close>

record ReconciliationResult =
  rc_expected_count :: nat
  rc_missing_count :: nat
  rc_mismatch_rate :: rat

definition reconcile :: "uuid list \<Rightarrow> ReconciliationResult bop" where
  "reconcile expected =
     eget (\<lambda>b. if expected = [] then \<lparr>rc_expected_count = 0, rc_missing_count = 0, rc_mismatch_rate = 0\<rparr>
       else
         let processed = filter (\<lambda>i. i \<in> set expected) (b_processed b);
             missing = filter (\<lambda>i. i \<notin> set processed) expected
         in \<lparr>rc_expected_count = length expected, rc_missing_count = length missing,
             rc_mismatch_rate = of_nat (length missing) / of_nat (length expected)\<rparr>)"

definition run_billing_reconciliation :: "ReconciliationResult bop" where
  "run_billing_reconciliation = reconcile []"

end
