(* ===== verification/Billing_Samples.thy ===== *)
theory Billing_Samples
  imports Billing_Metering Execution_Samples
begin

text \<open>
  A small concrete billing state the witnesses run on: a workspace with a plan of one included minute at a
  price of a tenth per minute of overage, and the end of a computation of ninety seconds.
\<close>

definition sample_subscription :: Subscription where
  "sample_subscription =
     \<lparr>sb_id = ''sub'', sb_tenant_id = ''tenant'', sb_scope_type = ''workspace'', sb_scope_id = ''ws'',
      sb_plan_id = ''pro'', sb_plan_version = 1, sb_status = ''active'', sb_started_at = 0,
      sb_current_period_start = 0, sb_current_period_end = 30, sb_cancel_at_period_end = False,
      sb_payment_method_id = None, sb_stripe_customer_id = None, sb_stripe_subscription_id = None,
      sb_created_by_user_id = None, sb_created_at = 0\<rparr>"

definition sample_plan :: Plan where
  "sample_plan =
     \<lparr>pl_id = ''pro'', pl_slug = ''pro'', pl_display_name = ''Pro'', pl_description = None, pl_tier = ''pro'',
      pl_is_public = True, pl_is_active = True, pl_allowed_model_tier = ''standard'', pl_created_at = 0\<rparr>"

definition sample_plan_version :: PlanVersion where
  "sample_plan_version =
     \<lparr>pv_plan_id = ''pro'', pv_version = 1, pv_price_monthly = 49, pv_executions_per_day = 0, pv_executions_per_month = 0,
      pv_minutes_per_day = 0, pv_minutes_per_month = 1, pv_max_workspaces = 0,
      pv_max_agents_per_workspace = 0, pv_max_users_per_workspace = 0,
      pv_overage_price_per_minute = 1 / 10, pv_trial_days = 0, pv_quota_period_anchor = ''calendar_month'',
      pv_extras_json = [], pv_published_at = Some 0, pv_deprecated_at = None, pv_created_at = 0,
      pv_created_by = None\<rparr>"

definition sample_billing :: billing where
  "sample_billing =
     \<lparr>b_workspaces = [\<lparr>ws_id = ''ws'', ws_tenant_id = ''tenant'', ws_owner_id = ''owner'',
        ws_status = ''active'', ws_created_at = 0\<rparr>],
      b_tenants = [\<lparr>tn_id = ''tenant'', tn_kind = ''default''\<rparr>], b_plans = [sample_plan],
      b_plan_versions = [sample_plan_version], b_subscriptions = [sample_subscription], b_usage = [],
      b_authorizations = [], b_graces = [], b_webhooks = [], b_processed = [], b_agent_profiles = [],
      b_memberships = [(''ws'', ''owner'', ''owner'')], b_model_catalog = [], b_redis = [], b_cache = [],
      b_reported = [], b_invalidations = [], b_provider_calls = [], b_audit = [], b_ids = 0, b_reads = 0\<rparr>"

definition sample_billing_env :: billing_env where
  "sample_billing_env =
     \<lparr>be_has_redis = True, be_ttl_seconds = 60, be_provider = Some (\<lambda>_ _ _ _. None), be_float = Fin,
      be_fromisoformat = (\<lambda>t. if t = ''begin'' then Some 0 else Some (90 * second)),
      be_uuid5 = id, be_decimal_text = (\<lambda>_. ''1'')\<rparr>"

definition compute_end :: "uuid \<Rightarrow> EventEnvelope" where
  "compute_end eid =
     \<lparr>en_event_type = ''execution.compute.end'', en_version = ''1.0'', en_source = ''runtime'',
      en_correlation_context = \<lparr>cc_tenant_id = None, cc_workspace_id = Some ''ws'', cc_conversation_id = None,
        cc_interaction_id = None, cc_execution_id = None, cc_fleet_id = None, cc_goal_id = None,
        cc_agent_fqn = PNone, cc_correlation_id = ''c''\<rparr>,
      en_trace_context = [], en_occurred_at = 0,
      en_payload = [(PStr ''event_id'', PStr eid), (PStr ''start_ts'', PStr ''begin''),
        (PStr ''end_ts'', PStr ''done'')]\<rparr>"

end
