(* ===== verification/Billing_Metering_Props.thy ===== *)
theory Billing_Metering_Props
  imports Billing_Samples
begin

text \<open>
  What metering records. The locale \<open>usage_ledger\<close> is the interface of the table of usage: sums over
  any set of aggregates, and an upsert that adds to one of them. On it rests the invariant of the metering
  job: the recorded overage of every workspace is what exceeds the included minutes, and the payment
  provider is told exactly that.
\<close>

section \<open>Amounts with four decimals\<close>

definition four_decimals :: "rat \<Rightarrow> bool" where
  "four_decimals x \<longleftrightarrow> x * 10000 \<in> \<int>"

definition billable :: "rat \<Rightarrow> rat \<Rightarrow> rat \<Rightarrow> rat" where
  "billable included_limit overage_price amount =
     (if included_limit \<le> 0 \<or> overage_price \<le> 0 then 0 else max (amount - included_limit) 0)"

lemma four_decimals_arith:
  "four_decimals 0" "four_decimals 1" "four_decimals (of_int i)"
  "four_decimals x \<Longrightarrow> four_decimals y \<Longrightarrow> four_decimals (x + y)"
  "four_decimals x \<Longrightarrow> four_decimals y \<Longrightarrow> four_decimals (x - y)"
  by (simp_all add: four_decimals_def distrib_right left_diff_distrib)

lemma four_decimals_max: "four_decimals x \<Longrightarrow> four_decimals y \<Longrightarrow> four_decimals (max x y)"
  by (simp add: max_def)

lemma four_decimals_billable:
  "four_decimals l \<Longrightarrow> four_decimals x \<Longrightarrow> four_decimals (billable l p x)"
  by (simp add: billable_def four_decimals_arith four_decimals_max)

lemma four_decimals_quantize4: "four_decimals (quantize4 x)"
  by (simp add: four_decimals_def quantize4_def)

lemma quantize4_exact: "four_decimals x \<Longrightarrow> quantize4 x = x"
proof -
  assume "four_decimals x"
  then obtain k where k: "x * 10000 = of_int k"
    by (auto simp: four_decimals_def Ints_def)
  have "\<lfloor>of_int k + 1 / 2 :: rat\<rfloor> = k" by linarith
  then show ?thesis using k by (simp add: quantize4_def field_simps)
qed

lemma quantize4_nonneg: "0 \<le> x \<Longrightarrow> 0 \<le> quantize4 x"
  by (simp add: quantize4_def)

lemma minutes_between_amount:
  "0 \<le> minutes_between s e" "four_decimals (minutes_between s e)"
  by (simp_all add: minutes_between_def quantize4_nonneg four_decimals_quantize4)

lemma minutes_between_error: "\<bar>minutes_between s e - of_int (max (e - s) 0) / 60000000\<bar> \<le> 1 / 20000"
proof -
  define x :: rat where "x = of_int (max (e - s) 0) / 1000000 / 60"
  have "of_int \<lfloor>x * 10000 + 1 / 2\<rfloor> \<le> x * 10000 + 1 / 2" "x * 10000 + 1 / 2 < of_int \<lfloor>x * 10000 + 1 / 2\<rfloor> + 1"
    by linarith+
  then show ?thesis
    unfolding minutes_between_def quantize4_def x_def [symmetric]
    by (simp add: x_def abs_le_iff field_simps)
qed

text \<open>The new overage of an event is the growth of what exceeds the limit, not rounded.\<close>

lemma new_overage_minutes_growth:
  assumes "previous \<le> current" and "four_decimals previous" and "four_decimals current"
    and "four_decimals included_limit"
  shows "new_overage_minutes previous current included_limit price =
    billable included_limit price current - billable included_limit price previous"
proof -
  have "max (max (current - included_limit) 0 - max (previous - included_limit) 0) 0 =
      max (current - included_limit) 0 - max (previous - included_limit) 0"
    using assms(1) by (simp add: max_def)
  then show ?thesis
    using assms by (simp add: new_overage_minutes_def billable_def quantize4_exact
        four_decimals_arith four_decimals_max Let_def)
qed

lemma billable_mono: "x \<le> y \<Longrightarrow> billable l p x \<le> billable l p y"
  by (auto simp: billable_def max_def)

section \<open>The ledger\<close>

locale usage_ledger =
  fixes key :: "'r \<Rightarrow> 'k" and quantity :: "'r \<Rightarrow> rat" and sum_of :: "('k \<Rightarrow> bool) \<Rightarrow> 'l \<Rightarrow> rat"
    and add :: "'r \<Rightarrow> 'l \<Rightarrow> 'l \<times> rat" and ok :: "'l \<Rightarrow> bool"
  assumes add_ok: "ok l \<Longrightarrow> ok (fst (add r l))"
    and sum_add: "ok l \<Longrightarrow> sum_of P (fst (add r l)) = sum_of P l + (if P (key r) then quantity r else 0)"
    and add_returns: "ok l \<Longrightarrow> snd (add r l) = sum_of (\<lambda>k. k = key r) l + quantity r"
begin

abbreviation balance :: "'k \<Rightarrow> 'l \<Rightarrow> rat" where
  "balance k l \<equiv> sum_of (\<lambda>x. x = k) l"

lemma balance_add: "ok l \<Longrightarrow> balance k (fst (add r l)) = balance k l + (if key r = k then quantity r else 0)"
  by (simp add: sum_add)

lemma balance_returned: "ok l \<Longrightarrow> snd (add r l) = balance (key r) (fst (add r l))"
  by (simp add: add_returns balance_add)

text \<open>A counter, and a second one that follows what the first has above a limit.\<close>

lemma overage_follows:
  assumes "ok l" and "key r = k" and "key r' = k'" and "k \<noteq> k'"
    and "balance k' l = billable limit price (balance k l)"
    and "quantity r' = billable limit price (balance k l + quantity r) - billable limit price (balance k l)"
  shows "balance k' (fst (add r' (fst (add r l)))) =
    billable limit price (balance k (fst (add r' (fst (add r l)))))"
  using assms by (auto simp: balance_add add_ok)

lemma sum_zero: "ok l \<Longrightarrow> quantity r = 0 \<Longrightarrow> sum_of P (fst (add r l)) = sum_of P l"
  by (simp add: sum_add)

end

type_synonym aggregate = "uuid \<times> uuid \<times> uuid \<times> metric \<times> timestamp \<times> bool"

definition aggregate_key :: "UsageRecord \<Rightarrow> aggregate" where
  "aggregate_key r = (ur_tenant_id r, ur_workspace_id r, ur_subscription_id r, ur_metric r,
     ur_period_start r, ur_is_overage r)"

definition usage_sum :: "(aggregate \<Rightarrow> bool) \<Rightarrow> UsageRecord list \<Rightarrow> rat" where
  "usage_sum P rows = sum_list (map ur_quantity (filter (\<lambda>r. P (aggregate_key r)) rows))"

definition rows_unique :: "UsageRecord list \<Rightarrow> bool" where
  "rows_unique rows \<longleftrightarrow> distinct (map aggregate_key rows)"

lemma same_aggregate_key: "same_aggregate r x \<longleftrightarrow> aggregate_key x = aggregate_key r"
  by (auto simp: same_aggregate_def aggregate_key_def)

lemma usage_sum_simps [simp]:
  "usage_sum P [] = 0"
  "usage_sum P (r # rows) = (if P (aggregate_key r) then ur_quantity r else 0) + usage_sum P rows"
  "usage_sum P (rows @ rows') = usage_sum P rows + usage_sum P rows'"
  by (simp_all add: usage_sum_def)

lemma usage_sum_absent: "k \<notin> aggregate_key ` set rows \<Longrightarrow> usage_sum (\<lambda>x. x = k) rows = 0"
  by (induction rows) auto

lemma usage_sum_single:
  "rows_unique rows \<Longrightarrow> find (same_aggregate r) rows = Some old \<Longrightarrow>
   usage_sum (\<lambda>k. k = aggregate_key r) rows = ur_quantity old"
  by (induction rows) (auto simp: rows_unique_def same_aggregate_key usage_sum_absent split: if_splits)

lemma usage_sum_bump:
  assumes "rows_unique rows" and "aggregate_key r \<in> aggregate_key ` set rows"
  shows "usage_sum P (map (\<lambda>x. if same_aggregate r x
      then x\<lparr>ur_quantity := ur_quantity x + q, ur_period_end := t\<rparr> else x) rows) =
    usage_sum P rows + (if P (aggregate_key r) then q else 0)"
  using assms unfolding same_aggregate_key
proof (induction rows)
  case (Cons x rows)
  have key: "aggregate_key (x\<lparr>ur_quantity := a, ur_period_end := t\<rparr>) = aggregate_key x" for x a
    by (simp add: aggregate_key_def)
  have other: "map (\<lambda>x. if aggregate_key x = aggregate_key r
      then x\<lparr>ur_quantity := ur_quantity x + q, ur_period_end := t\<rparr> else x) rows = rows"
    if "aggregate_key r \<notin> aggregate_key ` set rows"
    using that by (intro map_idI) (metis image_eqI)
  show ?case
    using Cons by (cases "aggregate_key x = aggregate_key r")
      (auto simp: rows_unique_def key other)
qed simp

lemma find_SomeD: "find P xs = Some x \<Longrightarrow> x \<in> set xs \<and> P x"
  by (auto simp: find_Some_iff)

lemma upsert_usage_cases:
  "upsert_usage r rows =
    (if aggregate_key r \<in> aggregate_key ` set rows
     then (map (\<lambda>x. if same_aggregate r x
                   then x\<lparr>ur_quantity := ur_quantity x + ur_quantity r, ur_period_end := ur_period_end r\<rparr>
                   else x) rows,
           ur_quantity (the (find (same_aggregate r) rows)) + ur_quantity r)
     else (rows @ [r], ur_quantity r))"
  by (auto simp: upsert_usage_def find_None_iff same_aggregate_key split: option.splits dest: find_SomeD)
     (metis find_SomeD image_eqI same_aggregate_key)

lemma upsert_keys:
  "map aggregate_key (fst (upsert_usage r rows)) =
    (if aggregate_key r \<in> aggregate_key ` set rows then map aggregate_key rows
     else map aggregate_key rows @ [aggregate_key r])"
  by (auto simp: upsert_usage_cases aggregate_key_def)

interpretation ul: usage_ledger aggregate_key ur_quantity usage_sum upsert_usage rows_unique
proof
  fix rows :: "UsageRecord list" and r :: UsageRecord and P
  assume ok: "rows_unique rows"
  then show "rows_unique (fst (upsert_usage r rows))"
    by (simp add: rows_unique_def upsert_keys)
  show "usage_sum P (fst (upsert_usage r rows)) =
      usage_sum P rows + (if P (aggregate_key r) then ur_quantity r else 0)"
    by (simp add: upsert_usage_cases usage_sum_bump [OF ok])
  show "snd (upsert_usage r rows) = usage_sum (\<lambda>k. k = aggregate_key r) rows + ur_quantity r"
  proof (cases "find (same_aggregate r) rows")
    case None
    then have "aggregate_key r \<notin> aggregate_key ` set rows"
      by (auto simp: find_None_iff same_aggregate_key)
    then show ?thesis by (simp add: upsert_usage_cases usage_sum_absent)
  next
    case (Some old)
    then show ?thesis
      by (auto simp: usage_sum_single [OF ok Some] upsert_usage_def)
  qed
qed

section \<open>One event\<close>

definition usage_row :: "Subscription \<Rightarrow> uuid \<Rightarrow> metric \<Rightarrow> rat \<Rightarrow> bool \<Rightarrow> UsageRecord" where
  "usage_row s workspace_id m quantity over =
     \<lparr>ur_tenant_id = sb_tenant_id s, ur_workspace_id = workspace_id, ur_subscription_id = sb_id s,
      ur_metric = m, ur_period_start = sb_current_period_start s, ur_period_end = sb_current_period_end s,
      ur_quantity = quantity, ur_is_overage = over\<rparr>"

text \<open>The aggregate of a workspace in the current period of its subscription.\<close>

definition counter :: "Subscription \<Rightarrow> uuid \<Rightarrow> metric \<Rightarrow> bool \<Rightarrow> aggregate" where
  "counter s workspace_id m over =
     (sb_tenant_id s, workspace_id, sb_id s, m, sb_current_period_start s, over)"

lemma usage_row_simps [simp]:
  "aggregate_key (usage_row s w m q over) = counter s w m over" "ur_quantity (usage_row s w m q over) = q"
  by (simp_all add: usage_row_def aggregate_key_def counter_def)

lemma counter_eq [simp]: "counter s w m o1 = counter s w' m' o2 \<longleftrightarrow> w = w' \<and> m = m' \<and> o1 = o2"
  by (auto simp: counter_def)

lemma usage_increment_run:
  assumes "\<not> be_has_redis be" and "s \<in> set (b_subscriptions b)"
  shows "usage_increment be pf (sb_id s) (sb_current_period_start s) m q over w (sb_current_period_end s)
      (sb_tenant_id s) b =
    (let (rows, post) = upsert_usage (usage_row s w m q over) (b_usage b) in (Inr post, b\<lparr>b_usage := rows\<rparr>))"
proof -
  from assms(2) obtain s0 where "session_get sb_id (sb_id s) (b_subscriptions b) = Some s0"
    by (cases "session_get sb_id (sb_id s) (b_subscriptions b)") (auto simp: session_get_def find_None_iff)
  then show ?thesis
    using assms(1) by (simp add: usage_increment_def usage_invalidate_def usage_row_def eff_simps Let_def
        split: prod.splits)
qed

text \<open>The sums after an event, whatever the aggregates summed over.\<close>

definition metered_sums ::
  "Subscription \<Rightarrow> uuid \<Rightarrow> rat \<Rightarrow> rat \<Rightarrow> UsageRecord list \<Rightarrow> UsageRecord list \<Rightarrow> bool" where
  "metered_sums s w minutes over rows rows' \<longleftrightarrow> rows_unique rows' \<and>
     (\<forall>P. usage_sum P rows' = usage_sum P rows + (if P (counter s w Executions False) then 1 else 0) +
        (if P (counter s w Minutes False) then minutes else 0) +
        (if P (counter s w Minutes True) then over else 0))"

definition event_overage :: "Subscription \<Rightarrow> uuid \<Rightarrow> PlanVersion \<Rightarrow> rat \<Rightarrow> UsageRecord list \<Rightarrow> rat" where
  "event_overage s w v minutes rows =
     (let exceeds = billable (of_int (pv_minutes_per_month v)) (pv_overage_price_per_minute v);
          before_event = ul.balance (counter s w Minutes False) rows
      in exceeds (before_event + minutes) - exceeds before_event)"

lemma record_usage_run:
  assumes be: "\<not> be_has_redis be" and s: "s \<in> set (b_subscriptions b)" and ok: "rows_unique (b_usage b)"
    and dec: "four_decimals (ul.balance (counter s w Minutes False) (b_usage b))"
    and m: "0 \<le> m" "four_decimals m"
  obtains (raised) e rows where "record_usage be pf ev w s v m b = (Inl e, b\<lparr>b_usage := rows\<rparr>)"
  | (recorded) r rows reps where
      "record_usage be pf ev w s v m b = (Inr r, b\<lparr>b_usage := rows, b_reported := b_reported b @ reps\<rparr>)"
      "metered_sums s w m (event_overage s w v m (b_usage b)) (b_usage b) rows"
      "be_provider be \<noteq> None \<longrightarrow> sum_list (map (fst \<circ> snd) reps) = event_overage s w v m (b_usage b)"
proof -
  define l1 where "l1 = fst (upsert_usage (usage_row s w Executions 1 False) (b_usage b))"
  define l2 where "l2 = fst (upsert_usage (usage_row s w Minutes m False) l1)"
  define ov where "ov = event_overage s w v m (b_usage b)"
  define l3 where "l3 = fst (upsert_usage (usage_row s w Minutes ov True) l2)"
  have ok': "rows_unique l1" "rows_unique l2" "rows_unique l3"
    unfolding l1_def l2_def l3_def by (intro ul.add_ok ok)+
  have post: "snd (upsert_usage (usage_row s w Minutes m False) l1) =
      ul.balance (counter s w Minutes False) (b_usage b) + m"
    using ul.add_returns [OF ok'(1), of "usage_row s w Minutes m False"] by (simp add: l1_def ul.sum_add ok)
  have ov: "new_overage_minutes (snd (upsert_usage (usage_row s w Minutes m False) l1) - m)
      (snd (upsert_usage (usage_row s w Minutes m False) l1)) (of_int (pv_minutes_per_month v))
      (pv_overage_price_per_minute v) = ov"
    using m dec by (simp add: post new_overage_minutes_growth four_decimals_arith ov_def event_overage_def Let_def)
  have sums: "metered_sums s w m ov (b_usage b) l3"
    using ok' by (simp add: metered_sums_def l3_def l2_def l1_def ul.sum_add ok)
  have ov0: "0 \<le> ov"
    using m(1) by (simp add: ov_def event_overage_def billable_mono Let_def)
  note run = record_usage_def Let_def usage_increment_run [OF be] s eff_simps l1_def [symmetric]
    l2_def [symmetric] l3_def [symmetric] ov prod.case_eq_if
  show thesis
  proof (cases "ov = 0")
    case True
    have "usage_sum P l3 = usage_sum P l2" for P
      unfolding l3_def by (rule ul.sum_zero [OF ok'(2)]) (simp add: True)
    then have "metered_sums s w m ov (b_usage b) l2"
      using sums ok'(2) by (simp add: metered_sums_def)
    then show thesis
      using True by (intro recorded [where rows = l2 and reps = "[]"]) (simp_all add: run ov_def)
  next
    case False
    with ov0 have pos: "0 < ov" by simp
    show thesis
    proof (cases "be_provider be")
      case None
      show thesis
        using sums pos None by (intro recorded [where rows = l3 and reps = "[]"])
          (simp_all add: run report_usage_def ov_def [symmetric])
    next
      case (Some report)
      show thesis
      proof (cases "report (provider_subscription_id s) ov ev (length (b_reported b))")
        case None
        show thesis
          using sums pos Some None
          by (intro recorded [where rows = l3 and reps = "[(provider_subscription_id s, ov, ev)]"])
            (simp_all add: run report_usage_def ov_def [symmetric])
      next
        case (Some e)
        show thesis
          using pos Some \<open>be_provider be = Some report\<close>
          by (intro raised [where rows = l3 and e = e]) (simp add: run report_usage_def)
      qed
    qed
  qed
qed

lemma resolve_active_subscription_state: "snd (resolve_active_subscription w b) = b"
  by (simp add: resolve_active_subscription_def Let_def split: option.splits)

lemma newest_subscription_in: "newest_subscription rows = Some s \<Longrightarrow> s \<in> set rows"
proof -
  assume found: "newest_subscription rows = Some s"
  define ss where "ss = sort_key (\<lambda>s. (sb_created_at s, sb_id s)) rows"
  have "set ss = set rows" by (simp add: ss_def)
  with found show ?thesis
    unfolding newest_subscription_def ss_def [symmetric] using last_in_set [of ss] by (cases ss) auto
qed

lemma resolve_active_subscription_found:
  "resolve_active_subscription w b = (Inr s, b') \<Longrightarrow>
   s \<in> set (b_subscriptions b) \<and> sb_status s \<in> set ACTIVE_SUBSCRIPTION_STATUSES \<and> b' = b"
  by (auto simp: resolve_active_subscription_def Let_def split: option.splits dest!: newest_subscription_in)

text \<open>Neither lookup sees the table of processed events.\<close>

lemma lookups_ignore_processed:
  "resolve_active_subscription w (b\<lparr>b_processed := x\<rparr>) =
     (fst (resolve_active_subscription w b), b\<lparr>b_processed := x\<rparr>)"
  "metering_plan_context s (b\<lparr>b_processed := x\<rparr>) = (fst (metering_plan_context s b), b\<lparr>b_processed := x\<rparr>)"
  by (simp_all add: resolve_active_subscription_def metering_plan_context_def plan_row_def eff_simps Let_def
      split: option.splits list.splits)

lemma metering_plan_context_state: "snd (metering_plan_context s b) = b"
  by (simp add: metering_plan_context_def plan_row_def eff_simps split: list.splits)

lemma rollback_billing_same [simp]: "rollback_billing b (b\<lparr>b_processed := x, b_usage := y\<rparr>) = b"
  "rollback_billing b (b\<lparr>b_processed := x\<rparr>) = b"
  by (simp_all add: rollback_billing_def)

lemma process_event_cases:
  obtains (skipped) r where "process_event be pf env b = (Inr r, b)" "mr_processed r = False"
      "en_event_type env \<noteq> ''execution.compute.end'' \<or> metering_event_id pf be env \<in> set (b_processed b)"
  | (raised) e where "process_event be pf env b = (Inl e, b\<lparr>b_processed := b_processed b @ [metering_event_id pf be env]\<rparr>)"
  | (recording) w s p v m where
      "process_event be pf env b = record_usage be pf (metering_event_id pf be env) w s v m
         (b\<lparr>b_processed := b_processed b @ [metering_event_id pf be env]\<rparr>)"
      "metering_event_id pf be env \<notin> set (b_processed b)"
      "s \<in> set (b_subscriptions b)" "metering_plan_context s b = (Inr (p, v), b)"
      "0 \<le> m" "four_decimals m"
proof -
  let ?id = "metering_event_id pf be env"
  let ?b = "b\<lparr>b_processed := b_processed b @ [?id]\<rparr>"
  show thesis
  proof (cases "en_event_type env \<noteq> ''execution.compute.end'' \<or> ?id \<in> set (b_processed b)")
    case True
    then show thesis
      by (intro skipped) (auto simp: process_event_def mark_processed_def eff_simps Let_def)
  next
    case False
    then have run: "process_event be pf env b = (ebind (elift (metering_workspace_id pf env)) (\<lambda>w.
          ebind (elift (metering_tenant_id pf env)) (\<lambda>_.
          ebind (resolve_active_subscription w) (\<lambda>s.
          ebind (metering_plan_context s) (\<lambda>(_, v).
          ebind (elift (metering_timestamp pf be
                   (first_truthy (en_payload env) ''active_started_at'' ''start_ts'' ''started_at''))) (\<lambda>t.
          ebind (elift (metering_timestamp pf be
                   (first_truthy (en_payload env) ''active_ended_at'' ''end_ts'' ''ended_at''))) (\<lambda>t'.
          record_usage be pf ?id w s v (minutes_between t t')))))))) ?b"
      by (simp add: process_event_def mark_processed_def eff_simps Let_def)
    show thesis
    proof (cases "\<exists>e. process_event be pf env b = (Inl e, ?b)")
      case True
      then show thesis using raised by blast
    next
      case no_raise: False
      then obtain w s pv t t' where wsp: "resolve_active_subscription w ?b = (Inr s, ?b)"
          "metering_plan_context s ?b = (Inr pv, ?b)"
          "process_event be pf env b = record_usage be pf ?id w s (snd pv) (minutes_between t t') ?b"
        unfolding run by (auto simp: eff_simps lookups_ignore_processed split: sum.splits prod.splits)
      have "metering_plan_context s b = (Inr (fst pv, snd pv), b)"
        using wsp(2) by (intro prod_eqI) (simp_all add: lookups_ignore_processed metering_plan_context_state)
      then show thesis
        using False wsp(3) resolve_active_subscription_found [OF wsp(1)]
        by (intro recording [of w s "snd pv" "minutes_between t t'" "fst pv"])
          (auto simp: minutes_between_amount)
    qed
  qed
qed

section \<open>The metering job\<close>

text \<open>The state between two events.\<close>

definition is_executions :: "aggregate \<Rightarrow> bool" where
  "is_executions k \<longleftrightarrow> fst (snd (snd (snd k))) = Executions"

definition is_over :: "aggregate \<Rightarrow> bool" where
  "is_over k \<longleftrightarrow> snd (snd (snd (snd (snd k))))"

lemma counter_kinds [simp]:
  "is_executions (counter s w m over) \<longleftrightarrow> m = Executions" "is_over (counter s w m over) \<longleftrightarrow> over"
  by (simp_all add: is_executions_def is_over_def counter_def)

definition reported_sum :: "billing \<Rightarrow> rat" where
  "reported_sum b = sum_list (map (fst \<circ> snd) (b_reported b))"

definition metering_ok :: "billing_env \<Rightarrow> billing \<Rightarrow> bool" where
  "metering_ok be b \<longleftrightarrow>
     rows_unique (b_usage b) \<and> distinct (map sb_id (b_subscriptions b)) \<and> distinct (b_processed b) \<and>
     (\<forall>k. four_decimals (ul.balance k (b_usage b))) \<and>
     usage_sum is_executions (b_usage b) = of_nat (length (b_processed b)) \<and>
     (be_provider be \<noteq> None \<longrightarrow> reported_sum b = usage_sum is_over (b_usage b)) \<and>
     (\<forall>s p v w. s \<in> set (b_subscriptions b) \<longrightarrow> metering_plan_context s b = (Inr (p, v), b) \<longrightarrow>
        ul.balance (counter s w Minutes True) (b_usage b) =
        billable (of_int (pv_minutes_per_month v)) (pv_overage_price_per_minute v)
          (ul.balance (counter s w Minutes False) (b_usage b)))"

lemma metering_ok_decimals: "metering_ok be b \<Longrightarrow> four_decimals (ul.balance k (b_usage b))"
  unfolding metering_ok_def by blast

lemma metering_event_id_no_redis:
  "metering_event_id pf (be\<lparr>be_has_redis := x\<rparr>) env = metering_event_id pf be env"
proof -
  have "event_id_text pf (be\<lparr>be_has_redis := x\<rparr>) = event_id_text pf be"
    by (simp add: fun_eq_iff event_id_text_def Let_def split: option.splits)
  then show ?thesis by (simp only: metering_event_id_def)
qed

lemma metering_handle_event_cases:
  assumes ok: "metering_ok be b"
  obtains (unchanged) r where "metering_handle_event be pf env b = (r, b)"
      "r = Inr () \<longrightarrow> en_event_type env \<noteq> ''execution.compute.end'' \<or>
        metering_event_id pf be env \<in> set (b_processed b)"
  | (recorded) w s p v m rows reps where
      "metering_handle_event be pf env b = (Inr (), b\<lparr>b_processed := b_processed b @ [metering_event_id pf be env],
         b_usage := rows, b_reported := b_reported b @ reps\<rparr>)"
      "metering_event_id pf be env \<notin> set (b_processed b)"
      "s \<in> set (b_subscriptions b)" "metering_plan_context s b = (Inr (p, v), b)" "four_decimals m" "0 \<le> m"
      "metered_sums s w m (event_overage s w v m (b_usage b)) (b_usage b) rows"
      "be_provider be \<noteq> None \<longrightarrow> sum_list (map (fst \<circ> snd) reps) = event_overage s w v m (b_usage b)"
proof -
  let ?be = "be\<lparr>be_has_redis := False\<rparr>" and ?id = "metering_event_id pf be env"
  note id = metering_event_id_no_redis
  show thesis
  proof (cases rule: process_event_cases [of ?be pf env b])
    case (skipped r)
    then show thesis by (intro unchanged) (auto simp: metering_handle_event_def id)
  next
    case (raised e)
    then show thesis by (intro unchanged) (auto simp: metering_handle_event_def id)
  next
    case (recording w s p v m)
    let ?b = "b\<lparr>b_processed := b_processed b @ [?id]\<rparr>"
    have prems: "\<not> be_has_redis ?be" "s \<in> set (b_subscriptions ?b)" "rows_unique (b_usage ?b)"
      "four_decimals (ul.balance (counter s w Minutes False) (b_usage ?b))"
      using recording metering_ok_decimals [OF ok] ok by (simp_all, simp add: metering_ok_def)
    show thesis
      using prems recording(5,6)
    proof (cases rule: record_usage_run [where v = v and pf = pf and ev = ?id and w = w and m = m])
      case (raised e rows)
      then show thesis
        using recording(1) by (intro unchanged) (auto simp: metering_handle_event_def id)
    next
      case (recorded r rows reps)
      then show thesis
        using recording by (intro that(2)) (auto simp: metering_handle_event_def id)
    qed
  qed
qed

lemma metered_sumsD:
  "metered_sums s w m over rows rows' \<Longrightarrow> rows_unique rows'"
  "metered_sums s w m over rows rows' \<Longrightarrow>
   usage_sum P rows' = usage_sum P rows + (if P (counter s w Executions False) then 1 else 0) +
     (if P (counter s w Minutes False) then m else 0) + (if P (counter s w Minutes True) then over else 0)"
  by (auto simp: metered_sums_def)

lemma plan_context_ignores:
  "metering_plan_context s (b\<lparr>b_processed := x, b_usage := y, b_reported := z\<rparr>) =
    (fst (metering_plan_context s b), b\<lparr>b_processed := x, b_usage := y, b_reported := z\<rparr>)"
  by (simp add: metering_plan_context_def plan_row_def eff_simps split: list.splits)

lemma counter_of_row:
  "distinct (map sb_id subs) \<Longrightarrow> s \<in> set subs \<Longrightarrow> s' \<in> set subs \<Longrightarrow>
   counter s' w' m' o' = counter s w m over \<Longrightarrow> s' = s"
  by (auto simp: counter_def distinct_map dest: inj_onD)

text \<open>The recorded overage keeps following the recorded minutes.\<close>

lemma overage_kept:
  assumes ok: "metering_ok be b" and s: "s \<in> set (b_subscriptions b)"
    and pv: "metering_plan_context s b = (Inr (p, v), b)"
    and sums: "metered_sums s w m (event_overage s w v m (b_usage b)) (b_usage b) rows"
    and s': "s' \<in> set (b_subscriptions b)" and pv': "metering_plan_context s' b = (Inr (p', v'), b)"
  shows "ul.balance (counter s' w' Minutes True) rows =
    billable (of_int (pv_minutes_per_month v')) (pv_overage_price_per_minute v')
      (ul.balance (counter s' w' Minutes False) rows)"
proof -
  from ok s' pv' have old: "ul.balance (counter s' w' Minutes True) (b_usage b) =
      billable (of_int (pv_minutes_per_month v')) (pv_overage_price_per_minute v')
        (ul.balance (counter s' w' Minutes False) (b_usage b))"
    by (auto simp: metering_ok_def)
  have ids: "distinct (map sb_id (b_subscriptions b))"
    using ok by (simp add: metering_ok_def)
  show ?thesis
  proof (cases "s' = s \<and> w' = w")
    case True
    with pv pv' have "v' = v" by simp
    with True old show ?thesis
      by (simp add: metered_sumsD(2) [OF sums] event_overage_def Let_def)
  next
    case False
    then have "counter s w k over \<noteq> counter s' w' k' over'" for k over k' over'
      using counter_of_row [OF ids s s'] by (metis counter_eq)
    with old show ?thesis by (simp add: metered_sumsD(2) [OF sums])
  qed
qed

lemma metering_handle_event_keeps:
  assumes ok: "metering_ok be b"
  shows "metering_ok be (snd (metering_handle_event be pf env b))"
  using ok
proof (cases rule: metering_handle_event_cases [where pf = pf and env = env])
  case (unchanged r)
  with ok show ?thesis by simp
next
  case (recorded w s p v m rows reps)
  note sums = metered_sumsD(2) [OF recorded(7)]
  have four: "four_decimals (event_overage s w v m (b_usage b))"
    using metering_ok_decimals [OF ok] recorded(5)
    by (simp add: event_overage_def Let_def four_decimals_arith four_decimals_billable)
  show ?thesis
    unfolding recorded(1) snd_conv metering_ok_def
  proof (intro conjI allI impI)
    show "four_decimals (ul.balance k (b_usage (b\<lparr>b_processed := b_processed b @ [metering_event_id pf be env],
        b_usage := rows, b_reported := b_reported b @ reps\<rparr>)))" for k
      using metering_ok_decimals [OF ok] four recorded(5) by (simp add: sums four_decimals_arith)
  next
    fix s' p' v' w'
    assume "s' \<in> set (b_subscriptions (b\<lparr>b_processed := b_processed b @ [metering_event_id pf be env],
        b_usage := rows, b_reported := b_reported b @ reps\<rparr>))"
      and pv': "metering_plan_context s' (b\<lparr>b_processed := b_processed b @ [metering_event_id pf be env],
        b_usage := rows, b_reported := b_reported b @ reps\<rparr>) = (Inr (p', v'),
        b\<lparr>b_processed := b_processed b @ [metering_event_id pf be env], b_usage := rows,
        b_reported := b_reported b @ reps\<rparr>)"
    moreover from pv' have "metering_plan_context s' b = (Inr (p', v'), b)"
      by (intro prod_eqI) (simp_all add: plan_context_ignores metering_plan_context_state)
    ultimately show "ul.balance (counter s' w' Minutes True) (b_usage (b\<lparr>b_processed := b_processed b @
          [metering_event_id pf be env], b_usage := rows, b_reported := b_reported b @ reps\<rparr>)) =
        billable (of_int (pv_minutes_per_month v')) (pv_overage_price_per_minute v')
          (ul.balance (counter s' w' Minutes False) (b_usage (b\<lparr>b_processed := b_processed b @
            [metering_event_id pf be env], b_usage := rows, b_reported := b_reported b @ reps\<rparr>)))"
      using overage_kept [OF ok recorded(3,4,7)] by simp
  qed (use ok recorded in \<open>auto simp: metering_ok_def sums reported_sum_def metered_sumsD(1)\<close>)
qed

definition meter_all :: "billing_env \<Rightarrow> platform \<Rightarrow> EventEnvelope list \<Rightarrow> billing \<Rightarrow> billing" where
  "meter_all be pf envs b = foldl (\<lambda>b env. snd (metering_handle_event be pf env b)) b envs"

lemma meter_all_keeps: "metering_ok be b \<Longrightarrow> metering_ok be (meter_all be pf envs b)"
  by (induction envs arbitrary: b) (simp_all add: meter_all_def metering_handle_event_keeps)

lemma metering_handle_event_tables:
  assumes "metering_ok be b" and "metering_handle_event be pf env b = (r, b')"
  shows "set (b_processed b) \<subseteq> set (b_processed b') \<and> b_subscriptions b' = b_subscriptions b \<and>
    fst (metering_plan_context s b') = fst (metering_plan_context s b) \<and> b_redis b' = b_redis b \<and>
    b_cache b' = b_cache b \<and> b_reads b' = b_reads b"
  using assms(1)
  by (cases rule: metering_handle_event_cases [where pf = pf and env = env])
    (use assms(2) in \<open>auto simp: plan_context_ignores\<close>)

text \<open>An event that was processed is skipped.\<close>

lemma metering_seen:
  "metering_event_id pf be env \<in> set (b_processed b) \<Longrightarrow> metering_handle_event be pf env b = (Inr (), b)"
  by (simp add: metering_handle_event_def process_event_def metering_event_id_no_redis mark_processed_def
      eff_simps Let_def)

lemma meter_all_tables:
  "metering_ok be b \<Longrightarrow>
   set (b_processed b) \<subseteq> set (b_processed (meter_all be pf envs b)) \<and>
   b_subscriptions (meter_all be pf envs b) = b_subscriptions b \<and>
   fst (metering_plan_context s (meter_all be pf envs b)) = fst (metering_plan_context s b) \<and>
   b_redis (meter_all be pf envs b) = b_redis b \<and> b_cache (meter_all be pf envs b) = b_cache b \<and>
   b_reads (meter_all be pf envs b) = b_reads b"
proof (induction envs arbitrary: b)
  case Nil
  show ?case by (simp add: meter_all_def)
next
  case (Cons env envs)
  obtain r b1 where run: "metering_handle_event be pf env b = (r, b1)" by fastforce
  have "metering_ok be b1"
    using metering_handle_event_keeps [OF Cons.prems, of pf env] by (simp add: run)
  from Cons.IH [OF this] metering_handle_event_tables [OF Cons.prems run, of s]
  show ?case by (auto simp: meter_all_def run)
qed

section \<open>Properties\<close>

lemma metering_ok_start:
  "b_usage b = [] \<Longrightarrow> b_processed b = [] \<Longrightarrow> b_reported b = [] \<Longrightarrow> distinct (map sb_id (b_subscriptions b)) \<Longrightarrow>
   metering_ok be b"
  by (simp add: metering_ok_def rows_unique_def reported_sum_def four_decimals_arith billable_def)


definition sample_events :: "EventEnvelope list" where
  "sample_events = [compute_end ''e1'', compute_end ''e1'', compute_end ''e2'']"

lemma sample_metered:
  "b_usage (meter_all sample_billing_env sample_platform sample_events sample_billing) =
    [usage_row sample_subscription ''ws'' Executions 2 False, usage_row sample_subscription ''ws'' Minutes 3 False,
     usage_row sample_subscription ''ws'' Minutes 2 True]"
  by code_simp


text \<open>C18. An event is metered once: after the consumer has handled the end of a computation, any later
  message with the same event id, whatever was handled in between, is accepted and changes nothing.\<close>

theorem metering_counts_once:
  assumes "metering_ok be b" and "en_event_type env = ''execution.compute.end''"
    and "metering_handle_event be pf env b = (Inr (), b1)"
    and "metering_event_id pf be env' = metering_event_id pf be env"
  shows "metering_handle_event be pf env' (meter_all be pf envs b1) = (Inr (), meter_all be pf envs b1)"
proof -
  let ?b = "meter_all be pf envs b1" and ?be = "be\<lparr>be_has_redis := False\<rparr>"
  have ok1: "metering_ok be b1"
    using metering_handle_event_keeps [OF assms(1), of pf env] assms(3) by simp
  have "metering_event_id pf be env \<in> set (b_processed b1)"
    using assms(1)
  proof (cases rule: metering_handle_event_cases [where pf = pf and env = env])
    case (unchanged r)
    with assms(2,3) show ?thesis by auto
  next
    case (recorded w s p v m rows reps)
    with assms(3) show ?thesis by auto
  qed
  with meter_all_tables [OF ok1, of pf envs] assms(4)
  have "metering_event_id pf be env' \<in> set (b_processed ?b)" by auto
  with meter_all_keeps [OF ok1, of pf envs] show ?thesis
    using metering_seen by blast
qed

theorem metering_counts_once_witness:
  "metering_handle_event sample_billing_env sample_platform (compute_end ''e1'')
     (meter_all sample_billing_env sample_platform [compute_end ''e2'']
       (meter_all sample_billing_env sample_platform [compute_end ''e1''] sample_billing)) =
   (Inr (), meter_all sample_billing_env sample_platform [compute_end ''e2'']
     (meter_all sample_billing_env sample_platform [compute_end ''e1''] sample_billing))"
proof (rule metering_counts_once)
  show "metering_ok sample_billing_env sample_billing"
    by (rule metering_ok_start) (simp_all add: sample_billing_def)
  show "en_event_type (compute_end ''e1'') = ''execution.compute.end''"
    by (simp add: compute_end_def)
  have "fst (metering_handle_event sample_billing_env sample_platform (compute_end ''e1'') sample_billing) = Inr ()"
    by code_simp
  then show "metering_handle_event sample_billing_env sample_platform (compute_end ''e1'') sample_billing =
      (Inr (), meter_all sample_billing_env sample_platform [compute_end ''e1''] sample_billing)"
    by (intro prod_eqI) (simp_all add: meter_all_def)
qed (rule refl)

end
