(* ===== verification/Billing_Plans.thy ===== *)
theory Billing_Plans
  imports Billing_Metering
begin

text \<open>
  billing/plans/repository.py and service.py: plans and their published versions. Operations work on the
  billing state together with the world of the engine, which holds the outbox. The record
  \<open>lifecycle_env\<close> holds what is injected into the billing services: the payment provider and the
  audit chain, either of which may be absent or raise, and whether another transaction holds the lock of
  a plan.
\<close>

section \<open>Equality of Python values\<close>

text \<open>Numbers by value, sequences element by element, dictionaries whatever their order.\<close>

function py_eq :: "pyval \<Rightarrow> pyval \<Rightarrow> bool" where
  "py_eq x y =
     (case (x, y) of
        (PNone, PNone) \<Rightarrow> True
      | (PStr a, PStr b) \<Rightarrow> a = b
      | (PFloat PosInf, PFloat PosInf) \<Rightarrow> True
      | (PFloat NegInf, PFloat NegInf) \<Rightarrow> True
      | (PList xs, PList ys) \<Rightarrow>
          length xs = length ys \<and> (\<forall>(a, b) \<in> set (zip xs ys). py_eq a b)
      | (PDict d, PDict e) \<Rightarrow>
          length d = length e \<and> (\<forall>(k, v) \<in> set d. \<exists>(k', v') \<in> set e. key_eq k k' \<and> py_eq v v')
      | _ \<Rightarrow> (case (num_of x, num_of y) of (Some a, Some b) \<Rightarrow> a = b | _ \<Rightarrow> False))"
  by auto
termination
  by (relation "measure (\<lambda>(x, _). size x)")
    (force simp: less_Suc_eq_le dest: set_zip_leftD intro!: size_list_estimation')+

declare py_eq.simps [simp del]

section \<open>Injected services\<close>

record provider_subscription =
  ps_provider_subscription_id :: string
  ps_current_period_start :: timestamp
  ps_current_period_end :: timestamp

text \<open>The payment provider: each operation sees how many calls were made before it, and may raise.\<close>

record payment_provider =
  create_customer :: "uuid \<Rightarrow> uuid \<Rightarrow> string \<Rightarrow> nat \<Rightarrow> string py"
  attach_payment_method :: "string \<Rightarrow> string \<Rightarrow> nat \<Rightarrow> string py"
  provider_update_subscription :: "string \<Rightarrow> string \<Rightarrow> bool \<Rightarrow> string \<Rightarrow> nat \<Rightarrow> provider_subscription py"
  provider_cancel_subscription :: "string \<Rightarrow> bool \<Rightarrow> nat \<Rightarrow> unit py"

record lifecycle_env =
  le_provider :: "payment_provider option"
  le_audit :: "(audit_entry \<Rightarrow> nat \<Rightarrow> exn option) option"
  le_plan_locked :: "uuid \<Rightarrow> bool"
  le_has_enforcer :: bool

definition append_audit :: "lifecycle_env \<Rightarrow> string \<Rightarrow> pydict \<Rightarrow> uuid option \<Rightarrow> unit bop" where
  "append_audit le event_type payload tenant_id =
     (case le_audit le of
        None \<Rightarrow> eret ()
      | Some chain \<Rightarrow>
          (let entry = \<lparr>ae_event_type = event_type, ae_payload = payload, ae_tenant_id = tenant_id\<rparr>
           in (\<lambda>b. case chain entry (length (b_audit b)) of
                    None \<Rightarrow> (Inr (), b\<lparr>b_audit := b_audit b @ [entry]\<rparr>)
                  | Some e \<Rightarrow> (Inl e, b))))"

text \<open>A message on the topic \<open>billing.lifecycle\<close>.\<close>

definition publish_lifecycle ::
  "platform \<Rightarrow> string \<Rightarrow> string \<Rightarrow> pydict \<Rightarrow> uuid option \<Rightarrow> uuid option \<Rightarrow> string \<Rightarrow> unit op" where
  "publish_lifecycle pf key event_type payload tenant_id workspace_id source =
     (case producer pf of
        None \<Rightarrow> eret ()
      | Some _ \<Rightarrow>
          ebind (fresh_uuid pf) (\<lambda>cid.
          publish pf
            \<lparr>msg_topic = ''billing.lifecycle'', msg_key = key, msg_event_type = event_type,
             msg_payload = payload,
             msg_correlation =
               \<lparr>cc_tenant_id = tenant_id, cc_workspace_id = workspace_id, cc_conversation_id = None,
                cc_interaction_id = None, cc_execution_id = None, cc_fleet_id = None, cc_goal_id = None,
                cc_agent_fqn = PNone, cc_correlation_id = cid\<rparr>,
             msg_source = source\<rparr>))"

definition b_now :: "platform \<Rightarrow> timestamp bop" where
  "b_now pf = b_clock (clock pf)"

section \<open>Exceptions\<close>

definition PlanNotFoundError :: "string \<Rightarrow> exn" where
  "PlanNotFoundError identifier =
     PlatformError ''BILLING_PLAN_NOT_FOUND'' ''Billing plan not found'' [(''plan'', PStr identifier)]"

definition PlanVersionImmutableError :: "uuid \<Rightarrow> int \<Rightarrow> exn" where
  "PlanVersionImmutableError plan_id version =
     PlatformError ''BILLING_PLAN_VERSION_IMMUTABLE'' ''Published plan versions are immutable''
       [(''plan_id'', PStr plan_id), (''version'', PInt version)]"

definition PlanVersionInProgressError :: "uuid \<Rightarrow> exn" where
  "PlanVersionInProgressError plan_id =
     PlatformError ''BILLING_PLAN_VERSION_IN_PROGRESS'' ''A plan-version publish is already in progress''
       [(''plan_id'', PStr plan_id)]"

section \<open>Requests\<close>

record PlanVersionPublish =
  vp_price_monthly :: rat
  vp_executions_per_day :: int
  vp_executions_per_month :: int
  vp_minutes_per_day :: int
  vp_minutes_per_month :: int
  vp_max_workspaces :: int
  vp_max_agents_per_workspace :: int
  vp_max_users_per_workspace :: int
  vp_overage_price_per_minute :: rat
  vp_trial_days :: int
  vp_quota_period_anchor :: string
  vp_extras_json :: pydict
  vp_created_by :: "uuid option"

definition version_publish_valid :: "PlanVersionPublish \<Rightarrow> bool" where
  "version_publish_valid p \<longleftrightarrow>
     0 \<le> vp_price_monthly p \<and> 0 \<le> vp_executions_per_day p \<and> 0 \<le> vp_executions_per_month p \<and>
     0 \<le> vp_minutes_per_day p \<and> 0 \<le> vp_minutes_per_month p \<and> 0 \<le> vp_max_workspaces p \<and>
     0 \<le> vp_max_agents_per_workspace p \<and> 0 \<le> vp_max_users_per_workspace p \<and>
     0 \<le> vp_overage_price_per_minute p \<and> 0 \<le> vp_trial_days p \<and>
     vp_quota_period_anchor p \<in> {''calendar_month'', ''subscription_anniversary''}"

text \<open>An update of a plan names the fields that were set.\<close>

record PlanUpdate =
  pu_display_name :: "string option"
  pu_description :: "string option"
  pu_is_public :: "bool option"
  pu_is_active :: "bool option"
  pu_allowed_model_tier :: "string option"

section \<open>The repository\<close>

definition get_by_slug :: "string \<Rightarrow> Plan option bop" where
  "get_by_slug slug = eget (\<lambda>b. find (\<lambda>p. pl_slug p = slug) (b_plans b))"

definition list_filtered :: "string option \<Rightarrow> bool option \<Rightarrow> bool option \<Rightarrow> Plan list bop" where
  "list_filtered tier is_active is_public =
     eget (\<lambda>b. sort_key (\<lambda>p. (pl_tier p, pl_slug p)) (filter (\<lambda>p.
       (tier = None \<or> tier = Some (pl_tier p)) \<and> (is_active = None \<or> is_active = Some (pl_is_active p)) \<and>
       (is_public = None \<or> is_public = Some (pl_is_public p))) (b_plans b)))"

definition list_all_plans :: "Plan list bop" where
  "list_all_plans = eget (\<lambda>b. sort_key (\<lambda>p. (pl_tier p, pl_slug p)) (b_plans b))"

definition list_public :: "Plan list bop" where
  "list_public =
     eget (\<lambda>b. sort_key (\<lambda>p. (pl_tier p, pl_slug p)) (filter (\<lambda>p. pl_is_public p \<and> pl_is_active p) (b_plans b)))"

text \<open>A new row has a fresh id; a slug in use violates its unique constraint.\<close>

definition fresh_id :: "platform \<Rightarrow> uuid bop" where
  "fresh_id pf = (\<lambda>b. (Inr (new_uuid pf (b_ids b)), b\<lparr>b_ids := Suc (b_ids b)\<rparr>))"

definition create_plan ::
  "platform \<Rightarrow> string \<Rightarrow> string \<Rightarrow> string option \<Rightarrow> string \<Rightarrow> bool \<Rightarrow> bool \<Rightarrow> string \<Rightarrow> Plan bop" where
  "create_plan pf slug display_name description tier is_public is_active allowed_model_tier =
     ebind (fresh_id pf) (\<lambda>pid.
     ebind (b_clock (db_clock pf)) (\<lambda>t.
     ebind (eget (\<lambda>b. slug \<in> pl_slug ` set (b_plans b))) (\<lambda>taken.
     if taken then eraise IntegrityError
     else
       let p = \<lparr>pl_id = pid, pl_slug = slug, pl_display_name = display_name, pl_description = description,
                pl_tier = tier, pl_is_public = is_public, pl_is_active = is_active,
                pl_allowed_model_tier = allowed_model_tier, pl_created_at = t\<rparr> in
       ebind (emod (\<lambda>b. b\<lparr>b_plans := b_plans b @ [p]\<rparr>)) (\<lambda>_. eret p))))"

definition or_keep :: "'a option \<Rightarrow> 'a \<Rightarrow> 'a" where
  "or_keep v old = (case v of None \<Rightarrow> old | Some x \<Rightarrow> x)"

definition update_plan :: "Plan \<Rightarrow> PlanUpdate \<Rightarrow> Plan bop" where
  "update_plan p u =
     (let p' = p\<lparr>pl_display_name := or_keep (pu_display_name u) (pl_display_name p),
                 pl_description := (case pu_description u of None \<Rightarrow> pl_description p | Some d \<Rightarrow> Some d),
                 pl_is_public := or_keep (pu_is_public u) (pl_is_public p),
                 pl_is_active := or_keep (pu_is_active u) (pl_is_active p),
                 pl_allowed_model_tier := or_keep (pu_allowed_model_tier u) (pl_allowed_model_tier p)\<rparr> in
      ebind (emod (\<lambda>b. b\<lparr>b_plans := update_rows (\<lambda>x. pl_id x = pl_id p) (\<lambda>_. p') (b_plans b)\<rparr>)) (\<lambda>_.
      eret p'))"

text \<open>The published version with the greatest number that is not deprecated.\<close>

definition published_versions :: "uuid \<Rightarrow> billing \<Rightarrow> PlanVersion list" where
  "published_versions plan_id b =
     filter (\<lambda>v. pv_plan_id v = plan_id \<and> pv_published_at v \<noteq> None \<and> pv_deprecated_at v = None) (b_plan_versions b)"

definition get_published_version :: "uuid \<Rightarrow> PlanVersion option bop" where
  "get_published_version plan_id =
     eget (\<lambda>b. first_of (sort_key (\<lambda>v. - pv_version v) (published_versions plan_id b)))"

definition plan_versions_of :: "uuid \<Rightarrow> PlanVersion list bop" where
  "plan_versions_of plan_id =
     eget (\<lambda>b. sort_key (\<lambda>v. - pv_version v) (filter (\<lambda>v. pv_plan_id v = plan_id) (b_plan_versions b)))"

definition same_version :: "uuid \<Rightarrow> int \<Rightarrow> PlanVersion \<Rightarrow> bool" where
  "same_version plan_id version v \<longleftrightarrow> pv_plan_id v = plan_id \<and> pv_version v = version"

definition new_plan_version ::
  "uuid \<Rightarrow> int \<Rightarrow> PlanVersionPublish \<Rightarrow> timestamp \<Rightarrow> timestamp \<Rightarrow> uuid option \<Rightarrow> PlanVersion" where
  "new_plan_version plan_id version p now created_at created_by =
     \<lparr>pv_plan_id = plan_id, pv_version = version, pv_price_monthly = vp_price_monthly p,
      pv_executions_per_day = vp_executions_per_day p, pv_executions_per_month = vp_executions_per_month p,
      pv_minutes_per_day = vp_minutes_per_day p, pv_minutes_per_month = vp_minutes_per_month p,
      pv_max_workspaces = vp_max_workspaces p,
      pv_max_agents_per_workspace = vp_max_agents_per_workspace p,
      pv_max_users_per_workspace = vp_max_users_per_workspace p,
      pv_overage_price_per_minute = vp_overage_price_per_minute p, pv_trial_days = vp_trial_days p,
      pv_quota_period_anchor = vp_quota_period_anchor p, pv_extras_json = vp_extras_json p,
      pv_published_at = Some now, pv_deprecated_at = None, pv_created_at = created_at,
      pv_created_by = created_by\<rparr>"

definition publish_version_row ::
  "lifecycle_env \<Rightarrow> platform \<Rightarrow> Plan \<Rightarrow> PlanVersionPublish \<Rightarrow> uuid option \<Rightarrow>
   (PlanVersion option \<times> PlanVersion) bop" where
  "publish_version_row le pf plan p created_by =
     (if le_plan_locked le (pl_id plan) then eraise (PlanVersionInProgressError (pl_id plan))
      else
        ebind (get_published_version (pl_id plan)) (\<lambda>current.
        let next_version = (case current of None \<Rightarrow> 0 | Some v \<Rightarrow> pv_version v) + 1 in
        ebind (b_now pf) (\<lambda>now.
        ebind (b_clock (db_clock pf)) (\<lambda>t.
        ebind (eget (\<lambda>b. \<exists>v \<in> set (b_plan_versions b). same_version (pl_id plan) next_version v)) (\<lambda>taken.
        if taken then eraise IntegrityError
        else
          let v = new_plan_version (pl_id plan) next_version p now t created_by;
              prior = map_option (\<lambda>c. c\<lparr>pv_deprecated_at := Some now\<rparr>) current in
          ebind (emod (\<lambda>b. b\<lparr>b_plan_versions :=
                   (case current of
                      None \<Rightarrow> b_plan_versions b
                    | Some c \<Rightarrow> update_rows (same_version (pl_id plan) (pv_version c))
                        (\<lambda>x. x\<lparr>pv_deprecated_at := Some now\<rparr>) (b_plan_versions b)) @ [v]\<rparr>)) (\<lambda>_.
          eret (prior, v)))))))"

definition deprecate_version_row :: "platform \<Rightarrow> uuid \<Rightarrow> int \<Rightarrow> PlanVersion option bop" where
  "deprecate_version_row pf plan_id version =
     ebind (b_now pf) (\<lambda>now.
     ebind (emod (\<lambda>b. b\<lparr>b_plan_versions :=
              update_rows (\<lambda>v. same_version plan_id version v \<and> pv_deprecated_at v = None)
                (\<lambda>v. v\<lparr>pv_deprecated_at := Some now\<rparr>) (b_plan_versions b)\<rparr>)) (\<lambda>_.
     ebind (eget (\<lambda>b. filter (same_version plan_id version) (b_plan_versions b))) (\<lambda>rows.
     elift (one_or_none rows))))"

definition count_subscriptions_on_version :: "uuid \<Rightarrow> int \<Rightarrow> nat bop" where
  "count_subscriptions_on_version plan_id version =
     eget (\<lambda>b. length (filter (\<lambda>s. sb_plan_id s = plan_id \<and> sb_plan_version s = version) (b_subscriptions b)))"

definition count_subscriptions_for_plan :: "uuid \<Rightarrow> nat bop" where
  "count_subscriptions_for_plan plan_id =
     eget (\<lambda>b. length (filter (\<lambda>s. sb_plan_id s = plan_id) (b_subscriptions b)))"

section \<open>The service\<close>

text \<open>The parameters of a version by name; a decimal is compared as a number and shown as text.\<close>

datatype version_value = VDecimal rat | VPlain pyval

definition version_values :: "PlanVersion \<Rightarrow> (string \<times> version_value) list" where
  "version_values v =
     [(''price_monthly'', VDecimal (pv_price_monthly v)),
      (''executions_per_day'', VPlain (PInt (pv_executions_per_day v))),
      (''executions_per_month'', VPlain (PInt (pv_executions_per_month v))),
      (''minutes_per_day'', VPlain (PInt (pv_minutes_per_day v))),
      (''minutes_per_month'', VPlain (PInt (pv_minutes_per_month v))),
      (''max_workspaces'', VPlain (PInt (pv_max_workspaces v))),
      (''max_agents_per_workspace'', VPlain (PInt (pv_max_agents_per_workspace v))),
      (''max_users_per_workspace'', VPlain (PInt (pv_max_users_per_workspace v))),
      (''overage_price_per_minute'', VDecimal (pv_overage_price_per_minute v)),
      (''trial_days'', VPlain (PInt (pv_trial_days v))),
      (''quota_period_anchor'', VPlain (PStr (pv_quota_period_anchor v))),
      (''extras_json'', VPlain (PDict (pv_extras_json v)))]"

definition jsonable :: "billing_env \<Rightarrow> version_value \<Rightarrow> pyval" where
  "jsonable be v = (case v of VDecimal x \<Rightarrow> PStr (be_decimal_text be x) | VPlain p \<Rightarrow> p)"

definition value_changed :: "version_value option \<Rightarrow> version_value \<Rightarrow> bool" where
  "value_changed old new =
     (case (old, new) of
        (Some (VDecimal x), VDecimal y) \<Rightarrow> x \<noteq> y
      | (Some (VPlain x), VPlain y) \<Rightarrow> \<not> py_eq x y
      | _ \<Rightarrow> True)"

definition compute_diff_against_prior :: "billing_env \<Rightarrow> PlanVersion option \<Rightarrow> PlanVersion \<Rightarrow> pydict" where
  "compute_diff_against_prior be prior current =
     concat (map (\<lambda>(field, new).
       let old = (case prior of None \<Rightarrow> None | Some v \<Rightarrow> map_of (version_values v) field)
       in if value_changed old new
          then [(PStr field, PDict [(PStr ''from'', case old of None \<Rightarrow> PNone | Some x \<Rightarrow> jsonable be x),
                                    (PStr ''to'', jsonable be new)])]
          else []) (version_values current))"

definition version_or_none :: "PlanVersion option \<Rightarrow> pyval" where
  "version_or_none prior = (case prior of None \<Rightarrow> PNone | Some v \<Rightarrow> PInt (pv_version v))"

definition publish_new_version ::
  "billing_env \<Rightarrow> lifecycle_env \<Rightarrow> platform \<Rightarrow> string \<Rightarrow> PlanVersionPublish \<Rightarrow> uuid option \<Rightarrow> uuid option \<Rightarrow>
   PlanVersion cop" where
  "publish_new_version be le pf slug p actor_id tenant_id =
     ebind (in_billing (get_by_slug slug)) (\<lambda>found.
     case found of
       None \<Rightarrow> eraise (PlanNotFoundError slug)
     | Some plan \<Rightarrow>
         ebind (in_billing (publish_version_row le pf plan p
                  (case actor_id of None \<Rightarrow> vp_created_by p | Some a \<Rightarrow> Some a))) (\<lambda>(prior, v).
         let entry = [(PStr ''plan_id'', PStr (pl_id plan)), (PStr ''plan_slug'', PStr (pl_slug plan)),
               (PStr ''new_version'', PInt (pv_version v)), (PStr ''prior_version'', version_or_none prior),
               (PStr ''diff'', PDict (compute_diff_against_prior be prior v))] in
         ebind (in_billing (append_audit le ''billing.plan.published'' entry tenant_id)) (\<lambda>_.
         ebind (in_world (publish_lifecycle pf (pl_id plan) ''billing.plan.published''
                  (entry @ [(PStr ''deprecated_prior_at'',
                     case prior of None \<Rightarrow> PNone | Some c \<Rightarrow> Billing_Quotas.opt_text (map_option (iso_text pf) (pv_deprecated_at c)))])
                  tenant_id None ''billing.plans'')) (\<lambda>_.
         eret v))))"

definition deprecate_version ::
  "lifecycle_env \<Rightarrow> platform \<Rightarrow> uuid \<Rightarrow> int \<Rightarrow> uuid option \<Rightarrow> PlanVersion option bop" where
  "deprecate_version le pf plan_id version tenant_id =
     ebind (deprecate_version_row pf plan_id version) (\<lambda>stored.
     case stored of
       None \<Rightarrow> eret None
     | Some v \<Rightarrow>
         ebind (count_subscriptions_on_version plan_id version) (\<lambda>n.
         ebind (append_audit le ''billing.plan.deprecated''
                  [(PStr ''plan_id'', PStr plan_id), (PStr ''version'', PInt version),
                   (PStr ''subscriptions_pinned_count'', PInt (int n))] tenant_id) (\<lambda>_.
         eret (Some v))))"

definition update_plan_metadata :: "string \<Rightarrow> PlanUpdate \<Rightarrow> Plan bop" where
  "update_plan_metadata slug u =
     ebind (get_by_slug slug) (\<lambda>found.
     case found of None \<Rightarrow> eraise (PlanNotFoundError slug) | Some p \<Rightarrow> update_plan p u)"

definition guard_published_version_update :: "PlanVersion \<Rightarrow> string list \<Rightarrow> unit py" where
  "guard_published_version_update v updates =
     (if pv_published_at v = None then Inr ()
      else if \<exists>f \<in> set updates. f \<noteq> ''extras_json'' \<and> f \<in> fst ` set (version_values v)
      then Inl (PlanVersionImmutableError (pv_plan_id v) (pv_version v))
      else Inr ())"

end
