(* ===== verification/Billing_Subscriptions.thy ===== *)
theory Billing_Subscriptions
  imports Billing_Plans
begin

text \<open>
  billing/subscriptions/repository.py, service.py and period_scheduler.py: the lifecycle of a subscription
  and the job that moves subscriptions to their next period.
\<close>

section \<open>Exceptions\<close>

definition SubscriptionScopeError :: "string \<Rightarrow> string \<Rightarrow> exn" where
  "SubscriptionScopeError scope_type tenant_kind =
     PlatformError ''BILLING_SUBSCRIPTION_SCOPE_INVALID'' ''Subscription scope is not valid for the tenant kind''
       [(''scope_type'', PStr scope_type), (''tenant_kind'', PStr tenant_kind)]"

definition SubscriptionNotFoundError :: "uuid \<Rightarrow> exn" where
  "SubscriptionNotFoundError identifier =
     PlatformError ''BILLING_SUBSCRIPTION_NOT_FOUND'' ''Billing subscription not found''
       [(''subscription'', PStr identifier)]"

definition UpgradeFailedError :: "uuid \<Rightarrow> string \<Rightarrow> exn" where
  "UpgradeFailedError workspace_id reason =
     PlatformError ''BILLING_UPGRADE_FAILED'' ''Subscription upgrade failed''
       [(''workspace_id'', PStr workspace_id), (''reason'', PStr reason)]"

definition DowngradeAlreadyScheduledError :: "uuid \<Rightarrow> exn" where
  "DowngradeAlreadyScheduledError subscription_id =
     PlatformError ''BILLING_DOWNGRADE_ALREADY_SCHEDULED'' ''A downgrade is already scheduled for this subscription''
       [(''subscription_id'', PStr subscription_id)]"

definition ConcurrentLifecycleActionError :: "uuid \<Rightarrow> exn" where
  "ConcurrentLifecycleActionError subscription_id =
     PlatformError ''BILLING_CONCURRENT_LIFECYCLE_ACTION''
       ''Another subscription lifecycle action is already in progress''
       [(''subscription_id'', PStr subscription_id)]"

section \<open>The repository\<close>

definition get_subscription :: "uuid \<Rightarrow> Subscription option bop" where
  "get_subscription subscription_id = eget (\<lambda>b. session_get sb_id subscription_id (b_subscriptions b))"

definition get_by_scope :: "string \<Rightarrow> uuid \<Rightarrow> Subscription option bop" where
  "get_by_scope scope_type scope_id =
     eget (\<lambda>b. find (\<lambda>s. sb_scope_type s = scope_type \<and> sb_scope_id s = scope_id) (b_subscriptions b))"

definition newest_first :: "Subscription list \<Rightarrow> Subscription list" where
  "newest_first rows = rev (sort_key (\<lambda>s. (sb_created_at s, sb_id s)) rows)"

definition list_for_tenant :: "uuid \<Rightarrow> Subscription list bop" where
  "list_for_tenant tenant_id =
     eget (\<lambda>b. newest_first (filter (\<lambda>s. sb_tenant_id s = tenant_id) (b_subscriptions b)))"

definition list_all_subscriptions :: "nat \<Rightarrow> Subscription list bop" where
  "list_all_subscriptions limit = eget (\<lambda>b. take limit (newest_first (b_subscriptions b)))"

text \<open>The foreign key to the plan version, the primary key and the unique scope.\<close>

definition version_exists :: "uuid \<Rightarrow> int \<Rightarrow> billing \<Rightarrow> bool" where
  "version_exists plan_id version b \<longleftrightarrow> (\<exists>v \<in> set (b_plan_versions b). same_version plan_id version v)"

definition create_subscription ::
  "platform \<Rightarrow> uuid \<Rightarrow> string \<Rightarrow> uuid \<Rightarrow> uuid \<Rightarrow> int \<Rightarrow> string \<Rightarrow> timestamp \<Rightarrow> timestamp \<Rightarrow> uuid option \<Rightarrow>
   Subscription bop" where
  "create_subscription pf tenant_id scope_type scope_id plan_id plan_version status period_start period_end user_id =
     ebind (fresh_id pf) (\<lambda>sid.
     ebind (b_clock (db_clock pf)) (\<lambda>t.
     ebind (eget (\<lambda>b. version_exists plan_id plan_version b \<and>
              (\<forall>s \<in> set (b_subscriptions b). sb_id s \<noteq> sid \<and>
                 \<not> (sb_scope_type s = scope_type \<and> sb_scope_id s = scope_id)))) (\<lambda>ok.
     if \<not> ok then eraise IntegrityError
     else
       let s = \<lparr>sb_id = sid, sb_tenant_id = tenant_id, sb_scope_type = scope_type, sb_scope_id = scope_id,
                sb_plan_id = plan_id, sb_plan_version = plan_version, sb_status = status, sb_started_at = t,
                sb_current_period_start = period_start, sb_current_period_end = period_end,
                sb_cancel_at_period_end = False, sb_payment_method_id = None, sb_stripe_customer_id = None,
                sb_stripe_subscription_id = None, sb_created_by_user_id = user_id, sb_created_at = t\<rparr> in
       ebind (emod (\<lambda>b. b\<lparr>b_subscriptions := b_subscriptions b @ [s]\<rparr>)) (\<lambda>_. eret s))))"

text \<open>\<open>UPDATE ... WHERE id = ... RETURNING\<close>; the caller asserts that a row came back.\<close>

definition update_subscription :: "uuid \<Rightarrow> (Subscription \<Rightarrow> Subscription) \<Rightarrow> Subscription bop" where
  "update_subscription subscription_id f =
     ebind (emod (\<lambda>b. b\<lparr>b_subscriptions := update_rows (\<lambda>s. sb_id s = subscription_id) f (b_subscriptions b)\<rparr>)) (\<lambda>_.
     ebind (get_subscription subscription_id) (\<lambda>found.
     case found of None \<Rightarrow> eraise (ExternalError ''AssertionError'') | Some s \<Rightarrow> eret s))"

definition update_status :: "uuid \<Rightarrow> string \<Rightarrow> Subscription bop" where
  "update_status subscription_id status = update_subscription subscription_id (\<lambda>s. s\<lparr>sb_status := status\<rparr>)"

record pinning =
  pn_current_period_start :: "timestamp option"
  pn_current_period_end :: "timestamp option"
  pn_payment_method_id :: "uuid option"
  pn_status :: "string option"
  pn_stripe_customer_id :: "string option"
  pn_stripe_subscription_id :: "string option"

definition no_pinning :: pinning where
  "no_pinning = \<lparr>pn_current_period_start = None, pn_current_period_end = None, pn_payment_method_id = None,
     pn_status = None, pn_stripe_customer_id = None, pn_stripe_subscription_id = None\<rparr>"

definition some_or :: "'a option \<Rightarrow> 'a option \<Rightarrow> 'a option" where
  "some_or v old = (case v of None \<Rightarrow> old | Some x \<Rightarrow> Some x)"

definition update_plan_pinning :: "uuid \<Rightarrow> uuid \<Rightarrow> int \<Rightarrow> pinning \<Rightarrow> Subscription bop" where
  "update_plan_pinning subscription_id plan_id plan_version n =
     ebind (eget (version_exists plan_id plan_version)) (\<lambda>ok.
     if \<not> ok then eraise IntegrityError
     else update_subscription subscription_id (\<lambda>s. s\<lparr>sb_plan_id := plan_id, sb_plan_version := plan_version,
       sb_current_period_start := or_keep (pn_current_period_start n) (sb_current_period_start s),
       sb_current_period_end := or_keep (pn_current_period_end n) (sb_current_period_end s),
       sb_payment_method_id := some_or (pn_payment_method_id n) (sb_payment_method_id s),
       sb_status := or_keep (pn_status n) (sb_status s),
       sb_stripe_customer_id := some_or (pn_stripe_customer_id n) (sb_stripe_customer_id s),
       sb_stripe_subscription_id := some_or (pn_stripe_subscription_id n) (sb_stripe_subscription_id s)\<rparr>))"

definition set_cancel_at_period_end :: "uuid \<Rightarrow> bool \<Rightarrow> Subscription bop" where
  "set_cancel_at_period_end subscription_id flag =
     update_subscription subscription_id (\<lambda>s. s\<lparr>sb_cancel_at_period_end := flag,
       sb_status := (if flag then ''cancellation_pending'' else ''active'')\<rparr>)"

definition list_due_for_period_rollover :: "timestamp \<Rightarrow> Subscription list bop" where
  "list_due_for_period_rollover now =
     eget (\<lambda>b. take 500 (sort_key (\<lambda>s. (sb_current_period_end s, sb_id s))
       (filter (\<lambda>s. sb_current_period_end s \<le> now \<and> sb_status s \<notin> {''canceled'', ''suspended''}) (b_subscriptions b))))"

definition advance_period :: "Subscription \<Rightarrow> timestamp \<Rightarrow> timestamp \<Rightarrow> string \<Rightarrow> Subscription" where
  "advance_period s new_start new_end status =
     s\<lparr>sb_current_period_start := new_start, sb_current_period_end := new_end, sb_status := status,
       sb_cancel_at_period_end := (if status = ''canceled'' then False else sb_cancel_at_period_end s)\<rparr>"

definition count_by_plan_version :: "uuid \<Rightarrow> int \<Rightarrow> nat bop" where
  "count_by_plan_version plan_id plan_version =
     eget (\<lambda>b. length (filter (\<lambda>s. sb_plan_id s = plan_id \<and> sb_plan_version s = plan_version) (b_subscriptions b)))"

section \<open>Periods\<close>

text \<open>The Gregorian calendar of \<open>datetime\<close>, for instants in microseconds since 1970. A day is split
  into years that begin in March, so that the leap day is the last of its year: \<open>march_year\<close> is the
  year within its era of 400 years, \<open>march_day\<close> the day within that year and \<open>march_month\<close> the
  month counted from March.\<close>

definition a_day :: int where
  "a_day = 86400000000"

definition era_day :: "int \<Rightarrow> int" where
  "era_day days = (days + 719468) mod 146097"

definition march_year :: "int \<Rightarrow> int" where
  "march_year days =
     (let d = era_day days in (d - d div 1460 + d div 36524 - d div 146096) div 365)"

definition march_day :: "int \<Rightarrow> int" where
  "march_day days = (let y = march_year days in era_day days - (365 * y + y div 4 - y div 100))"

definition march_month :: "int \<Rightarrow> int" where
  "march_month days = (5 * march_day days + 2) div 153"

definition day_of_month :: "int \<Rightarrow> int" where
  "day_of_month days = march_day days - (153 * march_month days + 2) div 5 + 1"

definition is_leap :: "int \<Rightarrow> bool" where
  "is_leap y \<longleftrightarrow> y mod 4 = 0 \<and> (y mod 100 \<noteq> 0 \<or> y mod 400 = 0)"

definition month_length :: "int \<Rightarrow> int" where
  "month_length days =
     (let m = march_month days in
      if m = 11 then (if is_leap (march_year days + 1) then 29 else 28)
      else if m \<in> {1, 3, 6, 8} then 30 else 31)"

text \<open>\<open>now.replace(day=1, hour=0, ...)\<close>, and the first of the month after it.\<close>

definition month_floor :: "timestamp \<Rightarrow> timestamp" where
  "month_floor now = (let days = now div a_day in (days - day_of_month days + 1) * a_day)"

definition add_month :: "timestamp \<Rightarrow> timestamp" where
  "add_month first_day = first_day + month_length (first_day div a_day) * a_day"

definition period_bounds :: "timestamp \<Rightarrow> string \<Rightarrow> timestamp \<times> timestamp" where
  "period_bounds now anchor =
     (if anchor = ''calendar_month'' then (month_floor now, add_month (month_floor now))
      else (now, now + 30 * a_day))"

section \<open>The service\<close>

definition tier_rank :: "string \<Rightarrow> int" where
  "tier_rank tier = (case map_of [(''free'', 0), (''pro'', 1), (''enterprise'', 2)] tier of None \<Rightarrow> - 1 | Some r \<Rightarrow> r)"

text \<open>The bytes of an ASCII text in hexadecimal, padded with zeros to the 32 digits of a UUID.\<close>

definition hex_digit :: "nat \<Rightarrow> char" where
  "hex_digit n = ''0123456789abcdef'' ! n"

definition provider_id_to_uuid :: "string \<Rightarrow> uuid" where
  "provider_id_to_uuid provider_id =
     (let digits = take 32 (concat (map (\<lambda>c. [hex_digit (of_char c div 16), hex_digit (of_char c mod 16)]) provider_id)
            @ replicate 32 (CHR ''0''));
          part = (\<lambda>i n. take n (drop i digits))
      in part 0 8 @ ''-'' @ part 8 4 @ ''-'' @ part 12 4 @ ''-'' @ part 16 4 @ ''-'' @ part 20 12)"

text \<open>A call of the payment provider, logged with its arguments.\<close>

definition call_provider :: "provider_call \<Rightarrow> (nat \<Rightarrow> 'a py) \<Rightarrow> 'a bop" where
  "call_provider c f =
     (\<lambda>b. (f (length (b_provider_calls b)), b\<lparr>b_provider_calls := b_provider_calls b @ [c]\<rparr>))"

definition has_text :: "string option \<Rightarrow> bool" where
  "has_text v \<longleftrightarrow> (case v of None \<Rightarrow> False | Some t \<Rightarrow> t \<noteq> [])"

definition publish_subscription_event :: "platform \<Rightarrow> Subscription \<Rightarrow> string \<Rightarrow> pydict \<Rightarrow> unit op" where
  "publish_subscription_event pf s event_type payload =
     publish_lifecycle pf (sb_tenant_id s) event_type payload (Some (sb_tenant_id s))
       (if sb_scope_type s = ''workspace'' then Some (sb_scope_id s) else None) ''billing.subscriptions''"

definition subscription_audit :: "lifecycle_env \<Rightarrow> string \<Rightarrow> Subscription \<Rightarrow> pydict \<Rightarrow> unit bop" where
  "subscription_audit le event_type s payload = append_audit le event_type payload (Some (sb_tenant_id s))"

text \<open>The event and the audit entry that end an operation.\<close>

definition announce ::
  "lifecycle_env \<Rightarrow> platform \<Rightarrow> string \<Rightarrow> Subscription \<Rightarrow> pydict \<Rightarrow> pydict \<Rightarrow> Subscription cop" where
  "announce le pf event_type s payload entry =
     ebind (in_world (publish_subscription_event pf s event_type payload)) (\<lambda>_.
     ebind (in_billing (subscription_audit le event_type s entry)) (\<lambda>_.
     eret s))"

definition provision ::
  "lifecycle_env \<Rightarrow> platform \<Rightarrow> uuid \<Rightarrow> string \<Rightarrow> uuid \<Rightarrow> string \<Rightarrow> uuid option \<Rightarrow> Subscription cop" where
  "provision le pf tenant_id scope_type scope_id plan_slug user_id =
     ebind (in_billing (get_by_slug plan_slug)) (\<lambda>found.
     case found of
       None \<Rightarrow> eraise (PlanNotFoundError plan_slug)
     | Some plan \<Rightarrow>
         ebind (in_billing (get_published_version (pl_id plan))) (\<lambda>version.
         case version of
           None \<Rightarrow> eraise (PlanNotFoundError plan_slug)
         | Some v \<Rightarrow>
             ebind (in_billing (b_now pf)) (\<lambda>now.
             let (period_start, period_end) = period_bounds now (pv_quota_period_anchor v);
                 status = (if pv_trial_days v > 0 then ''trial'' else ''active'') in
             ebind (in_billing (create_subscription pf tenant_id scope_type scope_id (pl_id plan) (pv_version v)
                      status period_start period_end user_id)) (\<lambda>s.
             announce le pf ''billing.subscription.created'' s
               [(PStr ''scope_type'', PStr scope_type), (PStr ''scope_id'', PStr scope_id),
                (PStr ''plan_id'', PStr (pl_id plan)), (PStr ''plan_slug'', PStr (pl_slug plan)),
                (PStr ''plan_version'', PInt (pv_version v)), (PStr ''status'', PStr status),
                (PStr ''started_at'', PStr (iso_text pf (sb_started_at s))),
                (PStr ''current_period_start'', PStr (iso_text pf period_start)),
                (PStr ''current_period_end'', PStr (iso_text pf period_end)),
                (PStr ''trial_expires_at'',
                   if pv_trial_days v > 0 then PStr (iso_text pf (now + pv_trial_days v * a_day)) else PNone)]
               [(PStr ''subscription_id'', PStr (sb_id s)), (PStr ''scope_type'', PStr scope_type),
                (PStr ''scope_id'', PStr scope_id), (PStr ''plan_slug'', PStr (pl_slug plan)),
                (PStr ''plan_version'', PInt (pv_version v))]))))"

definition provision_for_default_workspace ::
  "lifecycle_env \<Rightarrow> platform \<Rightarrow> uuid \<Rightarrow> string \<Rightarrow> uuid option \<Rightarrow> Subscription cop" where
  "provision_for_default_workspace le pf workspace_id plan_slug user_id =
     ebind (in_billing (eget (\<lambda>b. session_get ws_id workspace_id (b_workspaces b)))) (\<lambda>found.
     case found of
       None \<Rightarrow> eraise (SubscriptionNotFoundError workspace_id)
     | Some w \<Rightarrow>
         ebind (in_billing (eget (\<lambda>b. session_get tn_id (ws_tenant_id w) (b_tenants b)))) (\<lambda>tenant.
         case tenant of
           None \<Rightarrow> eraise (SubscriptionScopeError ''workspace'' ''missing'')
         | Some t \<Rightarrow>
             if tn_kind t \<noteq> ''default'' then eraise (SubscriptionScopeError ''workspace'' (tn_kind t))
             else
               ebind (in_billing (get_by_scope ''workspace'' workspace_id)) (\<lambda>existing.
               case existing of
                 Some s \<Rightarrow> eret s
               | None \<Rightarrow> provision le pf (ws_tenant_id w) ''workspace'' workspace_id plan_slug user_id)))"

definition provision_for_enterprise_tenant ::
  "lifecycle_env \<Rightarrow> platform \<Rightarrow> uuid \<Rightarrow> uuid option \<Rightarrow> Subscription cop" where
  "provision_for_enterprise_tenant le pf tenant_id user_id =
     ebind (in_billing (eget (\<lambda>b. session_get tn_id tenant_id (b_tenants b)))) (\<lambda>tenant.
     case tenant of
       None \<Rightarrow> eraise (SubscriptionScopeError ''tenant'' ''missing'')
     | Some t \<Rightarrow>
         if tn_kind t \<noteq> ''enterprise'' then eraise (SubscriptionScopeError ''tenant'' (tn_kind t))
         else
           ebind (in_billing (get_by_scope ''tenant'' tenant_id)) (\<lambda>existing.
           case existing of
             Some s \<Rightarrow> eret s
           | None \<Rightarrow> provision le pf tenant_id ''tenant'' tenant_id ''enterprise'' user_id))"

definition price_name :: "string \<Rightarrow> int \<Rightarrow> string" where
  "price_name slug version = slug @ '':v'' @ show_int version"

text \<open>The part of \<open>upgrade\<close> with the payment provider: the customer, the payment method and the
  subscription it answers with.\<close>

definition upgrade_at_provider ::
  "payment_provider \<Rightarrow> platform \<Rightarrow> Workspace \<Rightarrow> Subscription \<Rightarrow> Plan \<Rightarrow> PlanVersion \<Rightarrow> string option \<Rightarrow>
   (uuid option \<times> string option \<times> provider_subscription option) bop" where
  "upgrade_at_provider provider pf w current target v token =
     (let email = ''workspace-'' @ ws_id w @ ''@billing.local'';
          sid = provider_subscription_id current;
          price = price_name (pl_slug target) (pv_version v) in
      ebind (if has_text (sb_stripe_customer_id current) then eret (the (sb_stripe_customer_id current))
             else call_provider (CreateCustomer (ws_id w) (ws_tenant_id w) email)
                    (create_customer provider (ws_id w) (ws_tenant_id w) email)) (\<lambda>customer_id.
      ebind (if has_text token
             then ebind (call_provider (AttachPaymentMethod customer_id (the token))
                           (attach_payment_method provider customer_id (the token))) (\<lambda>m.
                  eret (Some (provider_id_to_uuid m)))
             else eret (sb_payment_method_id current)) (\<lambda>payment_method_id.
      ebind (fresh_id pf) (\<lambda>key.
      ebind (call_provider (UpdateSubscription sid price True key)
               (provider_update_subscription provider sid price True key)) (\<lambda>sub.
      eret (payment_method_id, Some customer_id, Some sub))))))"

text \<open>The body of the try block of \<open>upgrade\<close>.\<close>

definition upgrade_steps ::
  "billing_env \<Rightarrow> lifecycle_env \<Rightarrow> platform \<Rightarrow> Workspace \<Rightarrow> Subscription \<Rightarrow> Plan \<Rightarrow> Plan \<Rightarrow> PlanVersion \<Rightarrow>
   string option \<Rightarrow> uuid option \<Rightarrow> Subscription cop" where
  "upgrade_steps be le pf w current current_plan target v token actor_id =
     ebind (in_billing (case le_provider le of
         None \<Rightarrow> eret (sb_payment_method_id current, sb_stripe_customer_id current, None)
       | Some provider \<Rightarrow> upgrade_at_provider provider pf w current target v token)) (\<lambda>(method, customer, sub).
     ebind (in_billing (update_plan_pinning (sb_id current) (pl_id target) (pv_version v)
              \<lparr>pn_current_period_start = map_option ps_current_period_start sub,
               pn_current_period_end = map_option ps_current_period_end sub,
               pn_payment_method_id = method, pn_status = Some ''active'', pn_stripe_customer_id = customer,
               pn_stripe_subscription_id = map_option ps_provider_subscription_id sub\<rparr>)) (\<lambda>updated.
     ebind (in_billing (subscription_audit le ''billing.subscription.upgraded'' updated
              [(PStr ''workspace_id'', PStr (ws_id w)), (PStr ''target_plan_slug'', PStr (pl_slug target)),
               (PStr ''actor_id'', Billing_Quotas.opt_text actor_id)])) (\<lambda>_.
     ebind (in_billing (b_now pf)) (\<lambda>now.
     ebind (in_world (publish_subscription_event pf updated ''billing.subscription.upgraded''
              [(PStr ''from_plan_slug'', PStr (pl_slug current_plan)),
               (PStr ''from_plan_version'', PInt (sb_plan_version current)),
               (PStr ''to_plan_slug'', PStr (pl_slug target)), (PStr ''to_plan_version'', PInt (pv_version v)),
               (PStr ''effective_at'', PStr (iso_text pf now)), (PStr ''prorated_charge_eur'', PStr ''0.00'')])) (\<lambda>_.
     ebind (if le_has_enforcer le then in_billing (invalidate_workspace be (ws_id w)) else eret ()) (\<lambda>_.
     eret updated))))))"

definition or_raise :: "'r option bop \<Rightarrow> exn \<Rightarrow> 'r cop" where
  "or_raise m e =
     ebind (in_billing m) (\<lambda>found. case found of None \<Rightarrow> eraise e | Some r \<Rightarrow> eret r)"

definition get_plan :: "uuid \<Rightarrow> Plan option bop" where
  "get_plan plan_id = eget (\<lambda>b. session_get pl_id plan_id (b_plans b))"

definition upgrade ::
  "billing_env \<Rightarrow> lifecycle_env \<Rightarrow> platform \<Rightarrow> uuid \<Rightarrow> string \<Rightarrow> string option \<Rightarrow> uuid option \<Rightarrow> Subscription cop" where
  "upgrade be le pf workspace_id target_plan_slug token actor_id =
     ebind (or_raise (eget (\<lambda>b. session_get ws_id workspace_id (b_workspaces b)))
              (SubscriptionNotFoundError workspace_id)) (\<lambda>w.
     ebind (or_raise (get_by_scope ''workspace'' workspace_id) (SubscriptionNotFoundError workspace_id)) (\<lambda>current.
     ebind (or_raise (get_by_slug target_plan_slug) (PlanNotFoundError target_plan_slug)) (\<lambda>target.
     ebind (eguard (pl_is_public target \<and> pl_is_active target) (PlanNotFoundError target_plan_slug)) (\<lambda>_.
     ebind (or_raise (get_plan (sb_plan_id current)) (PlanNotFoundError (sb_plan_id current))) (\<lambda>current_plan.
     ebind (eguard (tier_rank (pl_tier current_plan) < tier_rank (pl_tier target))
              (UpgradeFailedError workspace_id ''target plan is not a higher tier'')) (\<lambda>_.
     ebind (or_raise (get_published_version (pl_id target)) (PlanNotFoundError target_plan_slug)) (\<lambda>v.
     ecatch (upgrade_steps be le pf w current current_plan target v token actor_id)
       (\<lambda>e. eraise (UpgradeFailedError workspace_id (exn_text pf e))))))))))"

definition workspace_or_subscription :: "uuid \<Rightarrow> Subscription option bop" where
  "workspace_or_subscription identifier =
     ebind (get_by_scope ''workspace'' identifier) (\<lambda>found.
     case found of Some s \<Rightarrow> eret (Some s) | None \<Rightarrow> get_subscription identifier)"

definition cancel_at_provider :: "lifecycle_env \<Rightarrow> Subscription \<Rightarrow> bool \<Rightarrow> unit bop" where
  "cancel_at_provider le s at_period_end =
     (case le_provider le of
        None \<Rightarrow> eret ()
      | Some provider \<Rightarrow>
          call_provider (CancelSubscription (provider_subscription_id s) at_period_end)
            (provider_cancel_subscription provider (provider_subscription_id s) at_period_end))"

definition downgrade_at_period_end :: "lifecycle_env \<Rightarrow> platform \<Rightarrow> uuid \<Rightarrow> string \<Rightarrow> Subscription cop" where
  "downgrade_at_period_end le pf identifier target_plan_slug =
     ebind (or_raise (workspace_or_subscription identifier) (SubscriptionNotFoundError identifier)) (\<lambda>s.
     ebind (eguard (\<not> sb_cancel_at_period_end s) (DowngradeAlreadyScheduledError (sb_id s))) (\<lambda>_.
     ebind (eguard (sb_status s = ''active'') (ConcurrentLifecycleActionError (sb_id s))) (\<lambda>_.
     ebind (or_raise (get_by_slug target_plan_slug) (PlanNotFoundError target_plan_slug)) (\<lambda>target.
     ebind (or_raise (get_plan (sb_plan_id s)) (PlanNotFoundError (sb_plan_id s))) (\<lambda>current_plan.
     ebind (eguard (tier_rank (pl_tier target) < tier_rank (pl_tier current_plan))
              (ConcurrentLifecycleActionError (sb_id s))) (\<lambda>_.
     ebind (in_billing (cancel_at_provider le s True)) (\<lambda>_.
     ebind (in_billing (set_cancel_at_period_end (sb_id s) True)) (\<lambda>updated.
     announce le pf ''billing.subscription.downgrade_scheduled'' updated
       [(PStr ''from_plan_slug'', PStr (pl_slug current_plan)), (PStr ''to_plan_slug'', PStr (pl_slug target)),
        (PStr ''scheduled_for'', PStr (iso_text pf (sb_current_period_end updated)))]
       [(PStr ''subscription_id'', PStr (sb_id updated)), (PStr ''target_plan_slug'', PStr (pl_slug target)),
        (PStr ''scheduled_for'', PStr (iso_text pf (sb_current_period_end updated)))]))))))))"

definition cancel_scheduled_downgrade :: "lifecycle_env \<Rightarrow> platform \<Rightarrow> uuid \<Rightarrow> Subscription cop" where
  "cancel_scheduled_downgrade le pf identifier =
     ebind (or_raise (workspace_or_subscription identifier) (SubscriptionNotFoundError identifier)) (\<lambda>s.
     ebind (eguard (sb_status s = ''cancellation_pending'' \<and> sb_cancel_at_period_end s)
              (ConcurrentLifecycleActionError (sb_id s))) (\<lambda>_.
     ebind (in_billing (case le_provider le of
         None \<Rightarrow> eret ()
       | Some provider \<Rightarrow>
           ebind (get_plan (sb_plan_id s)) (\<lambda>plan.
           ebind (fresh_id pf) (\<lambda>key.
           let price = price_name (case plan of None \<Rightarrow> ''unknown'' | Some p \<Rightarrow> pl_slug p) (sb_plan_version s) in
           ebind (call_provider (UpdateSubscription (provider_subscription_id s) price False key)
                    (provider_update_subscription provider (provider_subscription_id s) price False key)) (\<lambda>_.
           eret ()))))) (\<lambda>_.
     ebind (in_billing (set_cancel_at_period_end (sb_id s) False)) (\<lambda>updated.
     announce le pf ''billing.subscription.downgrade_cancelled'' updated
       [(PStr ''had_been_scheduled_for'', PStr (iso_text pf (sb_current_period_end s)))]
       [(PStr ''subscription_id'', PStr (sb_id updated)),
        (PStr ''had_been_scheduled_for'', PStr (iso_text pf (sb_current_period_end s)))]))))"

definition suspend :: "lifecycle_env \<Rightarrow> platform \<Rightarrow> uuid \<Rightarrow> string \<Rightarrow> Subscription cop" where
  "suspend le pf subscription_id reason =
     ebind (or_raise (get_subscription subscription_id) (SubscriptionNotFoundError subscription_id)) (\<lambda>s.
     ebind (eguard (sb_status s \<notin> {''canceled'', ''suspended''})
              (ConcurrentLifecycleActionError subscription_id)) (\<lambda>_.
     ebind (in_billing (update_status subscription_id ''suspended'')) (\<lambda>updated.
     announce le pf ''billing.subscription.suspended'' updated [(PStr ''reason'', PStr reason)]
       [(PStr ''subscription_id'', PStr (sb_id updated)), (PStr ''reason'', PStr reason)])))"

definition reactivate :: "lifecycle_env \<Rightarrow> platform \<Rightarrow> uuid \<Rightarrow> Subscription cop" where
  "reactivate le pf subscription_id =
     ebind (or_raise (get_subscription subscription_id) (SubscriptionNotFoundError subscription_id)) (\<lambda>s.
     ebind (eguard (sb_status s \<in> {''past_due'', ''suspended''})
              (ConcurrentLifecycleActionError subscription_id)) (\<lambda>_.
     ebind (in_billing (update_status subscription_id ''active'')) (\<lambda>updated.
     announce le pf ''billing.subscription.reactivated'' updated
       [(PStr ''previous_status'', PStr (sb_status s))]
       [(PStr ''subscription_id'', PStr (sb_id updated)), (PStr ''previous_status'', PStr (sb_status s))])))"

text \<open>The clock is read for the event and again for the audit entry.\<close>

definition cancel_subscription :: "lifecycle_env \<Rightarrow> platform \<Rightarrow> uuid \<Rightarrow> Subscription cop" where
  "cancel_subscription le pf subscription_id =
     ebind (or_raise (get_subscription subscription_id) (SubscriptionNotFoundError subscription_id)) (\<lambda>s.
     ebind (eguard (sb_status s \<noteq> ''canceled'') (ConcurrentLifecycleActionError subscription_id)) (\<lambda>_.
     ebind (in_billing (cancel_at_provider le s False)) (\<lambda>_.
     ebind (in_billing (update_status subscription_id ''canceled'')) (\<lambda>updated.
     ebind (in_billing (b_now pf)) (\<lambda>now.
     ebind (in_world (publish_subscription_event pf updated ''billing.subscription.canceled''
              [(PStr ''canceled_at'', PStr (iso_text pf now)), (PStr ''final_invoice_eur'', PStr ''0.00'')])) (\<lambda>_.
     ebind (in_billing (b_now pf)) (\<lambda>now'.
     ebind (in_billing (subscription_audit le ''billing.subscription.canceled'' updated
              [(PStr ''subscription_id'', PStr (sb_id updated)), (PStr ''canceled_at'', PStr (iso_text pf now'))])) (\<lambda>_.
     eret updated))))))))"

definition migrate_version :: "lifecycle_env \<Rightarrow> uuid \<Rightarrow> uuid \<Rightarrow> int \<Rightarrow> Subscription cop" where
  "migrate_version le subscription_id plan_id plan_version =
     ebind (or_raise (get_subscription subscription_id) (SubscriptionNotFoundError subscription_id)) (\<lambda>s.
     ebind (eguard (sb_status s \<notin> {''canceled'', ''suspended''})
              (ConcurrentLifecycleActionError subscription_id)) (\<lambda>_.
     ebind (in_billing (update_plan_pinning subscription_id plan_id plan_version no_pinning)) (\<lambda>updated.
     ebind (in_billing (subscription_audit le ''billing.subscription.migrated'' updated
              [(PStr ''subscription_id'', PStr (sb_id updated)), (PStr ''plan_id'', PStr plan_id),
               (PStr ''plan_version'', PInt plan_version)])) (\<lambda>_.
     eret updated))))"

section \<open>The period scheduler\<close>

definition plan_slug_of :: "uuid \<Rightarrow> string bop" where
  "plan_slug_of plan_id =
     ebind (get_plan plan_id) (\<lambda>found.
     eret (case found of None \<Rightarrow> ''unknown'' | Some p \<Rightarrow> if pl_slug p = [] then ''unknown'' else pl_slug p))"

text \<open>The newest version of the plan \<open>free\<close> that is not deprecated; an unpublished one comes last.\<close>

definition free_version :: "billing \<Rightarrow> (uuid \<times> int) option" where
  "free_version b =
     first_of (map (\<lambda>(p, v). (pl_id p, pv_version v)) (sort_key (\<lambda>(p, v).
       (case pv_published_at v of None \<Rightarrow> (1 :: int, 0) | Some t \<Rightarrow> (0, - t), - pv_version v))
       [(p, v). p \<leftarrow> b_plans b, v \<leftarrow> b_plan_versions b,
          pv_plan_id v = pl_id p \<and> pl_slug p = ''free'' \<and> pv_deprecated_at v = None]))"

definition data_exceeding_free_limits :: "Subscription \<Rightarrow> billing \<Rightarrow> pydict" where
  "data_exceeding_free_limits s b =
     (let live = filter (\<lambda>w. ws_status w \<noteq> ''deleted'') (b_workspaces b);
          workspace = sb_scope_type s = ''workspace'';
          workspaces = (if workspace
            then (case find (\<lambda>w. ws_id w = sb_scope_id s) (b_workspaces b) of
                    None \<Rightarrow> 0 | Some w \<Rightarrow> length (filter (\<lambda>x. ws_owner_id x = ws_owner_id w) live))
            else length (filter (\<lambda>w. ws_tenant_id w = sb_tenant_id s) live));
          agents = (if workspace
            then length (filter (\<lambda>(w, status). w = sb_scope_id s \<and> status = ''published'') (b_agent_profiles b)) else 0);
          users = (if workspace then length (filter (\<lambda>(w, _, _). w = sb_scope_id s) (b_memberships b)) else 0)
      in [(PStr ''workspaces'', PInt (int (workspaces - 1))), (PStr ''agents'', PInt (int (agents - 5))),
          (PStr ''users'', PInt (int (users - 3)))])"

definition set_subscription :: "Subscription \<Rightarrow> unit bop" where
  "set_subscription s =
     emod (\<lambda>b. b\<lparr>b_subscriptions := update_rows (\<lambda>x. sb_id x = sb_id s) (\<lambda>_. s) (b_subscriptions b)\<rparr>)"

definition rollover_subscription :: "lifecycle_env \<Rightarrow> platform \<Rightarrow> Subscription \<Rightarrow> unit cop" where
  "rollover_subscription le pf s =
     (let previous_start = sb_current_period_start s; previous_end = sb_current_period_end s;
          new_end = previous_end + 30 * a_day; downgrade_due = sb_cancel_at_period_end s;
          advanced = advance_period s previous_end new_end (if downgrade_due then ''active'' else sb_status s) in
      ebind (in_billing (plan_slug_of (sb_plan_id s))) (\<lambda>old_slug.
      ebind (in_billing (set_subscription advanced)) (\<lambda>_.
      ebind (in_billing (eget (\<lambda>b. if downgrade_due then free_version b else None))) (\<lambda>free.
      ebind (in_billing (case free of
          None \<Rightarrow> eret (advanced, old_slug, sb_plan_version s, [])
        | Some (plan_id, version) \<Rightarrow>
            let s' = advanced\<lparr>sb_plan_id := plan_id, sb_plan_version := version, sb_cancel_at_period_end := False\<rparr> in
            ebind (eget (data_exceeding_free_limits s')) (\<lambda>cleanup.
            ebind (set_subscription s') (\<lambda>_.
            eret (s', ''free'', version, cleanup))))) (\<lambda>(s', new_slug, new_version, cleanup).
      let event_type = (if downgrade_due then ''billing.subscription.downgrade_effective''
                        else ''billing.subscription.period_renewed'');
          payload = (if downgrade_due
            then [(PStr ''from_plan_slug'', PStr old_slug), (PStr ''from_plan_version'', PInt (sb_plan_version s)),
                  (PStr ''to_plan_slug'', PStr new_slug), (PStr ''to_plan_version'', PInt new_version),
                  (PStr ''data_exceeding_free_limits'', PDict cleanup)]
            else [(PStr ''previous_period_start'', PStr (iso_text pf previous_start)),
                  (PStr ''previous_period_end'', PStr (iso_text pf previous_end)),
                  (PStr ''new_period_start'', PStr (iso_text pf previous_end)),
                  (PStr ''new_period_end'', PStr (iso_text pf new_end)),
                  (PStr ''previous_period_overage_eur'', PStr ''0.00'')]) in
      ebind (in_world (publish_lifecycle pf (sb_tenant_id s') event_type payload (Some (sb_tenant_id s'))
               (if sb_scope_type s' = ''workspace'' then Some (sb_scope_id s') else None)
               ''billing.period_scheduler'')) (\<lambda>_.
      in_billing (append_audit le event_type payload (Some (sb_tenant_id s')))))))))"

text \<open>One run of the job: the rows are committed together, or all rolled back when one raises.\<close>

definition run_period_rollover :: "lifecycle_env \<Rightarrow> platform \<Rightarrow> unit cop" where
  "run_period_rollover le pf =
     (\<lambda>(b, wd).
        case ebind (in_billing (b_now pf)) (\<lambda>now.
             ebind (in_billing (list_due_for_period_rollover now)) (\<lambda>due.
             efor (rollover_subscription le pf) due)) (b, wd) of
          (Inr _, y) \<Rightarrow> (Inr (), y)
        | (Inl e, (b', wd')) \<Rightarrow> (Inl e, (rollback_billing b b', wd')))"

end
