(* ===== verification/Billing_Payments.thy ===== *)
theory Billing_Payments
  imports Billing_Subscriptions
begin

text \<open>
  billing/events.py, billing/payment_failure_grace and billing/webhooks: the messages of the payment
  events, the grace period of a failed payment with the job that watches it, and the webhooks of the payment
  provider with their handlers. Metrics and logs are left out. \<open>json_time\<close> is the text of an instant in
  a message.
\<close>

section \<open>Messages\<close>

definition uuid_or_none :: "uuid option \<Rightarrow> pyval" where
  "uuid_or_none v = (case v of None \<Rightarrow> PNone | Some u \<Rightarrow> PStr u)"

text \<open>The tenant's slug and kind are not set by the code modelled here.\<close>

definition correlation_dump :: "CorrelationContext \<Rightarrow> pyval" where
  "correlation_dump c =
     PDict [(PStr ''tenant_id'', uuid_or_none (cc_tenant_id c)), (PStr ''tenant_slug'', PNone),
       (PStr ''tenant_kind'', PNone), (PStr ''workspace_id'', uuid_or_none (cc_workspace_id c)),
       (PStr ''conversation_id'', uuid_or_none (cc_conversation_id c)),
       (PStr ''interaction_id'', uuid_or_none (cc_interaction_id c)),
       (PStr ''execution_id'', uuid_or_none (cc_execution_id c)), (PStr ''fleet_id'', uuid_or_none (cc_fleet_id c)),
       (PStr ''goal_id'', uuid_or_none (cc_goal_id c)), (PStr ''agent_fqn'', cc_agent_fqn c),
       (PStr ''correlation_id'', PStr (cc_correlation_id c))]"

definition plain_context :: "uuid \<Rightarrow> CorrelationContext" where
  "plain_context cid =
     \<lparr>cc_tenant_id = None, cc_workspace_id = None, cc_conversation_id = None, cc_interaction_id = None,
      cc_execution_id = None, cc_fleet_id = None, cc_goal_id = None, cc_agent_fqn = PNone, cc_correlation_id = cid\<rparr>"

definition publish_billing_event ::
  "platform \<Rightarrow> string \<Rightarrow> pydict \<Rightarrow> CorrelationContext \<Rightarrow> string \<Rightarrow> unit op" where
  "publish_billing_event pf event_type payload ctx partition_key =
     (case producer pf of
        None \<Rightarrow> eret ()
      | Some _ \<Rightarrow>
          publish pf
            \<lparr>msg_topic = ''billing.events'', msg_key = partition_key, msg_event_type = event_type,
             msg_payload = payload @ [(PStr ''correlation_context'', correlation_dump ctx)],
             msg_correlation = ctx, msg_source = ''platform.billing''\<rparr>)"

section \<open>The grace period\<close>

definition REMINDER_INTERVALS :: "int list" where
  "REMINDER_INTERVALS = [1 * a_day, 3 * a_day, 5 * a_day]"

definition GRACE_WINDOW :: int where
  "GRACE_WINDOW = 7 * a_day"

fun resolution_value :: "GraceResolution \<Rightarrow> string" where
  "resolution_value GR_payment_recovered = ''payment_recovered''"
| "resolution_value GR_downgraded_to_free = ''downgraded_to_free''"
| "resolution_value GR_manually_resolved = ''manually_resolved''"

subsection \<open>Repository\<close>

definition open_graces :: "uuid \<Rightarrow> billing \<Rightarrow> PaymentFailureGrace list" where
  "open_graces subscription_id b =
     filter (\<lambda>g. pg_subscription_id g = subscription_id \<and> pg_resolved_at g = None) (b_graces b)"

definition find_open_for_subscription :: "uuid \<Rightarrow> PaymentFailureGrace option bop" where
  "find_open_for_subscription subscription_id =
     ebind (eget (open_graces subscription_id)) (\<lambda>rows. elift (one_or_none rows))"

text \<open>The row refers to a subscription.\<close>

definition open_grace :: "platform \<Rightarrow> uuid \<Rightarrow> uuid \<Rightarrow> timestamp \<Rightarrow> timestamp \<Rightarrow> PaymentFailureGrace bop" where
  "open_grace pf tenant_id subscription_id started_at grace_ends_at =
     ebind (find_open_for_subscription subscription_id) (\<lambda>existing.
     case existing of
       Some g \<Rightarrow> eret g
     | None \<Rightarrow>
         ebind (fresh_id pf) (\<lambda>gid.
         ebind (get_subscription subscription_id) (\<lambda>found.
         if found = None then eraise IntegrityError
         else
           let g = \<lparr>pg_id = gid, pg_tenant_id = tenant_id, pg_subscription_id = subscription_id,
                    pg_started_at = started_at, pg_grace_ends_at = grace_ends_at, pg_reminders_sent = 0,
                    pg_last_reminder_at = None, pg_resolved_at = None, pg_resolution = None\<rparr> in
           ebind (emod (\<lambda>b. b\<lparr>b_graces := b_graces b @ [g]\<rparr>)) (\<lambda>_. eret g))))"

text \<open>A change of an open grace by its id; \<open>None\<close> when there is none.\<close>

definition update_grace ::
  "uuid \<Rightarrow> (PaymentFailureGrace \<Rightarrow> PaymentFailureGrace) \<Rightarrow> PaymentFailureGrace option bop" where
  "update_grace grace_id f =
     ebind (eget (\<lambda>b. session_get pg_id grace_id (b_graces b))) (\<lambda>found.
     case found of
       None \<Rightarrow> eret None
     | Some g \<Rightarrow>
         if pg_resolved_at g \<noteq> None then eret None
         else
           ebind (emod (\<lambda>b. b\<lparr>b_graces := update_rows (\<lambda>x. pg_id x = grace_id) f (b_graces b)\<rparr>)) (\<lambda>_.
           eret (Some (f g))))"

definition tick_reminder :: "uuid \<Rightarrow> timestamp \<Rightarrow> PaymentFailureGrace option bop" where
  "tick_reminder grace_id now =
     update_grace grace_id (\<lambda>g. g\<lparr>pg_reminders_sent := Suc (pg_reminders_sent g), pg_last_reminder_at := Some now\<rparr>)"

definition resolve_grace :: "uuid \<Rightarrow> GraceResolution \<Rightarrow> timestamp \<Rightarrow> PaymentFailureGrace option bop" where
  "resolve_grace grace_id resolution now =
     update_grace grace_id (\<lambda>g. g\<lparr>pg_resolved_at := Some now, pg_resolution := Some resolution\<rparr>)"

definition list_due_for_reminder :: "timestamp \<Rightarrow> PaymentFailureGrace list bop" where
  "list_due_for_reminder now =
     eget (\<lambda>b. sort_key pg_started_at
       (filter (\<lambda>g. pg_resolved_at g = None \<and> now < pg_grace_ends_at g) (b_graces b)))"

definition list_due_for_expiry :: "timestamp \<Rightarrow> PaymentFailureGrace list bop" where
  "list_due_for_expiry now =
     eget (\<lambda>b. sort_key pg_grace_ends_at
       (filter (\<lambda>g. pg_resolved_at g = None \<and> pg_grace_ends_at g \<le> now) (b_graces b)))"

subsection \<open>Service\<close>

definition now_or_clock :: "platform \<Rightarrow> timestamp option \<Rightarrow> timestamp bop" where
  "now_or_clock pf now = (case now of None \<Rightarrow> b_now pf | Some t \<Rightarrow> eret t)"

definition start_grace ::
  "(timestamp \<Rightarrow> string) \<Rightarrow> platform \<Rightarrow> uuid \<Rightarrow> uuid \<Rightarrow> CorrelationContext \<Rightarrow> timestamp option \<Rightarrow> PaymentFailureGrace cop" where
  "start_grace json_time pf tenant_id subscription_id ctx now =
     ebind (in_billing (now_or_clock pf now)) (\<lambda>moment.
     ebind (in_billing (find_open_for_subscription subscription_id)) (\<lambda>existing.
     case existing of
       Some g \<Rightarrow> eret g
     | None \<Rightarrow>
         ebind (in_billing (open_grace pf tenant_id subscription_id moment (moment + GRACE_WINDOW))) (\<lambda>g.
         ebind (in_world (publish_billing_event pf ''billing.payment_failure_grace.opened''
                  [(PStr ''grace_id'', PStr (pg_id g)), (PStr ''subscription_id'', PStr subscription_id),
                   (PStr ''started_at'', PStr (json_time (pg_started_at g))),
                   (PStr ''grace_ends_at'', PStr (json_time (pg_grace_ends_at g)))] ctx tenant_id)) (\<lambda>_.
         eret g))))"

text \<open>One reminder at most per grace and run.\<close>

definition tick_reminders :: "timestamp \<Rightarrow> PaymentFailureGrace list bop" where
  "tick_reminders moment =
     ebind (list_due_for_reminder moment) (\<lambda>due.
     ebind (emap (\<lambda>g.
         let next_idx = pg_reminders_sent g in
         if length REMINDER_INTERVALS \<le> next_idx then eret []
         else if moment < pg_started_at g + REMINDER_INTERVALS ! next_idx then eret []
         else ebind (tick_reminder (pg_id g) moment) (\<lambda>updated.
              eret (case updated of None \<Rightarrow> [] | Some u \<Rightarrow> [u]))) due) (\<lambda>ticked.
     eret (concat ticked)))"

text \<open>The announcement of a resolved grace.\<close>

definition publish_resolved ::
  "(timestamp \<Rightarrow> string) \<Rightarrow> platform \<Rightarrow> PaymentFailureGrace \<Rightarrow> GraceResolution \<Rightarrow> timestamp \<Rightarrow> CorrelationContext \<Rightarrow> unit op" where
  "publish_resolved json_time pf g resolution moment ctx =
     publish_billing_event pf ''billing.payment_failure_grace.resolved''
       [(PStr ''grace_id'', PStr (pg_id g)), (PStr ''subscription_id'', PStr (pg_subscription_id g)),
        (PStr ''resolved_at'', PStr (json_time moment)), (PStr ''resolution'', PStr (resolution_value resolution))]
       ctx (pg_tenant_id g)"

definition resolve_and_publish ::
  "(timestamp \<Rightarrow> string) \<Rightarrow> platform \<Rightarrow> uuid \<Rightarrow> GraceResolution \<Rightarrow> timestamp \<Rightarrow> CorrelationContext \<Rightarrow>
   PaymentFailureGrace option cop" where
  "resolve_and_publish json_time pf grace_id resolution moment ctx =
     ebind (in_billing (resolve_grace grace_id resolution moment)) (\<lambda>updated.
     case updated of
       None \<Rightarrow> eret None
     | Some g \<Rightarrow>
         ebind (in_world (publish_resolved json_time pf g resolution moment ctx)) (\<lambda>_. eret (Some g)))"

definition tick_expiries ::
  "(timestamp \<Rightarrow> string) \<Rightarrow> platform \<Rightarrow> CorrelationContext \<Rightarrow> timestamp \<Rightarrow> PaymentFailureGrace list cop" where
  "tick_expiries json_time pf ctx moment =
     ebind (in_billing (list_due_for_expiry moment)) (\<lambda>due.
     ebind (emap (\<lambda>g.
         ebind (resolve_and_publish json_time pf (pg_id g) GR_downgraded_to_free moment ctx) (\<lambda>updated.
         eret (case updated of None \<Rightarrow> [] | Some u \<Rightarrow> [u]))) due) (\<lambda>resolved.
     eret (concat resolved)))"

definition resolve_payment_recovered ::
  "(timestamp \<Rightarrow> string) \<Rightarrow> platform \<Rightarrow> uuid \<Rightarrow> CorrelationContext \<Rightarrow> timestamp option \<Rightarrow> PaymentFailureGrace option cop" where
  "resolve_payment_recovered json_time pf subscription_id ctx now =
     ebind (in_billing (now_or_clock pf now)) (\<lambda>moment.
     ebind (in_billing (find_open_for_subscription subscription_id)) (\<lambda>found.
     case found of
       None \<Rightarrow> eret None
     | Some g \<Rightarrow> resolve_and_publish json_time pf (pg_id g) GR_payment_recovered moment ctx))"

definition resolve_manually ::
  "(timestamp \<Rightarrow> string) \<Rightarrow> platform \<Rightarrow> uuid \<Rightarrow> CorrelationContext \<Rightarrow> timestamp option \<Rightarrow> PaymentFailureGrace option cop" where
  "resolve_manually json_time pf grace_id ctx now =
     ebind (in_billing (now_or_clock pf now)) (\<lambda>moment.
     resolve_and_publish json_time pf grace_id GR_manually_resolved moment ctx)"

text \<open>A run of the monitor commits both steps, or neither; it never raises.\<close>

definition grace_monitor_tick :: "(timestamp \<Rightarrow> string) \<Rightarrow> platform \<Rightarrow> unit cop" where
  "grace_monitor_tick json_time pf =
     (\<lambda>(b, wd).
        case ebind (in_world (fresh_uuid pf)) (\<lambda>cid.
             ebind (in_billing (b_now pf)) (\<lambda>now.
             ebind (in_billing (tick_reminders now)) (\<lambda>_.
             tick_expiries json_time pf (plain_context cid) now))) (b, wd) of
          (Inr _, y) \<Rightarrow> (Inr (), y)
        | (Inl _, (b', wd')) \<Rightarrow> (Inr (), (rollback_billing b b', wd')))"

text \<open>The service has no method \<open>downgrade_to_free\<close>, so only the status changes.\<close>

definition downgrade_subscription_to_free :: "uuid \<Rightarrow> string \<Rightarrow> unit bop" where
  "downgrade_subscription_to_free subscription_id reason =
     ebind (get_subscription subscription_id) (\<lambda>found.
     case found of
       None \<Rightarrow> eret ()
     | Some s \<Rightarrow>
         set_subscription (s\<lparr>sb_status :=
           (if reason = ''cancellation_effective'' then ''canceled'' else ''suspended'')\<rparr>))"

end
