(* ===== verification/Billing_Webhooks.thy ===== *)
theory Billing_Webhooks
  imports Billing_Payments
begin

text \<open>
  billing/webhooks: the handlers of the events of the payment provider (handlers/invoice.py,
  subscription.py, payment_method.py, dispute.py), their registry, the idempotency guard and the route. The
  verification of a signature with one secret is the provider's library and a parameter. \<open>decimal\<close> and
  \<open>json_time\<close> are the texts of an amount and an instant in a message.
\<close>

record WebhookEvent =
  we_id :: string
  we_type :: string
  we_payload :: pydict

section \<open>Fields of a payload\<close>

definition is_number :: "pyval \<Rightarrow> bool" where
  "is_number v = (case v of PInt _ \<Rightarrow> True | PFloat _ \<Rightarrow> True | PBool _ \<Rightarrow> True | _ \<Rightarrow> False)"

text \<open>\<open>_ts\<close> and \<open>_ts_to_datetime\<close>: seconds since 1970, within the years 1 to 9999.\<close>

definition ts_to_datetime :: "pyval \<Rightarrow> timestamp option py" where
  "ts_to_datetime v =
     (if is_number v
      then rbind (py_int v) (\<lambda>t.
           if t < -62135596800 \<or> 253402300799 < t then Inl ValueError else Inr (Some (t * 1000000)))
      else Inr None)"

definition webhook_amount :: "pyval \<Rightarrow> rat py" where
  "webhook_amount v = (if is_number v then rbind (py_int v) (\<lambda>i. Inr (of_int i / 100)) else Inr 0)"

definition payload_text :: "platform \<Rightarrow> pydict \<Rightarrow> string \<Rightarrow> string" where
  "payload_text pf p key = py_str (pf_runtime pf) (dget_or p key (PStr []))"

text \<open>\<open>p.get(k, {}).get(k')\<close>, which raises when the value of \<open>k\<close> is not a dictionary.\<close>

definition nested :: "pydict \<Rightarrow> string \<Rightarrow> string \<Rightarrow> pyval \<Rightarrow> pyval py" where
  "nested p k k' fallback =
     (case dget_or p k (PDict []) of PDict d \<Rightarrow> Inr (dget_or d k' fallback) | _ \<Rightarrow> Inl AttributeError)"

definition upper_char :: "char \<Rightarrow> char" where
  "upper_char c = (if 97 \<le> (of_char c :: nat) \<and> (of_char c :: nat) \<le> 122 then char_of (of_char c - 32 :: nat) else c)"

text \<open>\<open>str(p.get("currency", "eur")).upper() or "EUR"\<close> of an ASCII text.\<close>

definition currency_of :: "platform \<Rightarrow> pydict \<Rightarrow> string" where
  "currency_of pf p =
     (let t = map upper_char (py_str (pf_runtime pf) (dget_or p ''currency'' (PStr ''eur'')))
      in if t = [] then ''EUR'' else t)"

definition NIL_UUID :: uuid where
  "NIL_UUID = ''00000000-0000-0000-0000-000000000000''"

definition time_or_none :: "(timestamp \<Rightarrow> string) \<Rightarrow> timestamp option \<Rightarrow> pyval" where
  "time_or_none json_time t = (case t of None \<Rightarrow> PNone | Some x \<Rightarrow> PStr (json_time x))"

text \<open>\<open>_ts(v) or datetime.now(UTC)\<close>.\<close>

definition time_or_now :: "platform \<Rightarrow> pyval \<Rightarrow> timestamp bop" where
  "time_or_now pf v =
     ebind (elift (ts_to_datetime v)) (\<lambda>t. case t of Some x \<Rightarrow> eret x | None \<Rightarrow> b_now pf)"

definition text_or_none :: "platform \<Rightarrow> pyval \<Rightarrow> pyval" where
  "text_or_none pf v =
     (let t = py_str (pf_runtime pf) (if truthy v then v else PStr []) in if t = [] then PNone else PStr t)"

section \<open>Handlers\<close>

definition resolve_local_subscription :: "string \<Rightarrow> string \<Rightarrow> Subscription option bop" where
  "resolve_local_subscription stripe_subscription_id stripe_customer_id =
     (if stripe_subscription_id = [] \<and> stripe_customer_id = [] then eret None
      else eget (\<lambda>b. find (\<lambda>s. sb_stripe_subscription_id s = Some stripe_subscription_id \<or>
             sb_stripe_customer_id s = Some stripe_customer_id) (b_subscriptions b)))"

definition subscription_uuid :: "Subscription option \<Rightarrow> uuid" where
  "subscription_uuid sub = (case sub of None \<Rightarrow> NIL_UUID | Some s \<Rightarrow> sb_id s)"

definition publish_keyed ::
  "platform \<Rightarrow> string \<Rightarrow> pydict \<Rightarrow> CorrelationContext \<Rightarrow> string \<Rightarrow> unit cop" where
  "publish_keyed pf event_type payload ctx key =
     (if key = [] then eret () else in_world (publish_billing_event pf event_type payload ctx key))"

type_synonym texts = "(timestamp \<Rightarrow> string) \<times> (rat \<Rightarrow> string)"

definition invoice_on_paid :: "texts \<Rightarrow> platform \<Rightarrow> WebhookEvent \<Rightarrow> CorrelationContext \<Rightarrow> unit cop" where
  "invoice_on_paid tx pf event ctx =
     (let p = we_payload event; customer_id = payload_text pf p ''customer''; (json_time, decimal) = tx in
      ebind (in_billing (resolve_local_subscription (payload_text pf p ''subscription'') customer_id)) (\<lambda>sub.
      ebind (case sub of
               None \<Rightarrow> eret ()
             | Some s \<Rightarrow> ebind (resolve_payment_recovered json_time pf (sb_id s) ctx None) (\<lambda>_. eret ())) (\<lambda>_.
      ebind (elift (webhook_amount (dget_none p ''total''))) (\<lambda>total_eur.
      ebind (elift (webhook_amount (dget_none p ''tax''))) (\<lambda>tax_eur.
      ebind (elift (nested p ''status_transitions'' ''paid_at'' PNone)) (\<lambda>paid.
      ebind (in_billing (time_or_now pf paid)) (\<lambda>paid_at.
      publish_keyed pf ''billing.invoice.paid''
        [(PStr ''invoice_id'', PStr NIL_UUID), (PStr ''subscription_id'', PStr (subscription_uuid sub)),
         (PStr ''amount_total_eur'', PStr (decimal total_eur)), (PStr ''amount_tax_eur'', PStr (decimal tax_eur)),
         (PStr ''currency'', PStr (currency_of pf p)), (PStr ''paid_at'', PStr (json_time paid_at))]
        ctx customer_id)))))))"

definition invoice_on_failed :: "texts \<Rightarrow> platform \<Rightarrow> WebhookEvent \<Rightarrow> CorrelationContext \<Rightarrow> unit cop" where
  "invoice_on_failed tx pf event ctx =
     (let p = we_payload event; customer_id = payload_text pf p ''customer''; (json_time, decimal) = tx in
      ebind (elift (py_int (dget_or p ''attempt_count'' (PInt 1)))) (\<lambda>attempt_count.
      ebind (in_billing (resolve_local_subscription (payload_text pf p ''subscription'') customer_id)) (\<lambda>sub.
      ebind (case sub of
               None \<Rightarrow> eret ()
             | Some s \<Rightarrow>
                 ebind (in_billing (set_subscription (s\<lparr>sb_status := ''past_due''\<rparr>))) (\<lambda>_.
                 ebind (start_grace json_time pf (sb_tenant_id s) (sb_id s) ctx None) (\<lambda>_. eret ()))) (\<lambda>_.
      ebind (elift (webhook_amount (dget_none p ''total''))) (\<lambda>total_eur.
      ebind (elift (ts_to_datetime (dget_none p ''next_payment_attempt''))) (\<lambda>next_retry.
      publish_keyed pf ''billing.invoice.failed''
        [(PStr ''invoice_id'', PStr NIL_UUID), (PStr ''subscription_id'', PStr (subscription_uuid sub)),
         (PStr ''amount_total_eur'', PStr (decimal total_eur)), (PStr ''currency'', PStr (currency_of pf p)),
         (PStr ''attempt_count'', PInt attempt_count), (PStr ''next_retry_at'', time_or_none json_time next_retry)]
        ctx customer_id))))))"

definition subscription_on_created :: "texts \<Rightarrow> platform \<Rightarrow> WebhookEvent \<Rightarrow> CorrelationContext \<Rightarrow> unit cop" where
  "subscription_on_created tx pf event ctx =
     (let p = we_payload event; customer_id = payload_text pf p ''customer''; json_time = fst tx in
      ebind (elift (nested p ''metadata'' ''plan_slug'' (PStr []))) (\<lambda>slug.
      ebind (in_billing (time_or_now pf (dget_none p ''current_period_end''))) (\<lambda>period_end.
      ebind (elift (ts_to_datetime (dget_none p ''trial_end''))) (\<lambda>trial_end.
      publish_keyed pf ''billing.subscription.created''
        [(PStr ''subscription_id'', PStr NIL_UUID), (PStr ''tenant_id'', PStr NIL_UUID), (PStr ''workspace_id'', PNone),
         (PStr ''plan_slug'', PStr (py_str (pf_runtime pf) slug)), (PStr ''stripe_customer_id'', PStr customer_id),
         (PStr ''stripe_subscription_id'', PStr (payload_text pf p ''id'')),
         (PStr ''current_period_end'', PStr (json_time period_end)), (PStr ''trial_end'', time_or_none json_time trial_end)]
        ctx customer_id))))"

definition subscription_on_updated :: "texts \<Rightarrow> platform \<Rightarrow> WebhookEvent \<Rightarrow> CorrelationContext \<Rightarrow> unit cop" where
  "subscription_on_updated tx pf event ctx =
     (let p = we_payload event; json_time = fst tx in
      ebind (elift (nested p ''metadata'' ''plan_slug'' (PStr []))) (\<lambda>slug.
      ebind (in_billing (time_or_now pf (dget_none p ''current_period_end''))) (\<lambda>period_end.
      publish_keyed pf ''billing.subscription.updated''
        [(PStr ''subscription_id'', PStr NIL_UUID), (PStr ''from_plan_slug'', PNone),
         (PStr ''to_plan_slug'', PStr (py_str (pf_runtime pf) slug)),
         (PStr ''cancel_at_period_end'', PBool (truthy (dget_or p ''cancel_at_period_end'' (PBool False)))),
         (PStr ''current_period_end'', PStr (json_time period_end))]
        ctx (payload_text pf p ''customer''))))"

definition subscription_on_deleted :: "texts \<Rightarrow> platform \<Rightarrow> WebhookEvent \<Rightarrow> CorrelationContext \<Rightarrow> unit cop" where
  "subscription_on_deleted tx pf event ctx =
     (let p = we_payload event; json_time = fst tx in
      ebind (in_billing (time_or_now pf (dget_none p ''canceled_at''))) (\<lambda>scheduled_at.
      ebind (in_billing (time_or_now pf (dget_none p ''ended_at''))) (\<lambda>effective_at.
      publish_keyed pf ''billing.subscription.cancelled''
        [(PStr ''subscription_id'', PStr NIL_UUID), (PStr ''scheduled_at'', PStr (json_time scheduled_at)),
         (PStr ''effective_at'', PStr (json_time effective_at)),
         (PStr ''reason'', text_or_none pf (dget_or p ''cancellation_reason'' (PStr [])))]
        ctx (payload_text pf p ''customer''))))"

definition subscription_on_trial_ending :: "WebhookEvent \<Rightarrow> unit cop" where
  "subscription_on_trial_ending event = eret ()"

definition payment_method_on_attached :: "platform \<Rightarrow> WebhookEvent \<Rightarrow> CorrelationContext \<Rightarrow> unit cop" where
  "payment_method_on_attached pf event ctx =
     (let p = we_payload event; customer_id = payload_text pf p ''customer'';
          card = (if truthy (dget_none p ''card'') then dget_none p ''card'' else PDict []) in
      if producer pf = None \<or> customer_id = [] then eret ()
      else
        ebind (elift (as_dict card)) (\<lambda>c.
        publish_keyed pf ''billing.payment_method.attached''
          [(PStr ''payment_method_id'', PStr NIL_UUID), (PStr ''tenant_id'', PStr NIL_UUID), (PStr ''workspace_id'', PNone),
           (PStr ''stripe_payment_method_id'', PStr (payload_text pf p ''id'')),
           (PStr ''brand'', text_or_none pf (dget_or c ''brand'' (PStr []))),
           (PStr ''last4'', text_or_none pf (dget_or c ''last4'' (PStr []))), (PStr ''is_default'', PBool False)]
          ctx customer_id))"

definition dispute_on_dispute :: "texts \<Rightarrow> platform \<Rightarrow> WebhookEvent \<Rightarrow> CorrelationContext \<Rightarrow> unit cop" where
  "dispute_on_dispute tx pf event ctx =
     (let p = we_payload event; charge_id = payload_text pf p ''charge'' in
      if producer pf = None \<or> charge_id = [] then eret ()
      else
        ebind (elift (webhook_amount (dget_none p ''amount''))) (\<lambda>amount.
        publish_keyed pf ''billing.dispute.opened''
          [(PStr ''stripe_charge_id'', PStr charge_id), (PStr ''stripe_dispute_id'', PStr (payload_text pf p ''id'')),
           (PStr ''tenant_id'', PStr NIL_UUID), (PStr ''subscription_id'', PNone),
           (PStr ''amount_eur'', PStr (snd tx amount)),
           (PStr ''reason'', text_or_none pf (dget_or p ''reason'' (PStr [])))]
          ctx charge_id))"

section \<open>Dispatch\<close>

definition registered_handler ::
  "texts \<Rightarrow> platform \<Rightarrow> string \<Rightarrow> (WebhookEvent \<Rightarrow> CorrelationContext \<Rightarrow> unit cop) option" where
  "registered_handler tx pf event_type =
     map_of [(''customer.subscription.created'', subscription_on_created tx pf),
       (''customer.subscription.updated'', subscription_on_updated tx pf),
       (''customer.subscription.deleted'', subscription_on_deleted tx pf),
       (''customer.subscription.trial_will_end'', \<lambda>event _. subscription_on_trial_ending event),
       (''invoice.payment_succeeded'', invoice_on_paid tx pf), (''invoice.payment_failed'', invoice_on_failed tx pf),
       (''payment_method.attached'', payment_method_on_attached pf),
       (''charge.dispute.created'', dispute_on_dispute tx pf)] event_type"

definition dispatch_webhook :: "texts \<Rightarrow> platform \<Rightarrow> WebhookEvent \<Rightarrow> CorrelationContext \<Rightarrow> string cop" where
  "dispatch_webhook tx pf event ctx =
     (case registered_handler tx pf (we_type event) of
        None \<Rightarrow> eret ''ignored''
      | Some handler \<Rightarrow> ebind (handler event ctx) (\<lambda>_. eret ''processed''))"

section \<open>Idempotency\<close>

definition webhook_lock_key :: "string \<Rightarrow> string" where
  "webhook_lock_key event_id = ''billing:webhook_lock:'' @ event_id"

record IdempotencyDecision =
  id_proceed :: bool
  id_reason :: string

definition webhook_processed :: "string \<Rightarrow> billing \<Rightarrow> bool" where
  "webhook_processed event_id b \<longleftrightarrow> (\<exists>(provider, eid, _) \<in> set (b_webhooks b). provider = ''stripe'' \<and> eid = event_id)"

definition acquire_webhook :: "platform \<Rightarrow> int \<Rightarrow> string \<Rightarrow> IdempotencyDecision cop" where
  "acquire_webhook pf ttl event_id =
     (if event_id = [] then eret \<lparr>id_proceed = False, id_reason = ''missing_event_id''\<rparr>
      else
        ebind (in_billing (eget (webhook_processed event_id))) (\<lambda>already.
        if already then eret \<lparr>id_proceed = False, id_reason = ''already_processed''\<rparr>
        else
          ebind (in_world (redis_set_nx pf (webhook_lock_key event_id) (RToken ''1'') ttl)) (\<lambda>acquired.
          if \<not> acquired then eret \<lparr>id_proceed = False, id_reason = ''already_processing''\<rparr>
          else eret \<lparr>id_proceed = True, id_reason = ''fresh''\<rparr>)))"

text \<open>A row that is there already ends the transaction that began with \<open>start\<close>.\<close>

definition mark_webhook_processed :: "billing \<Rightarrow> string \<Rightarrow> string \<Rightarrow> unit bop" where
  "mark_webhook_processed start event_id event_type =
     (\<lambda>b. if webhook_processed event_id b then (Inr (), rollback_billing start b)
          else (Inr (), b\<lparr>b_webhooks := b_webhooks b @ [(''stripe'', event_id, event_type)]\<rparr>))"

section \<open>The route\<close>

text \<open>The active secret is tried first, then the previous one. The library's answer is the event, no event
  for a wrong signature, or another exception.\<close>

definition verify_stripe_signature ::
  "(string \<Rightarrow> string \<Rightarrow> string \<Rightarrow> WebhookEvent option py) \<Rightarrow> string \<Rightarrow> string \<Rightarrow> string \<Rightarrow> string option \<Rightarrow>
   WebhookEvent option py" where
  "verify_stripe_signature construct_event body header active previous =
     (if header = [] then Inr None
      else
        rbind (construct_event body header active) (\<lambda>first.
        case first of
          Some event \<Rightarrow> Inr (Some event)
        | None \<Rightarrow> if has_text previous then construct_event body header (the previous) else Inr None))"

text \<open>The handler and the row that records it, in one transaction. A handler that raises is rolled back and
  its lock released.\<close>

definition process_webhook :: "texts \<Rightarrow> platform \<Rightarrow> WebhookEvent \<Rightarrow> CorrelationContext \<Rightarrow> string cop" where
  "process_webhook tx pf event ctx =
     (\<lambda>(b, wd).
        case dispatch_webhook tx pf event ctx (b, wd) of
          (Inl _, (b', wd')) \<Rightarrow>
            (Inl (HTTPException 500 ''handler_failed''),
             (rollback_billing b b', snd (redis_delete (webhook_lock_key (we_id event)) wd')))
        | (Inr outcome, y) \<Rightarrow>
            ebind (in_billing (mark_webhook_processed b (we_id event) (we_type event))) (\<lambda>_. eret outcome) y)"

text \<open>\<open>secrets\<close> is \<open>None\<close> when the secret store does not answer.\<close>

definition stripe_webhook ::
  "texts \<Rightarrow> platform \<Rightarrow> (string \<Rightarrow> string \<Rightarrow> string \<Rightarrow> WebhookEvent option py) \<Rightarrow> (string \<times> string option) option \<Rightarrow> int \<Rightarrow>
   string \<Rightarrow> string \<Rightarrow> string cop" where
  "stripe_webhook tx pf construct_event secrets ttl body header =
     (case secrets of
        None \<Rightarrow> eraise (HTTPException 503 ''secrets_unavailable'')
      | Some (active, previous) \<Rightarrow>
          ebind (elift (verify_stripe_signature construct_event body header active previous)) (\<lambda>verified.
          case verified of
            None \<Rightarrow> eraise (HTTPException 401 ''invalid_signature'')
          | Some event \<Rightarrow>
              ebind (acquire_webhook pf ttl (we_id event)) (\<lambda>decision.
              if \<not> id_proceed decision then eret (id_reason decision)
              else
                ebind (in_world (fresh_uuid pf)) (\<lambda>cid.
                process_webhook tx pf event (plain_context cid)))))"

end
