(* ===== verification/Billing_Quota_Props.thy ===== *)
theory Billing_Quota_Props
  imports Billing_Metering_Props Execution_Lifecycle_Props
begin

text \<open>
  What the quota checks decide: the decision of a new enforcer as a function of the tables, what the
  usage in Redis hides, the usage of a tenant with several workspaces, and the authorization of overage
  with its effect on later checks and on paused executions.
\<close>

section \<open>The decision\<close>

definition within_plan :: "PlanVersion \<Rightarrow> usage \<Rightarrow> rat \<Rightarrow> bool" where
  "within_plan v u minutes \<longleftrightarrow>
     (pv_executions_per_month v = 0 \<or> us_executions u + 1 \<le> of_int (pv_executions_per_month v)) \<and>
     (pv_minutes_per_month v = 0 \<or> us_minutes u + minutes \<le> of_int (pv_minutes_per_month v))"

text \<open>By how much the first exceeded quota is exceeded.\<close>

definition exceeded_by :: "PlanVersion \<Rightarrow> usage \<Rightarrow> rat \<Rightarrow> rat" where
  "exceeded_by v u minutes =
     (if pv_executions_per_month v = 0 \<or> us_executions u + 1 \<le> of_int (pv_executions_per_month v)
      then us_minutes u + minutes - of_int (pv_minutes_per_month v)
      else us_executions u + 1 - of_int (pv_executions_per_month v))"

lemma failed_quota_cases:
  "failed_quota v u m = None \<longleftrightarrow> within_plan v u m"
  "failed_quota v u m = Some (q, c, l) \<Longrightarrow> c - l = exceeded_by v u m \<and> 0 < exceeded_by v u m"
  by (auto simp: failed_quota_def within_plan_def limit_failure_def exceeded_by_def split: if_splits)

lemma unlimited_within: "is_unlimited v \<Longrightarrow> within_plan v u m"
  by (simp add: is_unlimited_def within_plan_def)

definition active_authorization :: "Subscription \<Rightarrow> uuid \<Rightarrow> OverageAuthorization \<Rightarrow> bool" where
  "active_authorization s w a \<longleftrightarrow> oa_workspace_id a = w \<and> oa_subscription_id a = sb_id s \<and>
     oa_billing_period_start a = sb_current_period_start s \<and> oa_revoked_at a = None"

text \<open>The constraint \<open>overage_authorizations_workspace_period_unique\<close>.\<close>

definition authorizations_unique :: "billing \<Rightarrow> bool" where
  "authorizations_unique b \<longleftrightarrow>
     distinct (map (\<lambda>a. (oa_workspace_id a, oa_billing_period_start a)) (b_authorizations b))"

lemma active_authorization_found:
  assumes "authorizations_unique b" and "a \<in> set (b_authorizations b)" and "active_authorization s w a"
  shows "find (active_authorization s w) (b_authorizations b) = Some a"
proof -
  obtain a' where a': "find (active_authorization s w) (b_authorizations b) = Some a'"
    using assms(2,3) by (cases "find (active_authorization s w) (b_authorizations b)") (auto simp: find_None_iff)
  with find_SomeD [OF a'] assms have "a' = a"
    by (auto simp: authorizations_unique_def distinct_map active_authorization_def dest: inj_onD)
  with a' show ?thesis by simp
qed

lemma overage_authorization_run:
  "overage_authorization s w b = (Inr (case find (active_authorization s w) (b_authorizations b) of
     None \<Rightarrow> (False, None) | Some a \<Rightarrow> (True, oa_max_overage_eur a)), b)"
  by (simp add: overage_authorization_def active_authorization_def [abs_def] eff_simps)

text \<open>The decision once a quota is exceeded.\<close>

definition overage_decision :: "billing \<Rightarrow> Subscription \<Rightarrow> uuid \<Rightarrow> rat \<Rightarrow> rat \<Rightarrow> QuotaDecision" where
  "overage_decision b s w price excess =
     (if price \<le> 0 then QD_HARD_CAP_EXCEEDED
      else case find (active_authorization s w) (b_authorizations b) of
          None \<Rightarrow> QD_OVERAGE_REQUIRED
        | Some a \<Rightarrow>
            (case oa_max_overage_eur a of
               None \<Rightarrow> QD_OVERAGE_AUTHORIZED
             | Some cap \<Rightarrow>
                 if (recorded_overage (sb_id s) (sb_current_period_start s) b + excess) * price \<le> cap
                 then QD_OVERAGE_AUTHORIZED else QD_OVERAGE_CAP_EXCEEDED))"

lemma quota_result_of_decision [simp]: "qc_decision (quota_result_of d q s p w over msg) = d"
  by (simp add: quota_result_of_def Let_def)

lemma decide_overage_capped:
  assumes "0 < pv_overage_price_per_minute (pc_version c)"
    and a: "overage_authorization (pc_subscription c) w b = (Inr (True, Some cap), b)"
    and eur: "projected_overage_eur (pc_subscription c) cur included (pv_overage_price_per_minute (pc_version c)) b =
      (Inr eur, b)"
  shows "decide_overage c w (q, cur, included) b =
    (Inr (if cap < eur
          then quota_result_of QD_OVERAGE_CAP_EXCEEDED (Some (q, eur, cap)) (Some (pc_subscription c))
            (Some (pc_plan c)) None True None
          else quota_result_of QD_OVERAGE_AUTHORIZED None None (Some (pc_plan c)) None False None), b)"
  using assms(1)
  by (simp only: decide_overage_def Let_def prod.case if_True simp_thms run_ebind a eur sum.case option.case)
    (simp add: run_simps)

lemma decide_overage_run:
  assumes "failed_quota (pc_version c) u m = Some failure"
  shows "\<exists>r. decide_overage c w failure b = (Inr r, b) \<and>
    qc_decision r = overage_decision b (pc_subscription c) w (pv_overage_price_per_minute (pc_version c))
      (exceeded_by (pc_version c) u m)"
proof -
  obtain q cur included where f: "failure = (q, cur, included)" by (cases failure)
  let ?s = "pc_subscription c" and ?price = "pv_overage_price_per_minute (pc_version c)"
  define eur where "eur = (recorded_overage (sb_id ?s) (sb_current_period_start ?s) b + exceeded_by (pc_version c) u m) * ?price"
  have "max (cur - included) 0 = exceeded_by (pc_version c) u m"
    using failed_quota_cases(2) [of "pc_version c" u m q cur included] assms f by simp
  then have eur: "projected_overage_eur ?s cur included ?price b = (Inr eur, b)"
    by (simp add: projected_overage_eur_def eff_simps eur_def)
  note run = f decide_overage_def overage_decision_def overage_authorization_run eff_simps Let_def
  show ?thesis
  proof (cases "0 < ?price")
    case False
    then show ?thesis by (simp add: run)
  next
    case price: True
    then have not_free: "\<not> ?price \<le> 0" by simp
    show ?thesis
    proof (cases "find (active_authorization ?s w) (b_authorizations b)")
      case None
      then show ?thesis using price by (simp add: run)
    next
      case found: (Some a)
      show ?thesis
      proof (cases "oa_max_overage_eur a")
        case None
        then show ?thesis using price found by (simp add: run)
      next
        case (Some cap)
        have od: "overage_decision b ?s w ?price (exceeded_by (pc_version c) u m) =
            (if cap < eur then QD_OVERAGE_CAP_EXCEEDED else QD_OVERAGE_AUTHORIZED)"
          unfolding overage_decision_def eur_def [symmetric] found Some option.case if_not_P [OF not_free]
          by (simp only: not_le [symmetric] if_not_P if_P split: if_split) blast
        have oa: "overage_authorization ?s w b = (Inr (True, Some cap), b)"
          by (simp add: overage_authorization_run found Some)
        show ?thesis
          unfolding f od decide_overage_capped [OF price oa eur]
          by (rule exI, rule conjI, rule refl) (simp only: quota_result_of_decision if_distrib [of qc_decision])
      qed
    qed
  qed
qed

section \<open>A new enforcer\<close>

text \<open>A request builds its own enforcer, whose local cache is empty.\<close>

lemma cache_keys_differ: "w @ '':'' @ sid @ '':'' @ t \<noteq> w @ '':plan_context''"
proof
  assume "w @ '':'' @ sid @ '':'' @ t = w @ '':plan_context''"
  then have "sid @ '':'' @ t = ''plan_context''" by simp
  then have "CHR '':'' \<in> set ''plan_context''" by (simp flip: \<open>sid @ '':'' @ t = ''plan_context''\<close>)
  then show False by simp
qed

definition usage_cached :: "billing_env \<Rightarrow> platform \<Rightarrow> Subscription \<Rightarrow> billing \<Rightarrow> bool" where
  "usage_cached be pf s b \<longleftrightarrow> be_has_redis be \<and>
     map_of (b_redis b) (usage_key pf (sb_id s) (sb_current_period_start s)) \<noteq> None"

text \<open>All but the caches and the clocks a check reads.\<close>

definition durable :: "billing \<Rightarrow> billing" where
  "durable b = b\<lparr>b_redis := [], b_cache := [], b_reads := 0\<rparr>"

lemma durable_tables:
  assumes "durable b' = durable b"
  shows "b_workspaces b' = b_workspaces b" "b_tenants b' = b_tenants b" "b_plans b' = b_plans b"
    "b_plan_versions b' = b_plan_versions b" "b_subscriptions b' = b_subscriptions b"
    "b_usage b' = b_usage b" "b_authorizations b' = b_authorizations b"
  using arg_cong [OF assms, of b_workspaces] arg_cong [OF assms, of b_tenants] arg_cong [OF assms, of b_plans]
    arg_cong [OF assms, of b_plan_versions] arg_cong [OF assms, of b_subscriptions]
    arg_cong [OF assms, of b_usage] arg_cong [OF assms, of b_authorizations]
  by (simp_all add: durable_def)

lemma overage_decision_durable:
  assumes "durable b' = durable b"
  shows "overage_decision b' = overage_decision b"
proof -
  have "recorded_overage sid t b' = recorded_overage sid t b" for sid t
    by (simp add: recorded_overage_def durable_tables [OF assms])
  then show ?thesis by (simp add: fun_eq_iff overage_decision_def durable_tables [OF assms] split: option.splits)
qed

lemma get_current_usage_durable:
  assumes "durable b' = durable b"
  shows "fst (get_current_usage sid t b') = fst (get_current_usage sid t b)" "snd (get_current_usage sid t b) = b"
  by (simp_all add: get_current_usage_def eff_simps durable_tables [OF assms])

lemma enforcer_plan_context_cold:
  assumes "b_cache b = []" and "resolve_active_subscription w b = (Inr s, b)"
    and "plan_row s b = (Inr ((p, v) # rest), b)"
  obtains t b' where "enforcer_plan_context be pf w b = (Inr (Some \<lparr>pc_subscription = s, pc_plan = p, pc_version = v\<rparr>), b')"
    "durable b' = durable b" "b_redis b' = b_redis b" "b_reads b' = Suc (b_reads b)"
    "b_cache b' = [(w @ '':plan_context'', t, CachedContext \<lparr>pc_subscription = s, pc_plan = p, pc_version = v\<rparr>)]"
proof -
  have "enforcer_plan_context be pf w b =
    (Inr (Some \<lparr>pc_subscription = s, pc_plan = p, pc_version = v\<rparr>),
     b\<lparr>b_reads := Suc (b_reads b),
       b_cache := [(w @ '':plan_context'', monotonic pf (b_reads b) + of_int (be_ttl_seconds be),
         CachedContext \<lparr>pc_subscription = s, pc_plan = p, pc_version = v\<rparr>)]\<rparr>)"
    using assms by (simp add: enforcer_plan_context_def cache_get_def cache_set_def b_clock_def ecatch_def
        eff_simps adel_def cache_maxsize_def Let_def)
  then show thesis by (rule that) (simp_all add: durable_def)
qed

lemma cache_get_miss: "map_of (b_cache b) k = None \<Longrightarrow> cache_get pf k b = (Inr None, b)"
  by (simp add: cache_get_def eff_simps)

lemma cache_set_run:
  "fst (cache_set be pf k v b) = Inr ()" "durable (snd (cache_set be pf k v b)) = durable b"
  by (simp_all add: cache_set_def b_clock_def eff_simps Let_def durable_def)

lemma redis_usage_run:
  "durable (snd (redis_usage be pf s b)) = durable b" "b_cache (snd (redis_usage be pf s b)) = b_cache b"
  "\<not> usage_cached be pf s b \<Longrightarrow> fst (redis_usage be pf s b) = Inr None"
  by (auto simp add: usage_cached_def redis_usage_def b_clock_def eff_simps durable_def split: option.splits)

lemma set_redis_usage_run:
  "fst (set_redis_usage be pf s u b) = Inr ()" "durable (snd (set_redis_usage be pf s u b)) = durable b"
  by (simp_all add: set_redis_usage_def b_clock_def eff_simps durable_def)

text \<open>Without an entry in Redis the usage is read from the table; only caches and clocks change.\<close>

lemma enforcer_usage_cold:
  assumes "b_cache b = [(w @ '':plan_context'', e, x)]" and "\<not> usage_cached be pf s b"
    and "fst (get_current_usage (sb_id s) (sb_current_period_start s) b) = Inr u"
  obtains b' where "enforcer_usage be pf s w b = (Inr u, b')" "durable b' = durable b"
proof -
  define k where "k = w @ '':'' @ sb_id s @ '':'' @ iso_text pf (sb_current_period_start s)"
  have "map_of (b_cache b) k = None"
    using assms(1) cache_keys_differ [of w "sb_id s" "iso_text pf (sb_current_period_start s)"]
    by (auto simp: k_def)
  note miss = cache_get_miss [OF this, of pf]
  obtain b1 where b1: "redis_usage be pf s b = (Inr None, b1)" "durable b1 = durable b"
    using redis_usage_run [of be pf s b] assms(2) by (metis prod.collapse)
  have b2: "get_current_usage (sb_id s) (sb_current_period_start s) b1 = (Inr u, b1)"
    using get_current_usage_durable [OF b1(2)] get_current_usage_durable(2) [OF refl] assms(3) by (intro prod_eqI) simp_all
  obtain b3 where b3: "cache_set be pf k (CachedUsage u) b1 = (Inr (), b3)" "durable b3 = durable b"
    using cache_set_run [of be pf k "CachedUsage u" b1] b1(2) by (metis prod.collapse)
  obtain b4 where b4: "set_redis_usage be pf s u b3 = (Inr (), b4)" "durable b4 = durable b"
    using set_redis_usage_run [of be pf s u b3] b3(2) by (metis prod.collapse)
  show thesis
  proof (rule that [OF _ b4(2)])
    show "enforcer_usage be pf s w b = (Inr u, b4)"
      unfolding enforcer_usage_def Let_def k_def [symmetric]
      by (simp add: run_ebind miss b1(1) b2 b3(1) b4(1) run_simps)
  qed
qed

section \<open>The decision of a new enforcer\<close>

lemma check_execution_cold:
  assumes cache: "b_cache b = []" and s: "resolve_active_subscription w b = (Inr s, b)"
    and pv: "plan_row s b = (Inr ((p, v) # rest), b)" and redis: "\<not> usage_cached be pf s b"
    and u: "fst (get_current_usage (sb_id s) (sb_current_period_start s) b) = Inr u"
  shows "\<exists>r b'. check_execution be pf w m b = (Inr r, b') \<and> durable b' = durable b \<and>
    qc_decision r = (if within_plan v u m then QD_OK
      else overage_decision b s w (pv_overage_price_per_minute v) (exceeded_by v u m))"
proof -
  let ?c = "\<lparr>pc_subscription = s, pc_plan = p, pc_version = v\<rparr>"
  obtain t b1 where ctx: "enforcer_plan_context be pf w b = (Inr (Some ?c), b1)"
    and b1: "durable b1 = durable b" "b_redis b1 = b_redis b" "b_reads b1 = Suc (b_reads b)"
      "b_cache b1 = [(w @ '':plan_context'', t, CachedContext ?c)]"
    using enforcer_plan_context_cold [OF cache s pv] .
  have active: "sb_status s \<noteq> ''suspended''"
    using resolve_active_subscription_found [OF s] by (auto simp: ACTIVE_SUBSCRIPTION_STATUSES_def)
  have "\<not> usage_cached be pf s b1" using redis b1(2) by (simp add: usage_cached_def)
  moreover have "fst (get_current_usage (sb_id s) (sb_current_period_start s) b1) = Inr u"
    using u get_current_usage_durable(1) [OF b1(1)] by simp
  ultimately obtain b2 where us: "enforcer_usage be pf s w b1 = (Inr u, b2)" "durable b2 = durable b"
    using enforcer_usage_cold [OF b1(4)] b1(1) by metis
  show ?thesis
  proof (cases "failed_quota v u m")
    case None
    then show ?thesis
      using ctx us active failed_quota_cases(1) [of v u m] b1
      by (simp add: check_execution_def run_ebind run_simps)
  next
    case (Some f)
    have no: "\<not> within_plan v u m" "\<not> is_unlimited v"
      using Some failed_quota_cases(1) [of v u m] unlimited_within [of v u m] by auto
    obtain r' where "decide_overage ?c w f b2 = (Inr r', b2)"
      "qc_decision r' = overage_decision b s w (pv_overage_price_per_minute v) (exceeded_by v u m)"
      using decide_overage_run [of ?c u m f w b2] Some by (auto simp: overage_decision_durable [OF us(2)])
    then show ?thesis
      using ctx us active no Some by (simp add: check_execution_def run_ebind run_simps)
  qed
qed

text \<open>The decision as a value; \<open>None\<close> when the check raises.\<close>

definition quota_decision :: "billing_env \<Rightarrow> platform \<Rightarrow> uuid \<Rightarrow> rat \<Rightarrow> billing \<Rightarrow> QuotaDecision option" where
  "quota_decision be pf w m b =
     (case fst (check_execution be pf w m b) of Inl _ \<Rightarrow> None | Inr r \<Rightarrow> Some (qc_decision r))"

lemma quota_decision_cold:
  assumes "b_cache b = []" and "resolve_active_subscription w b = (Inr s, b)"
    and "plan_row s b = (Inr ((p, v) # rest), b)" and "\<not> usage_cached be pf s b"
    and "fst (get_current_usage (sb_id s) (sb_current_period_start s) b) = Inr u"
  shows "quota_decision be pf w m b = Some (if within_plan v u m then QD_OK
      else overage_decision b s w (pv_overage_price_per_minute v) (exceeded_by v u m))"
  using check_execution_cold [OF assms, of m] by (auto simp: quota_decision_def)

lemma overage_decision_found:
  assumes "authorizations_unique b" and "0 < price"
  shows "overage_decision b s w price excess = QD_OVERAGE_REQUIRED \<longleftrightarrow>
      \<not> (\<exists>a\<in>set (b_authorizations b). active_authorization s w a)"
    and "overage_decision b s w price excess = QD_OVERAGE_AUTHORIZED \<longleftrightarrow>
      (\<exists>a\<in>set (b_authorizations b). active_authorization s w a \<and>
        (\<forall>cap. oa_max_overage_eur a = Some cap \<longrightarrow>
          (recorded_overage (sb_id s) (sb_current_period_start s) b + excess) * price \<le> cap))"
proof -
  have one: "find (active_authorization s w) (b_authorizations b) = Some a"
    if "a \<in> set (b_authorizations b)" "active_authorization s w a" for a
    using active_authorization_found [OF assms(1) that] .
  have none: "find (active_authorization s w) (b_authorizations b) = None"
    if "\<not> (\<exists>a\<in>set (b_authorizations b). active_authorization s w a)"
    using that by (auto simp: find_None_iff)
  show "overage_decision b s w price excess = QD_OVERAGE_REQUIRED \<longleftrightarrow>
      \<not> (\<exists>a\<in>set (b_authorizations b). active_authorization s w a)"
    proof (cases "\<exists>a\<in>set (b_authorizations b). active_authorization s w a")
    case True
    then obtain a where "find (active_authorization s w) (b_authorizations b) = Some a" using one by blast
    with True assms(2) show ?thesis by (auto simp: overage_decision_def split: option.splits)
  next
    case False
    then show ?thesis using assms(2) none [OF False] by (simp add: overage_decision_def)
  qed
  show "overage_decision b s w price excess = QD_OVERAGE_AUTHORIZED \<longleftrightarrow>
      (\<exists>a\<in>set (b_authorizations b). active_authorization s w a \<and>
        (\<forall>cap. oa_max_overage_eur a = Some cap \<longrightarrow>
          (recorded_overage (sb_id s) (sb_current_period_start s) b + excess) * price \<le> cap))"
  proof (cases "\<exists>a\<in>set (b_authorizations b). active_authorization s w a")
    case False
    then show ?thesis using assms(2) none [OF False] by (auto simp: overage_decision_def)
  next
    case True
    then obtain a where a: "a \<in> set (b_authorizations b)" "active_authorization s w a" by blast
    have only: "a' = a" if "a' \<in> set (b_authorizations b)" "active_authorization s w a'" for a'
      using one [OF that] one [OF a] by simp
    have "(\<exists>a'\<in>set (b_authorizations b). active_authorization s w a' \<and> P a') \<longleftrightarrow> P a" for P
      using a only by blast
    then show ?thesis
      using assms(2) by (cases "oa_max_overage_eur a") (simp_all add: overage_decision_def one [OF a])
  qed
qed

section \<open>The usage a check reads\<close>

definition metric_rows :: "Subscription \<Rightarrow> metric \<Rightarrow> billing \<Rightarrow> UsageRecord list" where
  "metric_rows s k b = filter (\<lambda>r. ur_subscription_id r = sb_id s \<and>
     ur_period_start r = sb_current_period_start s \<and> \<not> ur_is_overage r \<and> ur_metric r = k) (b_usage b)"

definition last_quantity :: "UsageRecord list \<Rightarrow> rat" where
  "last_quantity rows = (if rows = [] then 0 else ur_quantity (last rows))"

lemma fold_usage:
  "\<forall>r\<in>set rows. ur_metric r = Executions \<Longrightarrow>
   foldl (\<lambda>t r. case ur_metric r of Executions \<Rightarrow> t\<lparr>us_executions := ur_quantity r\<rparr>
     | Minutes \<Rightarrow> t\<lparr>us_minutes := ur_quantity r\<rparr>) u rows =
   (if rows = [] then u else u\<lparr>us_executions := last_quantity rows\<rparr>)"
  "\<forall>r\<in>set rows. ur_metric r = Minutes \<Longrightarrow>
   foldl (\<lambda>t r. case ur_metric r of Executions \<Rightarrow> t\<lparr>us_executions := ur_quantity r\<rparr>
     | Minutes \<Rightarrow> t\<lparr>us_minutes := ur_quantity r\<rparr>) u rows =
   (if rows = [] then u else u\<lparr>us_minutes := last_quantity rows\<rparr>)"
  by (induction rows arbitrary: u) (auto simp: last_quantity_def)

text \<open>Of several rows of a metric only the last read counts.\<close>

lemma get_current_usage_rows:
  "get_current_usage (sb_id s) (sb_current_period_start s) b =
    (Inr \<lparr>us_executions = last_quantity (metric_rows s Executions b),
          us_minutes = last_quantity (metric_rows s Minutes b)\<rparr>, b)"
proof -
  have rows: "filter (\<lambda>r. ur_metric r = k) (filter (\<lambda>r. ur_subscription_id r = sb_id s \<and>
      ur_period_start r = sb_current_period_start s \<and> \<not> ur_is_overage r) (b_usage b)) = metric_rows s k b" for k
    unfolding metric_rows_def filter_filter by (rule filter_cong) auto
  have kinds: "\<forall>r\<in>set (metric_rows s k b). ur_metric r = k" for k
    by (simp add: metric_rows_def)
  show ?thesis
    unfolding get_current_usage_def run_simps Let_def rows foldl_append
    by (simp add: fold_usage(1) [OF kinds] fold_usage(2) [OF kinds] last_quantity_def)
qed

lemma last_quantity_unique:
  assumes "distinct (map aggregate_key rows)"
  shows "last_quantity (filter (\<lambda>r. aggregate_key r = k) rows) = usage_sum (\<lambda>x. x = k) rows"
  using assms
proof (induction rows)
  case Nil
  show ?case by (simp add: last_quantity_def)
next
  case (Cons r rows)
  show ?case
  proof (cases "aggregate_key r = k")
    case True
    with Cons.prems have "filter (\<lambda>r. aggregate_key r = k) rows = []"
      by (metis (mono_tags, lifting) distinct.simps(2) filter_False image_eqI list.simps(9) set_map)
    with True Cons.prems show ?thesis by (auto simp: last_quantity_def usage_sum_absent)
  next
    case False
    with Cons show ?thesis by simp
  qed
qed

text \<open>A subscription only one workspace uses.\<close>

definition used_only_by :: "Subscription \<Rightarrow> uuid \<Rightarrow> billing \<Rightarrow> bool" where
  "used_only_by s w b \<longleftrightarrow> (\<forall>r\<in>set (b_usage b). ur_subscription_id r = sb_id s \<longrightarrow>
     ur_workspace_id r = w \<and> ur_tenant_id r = sb_tenant_id s)"

definition counted :: "Subscription \<Rightarrow> uuid \<Rightarrow> billing \<Rightarrow> usage" where
  "counted s w b = \<lparr>us_executions = usage_sum (\<lambda>k. k = counter s w Executions False) (b_usage b),
     us_minutes = usage_sum (\<lambda>k. k = counter s w Minutes False) (b_usage b)\<rparr>"

lemma current_usage_counted:
  assumes "rows_unique (b_usage b)" and "used_only_by s w b"
  shows "fst (get_current_usage (sb_id s) (sb_current_period_start s) b) = Inr (counted s w b)"
proof -
  have "metric_rows s k b = filter (\<lambda>r. aggregate_key r = counter s w k False) (b_usage b)" for k
    unfolding metric_rows_def
    by (rule filter_cong) (use assms(2) in \<open>auto simp: used_only_by_def aggregate_key_def counter_def\<close>)
  then show ?thesis
    using assms(1) by (simp add: get_current_usage_rows counted_def last_quantity_unique rows_unique_def)
qed

section \<open>Properties\<close>

lemma overage_decision_free:
  "price \<le> 0 \<Longrightarrow> overage_decision b s w price excess = QD_HARD_CAP_EXCEEDED"
  "overage_decision b s w price excess \<noteq> QD_OK"
  "0 < price \<Longrightarrow> overage_decision b s w price excess \<noteq> QD_HARD_CAP_EXCEEDED"
  by (auto simp: overage_decision_def split: option.splits)

lemma decision_table:
  assumes "authorizations_unique b"
    and d: "d = Some (if exceeded then overage_decision b s w price excess else QD_OK)"
  shows "d = Some QD_OK \<longleftrightarrow> \<not> exceeded"
    and "d = Some QD_HARD_CAP_EXCEEDED \<longleftrightarrow> exceeded \<and> price \<le> 0"
    and "d = Some QD_OVERAGE_REQUIRED \<longleftrightarrow> exceeded \<and> 0 < price \<and>
      \<not> (\<exists>a\<in>set (b_authorizations b). active_authorization s w a)"
    and "d = Some QD_OVERAGE_AUTHORIZED \<longleftrightarrow> exceeded \<and> 0 < price \<and>
      (\<exists>a\<in>set (b_authorizations b). active_authorization s w a \<and>
         (\<forall>cap. oa_max_overage_eur a = Some cap \<longrightarrow>
            (recorded_overage (sb_id s) (sb_current_period_start s) b + excess) * price \<le> cap))"
proof -
  consider "\<not> exceeded" | "exceeded" "price \<le> 0" | "exceeded" "0 < price" "\<not> price \<le> 0" by linarith
  note by_price = this
  show "d = Some QD_OK \<longleftrightarrow> \<not> exceeded" by (simp add: d overage_decision_free)
  show "d = Some QD_HARD_CAP_EXCEEDED \<longleftrightarrow> exceeded \<and> price \<le> 0"
    by (cases rule: by_price) (simp_all add: d overage_decision_free)
  show "d = Some QD_OVERAGE_REQUIRED \<longleftrightarrow> exceeded \<and> 0 < price \<and>
      \<not> (\<exists>a\<in>set (b_authorizations b). active_authorization s w a)"
    by (cases rule: by_price)
      (simp_all add: d overage_decision_free(1) overage_decision_found(1) [OF assms(1)])
  show "d = Some QD_OVERAGE_AUTHORIZED \<longleftrightarrow> exceeded \<and> 0 < price \<and>
      (\<exists>a\<in>set (b_authorizations b). active_authorization s w a \<and>
         (\<forall>cap. oa_max_overage_eur a = Some cap \<longrightarrow>
            (recorded_overage (sb_id s) (sb_current_period_start s) b + excess) * price \<le> cap))"
    by (cases rule: by_price)
      (simp_all add: d overage_decision_free(1) overage_decision_found(2) [OF assms(1)])
qed


lemmas sample_billing_defs = sample_billing_def sample_subscription_def sample_plan_def sample_plan_version_def

lemma sample_resolved:
  "resolve_active_subscription ''ws'' sample_billing = (Inr sample_subscription, sample_billing)"
  "plan_row sample_subscription sample_billing = (Inr [(sample_plan, sample_plan_version)], sample_billing)"
  by (simp_all add: resolve_active_subscription_def session_get_def newest_subscription_def
      ACTIVE_SUBSCRIPTION_STATUSES_def plan_row_def eff_simps sample_billing_defs Let_def)

lemma sample_unused:
  "b_cache sample_billing = []" "b_redis sample_billing = []" "b_usage sample_billing = []"
  "b_authorizations sample_billing = []"
  by (simp_all add: sample_billing_def)

lemma sample_exceeded: "\<not> within_plan sample_plan_version (counted sample_subscription ''ws'' sample_billing) 2"
  by (simp add: within_plan_def counted_def sample_unused sample_plan_version_def)


subsection \<open>Several workspaces\<close>

definition row_usage :: "UsageRecord \<Rightarrow> usage" where
  "row_usage r = \<lparr>us_executions = (if ur_metric r = Executions then ur_quantity r else 0),
     us_minutes = (if ur_metric r = Minutes then ur_quantity r else 0)\<rparr>"

lemma last_quantity_fits:
  assumes "P 0" and "\<And>r. r \<in> set rows \<Longrightarrow> P (ur_quantity r)"
  shows "P (last_quantity rows)"
  using assms by (auto simp: last_quantity_def)

text \<open>C39. The usage of a subscription is recorded per workspace, and the check takes one row of each
  metric instead of their sum. So the workspaces of an enterprise tenant share one subscription but not its
  quota: as long as no single row exceeds the plan, every check is allowed, whatever the rows add up to.\<close>

theorem tenant_quota_counts_one_workspace:
  assumes "b_cache b = []" and "resolve_active_subscription w b = (Inr s, b)"
    and "plan_row s b = (Inr ((p, v) # rest), b)" and "\<not> usage_cached be pf s b"
    and "within_plan v \<lparr>us_executions = 0, us_minutes = 0\<rparr> m"
    and each: "\<forall>r\<in>set (b_usage b). within_plan v (row_usage r) m"
  shows "quota_decision be pf w m b = Some QD_OK"
proof -
  let ?u = "\<lparr>us_executions = last_quantity (metric_rows s Executions b),
    us_minutes = last_quantity (metric_rows s Minutes b)\<rparr>"
  have fits: "within_plan v (row_usage r) m" if "r \<in> set (metric_rows s k b)" for r k
    using each that by (simp add: metric_rows_def)
  have "within_plan v ?u m"
    unfolding within_plan_def
  proof (rule conjI)
    show "pv_executions_per_month v = 0 \<or> us_executions ?u + 1 \<le> of_int (pv_executions_per_month v)"
      unfolding usage.simps
      by (rule last_quantity_fits)
        (use assms(5) fits [of _ Executions] in \<open>auto simp: within_plan_def row_usage_def metric_rows_def\<close>)
    show "pv_minutes_per_month v = 0 \<or> us_minutes ?u + m \<le> of_int (pv_minutes_per_month v)"
      unfolding usage.simps
      by (rule last_quantity_fits)
        (use assms(5) fits [of _ Minutes] in \<open>auto simp: within_plan_def row_usage_def metric_rows_def\<close>)
  qed
  moreover have "fst (get_current_usage (sb_id s) (sb_current_period_start s) b) = Inr ?u"
    by (simp add: get_current_usage_rows)
  ultimately show ?thesis by (simp add: quota_decision_cold [OF assms(1-4)])
qed

text \<open>Two workspaces have used three fifths of a minute each, of one included minute.\<close>

definition enterprise_subscription :: Subscription where
  "enterprise_subscription = sample_subscription\<lparr>sb_scope_type := ''tenant'', sb_scope_id := ''tenant''\<rparr>"

definition enterprise_billing :: billing where
  "enterprise_billing =
     sample_billing\<lparr>b_tenants := [\<lparr>tn_id = ''tenant'', tn_kind = ''enterprise''\<rparr>],
       b_subscriptions := [enterprise_subscription],
       b_usage := [usage_row enterprise_subscription ''ws'' Minutes (3 / 5) False,
         usage_row enterprise_subscription ''ws2'' Minutes (3 / 5) False]\<rparr>"

lemma enterprise_resolved:
  "resolve_active_subscription ''ws'' enterprise_billing = (Inr enterprise_subscription, enterprise_billing)"
  "plan_row enterprise_subscription enterprise_billing = (Inr [(sample_plan, sample_plan_version)], enterprise_billing)"
  by (simp_all add: resolve_active_subscription_def session_get_def newest_subscription_def
      ACTIVE_SUBSCRIPTION_STATUSES_def plan_row_def eff_simps enterprise_billing_def enterprise_subscription_def
      sample_billing_defs Let_def)

theorem tenant_quota_counts_one_workspace_witness:
  "quota_decision sample_billing_env sample_platform ''ws'' (2 / 5) enterprise_billing = Some QD_OK \<and>
   of_int (pv_minutes_per_month sample_plan_version) < usage_sum (\<lambda>k. \<not> is_over k) (b_usage enterprise_billing)"
proof -
  have cold: "b_cache enterprise_billing = []"
    "\<not> usage_cached sample_billing_env sample_platform enterprise_subscription enterprise_billing"
    by (simp_all add: usage_cached_def enterprise_billing_def sample_unused)
  have "quota_decision sample_billing_env sample_platform ''ws'' (2 / 5) enterprise_billing = Some QD_OK"
    by (rule tenant_quota_counts_one_workspace [OF cold(1) enterprise_resolved cold(2)])
      (simp_all add: within_plan_def row_usage_def usage_row_def enterprise_billing_def sample_plan_version_def)
  then show ?thesis by (simp add: enterprise_billing_def sample_plan_version_def)
qed

subsection \<open>The usage in Redis\<close>

lemma metering_writes_usage:
  assumes "metering_ok be b"
  shows "\<exists>x y z. meter_all be pf envs b = b\<lparr>b_processed := x, b_usage := y, b_reported := z\<rparr>"
  using assms
proof (induction envs arbitrary: b)
  case Nil
  have "b = b\<lparr>b_processed := b_processed b, b_usage := b_usage b, b_reported := b_reported b\<rparr>" by simp
  then show ?case unfolding meter_all_def by (metis foldl_Nil)
next
  case (Cons env envs)
  obtain r b1 where run: "metering_handle_event be pf env b = (r, b1)" by fastforce
  have ok: "metering_ok be b1"
    using metering_handle_event_keeps [OF Cons.prems, of pf env] by (simp add: run)
  have "\<exists>x y z. b1 = b\<lparr>b_processed := x, b_usage := y, b_reported := z\<rparr>"
    using Cons.prems
  proof (cases rule: metering_handle_event_cases [where pf = pf and env = env])
    case (unchanged r)
    then have "b1 = b\<lparr>b_processed := b_processed b, b_usage := b_usage b, b_reported := b_reported b\<rparr>"
      by (simp add: run)
    then show ?thesis by blast
  next
    case (recorded w s p v m rows reps)
    then show ?thesis by (auto simp: run)
  qed
  then obtain x y z where b1: "b1 = b\<lparr>b_processed := x, b_usage := y, b_reported := z\<rparr>" by blast
  obtain x' y' z' where "meter_all be pf envs b1 = b1\<lparr>b_processed := x', b_usage := y', b_reported := z'\<rparr>"
    using Cons.IH [OF ok] by blast
  then have "meter_all be pf (env # envs) b = b\<lparr>b_processed := x', b_usage := y', b_reported := z'\<rparr>"
    by (simp add: meter_all_def run b1)
  then show ?case by blast
qed

lemma enforcer_usage_warm:
  assumes "b_cache b = [(w @ '':plan_context'', e, x)]" and "be_has_redis be"
    and "map_of (b_redis b) (usage_key pf (sb_id s) (sb_current_period_start s)) = Some (u, expires)"
    and "redis_clock pf (b_reads b) < expires"
  obtains b' where "enforcer_usage be pf s w b = (Inr u, b')"
proof -
  define k where "k = w @ '':'' @ sb_id s @ '':'' @ iso_text pf (sb_current_period_start s)"
  have "map_of (b_cache b) k = None"
    using assms(1) cache_keys_differ [of w "sb_id s" "iso_text pf (sb_current_period_start s)"]
    by (auto simp: k_def)
  note miss = cache_get_miss [OF this, of pf]
  have hit: "fst (redis_usage be pf s b) = Inr (Some u)"
    using assms(2-4) by (simp add: redis_usage_def b_clock_def eff_simps)
  then obtain b1 where b1: "redis_usage be pf s b = (Inr (Some u), b1)" by (metis prod.collapse)
  obtain b2 where b2: "cache_set be pf k (CachedUsage u) b1 = (Inr (), b2)"
    using cache_set_run(1) [of be pf k "CachedUsage u" b1] by (metis prod.collapse)
  show thesis
  proof (rule that)
    show "enforcer_usage be pf s w b = (Inr u, b2)"
      unfolding enforcer_usage_def Let_def k_def [symmetric]
      by (simp add: run_ebind miss b1 b2 run_simps)
  qed
qed

lemma check_execution_warm:
  assumes cache: "b_cache b = []" and s: "resolve_active_subscription w b = (Inr s, b)"
    and pv: "plan_row s b = (Inr ((p, v) # rest), b)" and redis: "be_has_redis be"
      "map_of (b_redis b) (usage_key pf (sb_id s) (sb_current_period_start s)) = Some (u, expires)"
    and t: "redis_clock pf (Suc (b_reads b)) < expires" and u: "within_plan v u m"
  shows "quota_decision be pf w m b = Some QD_OK"
proof -
  let ?c = "\<lparr>pc_subscription = s, pc_plan = p, pc_version = v\<rparr>"
  obtain e b1 where ctx: "enforcer_plan_context be pf w b = (Inr (Some ?c), b1)"
    and b1: "b_redis b1 = b_redis b" "b_cache b1 = [(w @ '':plan_context'', e, CachedContext ?c)]"
      "b_reads b1 = Suc (b_reads b)"
    using enforcer_plan_context_cold [OF cache s pv] by metis
  have active: "sb_status s \<noteq> ''suspended''"
    using resolve_active_subscription_found [OF s] by (auto simp: ACTIVE_SUBSCRIPTION_STATUSES_def)
  obtain b2 where us: "enforcer_usage be pf s w b1 = (Inr u, b2)"
    using enforcer_usage_warm [OF b1(2) redis(1), of pf s u expires] redis(2) t b1 by auto
  have "failed_quota v u m = None"
    using u failed_quota_cases(1) by blast
  then show ?thesis
    using ctx us active by (simp add: quota_decision_def check_execution_def run_ebind run_simps)
qed

text \<open>The consumer meters without a Redis client, so the usage a check has left in Redis stays there:
  until it expires, the checks of new requests decide by it, and allow executions within it whatever has been
  metered since.\<close>

theorem metered_usage_hidden_by_redis:
  assumes "metering_ok be b" and "b_cache b = []" and "resolve_active_subscription w b = (Inr s, b)"
    and "plan_row s b = (Inr ((p, v) # rest), b)" and "be_has_redis be"
    and "map_of (b_redis b) (usage_key pf (sb_id s) (sb_current_period_start s)) = Some (u, expires)"
    and "redis_clock pf (Suc (b_reads b)) < expires" and "within_plan v u m"
  shows "quota_decision be pf w m (meter_all be pf envs b) = Some QD_OK"
proof -
  obtain x y z where b': "meter_all be pf envs b = b\<lparr>b_processed := x, b_usage := y, b_reported := z\<rparr>" (is "_ = ?b")
    using metering_writes_usage [OF assms(1)] by blast
  have "fst (resolve_active_subscription w ?b) = fst (resolve_active_subscription w b)"
    "fst (plan_row s ?b) = fst (plan_row s b)" "snd (plan_row s ?b) = ?b"
    by (simp_all add: resolve_active_subscription_def plan_row_def eff_simps Let_def split: option.splits)
  then have "resolve_active_subscription w ?b = (Inr s, ?b)" "plan_row s ?b = (Inr ((p, v) # rest), ?b)"
    using assms(3,4) resolve_active_subscription_state [of w ?b] by (metis fst_conv prod.collapse)+
  then show ?thesis
    unfolding b' by (rule check_execution_warm [rotated]) (use assms in simp_all)
qed

definition cached_billing :: billing where
  "cached_billing = sample_billing\<lparr>b_redis :=
     [(usage_key sample_platform ''sub'' 0, (\<lparr>us_executions = 0, us_minutes = 0\<rparr>, 60 * second))]\<rparr>"

theorem metered_usage_hidden_by_redis_witness:
  "quota_decision sample_billing_env sample_platform ''ws'' 1
     (meter_all sample_billing_env sample_platform sample_events cached_billing) = Some QD_OK"
proof -
  have "metering_ok sample_billing_env cached_billing"
    by (rule metering_ok_start) (simp_all add: cached_billing_def sample_billing_def)
  moreover have "resolve_active_subscription ''ws'' cached_billing = (Inr sample_subscription, cached_billing)"
    "plan_row sample_subscription cached_billing = (Inr [(sample_plan, sample_plan_version)], cached_billing)"
    by (simp_all add: resolve_active_subscription_def session_get_def newest_subscription_def
        ACTIVE_SUBSCRIPTION_STATUSES_def plan_row_def eff_simps cached_billing_def sample_billing_defs Let_def)
  moreover have "b_cache cached_billing = []" "b_reads cached_billing = 0"
    "map_of (b_redis cached_billing) (usage_key sample_platform (sb_id sample_subscription)
       (sb_current_period_start sample_subscription)) = Some (\<lparr>us_executions = 0, us_minutes = 0\<rparr>, 60 * second)"
    by (simp_all add: cached_billing_def sample_billing_defs)
  moreover have "redis_clock sample_platform (Suc 0) < 60 * second" "be_has_redis sample_billing_env"
    "within_plan sample_plan_version \<lparr>us_executions = 0, us_minutes = 0\<rparr> 1"
    by (simp_all add: sample_platform_def second_def sample_billing_env_def within_plan_def sample_plan_version_def)
  ultimately show ?thesis
    by (intro metered_usage_hidden_by_redis [where u = "\<lparr>us_executions = 0, us_minutes = 0\<rparr>"]) simp_all
qed

end
