(* ===== verification/Billing_Overage_Props.thy ===== *)
theory Billing_Overage_Props
  imports Billing_Quota_Props
begin

text \<open>
  The authorization of overage: what it changes for the next check, what its revocation restores, what a
  second authorization does, and what becomes of the executions that were paused; and the creation of an
  execution under the quota checks.
\<close>

section \<open>Runs on two states\<close>

lemma in_billing_Inr:
  "in_billing m (b, wd) = (Inr x, y) \<longleftrightarrow> (\<exists>b'. m b = (Inr x, b') \<and> y = (b', wd))"
  by (auto simp: in_billing_def split: prod.splits)

lemma in_world_Inr:
  "in_world m (b, wd) = (Inr x, y) \<longleftrightarrow> (\<exists>wd'. m wd = (Inr x, wd') \<and> y = (b, wd'))"
  by (auto simp: in_world_def split: prod.splits)

lemmas cop_simps = ebind_Inr eret_Inr eraise_Inr eguard_Inr in_billing_Inr in_world_Inr run_simps

lemma publish_overage_event_quiet:
  "same_tables wd (snd (publish_overage_event pf s k payload wd)) \<and>
   events (snd (publish_overage_event pf s k payload wd)) = events wd"
  by (auto simp: publish_overage_event_def publish_def fresh_uuid_def run_ebind run_simps same_tables_def
      split: option.splits)

lemma require_workspace_admin_state:
  "require_workspace_admin w u b = (Inr x, b') \<Longrightarrow> b' = b"
  by (auto simp: require_workspace_admin_def require_workspace_member_def cop_simps split: option.splits)

section \<open>Authorizing\<close>

definition period_rows :: "Subscription \<Rightarrow> uuid \<Rightarrow> billing \<Rightarrow> OverageAuthorization list" where
  "period_rows s w b = filter (\<lambda>a. oa_workspace_id a = w \<and>
     oa_billing_period_start a = sb_current_period_start s) (b_authorizations b)"

lemma authorize_row_fresh:
  assumes "period_rows s w b = []"
    and "authorize_row pf s w (sb_current_period_start s) cap user b = (Inr a, b')"
  shows "active_authorization s w a" "oa_max_overage_eur a = cap"
    "\<exists>i n. b' = b\<lparr>b_ids := i, b_reads := n, b_authorizations := b_authorizations b @ [a]\<rparr>"
  using assms
  by (auto simp: period_rows_def authorize_row_def get_for_period_def first_of_def cop_simps b_clock_def Let_def
      active_authorization_def split: option.splits)

lemma authorize_row_kept:
  assumes "period_rows s w b = [a0]" and "oa_revoked_at a0 = None"
  shows "authorize_row pf s w (sb_current_period_start s) cap user b = (Inr a0, b)"
  using assms by (simp add: period_rows_def authorize_row_def get_for_period_def first_of_def eff_simps)

text \<open>A request of the route that returns.\<close>

lemma authorize_overage_run:
  assumes "resolve_active_subscription w b = (Inr s, b)"
    and "authorize_overage be pf w cap actor (b, wd) = (Inr a, (b1, wd1))"
  shows "authorize_row pf s w (sb_current_period_start s) cap actor b = (Inr a, b1)"
    and "publish_overage_event pf s ''billing.overage.authorized''
              [(PStr ''workspace_id'', PStr w), (PStr ''authorization_id'', PStr (oa_id a)),
               (PStr ''billing_period_start'', PStr (iso_text pf (sb_current_period_start s))),
               (PStr ''max_overage_eur'',
                  case cap of None \<Rightarrow> PNone | Some x \<Rightarrow> PStr (be_decimal_text be x)),
               (PStr ''authorized_by_user_id'', PStr actor)] wd = (Inr (), wd1)"
proof -
  from assms(2) obtain b0 where "require_workspace_admin w actor b = (Inr (), b0)"
    "authorize be pf False w None cap actor (b0, wd) = (Inr a, (b1, wd1))"
    by (auto simp: authorize_overage_def cop_simps)
  with require_workspace_admin_state have run: "authorize be pf False w None cap actor (b, wd) = (Inr a, (b1, wd1))"
    by metis
  then show "authorize_row pf s w (sb_current_period_start s) cap actor b = (Inr a, b1)"
    and "publish_overage_event pf s ''billing.overage.authorized''
              [(PStr ''workspace_id'', PStr w), (PStr ''authorization_id'', PStr (oa_id a)),
               (PStr ''billing_period_start'', PStr (iso_text pf (sb_current_period_start s))),
               (PStr ''max_overage_eur'',
                  case cap of None \<Rightarrow> PNone | Some x \<Rightarrow> PStr (be_decimal_text be x)),
               (PStr ''authorized_by_user_id'', PStr actor)] wd = (Inr (), wd1)"
    using assms(1) by (auto simp: authorize_def cop_simps Let_def)
qed

section \<open>Revoking\<close>

definition revoked :: "timestamp \<Rightarrow> uuid \<Rightarrow> OverageAuthorization \<Rightarrow> OverageAuthorization" where
  "revoked t user a = a\<lparr>oa_revoked_at := Some t, oa_revoked_by_user_id := Some user\<rparr>"

lemma revoke_row_run:
  "revoke_row pf aid user b = (Inr a, b') \<Longrightarrow>
   \<exists>t n. b' = b\<lparr>b_reads := n, b_authorizations := update_rows (\<lambda>a. oa_id a = aid) (revoked t user) (b_authorizations b)\<rparr>"
  unfolding revoked_def by (auto simp: revoke_row_def cop_simps b_clock_def split: option.splits)

lemma revoke_overage_run:
  assumes "resolve_active_subscription w b = (Inr s, b)" and "period_rows s w b = [a]"
    and "oa_subscription_id a = sb_id s" and "revoke_overage pf w actor (b, wd) = (Inr (), (b', wd'))"
  shows "\<exists>t n. b' = b\<lparr>b_reads := n,
    b_authorizations := update_rows (\<lambda>x. oa_id x = oa_id a) (revoked t actor) (b_authorizations b)\<rparr>"
proof -
  have rows: "filter (\<lambda>a. oa_workspace_id a = w \<and> oa_subscription_id a = sb_id s \<and>
      oa_billing_period_start a = sb_current_period_start s) (b_authorizations b) = [a]"
  proof -
    have "filter (\<lambda>a. oa_workspace_id a = w \<and> oa_subscription_id a = sb_id s \<and>
        oa_billing_period_start a = sb_current_period_start s) (b_authorizations b) =
      filter (\<lambda>a. oa_subscription_id a = sb_id s) (period_rows s w b)"
      unfolding period_rows_def filter_filter by (rule filter_cong) auto
    then show ?thesis using assms(2,3) by simp
  qed
  have ctx: "pc_subscription c = s \<and> b'' = b" if "subscription_context w b = (Inr c, b'')" for c b''
    using that assms(1) by (auto simp: subscription_context_def cop_simps plan_row_def split: list.splits)
  from assms(4) obtain b0 c b2 found b3 where
    adm: "require_workspace_admin w actor b = (Inr (), b0)" and c: "subscription_context w b0 = (Inr c, b2)"
    and cur: "current_authorization w (pc_subscription c) b2 = (Inr found, b3)"
    and rest: "(case found of None \<Rightarrow> eret () | Some a \<Rightarrow> ebind (revoke pf (oa_id a) actor) (\<lambda>_. eret ())) (b3, wd) =
      (Inr (), (b', wd'))"
    by (auto simp: revoke_overage_def cop_simps)
  from require_workspace_admin_state [OF adm] have b0: "b0 = b" .
  with c ctx have c: "pc_subscription c = s" "b2 = b" by auto
  with cur rows have "found = Some a" "b3 = b"
    by (auto simp: current_authorization_def cop_simps first_of_def)
  with rest obtain x b4 where "revoke_row pf (oa_id a) actor b = (Inr x, b4)" "b' = b4"
    by (auto simp: revoke_def cop_simps split: option.splits)
  then show ?thesis using revoke_row_run by blast
qed

section \<open>Checks around an authorization\<close>

lemma resolve_ignores_authorizations:
  assumes "resolve_active_subscription w b = (Inr s, b)"
  shows "resolve_active_subscription w (b\<lparr>b_ids := i, b_reads := n, b_authorizations := x\<rparr>) =
     (Inr s, b\<lparr>b_ids := i, b_reads := n, b_authorizations := x\<rparr>)"
proof -
  have "fst (resolve_active_subscription w (b\<lparr>b_ids := i, b_reads := n, b_authorizations := x\<rparr>)) =
      fst (resolve_active_subscription w b)"
    by (simp add: resolve_active_subscription_def Let_def split: option.splits)
  then show ?thesis
    using assms resolve_active_subscription_state by (intro prod_eqI) simp_all
qed

lemma plan_row_ignores_authorizations:
  "plan_row s b = (Inr rows, b) \<Longrightarrow>
   plan_row s (b\<lparr>b_ids := i, b_reads := n, b_authorizations := x\<rparr>) =
     (Inr rows, b\<lparr>b_ids := i, b_reads := n, b_authorizations := x\<rparr>)"
  by (simp add: plan_row_def eff_simps)

lemma get_current_usage_ignores_authorizations:
  "fst (get_current_usage sid t (b\<lparr>b_ids := i, b_reads := n, b_authorizations := x\<rparr>)) =
   fst (get_current_usage sid t b)"
  by (simp add: get_current_usage_def eff_simps)

lemma exceeded_decision:
  assumes "b_cache b = []" and "resolve_active_subscription w b = (Inr s, b)"
    and "plan_row s b = (Inr ((p, v) # rest), b)" and "\<not> usage_cached be pf s b"
    and "fst (get_current_usage (sb_id s) (sb_current_period_start s) b) = Inr u"
    and "\<not> within_plan v u m"
    and b': "b' = b\<lparr>b_ids := i, b_reads := n, b_authorizations := x\<rparr>"
  shows "quota_decision be pf w m b' =
    Some (overage_decision b' s w (pv_overage_price_per_minute v) (exceeded_by v u m))"
proof -
  have "b_cache b' = []" "\<not> usage_cached be pf s b'"
    using assms(1,4) by (simp_all add: b' usage_cached_def)
  moreover have "fst (get_current_usage (sb_id s) (sb_current_period_start s) b') = Inr u"
    using assms(5) by (simp add: b' get_current_usage_ignores_authorizations)
  ultimately show ?thesis
    using quota_decision_cold [of b' w s p v rest be pf u m] assms(6)
      resolve_ignores_authorizations [OF assms(2)] plan_row_ignores_authorizations [OF assms(3)]
    by (simp add: b')
qed

lemma recorded_overage_ignores_authorizations [simp]:
  "recorded_overage sid t (b\<lparr>b_ids := i, b_reads := n, b_authorizations := x\<rparr>) = recorded_overage sid t b"
  by (simp add: recorded_overage_def)

lemma find_snoc: "find P (xs @ [x]) = (case find P xs of None \<Rightarrow> if P x then Some x else None | Some y \<Rightarrow> Some y)"
  by (induction xs) auto

lemma period_rows_none:
  "period_rows s w b = [] \<Longrightarrow> find (active_authorization s w) (b_authorizations b) = None"
  by (auto simp: period_rows_def active_authorization_def find_None_iff filter_empty_conv)

lemma overage_decision_none:
  "0 < price \<Longrightarrow> find (active_authorization s w) (b_authorizations b) = None \<Longrightarrow>
   overage_decision b s w price excess = QD_OVERAGE_REQUIRED"
  by (simp add: overage_decision_def)

lemma overage_decision_last:
  assumes "0 < price" and "find (active_authorization s w) as = None" and "active_authorization s w a"
    and "b' = b\<lparr>b_ids := i, b_reads := n, b_authorizations := as @ [a]\<rparr>"
  shows "overage_decision b' s w price excess =
    (case oa_max_overage_eur a of
       None \<Rightarrow> QD_OVERAGE_AUTHORIZED
     | Some cap \<Rightarrow>
         if (recorded_overage (sb_id s) (sb_current_period_start s) b + excess) * price \<le> cap
         then QD_OVERAGE_AUTHORIZED else QD_OVERAGE_CAP_EXCEEDED)"
  using assms by (cases "oa_max_overage_eur a") (simp_all add: overage_decision_def find_snoc)

lemma none_active_after_revocation:
  assumes "period_rows s w b = []"
  shows "find (active_authorization s w)
    (update_rows (\<lambda>x. oa_id x = oa_id a) (revoked t actor) (b_authorizations b @ [a])) = None"
  using assms
  by (auto simp: period_rows_def active_authorization_def update_rows_def find_None_iff filter_empty_conv revoked_def)


definition sample_authorization :: OverageAuthorization where
  "sample_authorization =
     \<lparr>oa_id = show_nat 0, oa_tenant_id = ''tenant'', oa_workspace_id = ''ws'', oa_subscription_id = ''sub'',
      oa_billing_period_start = 0, oa_billing_period_end = 30, oa_authorized_at = 0,
      oa_authorized_by_user_id = ''owner'', oa_max_overage_eur = Some 1, oa_revoked_at = None,
      oa_revoked_by_user_id = None\<rparr>"

lemma sample_admin:
  "b_memberships b = b_memberships sample_billing \<Longrightarrow> require_workspace_admin ''ws'' ''owner'' b = (Inr (), b)"
  by (simp add: require_workspace_admin_def require_workspace_member_def eff_simps sample_billing_def)

definition authorized_billing :: billing where
  "authorized_billing = sample_billing\<lparr>b_ids := 1, b_reads := 1, b_authorizations := [sample_authorization]\<rparr>"

lemma sample_authorize_run:
  "authorize_overage sample_billing_env sample_platform ''ws'' (Some 1) ''owner'' (sample_billing, sample_world) =
    (Inr sample_authorization,
     (authorized_billing, sample_world))"
proof -
  have row: "authorize_row sample_platform sample_subscription ''ws'' (sb_current_period_start sample_subscription) (Some 1) ''owner'' sample_billing =
      (Inr sample_authorization, authorized_billing)"
    by (simp add: authorized_billing_def authorize_row_def get_for_period_def first_of_def b_clock_def eff_simps sample_authorization_def
        sample_billing_defs sample_platform_def Let_def)
  have quiet: "publish_overage_event sample_platform sample_subscription k payload w = (Inr (), w)" for k payload w
    by (simp add: publish_overage_event_def sample_platform_def eff_simps)
  show ?thesis
    by (simp add: authorize_overage_def authorize_def run_ebind run_simps in_billing_def in_world_def sample_admin
        sample_resolved row quiet Let_def)
qed

lemma authorized_resolved:
  "resolve_active_subscription ''ws'' authorized_billing = (Inr sample_subscription, authorized_billing)"
  "plan_row sample_subscription authorized_billing = (Inr [(sample_plan, sample_plan_version)], authorized_billing)"
  unfolding authorized_billing_def
  by (rule resolve_ignores_authorizations plan_row_ignores_authorizations, rule sample_resolved)+

lemma authorized_tables:
  "b_memberships authorized_billing = b_memberships sample_billing"
  "b_authorizations authorized_billing = [sample_authorization]"
  by (simp_all add: authorized_billing_def)

lemma sample_revoke_run:
  "\<exists>b'. revoke_overage sample_platform ''ws'' ''owner'' (authorized_billing, sample_world) = (Inr (), (b', sample_world))"
proof -
  have cur: "current_authorization ''ws'' sample_subscription authorized_billing =
      (Inr (Some sample_authorization), authorized_billing)"
    by (simp add: current_authorization_def eff_simps authorized_tables first_of_def sample_authorization_def sample_subscription_def)
  obtain a b' where row: "revoke_row sample_platform (oa_id sample_authorization) ''owner'' authorized_billing = (Inr a, b')"
    by (simp add: revoke_row_def b_clock_def eff_simps authorized_tables update_rows_def one_or_none_def)
  have quiet: "publish_overage_event sample_platform s k payload w = (Inr (), w)" for s k payload w
    by (simp add: publish_overage_event_def sample_platform_def eff_simps)
  show ?thesis
    by (simp add: revoke_overage_def subscription_context_def run_ebind run_simps in_billing_def sample_admin authorized_tables authorized_resolved cur
        revoke_def row in_world_def quiet split: option.splits)
qed


section \<open>What an authorization leaves\<close>

text \<open>An administrator cannot change the cap of an authorization in force: a second authorization for
  the same period stores nothing, so the checks keep the old cap, and leaves every execution paused, since the
  route has no execution service; only the announcement carries the new cap.\<close>

theorem second_authorization_keeps_cap:
  assumes "resolve_active_subscription w b = (Inr s, b)" and "period_rows s w b = [a0]"
    and "oa_revoked_at a0 = None" and "producer pf = Some (\<lambda>_ _. None)"
    and "authorize_overage be pf w (Some cap) actor (b, wd) = (Inr a, (b1, wd1))"
  shows "a = a0 \<and> b1 = b \<and> executions wd1 = executions wd \<and>
    (\<exists>msg. outbox wd1 = outbox wd @ [msg] \<and>
       (PStr ''max_overage_eur'', PStr (be_decimal_text be cap)) \<in> set (msg_payload msg))"
proof -
  have "a = a0" "b1 = b"
    using authorize_overage_run(1) [OF assms(1,5)] authorize_row_kept [OF assms(2,3)] by simp_all
  moreover have "executions wd1 = executions wd \<and> (\<exists>msg. outbox wd1 = outbox wd @ [msg] \<and>
      (PStr ''max_overage_eur'', PStr (be_decimal_text be cap)) \<in> set (msg_payload msg))"
    using authorize_overage_run(2) [OF assms(1,5)] assms(4)
    by (auto simp: publish_overage_event_def publish_def fresh_uuid_def cop_simps)
  ultimately show ?thesis by blast
qed

definition announcing_platform :: platform where
  "announcing_platform = sample_platform\<lparr>producer := Some (\<lambda>_ _. None)\<rparr>"

theorem second_authorization_keeps_cap_witness:
  "fst (authorize_overage sample_billing_env announcing_platform ''ws'' (Some 100) ''owner''
     (authorized_billing, sample_world)) = Inr sample_authorization"
proof -
  have rows: "period_rows sample_subscription ''ws'' authorized_billing = [sample_authorization]"
    "oa_revoked_at sample_authorization = None"
    by (simp_all add: period_rows_def authorized_tables sample_authorization_def sample_subscription_def)
  have pub: "\<exists>w'. publish_overage_event announcing_platform sample_subscription k payload w = (Inr (), w')" for k payload w
    by (simp add: publish_overage_event_def publish_def fresh_uuid_def announcing_platform_def eff_simps)
  have "\<exists>wd'. authorize_overage sample_billing_env announcing_platform ''ws'' (Some 100) ''owner''
     (authorized_billing, sample_world) = (Inr sample_authorization, (authorized_billing, wd'))"
    unfolding authorize_overage_def authorize_def cop_simps Let_def
    using sample_admin [OF authorized_tables(1)] authorized_resolved authorize_row_kept [OF rows] pub
    by (fastforce simp: cop_simps)
  then obtain wd' where run: "authorize_overage sample_billing_env announcing_platform ''ws'' (Some 100) ''owner''
     (authorized_billing, sample_world) = (Inr sample_authorization, (authorized_billing, wd'))" by blast
  have "producer announcing_platform = Some (\<lambda>_ _. None)" by (simp add: announcing_platform_def)
  from second_authorization_keeps_cap [OF authorized_resolved(1) rows this run] run show ?thesis by simp
qed

section \<open>Paused executions\<close>

definition queue_all :: "uuid set \<Rightarrow> Execution list \<Rightarrow> Execution list" where
  "queue_all ids = map (\<lambda>e. if ex_id e \<in> ids then e\<lparr>ex_status := ES_queued\<rparr> else e)"

lemma queue_one:
  "update_execution_status eid ES_queued None None w = (Inr u, w') \<Longrightarrow>
   executions w' = queue_all {eid} (executions w)"
  by (auto simp: update_status_run update_rows_def queue_all_def)

lemma queue_all_Un: "queue_all A (queue_all B es) = queue_all (A \<union> B) es"
  by (auto simp: queue_all_def)

lemma resume_loop:
  assumes "efor (\<lambda>e. ebind (update_execution_status (ex_id e) ES_queued None None) (\<lambda>_.
      append_domain_event pf (ex_id e) EV_resumed None None payload)) rows w = (Inr (), w')"
  shows "executions w' = queue_all (ex_id ` set rows) (executions w)"
  using assms
proof (induction rows arbitrary: w)
  case Nil
  then show ?case by (simp add: run_simps queue_all_def)
next
  case (Cons e rows)
  from Cons.prems obtain u w1 u' w2 where up: "update_execution_status (ex_id e) ES_queued None None w = (Inr u, w1)"
    and ev: "append_domain_event pf (ex_id e) EV_resumed None None payload w1 = (Inr u', w2)"
    and rest: "efor (\<lambda>e. ebind (update_execution_status (ex_id e) ES_queued None None) (\<lambda>_.
      append_domain_event pf (ex_id e) EV_resumed None None payload)) rows w2 = (Inr (), w')"
    by (auto simp: ebind_Inr)
  show ?case
    using Cons.IH [OF rest] journaled_rows(1) [OF domain_event_journaled [OF ev]] queue_one [OF up]
    by (simp add: queue_all_Un insert_is_Un [symmetric] Un_commute)
qed

text \<open>The executions of a workspace that wait for an authorization.\<close>

definition paused_for_quota :: "uuid \<Rightarrow> world \<Rightarrow> Execution list" where
  "paused_for_quota ws wd =
     filter (\<lambda>e. ex_workspace_id e = ws \<and> ex_status e = ES_paused_quota_exceeded) (executions wd)"

lemma resume_run:
  assumes "resume_paused_quota_exceeded pf ws wd = (Inr n, wd')" and "length (paused_for_quota ws wd) \<le> 500"
  shows "executions wd' = queue_all (ex_id ` set (paused_for_quota ws wd)) (executions wd)"
proof -
  let ?rows = "rev (sort_key (\<lambda>e. (ex_created_at e, ex_id e)) (paused_for_quota ws wd))"
  have "page_of 0 500 ?rows = ?rows" using assms(2) by (simp add: page_of_def)
  with assms(1) have "efor (\<lambda>e. ebind (update_execution_status (ex_id e) ES_queued None None) (\<lambda>_.
      append_domain_event pf (ex_id e) EV_resumed None None [(PStr ''reason'', PStr ''billing_overage_authorized'')]))
      ?rows wd = (Inr (), wd')"
    by (auto simp: resume_paused_quota_exceeded_def list_executions_rows_def opt_eq_def ebind_Inr eret_Inr run_simps
        paused_for_quota_def Let_def)
  from resume_loop [OF this] show ?thesis by simp
qed

lemma queued_not_paused:
  "paused_for_quota ws wd = filter (\<lambda>e. ex_workspace_id e = ws \<and> ex_status e = ES_paused_quota_exceeded) es \<Longrightarrow>
   e \<in> set (queue_all (ex_id ` set (paused_for_quota ws wd)) es) \<Longrightarrow> ex_workspace_id e = ws \<Longrightarrow>
   ex_status e \<noteq> ES_paused_quota_exceeded"
  by (auto simp: queue_all_def image_iff split: if_splits)

text \<open>The authorization of overage is meant to resume the executions that wait for it. The service
  does so when it has an execution service: then no execution of the workspace (of at most 500) stays paused.
  The route builds it without one: it changes no execution and no journal, and every paused execution stays
  paused.\<close>

theorem authorization_route_leaves_paused:
  assumes "resolve_active_subscription w b = (Inr s, b)"
    and "authorize_overage be pf w cap actor (b, wd) = (Inr a, (b1, wd1))"
    and "length (paused_for_quota w wd) \<le> 500"
    and "authorize be pf True w None cap actor (b, wd) = (Inr a', (b2, wd2))"
  shows "executions wd1 = executions wd \<and> events wd1 = events wd \<and>
    paused_for_quota w wd1 = paused_for_quota w wd \<and> paused_for_quota w wd2 = []"
proof -
  have q: "same_tables wd wd1" "events wd1 = events wd"
    using authorize_overage_run(2) [OF assms(1,2)] publish_overage_event_quiet by (metis snd_conv)+
  then have same: "executions wd1 = executions wd" by (simp add: same_tables_def)
  from assms(4) obtain n wdx s' k payload where
    res: "resume_paused_quota_exceeded pf w wd = (Inr n, wdx)"
    and pub: "publish_overage_event pf s' k payload wdx = (Inr (), wd2)"
    by (auto simp: authorize_def cop_simps Let_def)
  have "same_tables wdx wd2"
    using pub publish_overage_event_quiet by (metis snd_conv)
  with resume_run [OF res assms(3)] have ex: "executions wd2 = queue_all (ex_id ` set (paused_for_quota w wd)) (executions wd)"
    by (simp add: same_tables_def)
  have "paused_for_quota w wd2 = []"
    using queued_not_paused [OF paused_for_quota_def]
    by (simp add: paused_for_quota_def [of w wd2] ex filter_empty_conv)
  with q same show ?thesis by (simp add: paused_for_quota_def)
qed

definition quota_paused_world :: world where
  "quota_paused_world = sample_world\<lparr>executions := [sample_execution\<lparr>ex_status := ES_paused_quota_exceeded\<rparr>]\<rparr>"

lemma quota_paused_resumed:
  "\<exists>n wd'. resume_paused_quota_exceeded sample_platform ''ws'' quota_paused_world = (Inr n, wd')"
  by (simp add: resume_paused_quota_exceeded_def list_executions_rows_def opt_eq_def quota_paused_world_def
      sample_execution_def page_of_def eff_simps update_execution_status_def set_execution_def update_rows_def
      append_domain_event_def exec_ref_def get_execution_by_id_def one_or_none_def append_event_def count_events_def
      fresh_uuid_def read_clock_def invalidate_state_cache_def redis_delete_def correlation_def
      publish_execution_status_changed_def publish_def sample_platform_def Let_def sample_world_def empty_world_def
      executions_of_def events_of_def)

theorem authorization_route_leaves_paused_witness:
  "paused_for_quota ''ws'' (snd (snd (authorize_overage sample_billing_env sample_platform ''ws'' (Some 1) ''owner''
     (sample_billing, quota_paused_world)))) = executions quota_paused_world"
proof -
  have row: "authorize_row sample_platform sample_subscription ''ws'' (sb_current_period_start sample_subscription)
      (Some 1) ''owner'' sample_billing = (Inr sample_authorization, authorized_billing)"
    using authorize_overage_run(1) [OF sample_resolved(1) sample_authorize_run] .
  have quiet: "publish_overage_event sample_platform s k payload w = (Inr (), w)" for s k payload w
    by (simp add: publish_overage_event_def sample_platform_def eff_simps)
  obtain n wd2 where res: "resume_paused_quota_exceeded sample_platform ''ws'' quota_paused_world = (Inr n, wd2)"
    using quota_paused_resumed by blast
  note run = authorize_overage_def authorize_def run_ebind run_simps in_billing_def in_world_def sample_admin
    sample_resolved row quiet res Let_def
  have route: "authorize_overage sample_billing_env sample_platform ''ws'' (Some 1) ''owner''
      (sample_billing, quota_paused_world) = (Inr sample_authorization, (authorized_billing, quota_paused_world))"
    by (simp add: run)
  have service: "authorize sample_billing_env sample_platform True ''ws'' None (Some 1) ''owner''
      (sample_billing, quota_paused_world) = (Inr sample_authorization, (authorized_billing, wd2))"
    by (simp add: run)
  have one: "paused_for_quota ''ws'' quota_paused_world = executions quota_paused_world"
    "length (paused_for_quota ''ws'' quota_paused_world) \<le> 500"
    by (simp_all add: paused_for_quota_def quota_paused_world_def sample_execution_def)
  show ?thesis
    using authorization_route_leaves_paused [OF sample_resolved(1) route one(2) service] one(1) by (simp add: route)
qed

section \<open>Executions under the quota\<close>

text \<open>The execution service with the quota enforcer of the billing services, whose check of the
  workspace gave \<open>r\<close>.\<close>

definition enforces :: "platform \<Rightarrow> billing_env \<Rightarrow> (rat \<Rightarrow> pyval) \<Rightarrow> uuid \<Rightarrow> QuotaCheckResult \<Rightarrow> bool" where
  "enforces pf be decimal ws r \<longleftrightarrow>
     quota_enforcer pf \<noteq> None \<and> (\<forall>n. the (quota_enforcer pf) ws n = engine_result decimal r) \<and>
     raise_for_quota_result pf (engine_result decimal r) ws = raise_for_quota_result_of be pf r ws"

lemma decision_value_eq: "decision_value d = ''OVERAGE_REQUIRED'' \<longleftrightarrow> d = QD_OVERAGE_REQUIRED"
  by (cases d) simp_all

lemma raise_for_quota_result_ok: "raise_for_quota_result_of be pf r ws = Inr () \<longleftrightarrow> quota_ok r"
  by (cases "qc_decision r") (simp_all add: raise_for_quota_result_of_def quota_ok_def)

lemma enforced_check:
  assumes "enforces pf be decimal ws r"
  shows "check_quota pf ws wd =
    (if qc_decision r = QD_OVERAGE_REQUIRED then Inr (ES_paused_quota_exceeded, Some (engine_result decimal r))
     else case raise_for_quota_result_of be pf r ws of
            Inl e \<Rightarrow> Inl e | Inr _ \<Rightarrow> Inr (ES_queued, Some (engine_result decimal r)),
     wd\<lparr>w_reads := Suc (w_reads wd)\<rparr>)"
proof -
  from assms obtain enforce where e: "quota_enforcer pf = Some enforce" "\<And>n. enforce ws n = engine_result decimal r"
    "raise_for_quota_result pf (engine_result decimal r) ws = raise_for_quota_result_of be pf r ws"
    by (auto simp: enforces_def)
  have d: "qr_decision (engine_result decimal r) = ''OVERAGE_REQUIRED'' \<longleftrightarrow> qc_decision r = QD_OVERAGE_REQUIRED"
    by (simp add: engine_result_def decision_value_eq)
  show ?thesis
    by (simp add: check_quota_def e read_clock_def run_ebind run_simps d split: sum.splits)
qed

lemma resolve_workflow_version_state: "snd (resolve_workflow_version wid vid w) = w"
proof -
  have reads: "keeps (\<lambda>x. x = w) (get_version_by_id v)" "keeps (\<lambda>x. x = w) (get_definition_by_id d)" for v d
    by (simp_all add: spec_def get_version_by_id_def get_definition_by_id_def)
  have "keeps (\<lambda>x. x = w) (resolve_workflow_version wid vid)"
    unfolding resolve_workflow_version_def
    by (intro keeps_option keeps_ebind [OF reads(1)] keeps_ebind [OF reads(2)] keeps_basic)
  then show ?thesis by (auto dest: spec_inv)
qed

lemma ebind_reading:
  assumes "snd (m w) = w" and "\<And>e. P (Inl e, w)" and "\<And>x. P (f x w)"
  shows "P (ebind m f w)"
  using assms by (cases "m w"; cases "fst (m w)") (auto simp: run_ebind)

lemma create_refused:
  assumes q: "check_quota pf (ec_workspace_id data) wd = (Inl e, wd1)"
    and "executions wd1 = executions wd" and "events wd1 = events wd"
  defines "unchanged \<equiv> \<lambda>y :: (exn + Execution) \<times> world. isl (fst y) \<and> executions (snd y) = executions wd \<and>
    events (snd y) = events wd"
  shows "unchanged (create_execution pf data created_by parent rerun_of pre results wd)"
  unfolding create_execution_def
proof (rule ebind_reading, goal_cases)
  case (3 d)
  show ?case
  proof (cases d)
    case (Some def)
    show ?thesis
      unfolding Some option.case
    proof (rule ebind_reading, goal_cases)
      case (3 v)
      show ?case
      proof (rule ebind_reading, goal_cases)
        case (3 x)
        show ?case using assms(2,3) by (simp add: run_ebind q unchanged_def)
      qed (simp_all add: check_trigger_world unchanged_def)
    qed (simp_all add: resolve_workflow_version_state unchanged_def)
  qed (simp add: run_simps unchanged_def)
qed (simp_all add: get_definition_by_id_def eff_simps unchanged_def)

lemma create_status:
  assumes "create_execution pf data created_by parent rerun_of pre results wd = (Inr e, wd')"
  shows "\<exists>q wd1. check_quota pf (ec_workspace_id data) wd = (Inr (ex_status e, q), wd1)"
proof -
  define checked where "checked = (\<lambda>y :: (exn + Execution) \<times> world. \<forall>e wd'. y = (Inr e, wd') \<longrightarrow>
    (\<exists>q wd1. check_quota pf (ec_workspace_id data) wd = (Inr (ex_status e, q), wd1)))"
  have "checked (create_execution pf data created_by parent rerun_of pre results wd)"
    unfolding create_execution_def
  proof (rule ebind_reading, goal_cases)
    case (3 d)
    show ?case
    proof (cases d)
      case (Some def)
      show ?thesis
        unfolding Some option.case
      proof (rule ebind_reading, goal_cases)
        case (3 v)
        show ?case
        proof (rule ebind_reading, goal_cases)
          case (3 x)
          show ?case
            unfolding checked_def
            by (auto simp: ebind_Inr eret_Inr Let_def new_execution_def simp del: split_paired_Ex)
        qed (simp_all add: check_trigger_world checked_def)
      qed (simp_all add: resolve_workflow_version_state checked_def)
    qed (simp add: run_simps checked_def)
  qed (simp_all add: get_definition_by_id_def eff_simps checked_def)
  with assms show ?thesis by (auto simp: checked_def)
qed

text \<open>C14. Under the quota enforcer an execution is created queued exactly when the check of its workspace
  allows it, within the plan or by an authorized overage, and paused exactly when the check asks for an
  authorization; on any other decision the request raises and creates neither an execution nor an event.\<close>

theorem execution_admitted_by_quota:
  assumes "enforces pf be decimal (ec_workspace_id data) r"
    and "create_execution pf data created_by parent rerun_of pre results wd = (outcome, wd')"
  shows "(\<forall>e. outcome = Inr e \<longrightarrow>
       (ex_status e = ES_queued \<longleftrightarrow> quota_ok r) \<and>
       (ex_status e = ES_paused_quota_exceeded \<longleftrightarrow> qc_decision r = QD_OVERAGE_REQUIRED)) \<and>
    (\<not> quota_ok r \<and> qc_decision r \<noteq> QD_OVERAGE_REQUIRED \<longrightarrow>
       isl outcome \<and> executions wd' = executions wd \<and> events wd' = events wd)"
proof (intro conjI allI impI)
  note check = enforced_check [OF assms(1), of wd]
  {
    fix e assume "outcome = Inr e"
    with create_status assms(2) obtain q wd1 where
      "check_quota pf (ec_workspace_id data) wd = (Inr (ex_status e, q), wd1)" by blast
    with check have "(if qc_decision r = QD_OVERAGE_REQUIRED then ex_status e = ES_paused_quota_exceeded
        else raise_for_quota_result_of be pf r (ec_workspace_id data) = Inr () \<and> ex_status e = ES_queued)"
      by (auto split: if_splits sum.splits)
    then show "ex_status e = ES_queued \<longleftrightarrow> quota_ok r"
      "ex_status e = ES_paused_quota_exceeded \<longleftrightarrow> qc_decision r = QD_OVERAGE_REQUIRED"
      by (auto simp: raise_for_quota_result_ok quota_ok_def split: if_splits)
  }
  assume no: "\<not> quota_ok r \<and> qc_decision r \<noteq> QD_OVERAGE_REQUIRED"
  then obtain x where "raise_for_quota_result_of be pf r (ec_workspace_id data) = Inl x"
    using raise_for_quota_result_ok by (metis (full_types) old.unit.exhaust sumE)
  with no check have "check_quota pf (ec_workspace_id data) wd = (Inl x, wd\<lparr>w_reads := Suc (w_reads wd)\<rparr>)" by simp
  from create_refused [OF this, of created_by parent rerun_of pre results] assms(2)
  show "isl outcome" "executions wd' = executions wd" "events wd' = events wd" by simp_all
qed

definition refusal :: QuotaCheckResult where
  "refusal = quota_result_of QD_HARD_CAP_EXCEEDED (Some (''minutes_per_month'', 2, 1)) (Some sample_subscription)
     (Some sample_plan) None False None"

definition refusing_platform :: platform where
  "refusing_platform = sample_platform\<lparr>quota_enforcer := Some (\<lambda>_ _. engine_result (\<lambda>_. PNone) refusal),
     raise_for_quota_result := (\<lambda>_. raise_for_quota_result_of sample_billing_env sample_platform refusal)\<rparr>"

theorem execution_admitted_by_quota_witness:
  "isl (fst (create_execution refusing_platform sample_request None None None [] [] sample_world))"
proof -
  obtain outcome wd' where run:
    "create_execution refusing_platform sample_request None None None [] [] sample_world = (outcome, wd')"
    by fastforce
  have d: "qc_decision refusal = QD_HARD_CAP_EXCEEDED" by (simp add: refusal_def)
  have "raise_for_quota_result_of sample_billing_env refusing_platform refusal =
      raise_for_quota_result_of sample_billing_env sample_platform refusal"
    by (simp add: fun_eq_iff raise_for_quota_result_of_def reset_text_def d refusing_platform_def)
  then have "enforces refusing_platform sample_billing_env (\<lambda>_. PNone) (ec_workspace_id sample_request) refusal"
    by (simp add: enforces_def) (simp add: refusing_platform_def)
  from execution_admitted_by_quota [OF this run] show ?thesis by (simp add: run d quota_ok_def)
qed

end
