(* ===== verification/Billing_Lifecycle_Props.thy ===== *)
theory Billing_Lifecycle_Props
  imports Billing_Webhooks Billing_Overage_Props
begin

text \<open>
  Properties of the billing lifecycle: what the services keep of the tables, webhooks that are handled once,
  the grace period of a failed payment, and what failed payments, suspensions and deprecated plan versions do
  to a workspace.
\<close>

section \<open>Invariants of the billing state\<close>

definition on_billing :: "(billing \<Rightarrow> bool) \<Rightarrow> billing \<times> world \<Rightarrow> bool" where
  "on_billing I y \<longleftrightarrow> I (fst y)"

lemma keeps_in_billing: "keeps I m \<Longrightarrow> keeps (on_billing I) (in_billing m)"
  by (auto simp: spec_def on_billing_def in_billing_def split: prod.splits)

lemma keeps_in_world: "keeps (on_billing I) (in_world m)"
  by (auto simp: spec_def on_billing_def in_world_def split: prod.splits)

lemma keeps_let: "(\<And>x. keeps I (f x)) \<Longrightarrow> keeps I (let x = v in f x)"
  by (simp add: Let_def)

lemma keeps_case_prod: "(\<And>x y. keeps I (f x y)) \<Longrightarrow> keeps I (case p of (x, y) \<Rightarrow> f x y)"
  by (cases p) simp

text \<open>The clocks and the fresh ids of a billing state.\<close>

definition ticks_free :: "(billing \<Rightarrow> bool) \<Rightarrow> bool" where
  "ticks_free I \<longleftrightarrow> (\<forall>b n. I b \<longrightarrow> I (b\<lparr>b_reads := n\<rparr>) \<and> I (b\<lparr>b_ids := n\<rparr>))"

lemma keeps_clocks:
  assumes "ticks_free I"
  shows "keeps I (b_clock c)" "keeps I (b_now pf)" "keeps I (fresh_id pf)" "keeps I (now_or_clock pf now)"
  using assms by (auto simp: spec_def ticks_free_def b_clock_def b_now_def fresh_id_def now_or_clock_def run_simps
      split: option.splits)

lemmas keeps_steps = keeps_basic keeps_ebind keeps_option keeps_if keeps_let keeps_case_prod keeps_efor keeps_emap
  keeps_ecatch keeps_in_billing keeps_in_world keeps_clocks

section \<open>Webhooks\<close>

definition webhooks_are :: "(string \<times> string \<times> string) list \<Rightarrow> billing \<Rightarrow> bool" where
  "webhooks_are ws b \<longleftrightarrow> b_webhooks b = ws"

lemma webhooks_ticks: "ticks_free (webhooks_are ws)"
  by (simp add: ticks_free_def webhooks_are_def)

lemma webhooks_emod: "(\<And>b. b_webhooks (f b) = b_webhooks b) \<Longrightarrow> keeps (webhooks_are ws) (emod f)"
  by (rule keeps_emod) (simp add: webhooks_are_def)

lemma grace_ops_keep_webhooks:
  "keeps (webhooks_are ws) (find_open_for_subscription sid)"
  "keeps (webhooks_are ws) (open_grace pf t sid t1 t2)"
  "keeps (webhooks_are ws) (resolve_grace gid r now)"
  "keeps (webhooks_are ws) (set_subscription s)"
  "keeps (webhooks_are ws) (time_or_now pf v)"
  "keeps (webhooks_are ws) (resolve_local_subscription a c)"
  unfolding find_open_for_subscription_def open_grace_def resolve_grace_def update_grace_def set_subscription_def
    time_or_now_def resolve_local_subscription_def get_subscription_def
  by (intro keeps_steps webhooks_ticks webhooks_emod; simp)+

lemma grace_service_keeps_webhooks:
  "keeps (on_billing (webhooks_are ws)) (start_grace jt pf t sid ctx now)"
  "keeps (on_billing (webhooks_are ws)) (resolve_payment_recovered jt pf sid ctx now)"
  unfolding start_grace_def resolve_payment_recovered_def resolve_and_publish_def
  by (intro keeps_steps webhooks_ticks grace_ops_keep_webhooks)+

lemma handlers_keep_webhooks:
  "keeps (on_billing (webhooks_are ws)) (invoice_on_paid tx pf event ctx)"
  "keeps (on_billing (webhooks_are ws)) (invoice_on_failed tx pf event ctx)"
  "keeps (on_billing (webhooks_are ws)) (subscription_on_created tx pf event ctx)"
  "keeps (on_billing (webhooks_are ws)) (subscription_on_updated tx pf event ctx)"
  "keeps (on_billing (webhooks_are ws)) (subscription_on_deleted tx pf event ctx)"
  "keeps (on_billing (webhooks_are ws)) (subscription_on_trial_ending event)"
  "keeps (on_billing (webhooks_are ws)) (payment_method_on_attached pf event ctx)"
  "keeps (on_billing (webhooks_are ws)) (dispute_on_dispute tx pf event ctx)"
  unfolding invoice_on_paid_def invoice_on_failed_def subscription_on_created_def subscription_on_updated_def
    subscription_on_deleted_def subscription_on_trial_ending_def payment_method_on_attached_def
    dispute_on_dispute_def publish_keyed_def
  by (intro keeps_steps webhooks_ticks grace_ops_keep_webhooks grace_service_keeps_webhooks)+

lemma registered_handler_in:
  "registered_handler tx pf event_type = Some handler \<Longrightarrow>
   handler \<in> {subscription_on_created tx pf, subscription_on_updated tx pf, subscription_on_deleted tx pf,
     \<lambda>event _. subscription_on_trial_ending event, invoice_on_paid tx pf, invoice_on_failed tx pf,
     payment_method_on_attached pf, dispute_on_dispute tx pf}"
  by (auto simp: registered_handler_def split: if_splits)

lemma dispatch_keeps_webhooks: "keeps (on_billing (webhooks_are ws)) (dispatch_webhook tx pf event ctx)"
proof (cases "registered_handler tx pf (we_type event)")
  case None
  then show ?thesis by (simp add: dispatch_webhook_def keeps_basic)
next
  case (Some handler)
  from registered_handler_in [OF Some] have "keeps (on_billing (webhooks_are ws)) (handler event ctx)"
    by (auto intro: handlers_keep_webhooks)
  with Some show ?thesis
    by (simp add: dispatch_webhook_def) (intro keeps_ebind keeps_basic)
qed

lemma process_webhook_Inr:
  "process_webhook tx pf event ctx (b, wd) = (Inr outcome, (b1, wd1)) \<longleftrightarrow>
   (\<exists>b'. dispatch_webhook tx pf event ctx (b, wd) = (Inr outcome, (b', wd1)) \<and>
      mark_webhook_processed b (we_id event) (we_type event) b' = (Inr (), b1))"
proof -
  obtain r b' wd' where "dispatch_webhook tx pf event ctx (b, wd) = (r, (b', wd'))" by (metis prod.collapse)
  then show ?thesis
    by (cases r) (auto simp: process_webhook_def ebind_Inr in_billing_Inr eret_Inr)
qed

text \<open>An event whose route answers that it was processed or ignored is in the table.\<close>

lemma stripe_webhook_marked:
  assumes "stripe_webhook tx pf ce secrets ttl body header (b, wd) = (Inr outcome, (b1, wd1))"
    and "outcome \<in> {''processed'', ''ignored''}"
  obtains active previous event where "secrets = Some (active, previous)"
    "verify_stripe_signature ce body header active previous = Inr (Some event)"
    "we_id event \<noteq> []" "webhook_processed (we_id event) b1"
proof -
  from assms(1) obtain active previous event decision b0 wd0 where s: "secrets = Some (active, previous)"
    and v: "verify_stripe_signature ce body header active previous = Inr (Some event)"
    and a: "acquire_webhook pf ttl (we_id event) (b, wd) = (Inr decision, (b0, wd0))"
    and rest: "(if \<not> id_proceed decision then eret (id_reason decision)
              else
                ebind (in_world (fresh_uuid pf)) (\<lambda>cid. process_webhook tx pf event (plain_context cid))) (b0, wd0) = (Inr outcome, (b1, wd1))"
    by (auto simp: stripe_webhook_def ebind_Inr elift_Inr eraise_Inr split: option.splits)
  from a have b0: "b0 = b" and new: "id_proceed decision \<Longrightarrow> we_id event \<noteq> [] \<and> \<not> webhook_processed (we_id event) b"
    and reason: "\<not> id_proceed decision \<Longrightarrow> id_reason decision \<notin> {''processed'', ''ignored''}"
    by (auto simp: acquire_webhook_def cop_simps split: if_splits)
  have go: "id_proceed decision"
  proof (rule ccontr)
    assume no: "\<not> id_proceed decision"
    with rest have "outcome = id_reason decision" by (simp add: run_simps)
    with reason [OF no] assms(2) show False by simp
  qed
  note new = new [OF go]
  from rest go b0 obtain cid wdx b' wd' where d: "dispatch_webhook tx pf event (plain_context cid) (b, wdx) = (Inr outcome, (b', wd'))"
    and m: "mark_webhook_processed b (we_id event) (we_type event) b' = (Inr (), b1)"
    by (auto simp: ebind_Inr in_world_Inr process_webhook_Inr)
  have "on_billing (webhooks_are (b_webhooks b)) (snd (dispatch_webhook tx pf event (plain_context cid) (b, wdx)))"
    by (rule spec_inv [OF dispatch_keeps_webhooks]) (simp_all add: on_billing_def webhooks_are_def)
  then have "b_webhooks b' = b_webhooks b" by (simp add: d on_billing_def webhooks_are_def)
  then have "\<not> webhook_processed (we_id event) b'" using new by (simp add: webhook_processed_def)
  with m have "webhook_processed (we_id event) b1"
    by (auto simp: mark_webhook_processed_def webhook_processed_def)
  with s v new that show thesis by blast
qed

text \<open>C13. A webhook of the payment provider is handled once: after the route has answered that an event was
  processed or ignored, every later delivery of an event with the same id, to whatever state of the tables that
  still has the row and whatever is in Redis, is answered with already_processed and changes nothing.\<close>

theorem webhook_handled_once:
  assumes "stripe_webhook tx pf ce secrets ttl body header (b, wd) = (Inr outcome, (b1, wd1))"
    and "outcome \<in> {''processed'', ''ignored''}"
    and "set (b_webhooks b1) \<subseteq> set (b_webhooks b2)"
    and "secrets = Some (active, previous)"
    and "verify_stripe_signature ce body header active previous = Inr (Some event)"
    and "verify_stripe_signature ce body' header' active previous = Inr (Some event')"
    and "we_id event' = we_id event"
  shows "stripe_webhook tx pf ce secrets ttl body' header' (b2, wd2) = (Inr ''already_processed'', (b2, wd2))"
proof -
  obtain a p e where "secrets = Some (a, p)" "verify_stripe_signature ce body header a p = Inr (Some e)"
    "we_id e \<noteq> []" "webhook_processed (we_id e) b1"
    by (rule stripe_webhook_marked [OF assms(1,2)])
  then have "we_id event \<noteq> []" "webhook_processed (we_id event) b1"
    using assms(4,5) by simp_all
  with assms(3) have "we_id event \<noteq> []" "webhook_processed (we_id event) b2"
    by (auto simp: webhook_processed_def)
  then show ?thesis
    using assms(4,6,7) by (simp add: stripe_webhook_def acquire_webhook_def in_billing_def run_ebind run_simps)
qed

text \<open>An event no handler is registered for, and the library that reads it from any body.\<close>

definition plain_texts :: texts where
  "plain_texts = ((\<lambda>_. ''then''), (\<lambda>_. ''1''))"

definition sample_webhook :: WebhookEvent where
  "sample_webhook = \<lparr>we_id = ''evt'', we_type = ''invoice.created'', we_payload = []\<rparr>"

definition sample_construct_event :: "string \<Rightarrow> string \<Rightarrow> string \<Rightarrow> WebhookEvent option py" where
  "sample_construct_event body header secret = Inr (if secret = ''whsec'' then Some sample_webhook else None)"

lemma sample_webhook_run:
  "stripe_webhook plain_texts sample_platform sample_construct_event (Some (''whsec'', None)) 60 ''body'' ''sig''
     (sample_billing, empty_world) =
   (Inr ''ignored'', (sample_billing\<lparr>b_webhooks := [(''stripe'', ''evt'', ''invoice.created'')]\<rparr>,
     snd (snd (stripe_webhook plain_texts sample_platform sample_construct_event (Some (''whsec'', None)) 60 ''body'' ''sig''
       (sample_billing, empty_world)))))"
  by code_simp

lemma sample_webhook_verified:
  "verify_stripe_signature sample_construct_event body ''sig'' ''whsec'' None = Inr (Some sample_webhook)"
  by (simp add: verify_stripe_signature_def sample_construct_event_def rbind_def)

text \<open>The first delivery is ignored and the second one, with another body, is answered from the table.\<close>

theorem webhook_handled_once_witness:
  "stripe_webhook plain_texts sample_platform sample_construct_event (Some (''whsec'', None)) 60 ''again'' ''sig''
     (sample_billing\<lparr>b_webhooks := [(''stripe'', ''evt'', ''invoice.created'')]\<rparr>, empty_world) =
   (Inr ''already_processed'', (sample_billing\<lparr>b_webhooks := [(''stripe'', ''evt'', ''invoice.created'')]\<rparr>, empty_world))"
  by (rule webhook_handled_once [OF sample_webhook_run _ _ refl sample_webhook_verified sample_webhook_verified]) simp_all

section \<open>Failed payments\<close>

text \<open>A state but for its clocks and its counter of ids, and the tables a quota check reads first.\<close>

definition but_clocks :: "billing \<Rightarrow> billing" where
  "but_clocks b = b\<lparr>b_reads := 0, b_ids := 0\<rparr>"

definition clocks_only :: "billing \<Rightarrow> billing \<Rightarrow> bool" where
  "clocks_only c b \<longleftrightarrow> but_clocks b = but_clocks c"

lemma clocks_only_ticks: "ticks_free (clocks_only c)"
  by (simp add: ticks_free_def clocks_only_def but_clocks_def)

lemma clocks_only_reads:
  "keeps (clocks_only c) (time_or_now pf v)" "keeps (clocks_only c) (resolve_local_subscription x y)"
  unfolding time_or_now_def resolve_local_subscription_def by (intro keeps_steps clocks_only_ticks)+

lemma clocks_only_tables:
  assumes "clocks_only c b"
  shows "b_workspaces b = b_workspaces c" "b_tenants b = b_tenants c" "b_cache b = b_cache c"
    "b_subscriptions b = b_subscriptions c" "b_graces b = b_graces c"
  using arg_cong [OF assms [unfolded clocks_only_def], of b_workspaces]
    arg_cong [OF assms [unfolded clocks_only_def], of b_tenants]
    arg_cong [OF assms [unfolded clocks_only_def], of b_cache]
    arg_cong [OF assms [unfolded clocks_only_def], of b_subscriptions]
    arg_cong [OF assms [unfolded clocks_only_def], of b_graces]
  by (simp_all add: but_clocks_def)

text \<open>Neither handler of an invoice touches these tables after the status.\<close>

definition same_subscriptions :: "billing \<Rightarrow> billing \<Rightarrow> bool" where
  "same_subscriptions c b \<longleftrightarrow> b_workspaces b = b_workspaces c \<and> b_tenants b = b_tenants c \<and>
     b_cache b = b_cache c \<and> b_subscriptions b = b_subscriptions c"

lemma same_subscriptions_ticks: "ticks_free (same_subscriptions c)"
  by (simp add: ticks_free_def same_subscriptions_def)

lemma same_subscriptions_grace:
  "keeps (same_subscriptions c) (find_open_for_subscription sid)"
  "keeps (same_subscriptions c) (open_grace pf t sid t1 t2)"
  "keeps (same_subscriptions c) (resolve_grace gid r now)"
  "keeps (same_subscriptions c) (time_or_now pf v)"
  "keeps (same_subscriptions c) (resolve_local_subscription x y)"
  "keeps (same_subscriptions c) (tick_reminders now)"
  unfolding find_open_for_subscription_def open_grace_def resolve_grace_def update_grace_def
    time_or_now_def resolve_local_subscription_def get_subscription_def tick_reminders_def tick_reminder_def
    list_due_for_reminder_def
  by (intro keeps_steps same_subscriptions_ticks keeps_emod; simp add: same_subscriptions_def)+

lemma same_subscriptions_service:
  "keeps (on_billing (same_subscriptions c)) (start_grace jt pf t sid ctx now)"
  "keeps (on_billing (same_subscriptions c)) (resolve_and_publish jt pf gid r now' ctx)"
  "keeps (on_billing (same_subscriptions c)) (resolve_payment_recovered jt pf sid ctx now)"
  "keeps (on_billing (same_subscriptions c)) (tick_expiries jt pf ctx now')"
  "keeps (on_billing (same_subscriptions c)) (invoice_on_paid tx pf event ctx)"
  unfolding start_grace_def resolve_payment_recovered_def resolve_and_publish_def tick_expiries_def
    list_due_for_expiry_def invoice_on_paid_def publish_keyed_def
  by (intro keeps_steps same_subscriptions_ticks same_subscriptions_grace)+

lemma find_open_Inr:
  "find_open_for_subscription sid b = (Inr r, b') \<longleftrightarrow>
   b' = b \<and> (r = None \<and> open_graces sid b = [] \<or> (\<exists>g. r = Some g \<and> open_graces sid b = [g]))"
  by (auto simp: find_open_for_subscription_def ebind_Inr elift_Inr run_simps one_or_none_def split: list.splits)

lemma open_graces_ticks [simp]:
  "open_graces sid (b\<lparr>b_reads := n\<rparr>) = open_graces sid b" "open_graces sid (b\<lparr>b_ids := n\<rparr>) = open_graces sid b"
  by (simp_all add: open_graces_def)

lemma start_grace_opens:
  assumes "start_grace jt pf t sid ctx now (b, wd) = (Inr g, (b', wd'))"
  shows "open_graces sid b' = [g]"
proof -
  from assms obtain m b1 r where m: "now_or_clock pf now b = (Inr m, b1)"
    and f: "find_open_for_subscription sid b1 = (Inr r, b1)"
    and rest: "(case r of Some g \<Rightarrow> eret g
     | None \<Rightarrow>
         ebind (in_billing (open_grace pf t sid m (m + GRACE_WINDOW))) (\<lambda>g.
         ebind (in_world (publish_billing_event pf ''billing.payment_failure_grace.opened''
                  [(PStr ''grace_id'', PStr (pg_id g)), (PStr ''subscription_id'', PStr sid),
                   (PStr ''started_at'', PStr (jt (pg_started_at g))),
                   (PStr ''grace_ends_at'', PStr (jt (pg_grace_ends_at g)))] ctx t)) (\<lambda>_.
         eret g))) (b1, wd) = (Inr g, (b', wd'))"
    by (auto simp: start_grace_def ebind_Inr in_billing_Inr find_open_Inr)
  show ?thesis
  proof (cases r)
    case (Some g0)
    with rest f show ?thesis by (auto simp: eret_Inr find_open_Inr)
  next
    case None
    with f have none: "open_graces sid b1 = []" by (auto simp: find_open_Inr)
    from rest None obtain b2 where "open_grace pf t sid m (m + GRACE_WINDOW) b1 = (Inr g, b2)" "b' = b2"
      by (auto simp: cop_simps)
    with none show ?thesis
      by (auto simp: open_grace_def cop_simps find_open_Inr fresh_id_def Let_def open_graces_def
          get_subscription_def split: if_splits)
  qed
qed

lemma update_grace_closes:
  assumes "open_graces sid b = [g]" and "\<And>x. pg_resolved_at (f x) \<noteq> None"
    and "update_grace (pg_id g) f b = (Inr r, b')" and "r \<noteq> None"
  shows "open_graces sid b' = []"
proof -
  from assms(3,4) have b': "b_graces b' = update_rows (\<lambda>x. pg_id x = pg_id g) f (b_graces b)"
    by (auto simp: update_grace_def ebind_Inr run_simps split: option.splits if_splits)
  have "y = g" if "y \<in> set (b_graces b)" "pg_subscription_id y = sid" "pg_resolved_at y = None" for y
  proof -
    from that have "y \<in> set (open_graces sid b)" by (simp add: open_graces_def)
    with assms(1) show ?thesis by simp
  qed
  with assms(2) show ?thesis
    by (auto simp: open_graces_def b' update_rows_def filter_empty_conv)
qed

text \<open>Without an active row in its scope a workspace has no active subscription.\<close>

definition scope_of :: "Subscription \<Rightarrow> string \<times> uuid" where
  "scope_of s = (sb_scope_type s, sb_scope_id s)"

definition subscription_keys :: "billing \<Rightarrow> bool" where
  "subscription_keys b \<longleftrightarrow> distinct (map sb_id (b_subscriptions b)) \<and> distinct (map scope_of (b_subscriptions b))"

lemma newest_subscription_none: "newest_subscription rows = None \<longleftrightarrow> rows = []"
proof -
  have "sort_key (\<lambda>s. (sb_created_at s, sb_id s)) rows = [] \<longleftrightarrow> rows = []"
    by (metis length_0_conv length_sort)
  then show ?thesis by (auto simp: newest_subscription_def split: list.splits)
qed

lemma resolve_no_active:
  assumes found: "resolve_active_subscription w b = (Inr s, b)" and keys: "subscription_keys b"
    and tables: "b_workspaces b' = b_workspaces b" "b_tenants b' = b_tenants b"
      "b_subscriptions b' = update_rows (\<lambda>x. sb_id x = sb_id s) (\<lambda>_. s') (b_subscriptions b)"
    and off: "sb_status s' \<notin> set ACTIVE_SUBSCRIPTION_STATUSES"
  shows "resolve_active_subscription w b' = (Inl (NoActiveSubscriptionError w), b')"
proof -
  from found obtain ws t st si where ws: "session_get ws_id w (b_workspaces b) = Some ws"
    and t: "session_get tn_id (ws_tenant_id ws) (b_tenants b) = Some t"
    and st: "st = (if tn_kind t = ''enterprise'' then ''tenant'' else ''workspace'')"
    and si: "si = (if st = ''tenant'' then tn_id t else ws_id ws)"
    and s: "newest_subscription (filter (\<lambda>s. sb_scope_type s = st \<and> sb_scope_id s = si \<and>
      sb_status s \<in> set ACTIVE_SUBSCRIPTION_STATUSES) (b_subscriptions b)) = Some s"
    by (auto simp: resolve_active_subscription_def Let_def split: option.splits)
  from newest_subscription_in [OF s] have s': "s \<in> set (b_subscriptions b)" "scope_of s = (st, si)"
    by (auto simp: scope_of_def)
  have "\<not> (sb_scope_type x = st \<and> sb_scope_id x = si \<and> sb_status x \<in> set ACTIVE_SUBSCRIPTION_STATUSES)"
    if x: "x \<in> set (b_subscriptions b')" for x
  proof
    assume *: "sb_scope_type x = st \<and> sb_scope_id x = si \<and> sb_status x \<in> set ACTIVE_SUBSCRIPTION_STATUSES"
    from x * off have "x \<in> set (b_subscriptions b)" "sb_id x \<noteq> sb_id s"
      by (auto simp: tables update_rows_def split: if_splits)
    moreover from * s'(2) have "scope_of x = scope_of s" by (simp add: scope_of_def)
    ultimately show False
      using keys s'(1) by (auto simp: subscription_keys_def distinct_map dest: inj_onD)
  qed
  then have "newest_subscription (filter (\<lambda>s. sb_scope_type s = st \<and> sb_scope_id s = si \<and>
      sb_status s \<in> set ACTIVE_SUBSCRIPTION_STATUSES) (b_subscriptions b')) = None"
    unfolding newest_subscription_none filter_empty_conv by blast
  with ws t st si tables(1,2) show ?thesis
    by (simp add: resolve_active_subscription_def)
qed

lemma no_active_decision:
  assumes "b_cache b = []" and "resolve_active_subscription w b = (Inl (NoActiveSubscriptionError w), b)"
  shows "quota_decision be pf w m b = Some QD_NO_ACTIVE_SUBSCRIPTION"
proof -
  have "enforcer_plan_context be pf w b = (Inr None, b)"
    using assms by (simp add: enforcer_plan_context_def cache_get_def ecatch_def eff_simps Let_def)
  then show ?thesis by (simp add: quota_decision_def check_execution_def run_ebind run_simps)
qed

lemma invoice_on_failed_run:
  assumes "resolve_local_subscription (payload_text pf (we_payload ev) ''subscription'')
      (payload_text pf (we_payload ev) ''customer'') b = (Inr (Some s), b)"
    and "invoice_on_failed tx pf ev ctx (b, wd) = (Inr (), (b1, wd1))"
  shows "open_graces (sb_id s) b1 \<noteq> []"
    and "same_subscriptions (b\<lparr>b_subscriptions := update_rows (\<lambda>x. sb_id x = sb_id s)
      (\<lambda>_. s\<lparr>sb_status := ''past_due''\<rparr>) (b_subscriptions b)\<rparr>) b1"
proof -
  let ?b = "b\<lparr>b_subscriptions := update_rows (\<lambda>x. sb_id x = sb_id s) (\<lambda>_. s\<lparr>sb_status := ''past_due''\<rparr>)
    (b_subscriptions b)\<rparr>"
  from assms obtain g b2 wd2 where g: "start_grace (fst tx) pf (sb_tenant_id s) (sb_id s) ctx None (?b, wd) = (Inr g, (b2, wd2))"
    and b1: "b1 = b2"
    by (auto simp: invoice_on_failed_def ebind_Inr in_billing_Inr in_world_Inr eret_Inr elift_Inr set_subscription_def run_simps
        publish_keyed_def Let_def split: if_splits prod.splits)
  show "open_graces (sb_id s) b1 \<noteq> []" using start_grace_opens [OF g] b1 by simp
  have "on_billing (same_subscriptions ?b) (snd (start_grace (fst tx) pf (sb_tenant_id s) (sb_id s) ctx None (?b, wd)))"
    by (rule spec_inv [OF same_subscriptions_service(1)]) (simp_all add: on_billing_def same_subscriptions_def)
  then show "same_subscriptions ?b b1" by (simp add: g b1 on_billing_def)
qed

lemma session_get_unique:
  "distinct (map key rows) \<Longrightarrow> r \<in> set rows \<Longrightarrow> session_get key (key r) rows = Some r"
  by (induction rows) (auto simp: session_get_def)

lemma payment_recovered_closes:
  assumes "resolve_payment_recovered jt pf sid ctx now (b, wd) = (Inr r, (b', wd'))"
    and ids: "distinct (map pg_id (b_graces b))"
  shows "open_graces sid b' = []"
proof -
  from assms obtain m b1 found where m: "now_or_clock pf now b = (Inr m, b1)"
    and f: "find_open_for_subscription sid b1 = (Inr found, b1)"
    and rest: "(case found of None \<Rightarrow> eret None
      | Some g \<Rightarrow> resolve_and_publish jt pf (pg_id g) GR_payment_recovered m ctx) (b1, wd) = (Inr r, (b', wd'))"
    by (auto simp: resolve_payment_recovered_def ebind_Inr in_billing_Inr find_open_Inr)
  show ?thesis
  proof (cases found)
    case None
    with rest f show ?thesis by (auto simp: eret_Inr find_open_Inr)
  next
    case (Some g)
    with f have one: "open_graces sid b1 = [g]" by (auto simp: find_open_Inr)
    from Some rest obtain u b2 where u: "resolve_grace (pg_id g) GR_payment_recovered m b1 = (Inr u, b2)" and b': "b' = b2"
      by (auto simp: resolve_and_publish_def cop_simps split: option.splits)
    from one have g: "g \<in> set (b_graces b1)" "pg_resolved_at g = None"
      by (auto simp: open_graces_def dest: filter_singleD)
    have "b_graces b1 = b_graces b"
      using m by (auto simp: now_or_clock_def b_now_def b_clock_def run_simps split: option.splits)
    with ids g(1) have "session_get pg_id (pg_id g) (b_graces b1) = Some g"
      by (intro session_get_unique) simp_all
    with g(2) u have "u \<noteq> None"
      by (auto simp: resolve_grace_def update_grace_def ebind_Inr run_simps)
    with u show ?thesis
      unfolding b' resolve_grace_def by (rule_tac update_grace_closes [OF one]) auto
  qed
qed

lemma invoice_on_paid_run:
  assumes "resolve_local_subscription (payload_text pf (we_payload ev) ''subscription'')
      (payload_text pf (we_payload ev) ''customer'') b = (Inr (Some s), b)"
    and "invoice_on_paid tx pf ev ctx (b, wd) = (Inr (), (b1, wd1))"
    and "distinct (map pg_id (b_graces b))"
  shows "open_graces (sb_id s) b1 = []"
proof -
  from assms(1,2) obtain r b2 wd2 v t b3 where
    r: "resolve_payment_recovered (fst tx) pf (sb_id s) ctx None (b, wd) = (Inr r, (b2, wd2))"
    and t: "time_or_now pf v b2 = (Inr t, b3)" and b1: "b1 = b3"
    by (auto simp: invoice_on_paid_def ebind_Inr in_billing_Inr in_world_Inr eret_Inr elift_Inr run_simps
        publish_keyed_def Let_def split: if_splits prod.splits)
  have "clocks_only b2 (snd (time_or_now pf v b2))"
    by (rule spec_inv [OF clocks_only_reads(1)]) (simp_all add: clocks_only_def)
  then have "b_graces b3 = b_graces b2" using clocks_only_tables(5) by (simp add: t)
  with payment_recovered_closes [OF r assms(3)] show ?thesis by (simp add: open_graces_def b1)
qed

text \<open>C38. A failed payment opens a grace period, but a workspace is refused from then on: the status past_due
  does not count as active, so the very next check finds no active subscription. A payment that succeeds later
  closes the grace period and leaves the status, so the workspace stays refused.\<close>

theorem payment_failure_refuses_executions:
  assumes "subscription_keys b" and "b_cache b = []" and "resolve_active_subscription w b = (Inr s, b)"
    and "resolve_local_subscription (payload_text pf (we_payload failed) ''subscription'')
      (payload_text pf (we_payload failed) ''customer'') b = (Inr (Some s), b)"
    and "invoice_on_failed tx pf failed ctx (b, wd) = (Inr (), (b1, wd1))"
    and "distinct (map pg_id (b_graces b1))"
    and "resolve_local_subscription (payload_text pf (we_payload paid) ''subscription'')
      (payload_text pf (we_payload paid) ''customer'') b1 = (Inr (Some s1), b1)" and "sb_id s1 = sb_id s"
    and "invoice_on_paid tx pf paid ctx' (b1, wd1) = (Inr (), (b2, wd2))"
  shows "open_graces (sb_id s) b1 \<noteq> [] \<and> quota_decision be pf w m b1 = Some QD_NO_ACTIVE_SUBSCRIPTION \<and>
    open_graces (sb_id s) b2 = [] \<and> quota_decision be pf w m b2 = Some QD_NO_ACTIVE_SUBSCRIPTION"
proof -
  note failed = invoice_on_failed_run [OF assms(4,5)]
  have "on_billing (same_subscriptions b1) (snd (invoice_on_paid tx pf paid ctx' (b1, wd1)))"
    by (rule spec_inv [OF same_subscriptions_service(5)]) (simp_all add: on_billing_def same_subscriptions_def)
  then have paid: "same_subscriptions b1 b2" by (simp add: assms(9) on_billing_def)
  have off: "sb_status (s\<lparr>sb_status := ''past_due''\<rparr>) \<notin> set ACTIVE_SUBSCRIPTION_STATUSES"
    by (simp add: ACTIVE_SUBSCRIPTION_STATUSES_def)
  have refused: "quota_decision be pf w m b' = Some QD_NO_ACTIVE_SUBSCRIPTION"
    if b': "b_workspaces b' = b_workspaces b" "b_tenants b' = b_tenants b" "b_cache b' = b_cache b"
      "b_subscriptions b' = b_subscriptions b1" for b'
  proof (rule no_active_decision)
    show "b_cache b' = []" using b'(3) assms(2) by simp
    show "resolve_active_subscription w b' = (Inl (NoActiveSubscriptionError w), b')"
      by (rule resolve_no_active [OF assms(3,1) b'(1,2) _ off])
        (use b'(4) failed(2) in \<open>simp add: same_subscriptions_def\<close>)
  qed
  have "open_graces (sb_id s) b2 = []"
    using invoice_on_paid_run [OF assms(7,9,6)] assms(8) by simp
  with failed(1) refused [of b1] refused [of b2] failed(2) paid show ?thesis
    by (simp add: same_subscriptions_def)
qed

text \<open>A subscription the provider knows by its id, the invoice it could not collect and the one it did.\<close>

definition billed_billing :: billing where
  "billed_billing = sample_billing\<lparr>b_subscriptions := [sample_subscription\<lparr>sb_stripe_subscription_id := Some ''sub_1''\<rparr>]\<rparr>"

definition invoice_event :: WebhookEvent where
  "invoice_event = \<lparr>we_id = ''evt'', we_type = ''invoice.payment_failed'', we_payload = [(PStr ''subscription'', PStr ''sub_1'')]\<rparr>"

definition late_billing :: billing where
  "late_billing = billed_billing\<lparr>b_subscriptions := [sample_subscription\<lparr>sb_stripe_subscription_id := Some ''sub_1'',
     sb_status := ''past_due''\<rparr>], b_graces := [\<lparr>pg_id = ''0'', pg_tenant_id = ''tenant'', pg_subscription_id = ''sub'',
     pg_started_at = 0, pg_grace_ends_at = GRACE_WINDOW, pg_reminders_sent = 0, pg_last_reminder_at = None,
     pg_resolved_at = None, pg_resolution = None\<rparr>], b_ids := 1, b_reads := 1\<rparr>"

lemma invoice_failed_run:
  "invoice_on_failed plain_texts sample_platform invoice_event (plain_context ''c'') (billed_billing, empty_world) =
   (Inr (), (late_billing, empty_world))"
  by code_simp

definition paid_billing :: billing where
  "paid_billing = fst (snd (invoice_on_paid plain_texts sample_platform invoice_event (plain_context ''c'') (late_billing, empty_world)))"

lemma invoice_paid_run:
  "invoice_on_paid plain_texts sample_platform invoice_event (plain_context ''c'') (late_billing, empty_world) =
   (Inr (), (paid_billing, empty_world))"
  by code_simp

text \<open>The failed and the collected invoice of the sample subscription.\<close>

theorem payment_failure_refuses_executions_witness:
  "open_graces ''sub'' late_billing \<noteq> [] \<and>
   quota_decision sample_billing_env sample_platform ''ws'' 1 late_billing = Some QD_NO_ACTIVE_SUBSCRIPTION \<and>
   open_graces ''sub'' paid_billing = [] \<and>
   quota_decision sample_billing_env sample_platform ''ws'' 1 paid_billing = Some QD_NO_ACTIVE_SUBSCRIPTION"
proof -
  have a: "subscription_keys billed_billing" "b_cache billed_billing = []"
    "resolve_active_subscription ''ws'' billed_billing =
       (Inr (sample_subscription\<lparr>sb_stripe_subscription_id := Some ''sub_1''\<rparr>), billed_billing)"
    "resolve_local_subscription (payload_text sample_platform (we_payload invoice_event) ''subscription'')
      (payload_text sample_platform (we_payload invoice_event) ''customer'') billed_billing =
      (Inr (Some (sample_subscription\<lparr>sb_stripe_subscription_id := Some ''sub_1''\<rparr>)), billed_billing)"
    "distinct (map pg_id (b_graces late_billing))"
    "resolve_local_subscription (payload_text sample_platform (we_payload invoice_event) ''subscription'')
      (payload_text sample_platform (we_payload invoice_event) ''customer'') late_billing =
      (Inr (Some (sample_subscription\<lparr>sb_stripe_subscription_id := Some ''sub_1'', sb_status := ''past_due''\<rparr>)), late_billing)"
    by code_simp+
  have "sb_id (sample_subscription\<lparr>sb_stripe_subscription_id := Some ''sub_1'', sb_status := ''past_due''\<rparr>) =
      sb_id (sample_subscription\<lparr>sb_stripe_subscription_id := Some ''sub_1''\<rparr>)" by simp
  from payment_failure_refuses_executions [OF a(1-4) invoice_failed_run a(5,6) this invoice_paid_run,
      of sample_billing_env 1]
  show ?thesis by (simp add: sample_subscription_def)
qed

end
