(* ===== verification/Billing_Subscription_Props.thy ===== *)
theory Billing_Subscription_Props
  imports Billing_Lifecycle_Props
begin

text \<open>
  The invariant of the subscription tables under every operation of the plan, subscription and payment
  services, as a step relation over them, and operations that do less or more than their names promise.
\<close>

section \<open>Consistent subscriptions\<close>

definition SUBSCRIPTION_STATUSES :: "string list" where
  "SUBSCRIPTION_STATUSES = [''trial'', ''active'', ''past_due'', ''cancellation_pending'', ''canceled'', ''suspended'']"

text \<open>The constraints of the table: ids and scopes are unique, a subscription is pinned to a version that
  exists, and its status is one of the six.\<close>

definition subscriptions_ok :: "billing \<Rightarrow> bool" where
  "subscriptions_ok b \<longleftrightarrow> subscription_keys b \<and>
     (\<forall>s \<in> set (b_subscriptions b). version_exists (sb_plan_id s) (sb_plan_version s) b \<and>
        sb_status s \<in> set SUBSCRIPTION_STATUSES)"

text \<open>Rows that are known to be there, by id and scope, and versions of plans that exist.\<close>

definition rows_known :: "(uuid \<times> string \<times> uuid) set \<Rightarrow> (uuid \<times> int) set \<Rightarrow> billing \<Rightarrow> bool" where
  "rows_known K V b \<longleftrightarrow> subscriptions_ok b \<and> K \<subseteq> (\<lambda>s. (sb_id s, scope_of s)) ` set (b_subscriptions b) \<and>
     (\<forall>(p, v) \<in> V. version_exists p v b)"

definition row_ok :: "Subscription \<Rightarrow> billing \<Rightarrow> bool" where
  "row_ok s b \<longleftrightarrow> version_exists (sb_plan_id s) (sb_plan_version s) b \<and> sb_status s \<in> set SUBSCRIPTION_STATUSES"

lemma update_rows_keys:
  assumes "\<And>x. x \<in> set xs \<Longrightarrow> P x \<Longrightarrow> k (f x) = k x"
  shows "map k (update_rows P f xs) = map k xs"
  using assms by (auto simp: update_rows_def)

lemma rows_known_update:
  assumes "rows_known K V b"
    and keys: "\<And>x. x \<in> set (b_subscriptions b) \<Longrightarrow> sb_id x = sid \<Longrightarrow> sb_id (f x) = sb_id x \<and> scope_of (f x) = scope_of x"
    and ok: "\<And>x. x \<in> set (b_subscriptions b) \<Longrightarrow> sb_id x = sid \<Longrightarrow> row_ok (f x) b"
  shows "rows_known K V (b\<lparr>b_subscriptions := update_rows (\<lambda>x. sb_id x = sid) f (b_subscriptions b)\<rparr>)"
proof -
  let ?rows = "update_rows (\<lambda>x. sb_id x = sid) f (b_subscriptions b)"
  have ids: "map sb_id ?rows = map sb_id (b_subscriptions b)" "map scope_of ?rows = map scope_of (b_subscriptions b)"
    "map (\<lambda>s. (sb_id s, scope_of s)) ?rows = map (\<lambda>s. (sb_id s, scope_of s)) (b_subscriptions b)"
    using keys by (intro update_rows_keys; simp)+
  have "(\<lambda>s. (sb_id s, scope_of s)) ` set ?rows = (\<lambda>s. (sb_id s, scope_of s)) ` set (b_subscriptions b)"
    using arg_cong [OF ids(3), of set] by simp
  moreover have "version_exists p v (b\<lparr>b_subscriptions := ?rows\<rparr>) = version_exists p v b" for p v
    by (simp add: version_exists_def)
  moreover have "row_ok x b" if "x \<in> set ?rows" for x
    using that ok assms(1) by (auto simp: update_rows_def rows_known_def subscriptions_ok_def row_ok_def)
  ultimately show ?thesis
    using assms(1) ids(1,2) by (simp add: rows_known_def subscriptions_ok_def subscription_keys_def row_ok_def)
qed

lemma rows_known_other:
  assumes "rows_known K V b" and "b_subscriptions b' = b_subscriptions b"
    and "\<And>p v. version_exists p v b \<Longrightarrow> version_exists p v b'"
  shows "rows_known K V b'"
  using assms by (auto simp: rows_known_def subscriptions_ok_def subscription_keys_def)

lemma rows_known_ticks: "ticks_free (rows_known K V)"
  by (auto simp: ticks_free_def version_exists_def intro: rows_known_other)

lemma keeps_rows_emod:
  "(\<And>b. b_subscriptions (f b) = b_subscriptions b) \<Longrightarrow> (\<And>b. b_plan_versions (f b) = b_plan_versions b) \<Longrightarrow>
   keeps (rows_known K V) (emod f)"
  by (rule keeps_emod) (auto simp: version_exists_def intro: rows_known_other)

subsection \<open>Operations of the repositories\<close>

lemma keeps_update_subscription:
  assumes "\<And>x. sb_id (f x) = sb_id x" and "\<And>x. scope_of (f x) = scope_of x"
    and "\<And>x b. rows_known K V b \<Longrightarrow> P b \<Longrightarrow> row_ok x b \<Longrightarrow> row_ok (f x) b"
  shows "spec (rows_known K V) P (update_subscription sid f) (\<lambda>_ _. True)"
proof (rule specI)
  fix b assume b: "rows_known K V b" "P b"
  then have "row_ok x b" if "x \<in> set (b_subscriptions b)" for x
    using that by (simp add: rows_known_def subscriptions_ok_def row_ok_def)
  with b assms have "rows_known K V (b\<lparr>b_subscriptions := update_rows (\<lambda>x. sb_id x = sid) f (b_subscriptions b)\<rparr>)"
    by (intro rows_known_update) auto
  then show "rows_known K V (snd (update_subscription sid f b))"
    by (auto simp: update_subscription_def get_subscription_def run_ebind run_simps split: option.splits)
qed simp

lemma keeps_rows_run:
  assumes "\<And>b. b_subscriptions (snd (m b)) = b_subscriptions b" and "\<And>b. b_plan_versions (snd (m b)) = b_plan_versions b"
  shows "keeps (rows_known K V) m"
proof (rule specI)
  fix b assume "rows_known K V b"
  then show "rows_known K V (snd (m b))"
    by (rule rows_known_other) (use assms in \<open>auto simp: version_exists_def\<close>)
qed simp

lemma reads_keep_rows:
  "keeps (rows_known K V) (get_subscription sid)" "keeps (rows_known K V) (get_by_scope st si)"
  "keeps (rows_known K V) (get_by_slug slug)" "keeps (rows_known K V) (get_plan pid)"
  "keeps (rows_known K V) (get_published_version pid)" "keeps (rows_known K V) (plan_slug_of pid)"
  "keeps (rows_known K V) (workspace_or_subscription sid)" "keeps (rows_known K V) (call_provider c g)"
  "keeps (rows_known K V) (append_audit le e p t)" "keeps (rows_known K V) (subscription_audit le e s p)"
  "keeps (rows_known K V) (invalidate_workspace be w)" "keeps (rows_known K V) (count_subscriptions_on_version pid n)"
  by (rule keeps_rows_run;
      simp add: get_subscription_def get_by_scope_def get_by_slug_def get_plan_def get_published_version_def
        plan_slug_of_def workspace_or_subscription_def call_provider_def append_audit_def subscription_audit_def
        invalidate_workspace_def cache_delete_prefix_def count_subscriptions_on_version_def eff_simps Let_def
        split: option.splits)+

lemma provider_keeps_rows:
  "keeps (rows_known K V) (cancel_at_provider le s x)"
  "keeps (rows_known K V) (upgrade_at_provider provider pf w current target v token)"
  unfolding cancel_at_provider_def upgrade_at_provider_def
  by (intro keeps_steps reads_keep_rows rows_known_ticks)+

lemma status_keeps_rows:
  "st \<in> set SUBSCRIPTION_STATUSES \<Longrightarrow> keeps (rows_known K V) (update_status sid st)"
  "keeps (rows_known K V) (set_cancel_at_period_end sid flag)"
  unfolding update_status_def set_cancel_at_period_end_def
  by (intro keeps_update_subscription; simp add: scope_of_def row_ok_def SUBSCRIPTION_STATUSES_def)+

lemma pinning_keeps_rows:
  assumes "\<And>st. pn_status n = Some st \<Longrightarrow> st \<in> set SUBSCRIPTION_STATUSES"
  shows "keeps (rows_known K V) (update_plan_pinning sid pid v n)"
  unfolding update_plan_pinning_def
proof (rule spec_ebind)
  show "spec (rows_known K V) (\<lambda>_. True) (eget (version_exists pid v)) (\<lambda>ok b. ok \<longrightarrow> version_exists pid v b)"
    by (rule spec_eget) simp
  fix ok
  show "spec (rows_known K V) (\<lambda>b. ok \<longrightarrow> version_exists pid v b)
    (if \<not> ok then eraise IntegrityError
     else update_subscription sid (\<lambda>s. s\<lparr>sb_plan_id := pid, sb_plan_version := v,
       sb_current_period_start := or_keep (pn_current_period_start n) (sb_current_period_start s),
       sb_current_period_end := or_keep (pn_current_period_end n) (sb_current_period_end s),
       sb_payment_method_id := some_or (pn_payment_method_id n) (sb_payment_method_id s),
       sb_status := or_keep (pn_status n) (sb_status s),
       sb_stripe_customer_id := some_or (pn_stripe_customer_id n) (sb_stripe_customer_id s),
       sb_stripe_subscription_id := some_or (pn_stripe_subscription_id n) (sb_stripe_subscription_id s)\<rparr>))
    (\<lambda>_ _. True)"
    using assms
    by (intro spec_if spec_eraise keeps_update_subscription)
      (auto simp: scope_of_def row_ok_def or_keep_def split: option.splits)
qed

lemma create_keeps_rows:
  assumes "st \<in> set SUBSCRIPTION_STATUSES"
  shows "keeps (rows_known K V) (create_subscription pf t stype sid pid v st t1 t2 u)"
proof (rule specI)
  fix b assume b: "rows_known K V b"
  let ?r = "snd (create_subscription pf t stype sid pid v st t1 t2 u b)"
  show "rows_known K V ?r"
    using b assms
    by (auto simp: create_subscription_def fresh_id_def b_clock_def eff_simps Let_def rows_known_def
        subscriptions_ok_def subscription_keys_def version_exists_def scope_of_def)
qed simp

text \<open>A row that replaces the known row of its id.\<close>

lemma set_keeps_rows:
  assumes "(sb_id s, scope_of s) \<in> K"
  shows "spec (rows_known K V) (row_ok s) (set_subscription s) (\<lambda>_ _. True)"
proof (rule specI)
  fix b assume b: "rows_known K V b" "row_ok s b"
  with assms obtain y where y: "y \<in> set (b_subscriptions b)" "sb_id y = sb_id s" "scope_of y = scope_of s"
    by (auto simp: rows_known_def)
  have "inj_on sb_id (set (b_subscriptions b))"
    using b by (simp add: rows_known_def subscriptions_ok_def subscription_keys_def distinct_map)
  then have "x = y" if "x \<in> set (b_subscriptions b)" "sb_id x = sb_id s" for x
    using that y by (metis inj_onD)
  then have "scope_of x = scope_of s" if "x \<in> set (b_subscriptions b)" "sb_id x = sb_id s" for x
    using that y(3) by blast
  then have "rows_known K V (b\<lparr>b_subscriptions := update_rows (\<lambda>x. sb_id x = sb_id s) (\<lambda>_. s) (b_subscriptions b)\<rparr>)"
    using b by (intro rows_known_update) simp_all
  then show "rows_known K V (snd (set_subscription s b))" by (simp add: set_subscription_def run_simps)
qed simp

subsection \<open>Operations of the services\<close>

lemma keeps_or_raise: "keeps I m \<Longrightarrow> keeps (on_billing I) (or_raise m e)"
  unfolding or_raise_def by (intro keeps_steps)

lemma announce_keeps_rows: "keeps (on_billing (rows_known K V)) (announce le pf e s p a)"
  unfolding announce_def by (intro keeps_steps reads_keep_rows)

lemmas rows_steps = keeps_steps keeps_or_raise rows_known_ticks reads_keep_rows provider_keeps_rows status_keeps_rows
  pinning_keeps_rows create_keeps_rows announce_keeps_rows

lemma provision_keeps_rows:
  "keeps (on_billing (rows_known K V)) (provision le pf t st si slug u)"
  "keeps (on_billing (rows_known K V)) (provision_for_default_workspace le pf w slug u)"
  "keeps (on_billing (rows_known K V)) (provision_for_enterprise_tenant le pf t u)"
proof -
  show p: "keeps (on_billing (rows_known K V)) (provision le pf t st si slug u)" for t st si slug
    unfolding provision_def Let_def
    by (intro rows_steps) (simp add: SUBSCRIPTION_STATUSES_def)
  show "keeps (on_billing (rows_known K V)) (provision_for_default_workspace le pf w slug u)"
    "keeps (on_billing (rows_known K V)) (provision_for_enterprise_tenant le pf t u)"
    unfolding provision_for_default_workspace_def provision_for_enterprise_tenant_def
    by (intro rows_steps p)+
qed

lemma lifecycle_keeps_rows:
  "keeps (on_billing (rows_known K V)) (upgrade be le pf w slug token actor)"
  "keeps (on_billing (rows_known K V)) (downgrade_at_period_end le pf sid slug)"
  "keeps (on_billing (rows_known K V)) (cancel_scheduled_downgrade le pf sid)"
  "keeps (on_billing (rows_known K V)) (suspend le pf sid reason)"
  "keeps (on_billing (rows_known K V)) (reactivate le pf sid)"
  "keeps (on_billing (rows_known K V)) (cancel_subscription le pf sid)"
  "keeps (on_billing (rows_known K V)) (migrate_version le sid pid n)"
  unfolding upgrade_def upgrade_steps_def downgrade_at_period_end_def cancel_scheduled_downgrade_def suspend_def
    reactivate_def cancel_subscription_def migrate_version_def
  by (intro rows_steps; simp add: SUBSCRIPTION_STATUSES_def no_pinning_def)+

lemma spec_in_billing: "spec I P m Q \<Longrightarrow> spec (on_billing I) (\<lambda>y. P (fst y)) (in_billing m) (\<lambda>x y. Q x (fst y))"
  by (auto simp: spec_def on_billing_def in_billing_def split: prod.splits)

lemma spec_pre: "keeps I m \<Longrightarrow> spec I P m (\<lambda>_ _. True)"
  by (simp add: spec_def)

lemma set_known_keeps_rows:
  assumes "(sb_id s, scope_of s) \<in> K" and "(sb_plan_id s, sb_plan_version s) \<in> V"
    and "sb_status s \<in> set SUBSCRIPTION_STATUSES"
  shows "keeps (rows_known K V) (set_subscription s)"
  by (rule spec_weaken [OF set_keeps_rows [OF assms(1)]]) (use assms in \<open>auto simp: rows_known_def row_ok_def\<close>)

lemma free_version_exists: "free_version b = Some (p, v) \<Longrightarrow> version_exists p v b"
proof -
  assume free: "free_version b = Some (p, v)"
  have first: "(p, v) \<in> set xs" if "first_of xs = Some (p, v)" for xs :: "(uuid \<times> int) list"
    using that by (cases xs) (auto simp: first_of_def)
  from first [OF free [unfolded free_version_def]] show ?thesis
    by (auto simp: version_exists_def same_version_def)
qed

lemma rollover_keeps_rows:
  assumes "(sb_id s, scope_of s) \<in> K" and "(sb_plan_id s, sb_plan_version s) \<in> V"
    and "sb_status s \<in> set SUBSCRIPTION_STATUSES"
  shows "keeps (on_billing (rows_known K V)) (rollover_subscription le pf s)"
proof -
  define advanced where "advanced = advance_period s (sb_current_period_end s) (sb_current_period_end s + 30 * a_day)
    (if sb_cancel_at_period_end s then ''active'' else sb_status s)"
  have adv: "(sb_id advanced, scope_of advanced) \<in> K" "(sb_plan_id advanced, sb_plan_version advanced) \<in> V"
    "sb_status advanced \<in> set SUBSCRIPTION_STATUSES"
    using assms by (simp_all add: advanced_def advance_period_def scope_of_def SUBSCRIPTION_STATUSES_def)
  let ?free = "\<lambda>free b. \<forall>p v. free = Some (p, v) \<longrightarrow> version_exists p v b"
  have choose: "spec (rows_known K V) (\<lambda>_. True) (eget (\<lambda>b. if sb_cancel_at_period_end s then free_version b else None)) ?free"
    by (rule spec_eget) (auto dest: free_version_exists)
  have pin: "spec (rows_known K V) (?free free) (case free of
          None \<Rightarrow> eret (advanced, slug, sb_plan_version s, [])
        | Some (plan_id, version) \<Rightarrow>
            let s' = advanced\<lparr>sb_plan_id := plan_id, sb_plan_version := version, sb_cancel_at_period_end := False\<rparr> in
            ebind (eget (data_exceeding_free_limits s')) (\<lambda>cleanup.
            ebind (set_subscription s') (\<lambda>_.
            eret (s', ''free'', version, cleanup)))) (\<lambda>_ _. True)" for free slug
  proof (cases free)
    case None
    then show ?thesis by (simp add: spec_eret)
  next
    case (Some pv)
    obtain p v where pv: "pv = (p, v)" by (cases pv)
    let ?s = "advanced\<lparr>sb_plan_id := p, sb_plan_version := v, sb_cancel_at_period_end := False\<rparr>"
    have "(sb_id ?s, scope_of ?s) \<in> K" using adv(1) by (simp add: scope_of_def)
    note set = set_keeps_rows [OF this, of V]
    have "spec (rows_known K V) (?free free) (ebind (eget (data_exceeding_free_limits ?s)) (\<lambda>cleanup.
        ebind (set_subscription ?s) (\<lambda>_. eret (?s, ''free'', v, cleanup)))) (\<lambda>_ _. True)"
      by (rule spec_ebind [OF spec_eget [where Q = "\<lambda>_. row_ok ?s"]], (use Some pv adv(3) in \<open>simp add: row_ok_def\<close>),
          rule spec_ebind [OF set], rule spec_eret, simp)
    with Some pv show ?thesis by (simp add: Let_def)
  qed
  show ?thesis
    unfolding rollover_subscription_def Let_def advanced_def [symmetric]
    by (intro keeps_ebind keeps_in_billing keeps_in_world keeps_case_prod reads_keep_rows set_known_keeps_rows adv
        spec_ebind [OF spec_in_billing [OF choose, simplified]]
        spec_ebind [OF spec_in_billing [OF pin [unfolded Let_def]]])
qed

lemma subscriptions_ok_known: "subscriptions_ok b \<longleftrightarrow> rows_known {} {} b"
  by (simp add: rows_known_def)

lemma rows_known_ok: "rows_known K V b \<Longrightarrow> subscriptions_ok b"
  by (simp add: rows_known_def)

lemma run_period_rollover_ok:
  assumes "subscriptions_ok b"
  shows "subscriptions_ok (fst (snd (run_period_rollover le pf (b, wd))))"
proof -
  define now where "now = clock pf (b_reads b)"
  define b0 where "b0 = b\<lparr>b_reads := Suc (b_reads b)\<rparr>"
  define due where "due = take 500 (sort_key (\<lambda>s. (sb_current_period_end s, sb_id s))
    (filter (\<lambda>s. sb_current_period_end s \<le> now \<and> sb_status s \<notin> {''canceled'', ''suspended''}) (b_subscriptions b)))"
  define K where "K = (\<lambda>s. (sb_id s, scope_of s)) ` set due"
  define V where "V = (\<lambda>s. (sb_plan_id s, sb_plan_version s)) ` set due"
  have sub: "set due \<subseteq> set (b_subscriptions b)"
    unfolding due_def by (auto dest: in_set_takeD)
  have run: "run_period_rollover le pf (b, wd) = (case efor (rollover_subscription le pf) due (b0, wd) of
      (Inr _, y) \<Rightarrow> (Inr (), y) | (Inl e, (b', wd')) \<Rightarrow> (Inl e, (rollback_billing b b', wd')))"
    by (simp add: run_period_rollover_def run_ebind in_billing_def b_now_def b_clock_def list_due_for_period_rollover_def
        run_simps now_def b0_def due_def)
  have known: "rows_known K V b0"
    using assms sub by (auto simp: rows_known_def K_def V_def b0_def subscriptions_ok_def subscription_keys_def
        version_exists_def)
  have "keeps (on_billing (rows_known K V)) (efor (rollover_subscription le pf) due)"
  proof (rule keeps_efor)
    fix s assume "s \<in> set due"
    then show "keeps (on_billing (rows_known K V)) (rollover_subscription le pf s)"
      using sub assms by (intro rollover_keeps_rows) (auto simp: K_def V_def subscriptions_ok_def)
  qed
  from spec_inv [OF this, of "(b0, wd)"] known
  have ok: "subscriptions_ok (fst (snd (efor (rollover_subscription le pf) due (b0, wd))))"
    by (auto simp: on_billing_def dest: rows_known_ok)
  obtain r b' wd' where e: "efor (rollover_subscription le pf) due (b0, wd) = (r, (b', wd'))" by (metis prod.collapse)
  have "subscriptions_ok (rollback_billing b b')"
    using assms by (simp add: rollback_billing_def subscriptions_ok_def subscription_keys_def version_exists_def)
  with ok show ?thesis by (cases r) (simp_all add: run e)
qed

definition version_key :: "PlanVersion \<Rightarrow> uuid \<times> int" where
  "version_key v = (pv_plan_id v, pv_version v)"

lemma version_exists_key: "version_exists p v b \<longleftrightarrow> (p, v) \<in> version_key ` set (b_plan_versions b)"
  by (auto simp: version_exists_def same_version_def version_key_def)

lemma version_keys_deprecated [simp]:
  "version_key ` set (update_rows P (pv_deprecated_at_update (\<lambda>_. d)) vs) = version_key ` set vs"
proof -
  have "map version_key (update_rows P (pv_deprecated_at_update (\<lambda>_. d)) vs) = map version_key vs"
    by (rule update_rows_keys) (simp add: version_key_def)
  from arg_cong [OF this, of set] show ?thesis by simp
qed

lemma plans_keep_rows:
  "keeps (on_billing (rows_known K V)) (publish_new_version be le pf slug p actor t)"
  "keeps (rows_known K V) (deprecate_version le pf pid n t)"
proof -
  have row: "keeps (rows_known K V) (publish_version_row le pf plan p c)" for plan c
  proof (rule specI)
    fix b assume b: "rows_known K V b"
    show "rows_known K V (snd (publish_version_row le pf plan p c b))"
      using b
      by (rule rows_known_other)
        (auto simp: publish_version_row_def get_published_version_def b_now_def b_clock_def eff_simps Let_def
          version_exists_key image_Un split: option.splits)
  qed simp
  show "keeps (on_billing (rows_known K V)) (publish_new_version be le pf slug p actor t)"
    unfolding publish_new_version_def by (intro rows_steps row)
  have "keeps (rows_known K V) (deprecate_version_row pf pid n)"
  proof (rule specI)
    fix b assume b: "rows_known K V b"
    show "rows_known K V (snd (deprecate_version_row pf pid n b))"
      using b
      by (rule rows_known_other)
        (auto simp: deprecate_version_row_def b_now_def b_clock_def eff_simps version_exists_key)
  qed simp
  then show "keeps (rows_known K V) (deprecate_version le pf pid n t)"
    unfolding deprecate_version_def by (intro rows_steps)
qed

subsection \<open>Payments and webhooks\<close>

lemma grace_ops_keep_rows:
  "keeps (rows_known K V) (find_open_for_subscription sid)" "keeps (rows_known K V) (open_grace pf t sid t1 t2)"
  "keeps (rows_known K V) (update_grace gid f)" "keeps (rows_known K V) (time_or_now pf v)"
  "keeps (rows_known K V) (resolve_local_subscription x y)"
  unfolding find_open_for_subscription_def open_grace_def update_grace_def time_or_now_def resolve_local_subscription_def
  by (intro rows_steps keeps_rows_emod; simp)+

lemma grace_service_keeps_rows:
  "keeps (rows_known K V) (tick_reminders now')"
  "keeps (on_billing (rows_known K V)) (start_grace jt pf t sid ctx now)"
  "keeps (on_billing (rows_known K V)) (resolve_and_publish jt pf gid r now' ctx)"
  "keeps (on_billing (rows_known K V)) (tick_expiries jt pf ctx now')"
  "keeps (on_billing (rows_known K V)) (resolve_payment_recovered jt pf sid ctx now)"
  "keeps (on_billing (rows_known K V)) (resolve_manually jt pf gid ctx now)"
  unfolding tick_reminders_def tick_reminder_def list_due_for_reminder_def start_grace_def tick_expiries_def
    list_due_for_expiry_def resolve_payment_recovered_def resolve_manually_def resolve_and_publish_def resolve_grace_def
  by (intro rows_steps grace_ops_keep_rows)+

text \<open>The status of a row that was just read.\<close>

lemma set_status_ok:
  assumes "st \<in> set SUBSCRIPTION_STATUSES"
  shows "spec subscriptions_ok (\<lambda>b. s \<in> set (b_subscriptions b)) (set_subscription (s\<lparr>sb_status := st\<rparr>)) (\<lambda>_ _. True)"
proof (rule specI)
  fix b assume b: "subscriptions_ok b" "s \<in> set (b_subscriptions b)"
  let ?s = "s\<lparr>sb_status := st\<rparr>"
  let ?K = "{(sb_id ?s, scope_of ?s)}"
  have "rows_known ?K {} b" "row_ok ?s b"
    using b assms by (auto simp: rows_known_def scope_of_def row_ok_def subscriptions_ok_def)
  from spec_inv [OF set_keeps_rows this] show "subscriptions_ok (snd (set_subscription ?s b))"
    by (auto dest: rows_known_ok)
qed simp

lemma resolve_local_found:
  "spec I P (resolve_local_subscription x y) (\<lambda>r b. \<forall>s. r = Some s \<longrightarrow> s \<in> set (b_subscriptions b))"
proof (rule specI)
  show "I (snd (resolve_local_subscription x y b))" if "I b" for b
    using that by (simp add: resolve_local_subscription_def run_simps)
  show "\<forall>s. r = Some s \<longrightarrow> s \<in> set (b_subscriptions b')"
    if "resolve_local_subscription x y b = (Inr r, b')" for b b' r
    using that by (auto simp: resolve_local_subscription_def run_simps dest: find_SomeD split: if_splits)
qed

lemma ok_keeps: "keeps (rows_known {} {}) m \<Longrightarrow> keeps subscriptions_ok m"
    "keeps (on_billing (rows_known {} {})) n \<Longrightarrow> keeps (on_billing subscriptions_ok) n"
  by (simp_all add: subscriptions_ok_known [abs_def])

lemma subscriptions_ok_ticks: "ticks_free subscriptions_ok"
  using rows_known_ticks [of "{}" "{}"] by (simp add: subscriptions_ok_known [abs_def])

lemmas ok_steps = grace_ops_keep_rows [THEN ok_keeps(1)] grace_service_keeps_rows(1) [THEN ok_keeps(1)]
  grace_service_keeps_rows(2-) [THEN ok_keeps(2)]

lemma invoice_on_failed_ok: "keeps (on_billing subscriptions_ok) (invoice_on_failed tx pf event ctx)"
proof -
  have past_due: "''past_due'' \<in> set SUBSCRIPTION_STATUSES" by (simp add: SUBSCRIPTION_STATUSES_def)
  have handled: "spec (on_billing subscriptions_ok) (\<lambda>y. \<forall>s. sub = Some s \<longrightarrow> s \<in> set (b_subscriptions (fst y)))
      (case sub of
               None \<Rightarrow> eret ()
             | Some s \<Rightarrow>
                 ebind (in_billing (set_subscription (s\<lparr>sb_status := ''past_due''\<rparr>))) (\<lambda>_.
                 ebind (start_grace jt pf (sb_tenant_id s) (sb_id s) ctx None) (\<lambda>_. eret ()))) (\<lambda>_ _. True)" for sub jt
  proof (cases sub)
    case None
    then show ?thesis by (simp add: spec_eret)
  next
    case (Some s)
    have "spec (on_billing subscriptions_ok) (\<lambda>y. s \<in> set (b_subscriptions (fst y)))
      (ebind (in_billing (set_subscription (s\<lparr>sb_status := ''past_due''\<rparr>))) (\<lambda>_.
         ebind (start_grace jt pf (sb_tenant_id s) (sb_id s) ctx None) (\<lambda>_. eret ()))) (\<lambda>_ _. True)"
      by (rule spec_ebind [OF spec_in_billing [OF set_status_ok [OF past_due]]])
        (intro keeps_steps ok_steps)
    with Some show ?thesis by simp
  qed
  show ?thesis
    unfolding invoice_on_failed_def publish_keyed_def Let_def
    by (intro keeps_case_prod keeps_ebind [OF keeps_basic(3)]
        spec_ebind [OF spec_in_billing [OF resolve_local_found, where P = "\<lambda>_. True", simplified]]
        spec_ebind [OF handled] keeps_steps ok_steps)
qed

lemma handlers_ok: "keeps (on_billing subscriptions_ok) (dispatch_webhook tx pf event ctx)"
proof (cases "registered_handler tx pf (we_type event)")
  case None
  then show ?thesis by (simp add: dispatch_webhook_def keeps_basic)
next
  case (Some handler)
  have "keeps (on_billing subscriptions_ok) (invoice_on_paid tx pf event ctx)"
    "keeps (on_billing subscriptions_ok) (subscription_on_created tx pf event ctx)"
    "keeps (on_billing subscriptions_ok) (subscription_on_updated tx pf event ctx)"
    "keeps (on_billing subscriptions_ok) (subscription_on_deleted tx pf event ctx)"
    "keeps (on_billing subscriptions_ok) (subscription_on_trial_ending event)"
    "keeps (on_billing subscriptions_ok) (payment_method_on_attached pf event ctx)"
    "keeps (on_billing subscriptions_ok) (dispute_on_dispute tx pf event ctx)"
    unfolding invoice_on_paid_def subscription_on_created_def subscription_on_updated_def
      subscription_on_deleted_def subscription_on_trial_ending_def payment_method_on_attached_def
      dispute_on_dispute_def publish_keyed_def
    by (intro keeps_steps ok_steps)+
  with registered_handler_in [OF Some] have "keeps (on_billing subscriptions_ok) (handler event ctx)"
    by (auto intro: invoice_on_failed_ok)
  with Some show ?thesis
    by (simp add: dispatch_webhook_def) (intro keeps_ebind keeps_basic)
qed

lemma rollback_billing_ok: "subscriptions_ok b \<Longrightarrow> subscriptions_ok (rollback_billing b b')"
  by (simp add: rollback_billing_def subscriptions_ok_def subscription_keys_def version_exists_def)

lemma process_webhook_ok: "keeps (on_billing subscriptions_ok) (process_webhook tx pf event ctx)"
proof (rule specI)
  fix y assume y: "on_billing subscriptions_ok y"
  obtain b wd where yb: "y = (b, wd)" by (cases y)
  obtain r b' wd' where d: "dispatch_webhook tx pf event ctx (b, wd) = (r, (b', wd'))" by (metis prod.collapse)
  have b: "subscriptions_ok b" using y by (simp add: yb on_billing_def)
  have b': "subscriptions_ok b'"
    using spec_inv [OF handlers_ok, of "(b, wd)" tx pf event ctx] b by (simp add: d on_billing_def)
  then have "subscriptions_ok (b'\<lparr>b_webhooks := ws\<rparr>)" for ws
    by (simp add: subscriptions_ok_def subscription_keys_def version_exists_def)
  with b b' show "on_billing subscriptions_ok (snd (process_webhook tx pf event ctx y))"
    by (cases r) (auto simp: yb process_webhook_def d on_billing_def run_ebind in_billing_def mark_webhook_processed_def
        run_simps rollback_billing_ok)
qed simp

lemma stripe_webhook_ok: "keeps (on_billing subscriptions_ok) (stripe_webhook tx pf ce secrets ttl body header)"
  unfolding stripe_webhook_def acquire_webhook_def
  by (intro keeps_steps process_webhook_ok)

lemma grace_monitor_tick_ok: "keeps (on_billing subscriptions_ok) (grace_monitor_tick jt pf)"
proof (rule specI)
  fix y assume y: "on_billing subscriptions_ok y"
  obtain b wd where yb: "y = (b, wd)" by (cases y)
  let ?m = "ebind (in_world (fresh_uuid pf)) (\<lambda>cid. ebind (in_billing (b_now pf)) (\<lambda>now.
    ebind (in_billing (tick_reminders now)) (\<lambda>_. tick_expiries jt pf (plain_context cid) now)))"
  obtain r b' wd' where d: "?m (b, wd) = (r, (b', wd'))" by (rule prod_cases3)
  have "keeps (on_billing subscriptions_ok) ?m"
    by (intro keeps_steps ok_steps subscriptions_ok_ticks)
  from spec_inv [OF this, of "(b, wd)"] y have "subscriptions_ok b'" by (simp add: d yb on_billing_def)
  with y d show "on_billing subscriptions_ok (snd (grace_monitor_tick jt pf y))"
    by (cases r) (auto simp: yb grace_monitor_tick_def on_billing_def rollback_billing_ok)
qed simp

subsection \<open>Every sequence of operations\<close>

text \<open>One operation of the plan, subscription and payment services, with any arguments and whether it returns
  or raises.\<close>

inductive lifecycle_step ::
  "billing_env \<Rightarrow> lifecycle_env \<Rightarrow> platform \<Rightarrow> texts \<Rightarrow> billing \<times> world \<Rightarrow> billing \<times> world \<Rightarrow> bool"
  for be le pf tx where
  step_publish: "lifecycle_step be le pf tx y (snd (publish_new_version be le pf slug p actor t y))"
| step_deprecate: "lifecycle_step be le pf tx y (snd (in_billing (deprecate_version le pf pid n t) y))"
| step_provision: "lifecycle_step be le pf tx y (snd (provision_for_default_workspace le pf w slug u y))"
| step_enterprise: "lifecycle_step be le pf tx y (snd (provision_for_enterprise_tenant le pf t u y))"
| step_upgrade: "lifecycle_step be le pf tx y (snd (upgrade be le pf w slug token actor y))"
| step_downgrade: "lifecycle_step be le pf tx y (snd (downgrade_at_period_end le pf sid slug y))"
| step_keep: "lifecycle_step be le pf tx y (snd (cancel_scheduled_downgrade le pf sid y))"
| step_suspend: "lifecycle_step be le pf tx y (snd (suspend le pf sid reason y))"
| step_reactivate: "lifecycle_step be le pf tx y (snd (reactivate le pf sid y))"
| step_cancel: "lifecycle_step be le pf tx y (snd (cancel_subscription le pf sid y))"
| step_migrate: "lifecycle_step be le pf tx y (snd (migrate_version le sid pid n y))"
| step_rollover: "lifecycle_step be le pf tx y (snd (run_period_rollover le pf y))"
| step_webhook: "lifecycle_step be le pf tx y (snd (stripe_webhook tx pf ce secrets ttl body header y))"
| step_monitor: "lifecycle_step be le pf tx y (snd (grace_monitor_tick (fst tx) pf y))"
| step_manual: "lifecycle_step be le pf tx y (snd (resolve_manually (fst tx) pf gid ctx now y))"

inductive lifecycle_reachable ::
  "billing_env \<Rightarrow> lifecycle_env \<Rightarrow> platform \<Rightarrow> texts \<Rightarrow> billing \<times> world \<Rightarrow> billing \<times> world \<Rightarrow> bool"
  for be le pf tx y where
  reach_start: "lifecycle_reachable be le pf tx y y"
| reach_step: "lifecycle_reachable be le pf tx y y1 \<Longrightarrow> lifecycle_step be le pf tx y1 y2 \<Longrightarrow> lifecycle_reachable be le pf tx y y2"

lemma lifecycle_step_ok:
  assumes "lifecycle_step be le pf tx y y'" and "subscriptions_ok (fst y)"
  shows "subscriptions_ok (fst y')"
proof -
  have run: "subscriptions_ok (fst (snd (m y)))" if "keeps (on_billing subscriptions_ok) m" for m
    using spec_inv [OF that, of y] assms(2) by (simp add: on_billing_def)
  note ok = run [OF ok_keeps(2)]
  from assms(1) show ?thesis
  proof cases
    case (step_rollover)
    then show ?thesis using run_period_rollover_ok [of "fst y" le pf "snd y"] assms(2) by simp
  qed (auto intro: ok lifecycle_keeps_rows provision_keeps_rows plans_keep_rows keeps_in_billing grace_service_keeps_rows
      run stripe_webhook_ok grace_monitor_tick_ok)
qed

text \<open>C11. Whatever operations the plan, subscription and payment services, the period job, the grace monitor
  and the webhooks perform, in whatever order and whether they return or raise, subscription ids and scopes stay
  unique, every subscription stays pinned to an existing version of a plan, and its status stays one of the six.\<close>

theorem subscriptions_stay_consistent:
  assumes "lifecycle_reachable be le pf tx (b, wd) (b', wd')" and "subscriptions_ok b"
  shows "subscriptions_ok b'"
proof -
  have "subscriptions_ok (fst (b', wd'))"
    using assms(1)
  proof induction
    case reach_start
    with assms(2) show ?case by simp
  next
    case (reach_step y1 y2)
    then show ?case by (blast intro: lifecycle_step_ok)
  qed
  then show ?thesis by simp
qed

text \<open>Services that are not injected, and the sample subscription after an administrator suspended it.\<close>

definition plain_lifecycle :: lifecycle_env where
  "plain_lifecycle = \<lparr>le_provider = None, le_audit = None, le_plan_locked = (\<lambda>_. False), le_has_enforcer = False\<rparr>"

definition suspended_billing :: billing where
  "suspended_billing = sample_billing\<lparr>b_subscriptions := [sample_subscription\<lparr>sb_status := ''suspended''\<rparr>]\<rparr>"

lemma suspend_run:
  "snd (suspend plain_lifecycle sample_platform ''sub'' ''fraud'' (sample_billing, empty_world)) = (suspended_billing, empty_world)"
  by code_simp

theorem subscriptions_stay_consistent_witness: "subscriptions_ok suspended_billing"
proof (rule subscriptions_stay_consistent)
  show "lifecycle_reachable sample_billing_env plain_lifecycle sample_platform plain_texts (sample_billing, empty_world)
    (suspended_billing, empty_world)"
    using reach_step [OF reach_start step_suspend] by (metis suspend_run)
  show "subscriptions_ok sample_billing" by code_simp
qed

section \<open>Operations that ignore the status\<close>

definition rows_are :: "Subscription list \<Rightarrow> billing \<Rightarrow> bool" where
  "rows_are rows b \<longleftrightarrow> b_subscriptions b = rows"

lemma rows_are_steps:
  "ticks_free (rows_are rows)" "keeps (rows_are rows) (call_provider c g)" "keeps (rows_are rows) (append_audit le e p t)"
  "keeps (rows_are rows) (invalidate_workspace be w)"
  by (auto simp: ticks_free_def rows_are_def spec_def call_provider_def append_audit_def invalidate_workspace_def
      cache_delete_prefix_def eff_simps Let_def split: option.splits)

lemma upgrade_at_provider_rows: "keeps (rows_are rows) (upgrade_at_provider provider pf w current target v token)"
  unfolding upgrade_at_provider_def by (intro keeps_steps rows_are_steps)

lemma find_update_rows:
  "(\<And>x. sb_id (f x) = sb_id x) \<Longrightarrow>
   find (\<lambda>r. sb_id r = sid) (update_rows (\<lambda>r. sb_id r = sid) f rows) = map_option f (find (\<lambda>r. sb_id r = sid) rows)"
  by (induction rows) (auto simp: update_rows_def)

lemma update_subscription_Inr:
  assumes "update_subscription sid f b = (Inr s, b')" and "\<And>x. sb_id (f x) = sb_id x"
    and "find (\<lambda>r. sb_id r = sid) (b_subscriptions b) = Some x"
  shows "s = f x" "b_subscriptions b' = update_rows (\<lambda>r. sb_id r = sid) f (b_subscriptions b)" "s \<in> set (b_subscriptions b')"
proof -
  from assms(1) have s: "find (\<lambda>r. sb_id r = sid) (b_subscriptions b') = Some s"
    and rows: "b_subscriptions b' = update_rows (\<lambda>r. sb_id r = sid) f (b_subscriptions b)"
    by (auto simp: update_subscription_def get_subscription_def session_get_def ebind_Inr run_simps split: option.splits)
  show "s = f x" using s assms(3) find_update_rows [OF assms(2)] by (simp add: rows)
  show "b_subscriptions b' = update_rows (\<lambda>r. sb_id r = sid) f (b_subscriptions b)" by (rule rows)
  show "s \<in> set (b_subscriptions b')" using find_SomeD [OF s] by simp
qed

lemma upgrade_steps_run:
  assumes "upgrade_steps be le pf w current current_plan target v token actor (b, wd) = (Inr s, (b1, wd1))"
    and "find (\<lambda>r. sb_id r = sb_id current) (b_subscriptions b) = Some current"
  shows "s \<in> set (b_subscriptions b1)" "sb_id s = sb_id current" "sb_status s = ''active''"
    "sb_cancel_at_period_end s = sb_cancel_at_period_end current" "sb_plan_id s = pl_id target"
proof -
  let ?prov = "case le_provider le of
         None \<Rightarrow> eret (sb_payment_method_id current, sb_stripe_customer_id current, None)
       | Some provider \<Rightarrow> upgrade_at_provider provider pf w current target v token"
  let ?pin = "\<lambda>pm customer sub. \<lparr>pn_current_period_start = map_option ps_current_period_start sub,
               pn_current_period_end = map_option ps_current_period_end sub,
               pn_payment_method_id = pm, pn_status = Some ''active'', pn_stripe_customer_id = customer,
               pn_stripe_subscription_id = map_option ps_provider_subscription_id sub\<rparr>"
  from assms(1) obtain pm customer sub b2 b3 u1 b4 now b5 where
    pr: "?prov b = (Inr (pm, customer, sub), b2)"
    and up: "update_plan_pinning (sb_id current) (pl_id target) (pv_version v) (?pin pm customer sub) b2 = (Inr s, b3)"
    and au: "subscription_audit le ''billing.subscription.upgraded'' s
              [(PStr ''workspace_id'', PStr (ws_id w)), (PStr ''target_plan_slug'', PStr (pl_slug target)),
               (PStr ''actor_id'', Billing_Quotas.opt_text actor)] b3 = (Inr u1, b4)"
    and cl: "b_now pf b4 = (Inr now, b5)"
    and inv: "b1 = b5 \<or> (\<exists>u2. invalidate_workspace be (ws_id w) b5 = (Inr u2, b1))"
    by (auto simp: upgrade_steps_def ebind_Inr in_billing_Inr in_world_Inr eret_Inr split: if_splits)
  have "keeps (rows_are (b_subscriptions b)) ?prov"
    by (intro keeps_steps upgrade_at_provider_rows)
  from spec_inv [OF this, of b] have b2: "b_subscriptions b2 = b_subscriptions b" by (simp add: pr rows_are_def)
  let ?f = "\<lambda>x. x\<lparr>sb_plan_id := pl_id target, sb_plan_version := pv_version v,
       sb_current_period_start := or_keep (map_option ps_current_period_start sub) (sb_current_period_start x),
       sb_current_period_end := or_keep (map_option ps_current_period_end sub) (sb_current_period_end x),
       sb_payment_method_id := some_or pm (sb_payment_method_id x),
       sb_status := or_keep (Some ''active'') (sb_status x),
       sb_stripe_customer_id := some_or customer (sb_stripe_customer_id x),
       sb_stripe_subscription_id := some_or (map_option ps_provider_subscription_id sub) (sb_stripe_subscription_id x)\<rparr>"
  from up have "update_subscription (sb_id current) ?f b2 = (Inr s, b3)"
    by (auto simp: update_plan_pinning_def ebind_Inr eraise_Inr run_simps split: if_splits)
  note s = update_subscription_Inr [OF this, of current, unfolded b2, simplified, OF assms(2)]
  have "b_subscriptions b1 = b_subscriptions b3"
  proof -
    have "rows_are (b_subscriptions b3) b4"
      using spec_inv [OF rows_are_steps(3), of "b_subscriptions b3" b3 le "''billing.subscription.upgraded''"] au
      unfolding subscription_audit_def by (metis rows_are_def snd_conv)
    moreover from cl have "b_subscriptions b5 = b_subscriptions b4" by (auto simp: b_now_def b_clock_def)
    moreover have "b_subscriptions b1 = b_subscriptions b5"
      using inv spec_inv [OF rows_are_steps(4), of "b_subscriptions b5" b5 be "ws_id w"]
      by (auto simp: rows_are_def)
    ultimately show ?thesis by (simp add: rows_are_def)
  qed
  with s show "s \<in> set (b_subscriptions b1)" "sb_id s = sb_id current" "sb_status s = ''active''"
    "sb_cancel_at_period_end s = sb_cancel_at_period_end current" "sb_plan_id s = pl_id target"
    by (simp_all add: or_keep_def)
qed


text \<open>A suspended subscription of the free plan whose end is scheduled, upgraded.\<close>

definition free_billing :: billing where
  "free_billing = sample_billing\<lparr>b_plans := [sample_plan\<lparr>pl_id := ''free'', pl_slug := ''free'', pl_tier := ''free''\<rparr>, sample_plan],
     b_plan_versions := [sample_plan_version\<lparr>pv_plan_id := ''free''\<rparr>, sample_plan_version],
     b_subscriptions := [sample_subscription\<lparr>sb_plan_id := ''free'', sb_status := ''suspended'', sb_cancel_at_period_end := True\<rparr>]\<rparr>"

lemma upgrade_run:
  "upgrade sample_billing_env plain_lifecycle sample_platform ''ws'' ''pro'' None None (free_billing, empty_world) =
   (Inr (sample_subscription\<lparr>sb_cancel_at_period_end := True\<rparr>),
    (free_billing\<lparr>b_subscriptions := [sample_subscription\<lparr>sb_cancel_at_period_end := True\<rparr>], b_reads := 1\<rparr>, empty_world))"
  by code_simp


end
