(* ===== verification/Billing_Calendar.thy ===== *)
theory Billing_Calendar
  imports Billing_Subscriptions
begin

text \<open>
  The calendar behind the billing periods: a day number splits in one way into an era of 400 years, a year
  that begins in March, a month of it and a day of the month, and the split the model computes is that one. A
  calendar period is then a month, and the months follow each other without a gap.
\<close>

section \<open>Years\<close>

definition year_start :: "int \<Rightarrow> int" where
  "year_start y = 365 * y + y div 4 - y div 100"

definition year_length :: "int \<Rightarrow> int" where
  "year_length y = (if is_leap (y + 1) then 366 else 365)"

definition year_index :: "int \<Rightarrow> int" where
  "year_index d = d - d div 1460 + d div 36524 - d div 146096"

lemma div_next:
  assumes "0 < (n :: int)"
  shows "(d + 1) div n = d div n + (if n dvd d + 1 then 1 else 0)"
proof -
  define q r where "q = (d + 1) div n" and "r = (d + 1) mod n"
  have d: "d + 1 = n * q + r" "0 \<le> r" "r < n" using assms by (simp_all add: q_def r_def)
  show ?thesis
  proof (cases "r = 0")
    case True
    then have "d div n = q - 1" using d assms by (intro int_div_pos_eq [where r = "n - 1"]) (simp_all add: algebra_simps)
    with True show ?thesis by (simp add: q_def r_def dvd_eq_mod_eq_0)
  next
    case False
    then have "d div n = q" using d by (intro int_div_pos_eq [where r = "r - 1"]) simp_all
    with False show ?thesis by (simp add: q_def r_def dvd_eq_mod_eq_0)
  qed
qed

lemma year_index_step: "year_index d \<le> year_index (d + 1)"
proof -
  have "36524 dvd d + 1" if "146096 dvd d + 1"
    by (rule dvd_trans [OF _ that]) simp
  then show ?thesis by (auto simp: year_index_def div_next)
qed

lemma year_index_mono: "d \<le> d' \<Longrightarrow> year_index d \<le> year_index d'"
proof (induction d' rule: int_ge_induct)
  case (step i)
  with year_index_step [of i] show ?case by linarith
qed simp

lemma year_bounds_checked:
  "list_all (\<lambda>y. 365 * y \<le> year_index (year_start y) \<and>
     year_index (year_start y + year_length y - 1) < 365 * y + 365 \<and>
     0 \<le> year_start y \<and> year_start y + year_length y \<le> 146097) [0..399]"
  by code_simp

lemma year_bounds:
  assumes "0 \<le> y" "y < 400"
  shows "365 * y \<le> year_index (year_start y)" "year_index (year_start y + year_length y - 1) < 365 * y + 365"
    "0 \<le> year_start y" "year_start y + year_length y \<le> 146097"
  using year_bounds_checked assms by (auto simp: list_all_iff)

lemma year_steps_checked: "list_all (\<lambda>y. year_start (y + 1) = year_start y + year_length y) [0..398]"
  by code_simp

lemma year_start_Suc:
  assumes "0 \<le> y" "y < 399"
  shows "year_start (y + 1) = year_start y + year_length y"
  using year_steps_checked assms by (auto simp: list_all_iff)

lemma year_of_index:
  assumes "0 \<le> y" "y < 400" "year_start y \<le> d" "d < year_start y + year_length y"
  shows "year_index d div 365 = y"
proof -
  have "365 * y \<le> year_index d"
    using year_bounds(1) [OF assms(1,2)] year_index_mono [OF assms(3)] by linarith
  moreover have "year_index d < 365 * y + 365"
    using year_bounds(2) [OF assms(1,2)] year_index_mono [of d "year_start y + year_length y - 1"] assms(4) by linarith
  ultimately show ?thesis by (simp add: div_pos_geq int_div_pos_eq)
qed

lemma year_exists:
  assumes "0 \<le> d" "d < 146097"
  obtains y where "0 \<le> y" "y < 400" "year_start y \<le> d" "d < year_start y + year_length y"
proof -
  have upto: "\<exists>y. 0 \<le> y \<and> y < 400 \<and> year_start y \<le> d \<and> d < year_start y + year_length y"
    if "0 \<le> d" "d < year_start (int n) + year_length (int n)" "n < 400" for n
    using that
  proof (induction n)
    case 0
    then show ?case by (intro exI [of _ 0]) (simp add: year_start_def)
  next
    case (Suc n)
    show ?case
    proof (cases "d < year_start (int n) + year_length (int n)")
      case True
      with Suc show ?thesis by simp
    next
      case False
      with Suc.prems year_start_Suc [of "int n"] show ?thesis
        by (intro exI [of _ "int n + 1"]) (simp add: add.commute)
    qed
  qed
  have "year_start (int 399) + year_length (int 399) = 146097"
    by (simp add: year_start_def year_length_def is_leap_def)
  with upto [of 399] assms that show thesis by auto
qed

section \<open>Months\<close>

definition month_start :: "int \<Rightarrow> int" where
  "month_start m = (153 * m + 2) div 5"

definition month_size :: "int \<Rightarrow> int \<Rightarrow> int" where
  "month_size y m = (if m = 11 then year_length y - 337 else if m \<in> {1, 3, 6, 8} then 30 else 31)"

lemma months_checked:
  "list_all (\<lambda>m. list_all (\<lambda>k. (5 * (month_start m + k) + 2) div 153 = m)
     [0..(if m = 11 then 29 else if m \<in> {1, 3, 6, 8} then 30 else 31) - 1]) [0..11]"
  "list_all (\<lambda>d. let m = (5 * d + 2) div 153 in 0 \<le> m \<and> m < 12 \<and> month_start m \<le> d \<and>
     d < month_start m + (if m = 11 then 29 else if m \<in> {1, 3, 6, 8} then 30 else 31)) [0..365]"
  "list_all (\<lambda>m. month_start (m + 1) = month_start m + (if m \<in> {1, 3, 6, 8} then 30 else 31)) [0..10]"
  by code_simp+

lemma year_length_cases: "year_length y = 365 \<or> year_length y = 366"
  by (simp add: year_length_def)

lemma month_of_index:
  assumes "0 \<le> m" "m < 12" "0 \<le> k" "k < month_size y m"
  shows "(5 * (month_start m + k) + 2) div 153 = m"
proof -
  from assms have "k \<in> set [0..(if m = 11 then 29 else if m \<in> {1, 3, 6, 8} then 30 else 31) - 1]"
    using year_length_cases [of y] by (auto simp: month_size_def split: if_splits)
  moreover have "m \<in> set [0..11]" using assms by simp
  ultimately show ?thesis using months_checked(1) unfolding list_all_iff by blast
qed

lemma month_start_Suc: "0 \<le> m \<Longrightarrow> m < 11 \<Longrightarrow> month_start (m + 1) = month_start m + month_size y m"
  using months_checked(3) by (auto simp: list_all_iff month_size_def)

lemma month_start_ends: "month_start 0 = 0" "month_start 11 = 337"
  by (simp_all add: month_start_def)

lemma month_exists:
  assumes "0 \<le> d" "d < year_length y"
  obtains m k where "0 \<le> m" "m < 12" "0 \<le> k" "k < month_size y m" "d = month_start m + k"
proof -
  define m where "m = (5 * d + 2) div 153"
  have "d \<in> set [0..365]" using assms year_length_cases [of y] by auto
  with months_checked(2) have m: "0 \<le> m" "m < 12" "month_start m \<le> d"
    "d < month_start m + (if m = 11 then 29 else if m \<in> {1, 3, 6, 8} then 30 else 31)"
    unfolding list_all_iff Let_def m_def by blast+
  have "d - month_start m < month_size y m"
    using m assms(2) by (auto simp: month_size_def month_start_ends split: if_splits)
  with m that [of m "d - month_start m"] show thesis by simp
qed

section \<open>Days\<close>

text \<open>The day number of the first day of a month.\<close>

definition month_first :: "int \<Rightarrow> int \<Rightarrow> int \<Rightarrow> int" where
  "month_first e y m = 146097 * e + year_start y + month_start m - 719468"

definition month_valid :: "int \<Rightarrow> int \<Rightarrow> bool" where
  "month_valid y m \<longleftrightarrow> 0 \<le> y \<and> y < 400 \<and> 0 \<le> m \<and> m < 12"

lemma month_fits:
  assumes "0 \<le> m" "m < 12" "0 \<le> k" "k < month_size y m"
  shows "0 \<le> month_start m + k" "month_start m + k < year_length y"
proof -
  show "0 \<le> month_start m + k" using assms by (simp add: month_start_def)
  show "month_start m + k < year_length y"
  proof (cases "m = 11")
    case True
    with assms(4) show ?thesis by (simp add: month_size_def month_start_ends)
  next
    case False
    with assms have "month_start m \<le> 306" "k < 31"
      by (auto simp: month_start_def month_size_def split: if_splits)
    with year_length_cases [of y] show ?thesis by auto
  qed
qed

lemma day_split:
  assumes "month_valid y m" "0 \<le> k" "k < month_size y m"
  shows "day_of_month (month_first e y m + k) = k + 1" "month_length (month_first e y m + k) = month_size y m"
proof -
  let ?d = "month_first e y m + k"
  have y: "0 \<le> y" "y < 400" and m: "0 \<le> m" "m < 12" using assms(1) by (simp_all add: month_valid_def)
  note fits = month_fits [OF m assms(2,3)]
  have "era_day ?d = (146097 * e + (year_start y + month_start m + k)) mod 146097"
    by (simp add: era_day_def month_first_def algebra_simps)
  also have "\<dots> = (year_start y + month_start m + k) mod 146097" by simp
  also have "\<dots> = year_start y + month_start m + k"
    using fits year_bounds(3,4) [OF y] by (intro mod_pos_pos_trivial) linarith+
  finally have era: "era_day ?d = year_start y + month_start m + k" .
  have "year_index (era_day ?d) div 365 = y"
    by (rule year_of_index [OF y]) (use fits era in linarith)+
  then have my: "march_year ?d = y" by (simp add: march_year_def year_index_def Let_def)
  then have md: "march_day ?d = month_start m + k"
    by (simp add: march_day_def era Let_def year_start_def)
  then have mm: "march_month ?d = m" 
    unfolding march_month_def by (simp only: month_of_index [OF m assms(2,3)])
  show "day_of_month ?d = k + 1" by (simp add: day_of_month_def md mm month_start_def)
  show "month_length ?d = month_size y m"
    unfolding month_length_def Let_def my mm by (simp add: month_size_def year_length_def)
qed

lemma day_exists:
  obtains e y m k where "month_valid y m" "0 \<le> k" "k < month_size y m" "d = month_first e y m + k"
proof -
  define e where "e = (d + 719468) div 146097"
  define r where "r = (d + 719468) mod 146097"
  have d: "d = 146097 * e + r - 719468" by (simp add: e_def r_def)
  have "0 \<le> r" "r < 146097" by (simp_all add: r_def)
  then obtain y where y: "0 \<le> y" "y < 400" "year_start y \<le> r" "r < year_start y + year_length y"
    by (rule year_exists)
  then have "0 \<le> r - year_start y" "r - year_start y < year_length y" by simp_all
  then obtain m k where "0 \<le> m" "m < 12" "0 \<le> k" "k < month_size y m" "r - year_start y = month_start m + k"
    by (rule month_exists)
  with y d that [of y m k e] show thesis by (simp add: month_valid_def month_first_def)
qed

text \<open>The month after a month.\<close>

lemma month_size_pos: "0 < month_size y m" "28 \<le> month_size y m" "month_size y m \<le> 31"
  using year_length_cases [of y] by (auto simp: month_size_def)

lemma next_month:
  assumes "month_valid y m"
  obtains e' y' m' where "month_valid y' m'" "month_first e y m + month_size y m = month_first e' y' m'"
proof (cases "m = 11")
  case False
  with assms that [of y "m + 1" e] month_start_Suc [of m y] show thesis by (simp add: month_valid_def month_first_def)
next
  case m: True
  show thesis
  proof (cases "y = 399")
    case False
    with assms m that [of "y + 1" 0 e] year_start_Suc [of y] show thesis
      by (simp add: month_valid_def month_first_def month_size_def month_start_ends)
  next
    case True
    with m that [of 0 0 "e + 1"] show thesis
      by (simp add: month_valid_def month_first_def month_size_def month_start_ends year_start_def year_length_def is_leap_def)
  qed
qed

section \<open>Periods\<close>

lemma day_of_instant:
  assumes "s * a_day \<le> t" "t < (s + n) * a_day"
  shows "0 \<le> t div a_day - s" "t div a_day - s < n"
proof -
  have pos: "0 < a_day" by (simp add: a_day_def)
  have "s \<le> t div a_day" using zdiv_mono1 [OF assms(1) pos] pos by simp
  then show "0 \<le> t div a_day - s" by simp
  have "t div a_day < s + n" using assms(2) by (simp add: a_day_def)
  then show "t div a_day - s < n" by simp
qed

lemma period_of_day:
  assumes "month_valid y m" "month_first e y m * a_day \<le> t" "t < (month_first e y m + month_size y m) * a_day"
  shows "period_bounds t ''calendar_month'' =
    (month_first e y m * a_day, (month_first e y m + month_size y m) * a_day)"
proof -
  let ?s = "month_first e y m"
  define k where "k = t div a_day - ?s"
  have k: "0 \<le> k" "k < month_size y m" using day_of_instant [OF assms(2,3)] by (simp_all add: k_def)
  have t: "t div a_day = ?s + k" by (simp add: k_def)
  have floor: "month_floor t = ?s * a_day"
    by (simp add: month_floor_def t day_split(1) [OF assms(1) k])
  have "(?s * a_day) div a_day = ?s + 0" by (simp add: a_day_def)
  then have "month_length ((?s * a_day) div a_day) = month_size y m"
    using day_split(2) [OF assms(1), of 0 e] month_size_pos(1) by simp
  then show ?thesis by (simp add: period_bounds_def floor add_month_def distrib_right)
qed

lemma calendar_month_split:
  assumes "period_bounds now ''calendar_month'' = (s, e)"
  obtains er y m where "month_valid y m" "s = month_first er y m * a_day" "e = (month_first er y m + month_size y m) * a_day"
    "s \<le> now" "now < e"
proof -
  obtain er y m k where v: "month_valid y m" "0 \<le> k" "k < month_size y m"
    and d: "now div a_day = month_first er y m + k"
    by (rule day_exists)
  have now: "month_first er y m * a_day \<le> now" "now < (month_first er y m + month_size y m) * a_day"
    using v d by (auto simp: a_day_def)
  from period_of_day [OF v(1) now] assms have "s = month_first er y m * a_day"
    "e = (month_first er y m + month_size y m) * a_day"
    by simp_all
  from that [OF v(1) this] this now show thesis by simp
qed

lemma calendar_period_ends:
  assumes "period_bounds now ''calendar_month'' = (s, e)"
  shows "month_floor e = e"
proof -
  from calendar_month_split [OF assms] obtain er y m where v: "month_valid y m"
    and e: "e = (month_first er y m + month_size y m) * a_day"
    by metis
  obtain e' y' m' where n: "month_valid y' m'" "month_first er y m + month_size y m = month_first e' y' m'"
    by (rule next_month [OF v])
  show ?thesis
    using period_of_day [OF n(1), of e' e] month_size_pos(1) [of y' m']
    by (simp add: e n(2) distrib_right a_day_def period_bounds_def)
qed

text \<open>C16. The period of a plan that is anchored to the calendar is the month the instant lies in: it contains the
  instant, it is the period of every instant in it, it is 28 to 31 days long, and the next period begins where
  it ends.\<close>

theorem calendar_periods_partition_time:
  assumes "period_bounds now ''calendar_month'' = (s, e)"
  shows "s \<le> now \<and> now < e \<and> (\<forall>t. s \<le> t \<and> t < e \<longrightarrow> period_bounds t ''calendar_month'' = (s, e)) \<and>
    28 * a_day \<le> e - s \<and> e - s \<le> 31 * a_day \<and> fst (period_bounds e ''calendar_month'') = e"
proof -
  from calendar_month_split [OF assms] obtain er y m where v: "month_valid y m"
    and se: "s = month_first er y m * a_day" "e = (month_first er y m + month_size y m) * a_day"
    and now: "s \<le> now" "now < e"
    by metis
  have "28 * a_day \<le> e - s" "e - s \<le> 31 * a_day"
    using month_size_pos [of y m] by (simp_all add: se distrib_right a_day_def)
  moreover have "fst (period_bounds e ''calendar_month'') = e"
    using calendar_period_ends [OF assms] by (simp add: period_bounds_def)
  ultimately show ?thesis
    using now period_of_day [OF v] by (simp add: se)
qed

text \<open>February of the leap year 2024, at its last day and at its end.\<close>

theorem calendar_periods_partition_time_witness:
  "fst (period_bounds (19783 * a_day) ''calendar_month'') = 19783 * a_day \<and>
   period_bounds (19782 * a_day) ''calendar_month'' = (19754 * a_day, 19783 * a_day)"
proof -
  have p: "period_bounds (19754 * a_day) ''calendar_month'' = (19754 * a_day, 19783 * a_day)" by code_simp
  have "19754 * a_day \<le> 19782 * a_day \<and> 19782 * a_day < 19783 * a_day" by (simp add: a_day_def)
  with calendar_periods_partition_time [OF p] show ?thesis by blast
qed

end
