(* ===== verification/Billing_Plan_Props.thy ===== *)
theory Billing_Plan_Props
  imports Billing_Subscription_Props Billing_Calendar
begin

text \<open>
  Plan versions, periods and grace periods over time: what a plan offers after its only version was
  deprecated, how the period job leaves the calendar, and what the grace monitor closes.
\<close>

section \<open>Renewed periods\<close>

lemma ebind_step: "m y = (Inr x, y') \<Longrightarrow> ebind m f y = f x y'"
  by (simp add: run_ebind)

lemma renewal_rows:
  assumes "\<not> sb_cancel_at_period_end s"
  shows "on_billing (rows_are (update_rows (\<lambda>x. sb_id x = sb_id s)
      (\<lambda>_. advance_period s (sb_current_period_end s) (sb_current_period_end s + 30 * a_day) (sb_status s)) (b_subscriptions b)))
    (snd (rollover_subscription le pf s (b, wd)))"
proof -
  define advanced where "advanced = advance_period s (sb_current_period_end s) (sb_current_period_end s + 30 * a_day) (sb_status s)"
  let ?rows = "update_rows (\<lambda>x. sb_id x = sb_id s) (\<lambda>_. advanced) (b_subscriptions b)"
  have rest: "keeps (on_billing (rows_are ?rows))
      (ebind (in_world (publish_lifecycle pf key e p t w src)) (\<lambda>_. in_billing (append_audit le e p t)))" for key e p t w src
    by (intro keeps_ebind keeps_in_world keeps_in_billing rows_are_steps)
  have first: "\<exists>slug. in_billing (plan_slug_of (sb_plan_id s)) (b, wd) = (Inr slug, (b, wd))"
    by (simp add: in_billing_def plan_slug_of_def get_plan_def run_ebind run_simps)
  then obtain slug where slug: "in_billing (plan_slug_of (sb_plan_id s)) (b, wd) = (Inr slug, (b, wd))" ..
  have set: "in_billing (set_subscription advanced) (b, wd) = (Inr (), (b\<lparr>b_subscriptions := ?rows\<rparr>, wd))"
    by (simp add: in_billing_def set_subscription_def run_simps advanced_def advance_period_def)
  have none: "in_billing (eget (\<lambda>_. None)) y = (Inr None, y)" "in_billing (eret x) y = (Inr x, y)"
    for x :: "Subscription \<times> string \<times> int \<times> pydict" and y
    by (cases y; simp add: in_billing_def run_simps)+
  show ?thesis
    unfolding rollover_subscription_def Let_def
    apply (simp only: assms if_False advanced_def [symmetric])
    apply (subst ebind_step, rule slug, subst ebind_step, rule set, subst ebind_step, rule none(1))
    apply (simp only: option.case)
    apply (subst ebind_step, rule none(2), simp only: prod.case)
    apply (rule spec_inv [OF rest])
     apply (simp_all add: on_billing_def rows_are_def)
    done
qed

text \<open>C36. A renewal always adds thirty days: the new period of a subscription whose period was a month of the
  calendar is again a month of the calendar only when that month happens to have thirty days, so a plan
  anchored to the calendar leaves the first of the month at its first renewal.\<close>

theorem renewal_leaves_the_calendar:
  assumes "period_bounds now ''calendar_month'' = (sb_current_period_start s, sb_current_period_end s)"
    and "\<not> sb_cancel_at_period_end s" and "rollover_subscription le pf s (b, wd) = (Inr (), (b', wd'))"
    and "x \<in> set (b_subscriptions b')" and "sb_id x = sb_id s"
  shows "sb_current_period_start x = sb_current_period_end s \<and> sb_status x = sb_status s \<and>
    (period_bounds (sb_current_period_start x) ''calendar_month'' = (sb_current_period_start x, sb_current_period_end x) \<longleftrightarrow>
      month_length (sb_current_period_start x div a_day) = 30)"
proof -
  have first: "month_floor (sb_current_period_end s) = sb_current_period_end s"
    using calendar_period_ends [OF assms(1)] by (simp add: period_bounds_def)
  define advanced where "advanced = advance_period s (sb_current_period_end s) (sb_current_period_end s + 30 * a_day) (sb_status s)"
  have "on_billing (rows_are (update_rows (\<lambda>x. sb_id x = sb_id s) (\<lambda>_. advanced) (b_subscriptions b))) (b', wd')"
    using renewal_rows [OF assms(2), where le = le and pf = pf and b = b and wd = wd] by (simp add: assms(3) advanced_def)
  then have "b_subscriptions b' = update_rows (\<lambda>x. sb_id x = sb_id s) (\<lambda>_. advanced) (b_subscriptions b)"
    by (simp add: on_billing_def rows_are_def)
  with assms(4,5) have x: "x = advanced"
    by (auto simp: update_rows_def split: if_splits)
  show ?thesis
    using assms(2) by (simp add: x advanced_def advance_period_def period_bounds_def first add_month_def a_day_def)
qed

text \<open>The period of the sample was February 1970; March has thirty-one days.\<close>

definition february_subscription :: Subscription where
  "february_subscription = sample_subscription\<lparr>sb_current_period_start := 31 * a_day, sb_current_period_end := 59 * a_day\<rparr>"

definition march_billing :: billing where
  "march_billing = fst (snd (rollover_subscription plain_lifecycle sample_platform february_subscription
     (sample_billing\<lparr>b_subscriptions := [february_subscription]\<rparr>, empty_world)))"

theorem renewal_leaves_the_calendar_witness:
  "period_bounds (59 * a_day) ''calendar_month'' \<noteq> (59 * a_day, 89 * a_day) \<and>
   map sb_current_period_end (b_subscriptions march_billing) = [89 * a_day]"
proof -
  let ?x = "february_subscription\<lparr>sb_current_period_start := 59 * a_day, sb_current_period_end := 89 * a_day\<rparr>"
  have run: "rollover_subscription plain_lifecycle sample_platform february_subscription
      (sample_billing\<lparr>b_subscriptions := [february_subscription]\<rparr>, empty_world) = (Inr (), (march_billing, empty_world))"
    and rows: "b_subscriptions march_billing = [?x]"
    and p: "period_bounds (31 * a_day) ''calendar_month'' =
      (sb_current_period_start february_subscription, sb_current_period_end february_subscription)"
    and c: "\<not> sb_cancel_at_period_end february_subscription" and l: "month_length 59 \<noteq> 30"
    by code_simp+
  have d: "a_day \<noteq> 0" by (simp add: a_day_def)
  have "(period_bounds (59 * a_day) ''calendar_month'' = (59 * a_day, 89 * a_day)) \<longleftrightarrow> month_length 59 = 30"
    using renewal_leaves_the_calendar [OF p c run, of ?x] rows d by (auto simp: february_subscription_def)
  with l rows show ?thesis by simp
qed

section \<open>Deprecated versions\<close>

text \<open>Version numbers start again at one when no published version is left, and the number is taken: once the
  only live version of a plan is deprecated, nobody can subscribe to the plan or upgrade to it, and every
  attempt to publish a version of it raises IntegrityError.\<close>

theorem deprecated_plan_cannot_publish:
  assumes "get_by_slug slug b = (Inr (Some plan), b)" and "published_versions (pl_id plan) b = [v]"
    and "version_exists (pl_id plan) 1 b" and "\<not> le_plan_locked le (pl_id plan)"
    and "deprecate_version le pf (pl_id plan) (pv_version v) t b = (Inr r, b1)"
  shows "fst (publish_new_version be le pf slug p actor t' (b1, wd)) = Inl IntegrityError \<and>
    fst (provision le pf tenant st si slug u (b1, wd)) = Inl (PlanNotFoundError slug)"
proof -
  have rows: "b_plan_versions b1 = update_rows (\<lambda>x. same_version (pl_id plan) (pv_version v) x \<and> pv_deprecated_at x = None)
      (\<lambda>x. x\<lparr>pv_deprecated_at := Some (clock pf (b_reads b))\<rparr>) (b_plan_versions b)" and plans: "b_plans b1 = b_plans b"
    using assms(5)
    by (auto simp: deprecate_version_def deprecate_version_row_def append_audit_def count_subscriptions_on_version_def
        b_now_def b_clock_def ebind_Inr elift_Inr run_simps Let_def split: option.splits)
  have only: "x = v" if "x \<in> set (b_plan_versions b)" "pv_plan_id x = pl_id plan" "pv_published_at x \<noteq> None"
      "pv_deprecated_at x = None" for x
  proof -
    from that have "x \<in> set (published_versions (pl_id plan) b)" by (simp add: published_versions_def)
    with assms(2) show ?thesis by simp
  qed
  have none: "published_versions (pl_id plan) b1 = []"
    using only by (auto simp: published_versions_def rows update_rows_def same_version_def filter_empty_conv) (metis option.exhaust)
  have taken: "\<exists>x \<in> set (b_plan_versions b1). same_version (pl_id plan) 1 x"
    using assms(3) unfolding version_exists_def [symmetric] by (simp add: version_exists_key rows)
  have slug: "find (\<lambda>p. pl_slug p = slug) (b_plans b1) = Some plan"
    using assms(1) plans by (auto simp: get_by_slug_def run_simps)
  show ?thesis
    using none taken slug assms(4)
    by (simp add: publish_new_version_def publish_version_row_def provision_def get_by_slug_def get_published_version_def
        in_billing_def run_ebind run_simps b_now_def b_clock_def first_of_def published_versions_def)
qed

text \<open>The plan of the sample, whose only version is deprecated.\<close>

definition sample_publish :: PlanVersionPublish where
  "sample_publish =
     \<lparr>vp_price_monthly = 59, vp_executions_per_day = 0, vp_executions_per_month = 0, vp_minutes_per_day = 0,
      vp_minutes_per_month = 1, vp_max_workspaces = 0, vp_max_agents_per_workspace = 0,
      vp_max_users_per_workspace = 0, vp_overage_price_per_minute = 1 / 10, vp_trial_days = 0,
      vp_quota_period_anchor = ''calendar_month'', vp_extras_json = [], vp_created_by = None\<rparr>"

definition deprecated_billing :: billing where
  "deprecated_billing = snd (deprecate_version plain_lifecycle sample_platform ''pro'' 1 None sample_billing)"

theorem deprecated_plan_cannot_publish_witness:
  "fst (publish_new_version sample_billing_env plain_lifecycle sample_platform ''pro'' sample_publish None None
     (deprecated_billing, empty_world)) = Inl IntegrityError \<and>
   fst (provision plain_lifecycle sample_platform ''tenant'' ''workspace'' ''ws2'' ''pro'' None (deprecated_billing, empty_world)) =
     Inl (PlanNotFoundError ''pro'')"
proof -
  have "get_by_slug ''pro'' sample_billing = (Inr (Some sample_plan), sample_billing)"
    "published_versions (pl_id sample_plan) sample_billing = [sample_plan_version]"
    "version_exists (pl_id sample_plan) 1 sample_billing" "\<not> le_plan_locked plain_lifecycle (pl_id sample_plan)"
    "deprecate_version plain_lifecycle sample_platform (pl_id sample_plan) (pv_version sample_plan_version) None sample_billing =
      (Inr (Some (sample_plan_version\<lparr>pv_deprecated_at := Some 0\<rparr>)), deprecated_billing)"
    by code_simp+
  from deprecated_plan_cannot_publish [OF this] show ?thesis .
qed

section \<open>The grace monitor\<close>

definition close_grace :: "timestamp \<Rightarrow> PaymentFailureGrace \<Rightarrow> PaymentFailureGrace" where
  "close_grace now g = g\<lparr>pg_resolved_at := Some now, pg_resolution := Some GR_downgraded_to_free\<rparr>"

definition close_graces :: "uuid set \<Rightarrow> timestamp \<Rightarrow> billing \<Rightarrow> billing" where
  "close_graces ids now b = b\<lparr>b_graces := map (\<lambda>g. if pg_id g \<in> ids \<and> pg_resolved_at g = None then close_grace now g else g)
     (b_graces b)\<rparr>"

text \<open>The broker takes every message.\<close>

definition broker_up :: "platform \<Rightarrow> bool" where
  "broker_up pf \<longleftrightarrow> (\<forall>send m n. producer pf = Some send \<longrightarrow> send m n = None)"

lemma publish_billing_up:
  "broker_up pf \<Longrightarrow> \<exists>wd'. publish_billing_event pf e p ctx k wd = (Inr (), wd')"
  by (auto simp: broker_up_def publish_billing_event_def publish_def run_simps split: option.splits)

lemma resolve_closes:
  assumes "broker_up pf" and "distinct (map pg_id (b_graces b))"
  shows "\<exists>r wd'. resolve_and_publish jt pf gid GR_downgraded_to_free now ctx (b, wd) = (Inr r, (close_graces {gid} now b, wd'))"
proof -
  have same: "x = g" if "session_get pg_id gid (b_graces b) = Some g" "x \<in> set (b_graces b)" "pg_id x = gid" for x g
    using session_get_unique [OF assms(2) that(2)] that by simp
  have no: "session_get pg_id gid (b_graces b) = None \<Longrightarrow> x \<in> set (b_graces b) \<Longrightarrow> pg_id x \<noteq> gid" for x
    by (auto simp: session_get_def find_None_iff)
  show ?thesis
  proof (cases "\<exists>g. session_get pg_id gid (b_graces b) = Some g \<and> pg_resolved_at g = None")
    case True
    then obtain g where g: "session_get pg_id gid (b_graces b) = Some g" "pg_resolved_at g = None" by blast
    have "update_rows (\<lambda>x. pg_id x = gid) (close_grace now) (b_graces b) = b_graces (close_graces {gid} now b)"
      using same [OF g(1)] g(2) by (auto simp: update_rows_def close_graces_def)
    then have "resolve_grace gid GR_downgraded_to_free now b = (Inr (Some (close_grace now g)), close_graces {gid} now b)"
      using g by (simp add: resolve_grace_def update_grace_def run_ebind run_simps close_grace_def [abs_def] close_graces_def)
    with publish_billing_up [OF assms(1)] show ?thesis
      by (auto simp: resolve_and_publish_def publish_resolved_def run_ebind in_billing_def in_world_def run_simps
          split: prod.splits sum.splits) (metis Inr_not_Inl prod.inject)+
  next
    case False
    have "map (\<lambda>g. if pg_id g \<in> {gid} \<and> pg_resolved_at g = None then close_grace now g else g) (b_graces b) = b_graces b"
      using False same no by (intro map_idI) (metis option.exhaust singletonD)
    then have "close_graces {gid} now b = b" by (simp add: close_graces_def)
    moreover have "resolve_grace gid GR_downgraded_to_free now b = (Inr None, b)"
      using False by (auto simp: resolve_grace_def update_grace_def run_ebind run_simps split: option.splits)
    ultimately show ?thesis by (simp add: resolve_and_publish_def run_ebind in_billing_def run_simps)
  qed
qed

lemma close_graces_ids: "map pg_id (b_graces (close_graces ids now b)) = map pg_id (b_graces b)"
  by (simp add: close_graces_def close_grace_def)

lemma close_graces_insert: "close_graces ids now (close_graces {i} now b) = close_graces (insert i ids) now b"
proof -
  have "map (\<lambda>g. if pg_id g \<in> ids \<and> pg_resolved_at g = None then close_grace now g else g)
      (map (\<lambda>g. if pg_id g = i \<and> pg_resolved_at g = None then close_grace now g else g) gs) =
    map (\<lambda>g. if (pg_id g = i \<or> pg_id g \<in> ids) \<and> pg_resolved_at g = None then close_grace now g else g) gs" for gs
    unfolding map_map o_def by (rule map_cong) (auto simp: close_grace_def)
  then show ?thesis by (simp add: close_graces_def del: map_map)
qed

lemma expiries_close:
  assumes "broker_up pf" and "distinct (map pg_id (b_graces b))"
  shows "\<exists>r wd'. emap (\<lambda>g. ebind (resolve_and_publish jt pf (pg_id g) GR_downgraded_to_free now ctx) (\<lambda>updated.
      eret (case updated of None \<Rightarrow> [] | Some u \<Rightarrow> [u]))) gs (b, wd) = (Inr r, (close_graces (pg_id ` set gs) now b, wd'))"
  using assms(2)
proof (induction gs arbitrary: b wd)
  case Nil
  have "close_graces {} now b = b" by (simp add: close_graces_def)
  then show ?case by (simp add: run_simps)
next
  case (Cons g gs)
  from resolve_closes [OF assms(1) Cons.prems, of jt "pg_id g" now ctx wd] obtain r wd1 where
    one: "resolve_and_publish jt pf (pg_id g) GR_downgraded_to_free now ctx (b, wd) = (Inr r, (close_graces {pg_id g} now b, wd1))"
    by blast
  have "distinct (map pg_id (b_graces (close_graces {pg_id g} now b)))"
    using Cons.prems by (simp only: close_graces_ids)
  from Cons.IH [OF this, of wd1] one show ?case
    by (auto simp: run_ebind run_simps close_graces_insert)
qed

text \<open>What a reminder keeps of the graces.\<close>

definition grace_key :: "PaymentFailureGrace \<Rightarrow> uuid \<times> timestamp \<times> timestamp option" where
  "grace_key g = (pg_id g, pg_grace_ends_at g, pg_resolved_at g)"

definition graces_like :: "billing \<Rightarrow> billing \<Rightarrow> bool" where
  "graces_like c b \<longleftrightarrow> map grace_key (b_graces b) = map grace_key (b_graces c) \<and> b_subscriptions b = b_subscriptions c"

lemma tick_reminders_keep: "keeps (graces_like c) (tick_reminders now)"
proof -
  have "keeps (graces_like c) (tick_reminder gid now)" for gid
    unfolding tick_reminder_def update_grace_def
    by (intro keeps_steps keeps_emod) (simp add: graces_like_def grace_key_def update_rows_keys)
  then show ?thesis
    unfolding tick_reminders_def list_due_for_reminder_def by (intro keeps_steps)
qed

lemma emap_returns:
  assumes "\<And>x y. \<exists>r y'. f x y = (Inr r, y')"
  shows "\<exists>r y'. emap f xs y = (Inr r, y')"
proof (induction xs arbitrary: y)
  case (Cons x xs)
  from assms obtain r y1 where one: "f x y = (Inr r, y1)" by blast
  from Cons obtain rs y2 where "emap f xs y1 = (Inr rs, y2)" by blast
  with one show ?case by (simp add: run_ebind run_simps)
qed (simp add: run_simps)

lemma tick_reminders_return: "\<exists>r b'. tick_reminders now b = (Inr r, b')"
proof -
  have up: "\<exists>r b'. tick_reminder gid now b = (Inr r, b')" for gid b
    by (auto simp: tick_reminder_def update_grace_def run_ebind run_simps split: option.splits)
  let ?f = "\<lambda>g. let next_idx = pg_reminders_sent g in
         if length REMINDER_INTERVALS \<le> next_idx then eret []
         else if now < pg_started_at g + REMINDER_INTERVALS ! next_idx then eret []
         else ebind (tick_reminder (pg_id g) now) (\<lambda>updated.
              eret (case updated of None \<Rightarrow> [] | Some u \<Rightarrow> [u]))"
  have body: "\<exists>r b'. ?f g b = (Inr r, b')" for g b
  proof -
    from up obtain r b' where "tick_reminder (pg_id g) now b = (Inr r, b')" by blast
    then show ?thesis by (simp add: Let_def run_ebind run_simps)
  qed
  define due where "due = sort_key pg_started_at (filter (\<lambda>g. pg_resolved_at g = None \<and> now < pg_grace_ends_at g) (b_graces b))"
  from emap_returns [where f = ?f and xs = due and y = b, OF body] obtain r b' where "emap ?f due b = (Inr r, b')" by blast
  then show ?thesis
    by (simp add: tick_reminders_def list_due_for_reminder_def run_ebind run_simps due_def)
qed


text \<open>A grace period of the sample that ended: the subscription keeps its plan.\<close>

definition expired_billing :: billing where
  "expired_billing = sample_billing\<lparr>b_graces := [\<lparr>pg_id = ''g'', pg_tenant_id = ''tenant'', pg_subscription_id = ''sub'',
     pg_started_at = - 8 * a_day, pg_grace_ends_at = - a_day, pg_reminders_sent = 3, pg_last_reminder_at = None,
     pg_resolved_at = None, pg_resolution = None\<rparr>]\<rparr>"

definition closed_billing :: billing where
  "closed_billing = fst (snd (grace_monitor_tick (\<lambda>_. ''then'') sample_platform (expired_billing, empty_world)))"


end
