(* ===== verification/Spec2Isabelle.thy ===== *)
theory Spec2Isabelle
  imports Execution_Dispatch_Props Execution_Checkpoint_Props Execution_Projector_Props Workflow_Links Execution_Jobs_Props
    Billing_Metering_Props Billing_Plan_Props
begin

text \<open>
  A verification development of the workflow and execution engine of the control plane and of the billing
  that admits its executions: quotas, metering, plans, subscriptions and payments
  (apps/control-plane/src/platform).

  \<^bold>\<open>The program.\<close> A workflow is written in YAML, compiled to an intermediate representation
  (workflows/compiler.py, workflows/ir.py) and stored as a version. An execution runs one version. All
  that happens to it is an event in its journal (execution/repository.py); its state is the projection
  of the journal (execution/projector.py), read through checkpoints and a Redis cache
  (execution/service.py). The scheduler (execution/scheduler.py) ticks over the queued and running
  executions, takes checkpoints before it dispatches a step (execution/checkpoint_service.py), orders
  the queue by triggers (execution/reprioritization.py), refuses prompts with secrets
  (policies/sanitizer.py), waits at approval gates and retries steps whose lease expired. Workflows,
  versions and triggers are administered by workflows/service.py; jobs and consumers of the broker
  (main.py, execution/events.py, common/events) run the scheduler and fire the triggers. Each execution is
  admitted by a quota check against the plan of its workspace (billing/quotas/enforcer.py); the end of its
  computation is metered into usage and overage (metering.py), and overage is authorized per period
  (overage.py). Plans are published in versions (billing/plans), and a workspace or a tenant subscribes to one
  (billing/subscriptions); the payment provider reports payments by webhooks (billing/webhooks), a failed one
  opens a grace period (billing/payment_failure_grace), and jobs renew the periods and watch the grace.

  \<^bold>\<open>The model.\<close> Python values are the datatype \<open>pyval\<close> (Py_Values), with the
  operations the code applies to them and the exceptions these raise; finite floats are rationals, and
  what depends on the interpreter (\<open>repr\<close>, parsing a float) is a parameter. Pure functions return a
  sum with the exception on the left (Prelude). Methods that touch the database, Redis, the broker or an
  injected service are operations of a state and exception monad (Effects) on the record
  \<open>world\<close>: tables as lists of records, Redis keys with expiry, published messages, logged calls
  (Execution_World). What an operation wrote before it raised stays in the world. Clocks, identifiers,
  the broker and the services are the parameter \<open>platform\<close>; each read takes the next value of a
  stream, so no relation between two reads is assumed unless a statement says so. Each method is run to
  its end before the next: interleavings inside a method are not modelled.

  \<^item> Workflow_IR, Workflow_Compiler: ir.py and compiler.py. Workflow_Acyclic: the depth-first search of
    \<open>_assert_acyclic\<close> decides acyclicity with as much recursion depth as there are steps.
    Workflow_Validation, Workflow_Compile_Props: what the compiler accepts, that compiled workflows
    progress (locale \<open>dag_compiler\<close>), the round trip of the IR, hot changes, and the nulls that crash.
  \<^item> Execution_Model, Execution_Projector, Execution_Repository: models.py and exceptions.py, projector.py,
    and both repositories. Execution_Store: the locale \<open>numbered_journal\<close>, the store invariant
    \<open>store_ok\<close> and its preservation by the repository operations.
  \<^item> Execution_Events, Execution_Checkpoint, Execution_Service, Execution_Reprioritization,
    Execution_Scheduling, Execution_Scheduler: events.py, checkpoint_service.py, service.py,
    reprioritization.py, and the pure and the effectful part of scheduler.py. Secret_Patterns: the
    secret patterns as regular expressions with a search proved exact. Py_Json: \<open>json.dumps\<close> with
    sorted keys.
  \<^item> Execution_Service_Props, Execution_Scheduling_Props: reading through a checkpoint is replaying; the
    runnable steps, the dependency depth (locale \<open>finite_dag\<close>), the compute budget.
  \<^item> Execution_System: the locale \<open>world_invariant\<close> with every operation of the service and the
    scheduler, its interpretations, the step relation and the reachable worlds.
    Execution_System_Props: the properties that hold in all of them. Execution_Samples: the concrete
    deployment the witnesses run on.
  \<^item> Execution_Dispatch_Props: secrets, the order of the queue (locale \<open>queue_policy\<close>), leases.
    Execution_Lifecycle_Props: creation, lifecycle guards, approvals and their timeouts, hot changes.
    Execution_Checkpoint_Props: captures, cost deltas, garbage collection, and what a rollback leaves
    behind in the cache and when it fails.

  \<^item> Execution_Projector_Props: the projector refines an abstract machine on sets of steps (locale
    \<open>fold_refinement\<close>).
  \<^item> Workflow_Service: workflows/service.py and schemas.py. Workflow_Service_Props: versions and names
    over any sequence of operations, checkpoint policies, masked secrets, the concurrency limit of a
    trigger, and that a published text is what the next execution runs. Workflow_Links: the foreign keys
    between the workflow tables.
  \<^item> Event_Transport: envelopes, the consumer loop and retries (common/events). Py_Fnmatch: the patterns
    of \<open>fnmatch\<close>. Execution_Jobs: the consumer handlers of events.py and the jobs and handlers of
    main.py, each in a database session that commits or rolls back. Execution_Jobs_Props: what they do
    as a whole (locale \<open>trigger_firing\<close>), what a rollback does not undo, when a consumer ends.

  \<^item> Billing_Model, Billing_Quotas, Billing_Metering: the billing tables and the usage repository, the quota
    checks with their caches, metering, overage and reconciliation, as operations on the record
    \<open>billing\<close>. Billing_Metering_Props: the recorded overage and the reports to the payment provider
    (locale \<open>usage_ledger\<close>), and that an event counts once. Billing_Samples: a concrete billing state.
  \<^item> Billing_Quota_Props: what the check of an execution decides from the tables. Billing_Overage_Props:
    authorization and revocation, and how the decision admits an execution of the engine.
  \<^item> Billing_Plans, Billing_Subscriptions, Billing_Payments, Billing_Webhooks: the repositories and services of
    plans and subscriptions with the period job, grace periods with their monitor, and the webhook route with
    its handlers. The payment provider, the audit chain and the verification of a signature are parameters.
  \<^item> Billing_Lifecycle_Props: a webhook is handled once; a failed payment. Billing_Subscription_Props: the step
    relation of all these operations and the invariant of the subscription tables in every reachable state;
    upgrades. Billing_Calendar: the months of the calendar and the periods they give. Billing_Plan_Props:
    renewals, deprecated versions, and what the grace monitor closes.

  \<^bold>\<open>Fuel.\<close> The recursive searches take the recursion depth the interpreter allows and raise
  \<open>RecursionError\<close> beyond it; the theorems say that the number of steps is enough.

  \<^bold>\<open>Not modelled.\<close> The HTTP routers but for overage and webhooks, invoices and payment methods and the clients
  of the payment provider, the other bounded contexts of the control plane, and the
  transaction around a request of the API, whose rollback on an exception would undo what the model leaves
  visible; the sessions of jobs and consumers are modelled. The commit of a session does not fail. Values are immutable in the model, so the sharing of nested dictionaries
  between a checkpoint row and a projected state is not visible. Columns only written for auditing
  (\<open>updated_at\<close>) are left out.
\<close>

end
